(* ===== verification/Prelude.thy ===== *)
theory Prelude
  imports Main "HOL-Library.AList" "HOL-Library.Char_ord" "HOL-Library.List_Lexorder"
begin

text \<open>
  What every component of the development shares: the result type of a Go function that
  returns a value and an error, Go maps as association lists with distinct keys together
  with the interface their users rely on, and the generic lemmas on lists and sums that
  carry the component proofs.
\<close>

named_theorems go_map_simps \<open>laws of map lookup after insertion and deletion\<close>
named_theorems res_simps \<open>case analysis of fallible results\<close>

section \<open>Results of fallible functions\<close>

text \<open>
  A Go function \<open>func f(...) (T, error)\<close> becomes a HOL function into \<open>'e + 'a\<close>:
  \<open>Inl e\<close> is the early return with the error \<open>e\<close>, \<open>Inr x\<close> the normal result. The
  sequencing operator is the usual \<open>if err != nil { return ..., err }\<close>.
\<close>

definition rbind :: "('e + 'a) \<Rightarrow> ('a \<Rightarrow> 'e + 'b) \<Rightarrow> 'e + 'b" where
  "rbind r f = (case r of Inl e \<Rightarrow> Inl e | Inr x \<Rightarrow> f x)"

lemma rbind_Inl [simp]: "rbind (Inl e) f = Inl e"
  by (simp add: rbind_def)

lemma rbind_Inr [simp]: "rbind (Inr x) f = f x"
  by (simp add: rbind_def)

lemma rbind_eq_Inr [res_simps]: "rbind r f = Inr y \<longleftrightarrow> (\<exists>x. r = Inr x \<and> f x = Inr y)"
  by (cases r) simp_all

lemma rbind_eq_Inl [res_simps]:
  "rbind r f = Inl e \<longleftrightarrow> r = Inl e \<or> (\<exists>x. r = Inr x \<and> f x = Inl e)"
  by (cases r) simp_all

section \<open>Go maps\<close>

text \<open>
  A Go map is a finite partial function whose iteration order the language leaves open. It
  is an association list with distinct keys: insertion replaces an entry in place or
  appends it, so that the model has one definite order; the code sorts the keys wherever
  the order would be visible.
\<close>

type_synonym ('k, 'v) gomap = "('k \<times> 'v) list"

abbreviation gm_get :: "('k, 'v) gomap \<Rightarrow> 'k \<Rightarrow> 'v option" where
  "gm_get m k \<equiv> map_of m k"

abbreviation gm_set :: "'k \<Rightarrow> 'v \<Rightarrow> ('k, 'v) gomap \<Rightarrow> ('k, 'v) gomap" where
  "gm_set k v m \<equiv> AList.update k v m"

abbreviation gm_del :: "'k \<Rightarrow> ('k, 'v) gomap \<Rightarrow> ('k, 'v) gomap" where
  "gm_del k m \<equiv> AList.delete k m"

abbreviation gm_keys :: "('k, 'v) gomap \<Rightarrow> 'k list" where
  "gm_keys m \<equiv> map fst m"

text \<open>The interface the users of a map rely on.\<close>

locale key_value_store =
  fixes lookup :: "'m \<Rightarrow> 'k \<Rightarrow> 'v option"
    and insert_kv :: "'k \<Rightarrow> 'v \<Rightarrow> 'm \<Rightarrow> 'm"
    and remove :: "'k \<Rightarrow> 'm \<Rightarrow> 'm"
    and empty :: "'m"
  assumes lookup_empty: "lookup empty k = None"
    and lookup_insert: "lookup (insert_kv k v m) k' = (if k' = k then Some v else lookup m k')"
    and lookup_remove: "lookup (remove k m) k' = (if k' = k then None else lookup m k')"
begin

definition puts :: "('k \<times> 'v) list \<Rightarrow> 'm \<Rightarrow> 'm" where
  "puts kvs m = fold (\<lambda>(k, v). insert_kv k v) kvs m"

lemma lookup_puts: "lookup (puts kvs m) k = (case map_of (rev kvs) k of None \<Rightarrow> lookup m k | Some v \<Rightarrow> Some v)"
  by (induction kvs arbitrary: m)
    (auto simp: puts_def lookup_insert map_add_def split: option.splits)

lemma lookup_puts_other: "k \<notin> fst ` set kvs \<Longrightarrow> lookup (puts kvs m) k = lookup m k"
  by (induction kvs arbitrary: m) (auto simp: puts_def lookup_insert)

lemma lookup_puts_last: "lookup (insert_kv k v (puts kvs m)) k = Some v"
  by (simp add: lookup_insert)

lemma lookup_puts_Some:
  assumes "lookup (puts kvs m) k = Some v"
  shows "(k, v) \<in> set kvs \<or> lookup m k = Some v"
  using assms by (auto simp: lookup_puts split: option.splits dest!: map_of_SomeD)

lemma remove_absent: "lookup m k = None \<Longrightarrow> lookup (remove k m) k' = lookup m k'"
  by (simp add: lookup_remove)

end

interpretation gm: key_value_store map_of AList.update AList.delete "[]"
  by unfold_locales (auto simp: update_conv' delete_conv')

lemma gm_get_set [simp, go_map_simps]:
  "gm_get (gm_set k v m) k' = (if k' = k then Some v else gm_get m k')"
  by (rule gm.lookup_insert)

lemma gm_get_del [simp, go_map_simps]:
  "gm_get (gm_del k m) k' = (if k' = k then None else gm_get m k')"
  by (rule gm.lookup_remove)

lemma gm_keys_set: "set (gm_keys (gm_set k v m)) = insert k (set (gm_keys m))"
  by (induction m) auto

lemma gm_distinct_set: "distinct (gm_keys m) \<Longrightarrow> distinct (gm_keys (gm_set k v m))"
  by (rule distinct_update)

lemma gm_distinct_del: "distinct (gm_keys m) \<Longrightarrow> distinct (gm_keys (gm_del k m))"
  by (rule distinct_delete)

lemma gm_del_absent: "gm_get m k = None \<Longrightarrow> gm_del k m = m"
  by (simp add: delete_id map_of_eq_None_iff)

lemma gm_set_absent: "k \<notin> set (gm_keys m) \<Longrightarrow> gm_set k v m = m @ [(k, v)]"
  by (induction m) auto

lemma gm_length_set_absent: "k \<notin> set (gm_keys m) \<Longrightarrow> length (gm_set k v m) = Suc (length m)"
  by (simp add: gm_set_absent)

section \<open>Machines with an invariant\<close>

text \<open>
  A machine is a step relation and its initial state; what holds at the start and is kept by
  every step holds in every state that is reached.
\<close>

locale invariant_machine =
  fixes step :: "'s \<Rightarrow> 's \<Rightarrow> bool" and start :: "'s" and inv :: "'s \<Rightarrow> bool"
  assumes inv_start: "inv start"
    and inv_step: "step s t \<Longrightarrow> inv s \<Longrightarrow> inv t"
begin

lemma inv_steps: "step\<^sup>*\<^sup>* s t \<Longrightarrow> inv s \<Longrightarrow> inv t"
  by (induction rule: rtranclp_induct) (auto intro: inv_step)

lemma inv_reached: "step\<^sup>*\<^sup>* start s \<Longrightarrow> inv s"
  using inv_steps inv_start by blast

end

text \<open>
  A machine with a goal: while the goal is not reached there is a step, and every step uses up some
  of a finite amount of work. Then every run ends, however its steps are chosen, and only at the goal.
\<close>

locale terminating_machine = invariant_machine +
  fixes work :: "'a \<Rightarrow> nat" and goal :: "'a \<Rightarrow> bool"
  assumes work_step: "step s t \<Longrightarrow> work t < work s"
    and progress: "inv s \<Longrightarrow> \<not> goal s \<Longrightarrow> \<exists>t. step s t"
begin

lemma run_bound: "(step ^^ n) s t \<Longrightarrow> n + work t \<le> work s"
proof (induction n arbitrary: t)
  case (Suc n)
  then obtain u where "(step ^^ n) s u" "step u t" by auto
  then show ?case using Suc.IH [of u] work_step [of u t] by simp
qed simp

lemma stuck_at_goal: "inv s \<Longrightarrow> step\<^sup>*\<^sup>* s t \<Longrightarrow> \<not> (\<exists>u. step t u) \<Longrightarrow> goal t"
  using inv_steps progress by blast

lemma reaches_goal: "inv s \<Longrightarrow> \<exists>t. step\<^sup>*\<^sup>* s t \<and> goal t"
proof (induction "work s" arbitrary: s rule: less_induct)
  case less
  show ?case
  proof (cases "goal s")
    case False
    then obtain u where u: "step s u" using progress less.prems by blast
    then obtain t where "step\<^sup>*\<^sup>* u t" "goal t"
      using less.hyps [OF work_step [OF u]] inv_step [OF u less.prems] by blast
    then show ?thesis using u by (meson converse_rtranclp_into_rtranclp)
  qed blast
qed

end

section \<open>Lists\<close>

lemma take_length_append [simp]: "take (length xs) (xs @ ys) = xs"
  by simp

lemma sorted_wrt_upt_less: "sorted_wrt (<) [m..<n]"
  by simp

lemma fold_snoc_concat: "fold (\<lambda>x acc. acc @ f x) xs acc = acc @ concat (map f xs)"
  by (induction xs arbitrary: acc) auto

lemma list_eq_take_drop: "xs = take n xs @ drop n xs"
  by simp

section \<open>64-bit integers\<close>

text \<open>The value of an addition, subtraction or multiplication of type \<open>int64\<close>.\<close>

definition wrap64 :: "int \<Rightarrow> int" where
  "wrap64 x = (x + 2 ^ 63) mod 2 ^ 64 - 2 ^ 63"

definition MaxInt64 :: int where
  "MaxInt64 = 2 ^ 63 - 1"

definition int64 :: "int \<Rightarrow> bool" where
  "int64 x \<longleftrightarrow> - (2 ^ 63) \<le> x \<and> x < 2 ^ 63"

lemma wrap64_id [simp]: "int64 x \<Longrightarrow> wrap64 x = x"
  by (simp add: wrap64_def int64_def)

lemma wrap64_range: "int64 (wrap64 x)"
proof -
  have "0 \<le> (x + 2 ^ 63) mod 2 ^ 64" "(x + 2 ^ 63) mod 2 ^ 64 < 2 ^ 64" by simp_all
  then show ?thesis by (simp add: wrap64_def int64_def)
qed

end
