(* ===== verification/Go_Text.thy ===== *)
theory Go_Text
  imports Prelude
begin

text \<open>
  Go strings and the functions of the packages \<open>strings\<close> and \<open>strconv\<close> that the plugin
  uses. A Go string is a sequence of bytes, and so is an Isabelle \<open>string\<close> (a list of
  8-bit \<open>char\<close>s): \<open>length\<close> is Go's \<open>len\<close>, and a character outside ASCII is the bytes of
  its UTF-8 encoding.
\<close>

section \<open>Bytes\<close>

abbreviation byte :: "char \<Rightarrow> nat" where
  "byte c \<equiv> of_char c"

definition is_lower :: "char \<Rightarrow> bool" where
  "is_lower c \<longleftrightarrow> 97 \<le> byte c \<and> byte c \<le> 122"

definition is_upper :: "char \<Rightarrow> bool" where
  "is_upper c \<longleftrightarrow> 65 \<le> byte c \<and> byte c \<le> 90"

definition is_digit :: "char \<Rightarrow> bool" where
  "is_digit c \<longleftrightarrow> 48 \<le> byte c \<and> byte c \<le> 57"

definition is_ascii :: "string \<Rightarrow> bool" where
  "is_ascii s \<longleftrightarrow> list_all (\<lambda>c. byte c < 128) s"

section \<open>White space: strings.TrimSpace\<close>

text \<open>
  \<open>strings.TrimSpace\<close> removes the characters of \<open>unicode.IsSpace\<close> at both ends. The
  number of bytes of the white space character at the front of a string (0 if the string
  does not begin with one) is read off its UTF-8 encoding: the six ASCII spaces, U+0085 and
  U+00A0 (two bytes), and U+1680, U+2000 to U+200A, U+2028, U+2029, U+202F, U+205F and
  U+3000 (three bytes). \<open>space_suffix\<close> reads the reversed string, whose front is the end.
\<close>

definition ascii_space :: "char \<Rightarrow> bool" where
  "ascii_space c \<longleftrightarrow> byte c = 32 \<or> (9 \<le> byte c \<and> byte c \<le> 13)"

definition space2 :: "char \<Rightarrow> char \<Rightarrow> bool" where
  "space2 a b \<longleftrightarrow> byte a = 194 \<and> (byte b = 133 \<or> byte b = 160)"

definition space3 :: "char \<Rightarrow> char \<Rightarrow> char \<Rightarrow> bool" where
  "space3 a b c \<longleftrightarrow>
     (byte a = 225 \<and> byte b = 154 \<and> byte c = 128) \<or>
     (byte a = 226 \<and> byte b = 128 \<and>
        ((128 \<le> byte c \<and> byte c \<le> 138) \<or> byte c = 168 \<or> byte c = 169 \<or> byte c = 175)) \<or>
     (byte a = 226 \<and> byte b = 129 \<and> byte c = 159) \<or>
     (byte a = 227 \<and> byte b = 128 \<and> byte c = 128)"

fun space_prefix :: "string \<Rightarrow> nat" where
  "space_prefix (a # b # c # s) =
     (if ascii_space a then 1 else if space2 a b then 2 else if space3 a b c then 3 else 0)"
| "space_prefix [a, b] = (if ascii_space a then 1 else if space2 a b then 2 else 0)"
| "space_prefix [a] = (if ascii_space a then 1 else 0)"
| "space_prefix [] = 0"

fun space_suffix :: "string \<Rightarrow> nat" where
  "space_suffix (c # b # a # s) =
     (if ascii_space c then 1 else if space2 b c then 2 else if space3 a b c then 3 else 0)"
| "space_suffix [c, b] = (if ascii_space c then 1 else if space2 b c then 2 else 0)"
| "space_suffix [c] = (if ascii_space c then 1 else 0)"
| "space_suffix [] = 0"

function drop_spaces :: "(string \<Rightarrow> nat) \<Rightarrow> string \<Rightarrow> string" where
  "drop_spaces f s = (if s = [] \<or> f s = 0 then s else drop_spaces f (drop (f s) s))"
  by pat_completeness auto
termination
  by (relation "measure (\<lambda>(f, s). length s)") auto

declare drop_spaces.simps [simp del]

definition TrimSpace :: "string \<Rightarrow> string" where
  "TrimSpace s = rev (drop_spaces space_suffix (rev (drop_spaces space_prefix s)))"

lemma drop_spaces_stop: "f s = 0 \<Longrightarrow> drop_spaces f s = s"
  by (subst drop_spaces.simps) simp

lemma drop_spaces_Nil [simp]: "drop_spaces f [] = []"
  by (subst drop_spaces.simps) simp

lemma drop_spaces_done: "drop_spaces f s = [] \<or> f (drop_spaces f s) = 0"
proof (induction f s rule: drop_spaces.induct)
  case (1 f s)
  then show ?case
    by (cases "s = [] \<or> f s = 0") (auto simp: drop_spaces.simps [of f s])
qed

lemma drop_spaces_suffix: "\<exists>t. s = t @ drop_spaces f s"
proof (induction f s rule: drop_spaces.induct)
  case (1 f s)
  show ?case
  proof (cases "s = [] \<or> f s = 0")
    case True
    then show ?thesis by (auto simp: drop_spaces.simps [of f s])
  next
    case False
    with 1 obtain t where "drop (f s) s = t @ drop_spaces f (drop (f s) s)" by blast
    then have "s = (take (f s) s @ t) @ drop_spaces f (drop (f s) s)"
      by (metis append.assoc append_take_drop_id)
    with False have "s = (take (f s) s @ t) @ drop_spaces f s"
      by (simp add: drop_spaces.simps [of f s])
    then show ?thesis by blast
  qed
qed

lemma drop_spaces_idem [simp]: "drop_spaces f (drop_spaces f s) = drop_spaces f s"
  using drop_spaces_done [of f s] by (auto simp: drop_spaces_stop)

text \<open>A string whose beginning is no white space keeps that property when it grows at the end.\<close>

lemma space_prefix_append: "space_prefix (s @ t) = 0 \<Longrightarrow> space_prefix s = 0"
  by (cases s rule: space_prefix.cases; cases t rule: space_prefix.cases)
    (auto split: if_splits)

theorem TrimSpace_idem [simp]: "TrimSpace (TrimSpace s) = TrimSpace s"
proof -
  let ?l = "drop_spaces space_prefix s"
  let ?r = "drop_spaces space_suffix (rev ?l)"
  obtain t where "rev ?l = t @ ?r" using drop_spaces_suffix by blast
  then have split: "?l = rev ?r @ rev t" by (metis rev_append rev_rev_ident)
  have "space_prefix (rev ?r) = 0"
  proof (cases "?l = []")
    case True
    then show ?thesis by simp
  next
    case False
    then have "space_prefix ?l = 0" using drop_spaces_done [of space_prefix s] by simp
    then show ?thesis using space_prefix_append split by metis
  qed
  then show ?thesis by (simp add: TrimSpace_def drop_spaces_stop)
qed

lemma TrimSpace_Nil [simp]: "TrimSpace [] = []"
  by (simp add: TrimSpace_def)

lemma TrimSpace_ends:
  assumes "\<not> ascii_space (hd s)" "byte (hd s) < 128" "\<not> ascii_space (last s)" "byte (last s) < 128"
  shows "TrimSpace s = s"
proof (cases "s = []")
  case False
  have "space_prefix s = 0"
    using assms(1,2) by (cases s rule: space_prefix.cases) (auto simp: space2_def space3_def)
  moreover have "space_suffix (rev s) = 0"
  proof -
    have "hd (rev s) = last s" using False by (simp add: hd_rev)
    then have "\<not> ascii_space (hd (rev s))" "byte (hd (rev s)) < 128"
      using assms(3,4) by simp_all
    then show ?thesis
      by (cases "rev s" rule: space_suffix.cases) (simp_all add: space2_def space3_def)
  qed
  ultimately show ?thesis by (simp add: TrimSpace_def drop_spaces_stop)
qed simp

section \<open>Case: strings.ToLower, strings.EqualFold\<close>

text \<open>
  Case mapping is exact on ASCII strings. What Go does on a string with a character outside
  ASCII is given by the Unicode tables, which are not part of the model: the two constants
  below are left unspecified, so nothing that depends on their values can be proved.
\<close>

definition unicode_lower :: "string \<Rightarrow> string" where
  "unicode_lower = undefined"

definition unicode_equal_fold :: "string \<Rightarrow> string \<Rightarrow> bool" where
  "unicode_equal_fold = undefined"

definition lower_char :: "char \<Rightarrow> char" where
  "lower_char c = (if is_upper c then char_of (byte c + 32) else c)"

definition ToLower :: "string \<Rightarrow> string" where
  "ToLower s = (if is_ascii s then map lower_char s else unicode_lower s)"

definition EqualFold :: "string \<Rightarrow> string \<Rightarrow> bool" where
  "EqualFold s t = (if is_ascii s \<and> is_ascii t then map lower_char s = map lower_char t
                    else unicode_equal_fold s t)"

lemma lower_char_ascii: "byte c < 128 \<Longrightarrow> byte (lower_char c) < 128"
  by (auto simp: lower_char_def is_upper_def)

lemma lower_char_idem [simp]: "lower_char (lower_char c) = lower_char c"
  by (auto simp: lower_char_def is_upper_def)

lemma ToLower_ascii: "is_ascii s \<Longrightarrow> is_ascii (ToLower s)"
  by (auto simp: ToLower_def is_ascii_def list_all_iff lower_char_ascii)

lemma ToLower_idem: "is_ascii s \<Longrightarrow> ToLower (ToLower s) = ToLower s"
  using ToLower_ascii [of s] by (simp add: ToLower_def)

section \<open>Prefixes, suffixes, splitting and joining\<close>

definition HasPrefix :: "string \<Rightarrow> string \<Rightarrow> bool" where
  "HasPrefix s p \<longleftrightarrow> take (length p) s = p"

definition HasSuffix :: "string \<Rightarrow> string \<Rightarrow> bool" where
  "HasSuffix s p \<longleftrightarrow> length p \<le> length s \<and> drop (length s - length p) s = p"

definition CutPrefix :: "string \<Rightarrow> string \<Rightarrow> string option" where
  "CutPrefix s p = (if HasPrefix s p then Some (drop (length p) s) else None)"

definition TrimPrefix :: "string \<Rightarrow> string \<Rightarrow> string" where
  "TrimPrefix s p = (if HasPrefix s p then drop (length p) s else s)"

definition TrimRightSlash :: "string \<Rightarrow> string" where
  "TrimRightSlash s = rev (dropWhile (\<lambda>c. c = CHR ''/'') (rev s))"

fun Contains :: "string \<Rightarrow> string \<Rightarrow> bool" where
  "Contains [] p = (p = [])"
| "Contains (c # s) p = (HasPrefix (c # s) p \<or> Contains s p)"

fun Split :: "char \<Rightarrow> string \<Rightarrow> string list" where
  "Split sep [] = [[]]"
| "Split sep (c # s) =
     (if c = sep then [] # Split sep s
      else (case Split sep s of [] \<Rightarrow> [[c]] | p # ps \<Rightarrow> (c # p) # ps))"

fun Join :: "string \<Rightarrow> string list \<Rightarrow> string" where
  "Join sep [] = []"
| "Join sep [p] = p"
| "Join sep (p # q # ps) = p @ sep @ Join sep (q # ps)"

lemma HasPrefix_append [simp]: "HasPrefix (p @ s) p"
  by (simp add: HasPrefix_def)

lemma HasPrefix_iff: "HasPrefix s p \<longleftrightarrow> (\<exists>t. s = p @ t)"
  by (auto simp: HasPrefix_def) (metis append_take_drop_id)

lemma CutPrefix_append [simp]: "CutPrefix (p @ s) p = Some s"
  by (simp add: CutPrefix_def)

lemma CutPrefix_Some_iff: "CutPrefix s p = Some t \<longleftrightarrow> s = p @ t"
  by (auto simp: CutPrefix_def HasPrefix_iff)

lemma CutPrefix_None_iff: "CutPrefix s p = None \<longleftrightarrow> \<not> HasPrefix s p"
  by (simp add: CutPrefix_def)

lemma Split_neq_Nil [simp]: "Split sep s \<noteq> []"
  by (induction s) (auto split: list.splits)

lemma Join_Cons: "ps \<noteq> [] \<Longrightarrow> Join sep (p # ps) = p @ sep @ Join sep ps"
  by (cases ps) simp_all

lemma Join_Split [simp]: "Join [sep] (Split sep s) = s"
proof (induction s)
  case (Cons c s)
  show ?case
  proof (cases "Split sep s")
    case Nil
    then show ?thesis by simp
  next
    case split: (Cons p ps)
    with Cons show ?thesis by (cases ps) auto
  qed
qed simp

lemma Split_free: "p \<in> set (Split sep s) \<Longrightarrow> sep \<notin> set p"
  by (induction s arbitrary: p) (fastforce split: list.splits if_splits)+

text \<open>
  \<open>strings.ReplaceAll\<close> with a non-empty \<open>old\<close>: the occurrences are found from the left and
  do not overlap.
\<close>

function ReplaceAll :: "string \<Rightarrow> string \<Rightarrow> string \<Rightarrow> string" where
  "ReplaceAll old new [] = []"
| "ReplaceAll old new (c # s) =
     (if old \<noteq> [] \<and> HasPrefix (c # s) old then new @ ReplaceAll old new (drop (length old) (c # s))
      else c # ReplaceAll old new s)"
  by pat_completeness auto
termination
  by (relation "measure (\<lambda>(old, new, s). length s)") (auto simp: neq_Nil_conv)

section \<open>Numbers as text: strconv.Itoa, strconv.Atoi, %x\<close>

definition digit_char :: "nat \<Rightarrow> char" where
  "digit_char d = char_of (48 + d)"

fun nat_digits :: "nat \<Rightarrow> string" where
  "nat_digits n = (if n < 10 then [digit_char n] else nat_digits (n div 10) @ [digit_char (n mod 10)])"

declare nat_digits.simps [simp del]

definition Itoa :: "int \<Rightarrow> string" where
  "Itoa i = (if i < 0 then ''-'' @ nat_digits (nat (- i)) else nat_digits (nat i))"

fun parse_digits :: "nat \<Rightarrow> string \<Rightarrow> nat option" where
  "parse_digits acc [] = Some acc"
| "parse_digits acc (c # s) =
     (if is_digit c then parse_digits (10 * acc + (byte c - 48)) s else None)"

text \<open>
  \<open>strconv.Atoi\<close> on a 64-bit platform: an optional sign, at least one digit, the value in
  the range of \<open>int64\<close>; anything else is an error (\<open>None\<close>).
\<close>

definition Atoi :: "string \<Rightarrow> int option" where
  "Atoi s =
     (let neg = (case s of c # _ \<Rightarrow> c = CHR ''-'' | [] \<Rightarrow> False);
          ds = (case s of c # r \<Rightarrow> if c = CHR ''-'' \<or> c = CHR ''+'' then r else s | [] \<Rightarrow> [])
      in if ds = [] then None
         else (case parse_digits 0 ds of None \<Rightarrow> None
               | Some n \<Rightarrow>
                   let v = (if neg then - int n else int n)
                   in if - (2 ^ 63) \<le> v \<and> v < 2 ^ 63 then Some v else None))"

definition hex_digit :: "nat \<Rightarrow> char" where
  "hex_digit d = (if d < 10 then char_of (48 + d) else char_of (87 + d))"

definition hex_byte :: "char \<Rightarrow> string" where
  "hex_byte c = [hex_digit (byte c div 16), hex_digit (byte c mod 16)]"

definition hex_encode :: "string \<Rightarrow> string" where
  "hex_encode s = concat (map hex_byte s)"

lemma byte_digit_char: "d < 10 \<Longrightarrow> byte (digit_char d) = 48 + d"
  by (simp add: digit_char_def)

lemma parse_digits_append:
  "parse_digits acc (xs @ ys) = (case parse_digits acc xs of None \<Rightarrow> None | Some n \<Rightarrow> parse_digits n ys)"
  by (induction xs arbitrary: acc) auto

lemma parse_nat_digits: "parse_digits 0 (nat_digits n) = Some n"
proof (induction n rule: nat_digits.induct)
  case (1 n)
  show ?case
  proof (cases "n < 10")
    case True
    then show ?thesis by (simp add: nat_digits.simps [of n] is_digit_def byte_digit_char)
  next
    case False
    with 1 show ?thesis
      by (simp add: nat_digits.simps [of n] parse_digits_append is_digit_def byte_digit_char)
  qed
qed

lemma nat_digits_neq_Nil [simp]: "nat_digits n \<noteq> []"
  by (subst nat_digits.simps) simp

lemma nat_digits_digits: "list_all is_digit (nat_digits n)"
proof (induction n rule: nat_digits.induct)
  case (1 n)
  then show ?case
    by (cases "n < 10") (simp_all add: nat_digits.simps [of n] is_digit_def byte_digit_char)
qed

lemma hex_digit_inj: "a < 16 \<Longrightarrow> b < 16 \<Longrightarrow> hex_digit a = hex_digit b \<Longrightarrow> a = b"
  by (auto simp: hex_digit_def split: if_splits dest!: arg_cong [where f = "of_char :: char \<Rightarrow> nat"])

lemma hex_byte_inj: "hex_byte a = hex_byte b \<Longrightarrow> a = b"
proof -
  assume "hex_byte a = hex_byte b"
  then have eq: "hex_digit (byte a div 16) = hex_digit (byte b div 16)"
      "hex_digit (byte a mod 16) = hex_digit (byte b mod 16)"
    by (simp_all add: hex_byte_def)
  have "byte c div 16 < 16" for c :: char
    using nat_of_char_less_256 [of c] by linarith
  then have "byte a div 16 = byte b div 16" "byte a mod 16 = byte b mod 16"
    using hex_digit_inj [OF _ _ eq(1)] hex_digit_inj [OF _ _ eq(2)] by simp_all
  then have "byte a = byte b" by (metis div_mult_mod_eq)
  then show "a = b" by simp
qed

lemma hex_encode_inj: "hex_encode s = hex_encode t \<Longrightarrow> s = t"
proof (induction s arbitrary: t)
  case Nil
  then show ?case by (cases t) (auto simp: hex_encode_def hex_byte_def)
next
  case (Cons a s)
  then obtain b t' where t: "t = b # t'"
    by (cases t) (auto simp: hex_encode_def hex_byte_def)
  with Cons.prems have "hex_byte a @ hex_encode s = hex_byte b @ hex_encode t'"
    by (simp add: hex_encode_def)
  then have "hex_byte a = hex_byte b" "hex_encode s = hex_encode t'"
    by (simp_all add: hex_byte_def)
  with Cons.IH t show ?case by (simp add: hex_byte_inj)
qed

section \<open>models.go: firstNonEmpty, contains\<close>

text \<open>The first value that is not blank, trimmed; the empty string if there is none.\<close>

fun firstNonEmpty :: "string list \<Rightarrow> string" where
  "firstNonEmpty [] = []"
| "firstNonEmpty (v # vs) =
     (let trimmed = TrimSpace v in if trimmed \<noteq> [] then trimmed else firstNonEmpty vs)"

fun contains :: "string list \<Rightarrow> string \<Rightarrow> bool" where
  "contains [] v = False"
| "contains (c # cs) v = (if c = v then True else contains cs v)"

lemma contains_iff [simp]: "contains vs v \<longleftrightarrow> v \<in> set vs"
  by (induction vs) auto

lemma firstNonEmpty_trimmed [simp]: "TrimSpace (firstNonEmpty vs) = firstNonEmpty vs"
  by (induction vs) (auto simp: Let_def)

lemma firstNonEmpty_Nil_iff: "firstNonEmpty vs = [] \<longleftrightarrow> (\<forall>v \<in> set vs. TrimSpace v = [])"
  by (induction vs) (auto simp: Let_def)

lemma firstNonEmpty_cases:
  "firstNonEmpty vs = [] \<or> (\<exists>v \<in> set vs. firstNonEmpty vs = TrimSpace v)"
  by (induction vs) (auto simp: Let_def)

end
