(* ===== verification/Base64.thy ===== *)
theory Base64
  imports Go_Text
begin

text \<open>
  The encoding \<open>base64.RawURLEncoding\<close> of the Go standard library (URL alphabet, no
  padding, trailing bits not checked, carriage returns and newlines skipped when decoding),
  and the interface \<open>text_codec\<close> its users rely on: decoding undoes encoding, and encoded
  text stays within an alphabet.
\<close>

section \<open>The interface\<close>

locale text_codec =
  fixes enc :: "string \<Rightarrow> string"
    and dec :: "string \<Rightarrow> string option"
    and alphabet :: "char \<Rightarrow> bool"
  assumes dec_enc: "dec (enc s) = Some s"
    and enc_alphabet: "list_all alphabet (enc s)"
    and enc_nonempty: "s \<noteq> [] \<Longrightarrow> enc s \<noteq> []"
begin

lemma enc_inj: "enc s = enc t \<Longrightarrow> s = t"
  by (metis dec_enc option.inject)

lemma enc_eq_iff: "enc s = enc t \<longleftrightarrow> s = t"
  using enc_inj by blast

end

text \<open>
  Escaping of identifiers: a \<open>plain\<close> identifier is passed through, any other one is
  encoded behind a tag. The tag decides how to undo it, so no plain identifier may begin
  with the tag; \<open>fallback\<close> is what undoing does to text that carries no decodable tag.
\<close>

locale id_escaping = text_codec +
  fixes tag :: "string"
    and plain :: "string \<Rightarrow> bool"
    and fallback :: "string \<Rightarrow> string"
  assumes plain_untagged: "plain s \<Longrightarrow> \<not> HasPrefix s tag"
    and plain_alphabet: "plain s \<Longrightarrow> list_all alphabet s"
    and plain_fallback: "plain s \<Longrightarrow> fallback s = s"
    and tag_alphabet: "list_all alphabet tag"
begin

definition escape :: "string \<Rightarrow> string" where
  "escape s = (if plain s then s else tag @ enc s)"

definition unescape :: "string \<Rightarrow> string" where
  "unescape s = (case CutPrefix s tag of
       None \<Rightarrow> fallback s
     | Some e \<Rightarrow> (if e = [] then fallback s
                  else (case dec e of None \<Rightarrow> fallback s | Some d \<Rightarrow> d)))"

lemma unescape_escape: "s \<noteq> [] \<Longrightarrow> unescape (escape s) = s"
  using plain_untagged [of s] plain_fallback [of s] enc_nonempty [of s] dec_enc [of s]
  by (auto simp: escape_def unescape_def CutPrefix_def)

lemma escape_alphabet: "list_all alphabet (escape s)"
  using plain_alphabet enc_alphabet tag_alphabet by (auto simp: escape_def)

lemma escape_inj: "s \<noteq> [] \<Longrightarrow> t \<noteq> [] \<Longrightarrow> escape s = escape t \<Longrightarrow> s = t"
  by (metis unescape_escape)

end

section \<open>base64.RawURLEncoding\<close>

definition b64_char :: "nat \<Rightarrow> char" where
  "b64_char n = (if n < 26 then char_of (65 + n) else if n < 52 then char_of (71 + n)
                 else if n < 62 then char_of (n - 4) else if n = 62 then CHR ''-'' else CHR ''_'')"

definition b64_value :: "char \<Rightarrow> nat option" where
  "b64_value c = (if is_upper c then Some (byte c - 65) else if is_lower c then Some (byte c - 71)
                  else if is_digit c then Some (byte c + 4) else if c = CHR ''-'' then Some 62
                  else if c = CHR ''_'' then Some 63 else None)"

definition url_safe :: "char \<Rightarrow> bool" where
  "url_safe c \<longleftrightarrow> is_upper c \<or> is_lower c \<or> is_digit c \<or> c = CHR ''-'' \<or> c = CHR ''_''"

fun sextets :: "string \<Rightarrow> nat list" where
  "sextets (a # b # c # s) =
     [byte a div 4, (byte a mod 4) * 16 + byte b div 16, (byte b mod 16) * 4 + byte c div 64, byte c mod 64]
     @ sextets s"
| "sextets [a, b] = [byte a div 4, (byte a mod 4) * 16 + byte b div 16, (byte b mod 16) * 4]"
| "sextets [a] = [byte a div 4, (byte a mod 4) * 16]"
| "sextets [] = []"

fun octets :: "nat list \<Rightarrow> string option" where
  "octets (a # b # c # d # r) =
     map_option (\<lambda>s. char_of (a * 4 + b div 16) # char_of ((b mod 16) * 16 + c div 4)
                     # char_of ((c mod 4) * 64 + d) # s) (octets r)"
| "octets [a, b, c] = Some [char_of (a * 4 + b div 16), char_of ((b mod 16) * 16 + c div 4)]"
| "octets [a, b] = Some [char_of (a * 4 + b div 16)]"
| "octets [a] = None"
| "octets [] = Some []"

definition RawURLEncode :: "string \<Rightarrow> string" where
  "RawURLEncode s = map b64_char (sextets s)"

definition RawURLDecode :: "string \<Rightarrow> string option" where
  "RawURLDecode s =
     Option.bind (those (map b64_value (filter (\<lambda>c. byte c \<noteq> 10 \<and> byte c \<noteq> 13) s))) octets"

lemma byte_parts: "byte c div 4 < 64" "byte c div 16 < 16" "byte c div 64 < 4"
  by (rule less_mult_imp_div_less, simp)+

lemma sextets_bound: "list_all (\<lambda>n. n < 64) (sextets s)"
proof (induction s rule: sextets.induct)
  case (1 a b c s)
  have "byte a mod 4 < 4" "byte b mod 16 < 16" by simp_all
  then have "(byte a mod 4) * 16 + byte b div 16 < 64" "(byte b mod 16) * 4 + byte c div 64 < 64"
    using byte_parts [of b] byte_parts [of c] by linarith+
  with 1 show ?case by (simp add: byte_parts)
next
  case (2 a b)
  have "byte a mod 4 < 4" "byte b mod 16 < 16" by simp_all
  then have "(byte a mod 4) * 16 + byte b div 16 < 64" "(byte b mod 16) * 4 < 64"
    using byte_parts [of b] by linarith+
  then show ?case by (simp add: byte_parts)
next
  case (3 a)
  have "byte a mod 4 < 4" by simp
  then have "(byte a mod 4) * 16 < 64" by linarith
  then show ?case by (simp add: byte_parts)
qed simp

lemma octets_sextets: "octets (sextets s) = Some s"
proof (induction s rule: sextets.induct)
  case (1 a b c s)
  have "(byte a mod 4 * 16 + byte b div 16) div 16 = byte a mod 4"
    "(byte a mod 4 * 16 + byte b div 16) mod 16 = byte b div 16"
    "(byte b mod 16 * 4 + byte c div 64) div 4 = byte b mod 16"
    "(byte b mod 16 * 4 + byte c div 64) mod 4 = byte c div 64"
    by (simp_all add: byte_parts)
  with 1 show ?case by simp
next
  case (2 a b)
  have "(byte a mod 4 * 16 + byte b div 16) div 16 = byte a mod 4"
    "(byte a mod 4 * 16 + byte b div 16) mod 16 = byte b div 16"
    by (simp_all add: byte_parts)
  then show ?case by simp
qed simp_all

lemma sextets_neq_Nil: "s \<noteq> [] \<Longrightarrow> sextets s \<noteq> []"
  by (cases s rule: sextets.cases) auto

lemma byte_b64_char:
  "n < 64 \<Longrightarrow> byte (b64_char n) = (if n < 26 then 65 + n else if n < 52 then 71 + n
     else if n < 62 then n - 4 else if n = 62 then 45 else 95)"
  by (simp add: b64_char_def)

lemma b64_value_char: "n < 64 \<Longrightarrow> b64_value (b64_char n) = Some n"
proof -
  assume n: "n < 64"
  have dash: "byte (CHR ''-'') = 45" "byte (CHR ''_'') = 95" by simp_all
  then show ?thesis
    using n byte_b64_char [OF n]
    by (auto simp: b64_value_def is_upper_def is_lower_def is_digit_def b64_char_def split: if_splits)
qed

lemma url_safe_b64_char: "n < 64 \<Longrightarrow> url_safe (b64_char n)"
  using byte_b64_char [of n]
  by (auto simp: url_safe_def is_upper_def is_lower_def is_digit_def b64_char_def split: if_splits)

lemma url_safe_no_newline: "url_safe c \<Longrightarrow> byte c \<noteq> 10 \<and> byte c \<noteq> 13"
  by (auto simp: url_safe_def is_upper_def is_lower_def is_digit_def)

lemma those_b64: "list_all (\<lambda>n. n < 64) ns \<Longrightarrow> those (map (b64_value \<circ> b64_char) ns) = Some ns"
  by (induction ns) (simp_all add: b64_value_char)

lemma RawURLEncode_safe: "list_all url_safe (RawURLEncode s)"
  using sextets_bound [of s] by (auto simp: RawURLEncode_def list_all_iff url_safe_b64_char)

lemma RawURLDecode_Encode: "RawURLDecode (RawURLEncode s) = Some s"
proof -
  have "filter (\<lambda>c. byte c \<noteq> 10 \<and> byte c \<noteq> 13) (RawURLEncode s) = RawURLEncode s"
    using RawURLEncode_safe [of s] by (auto simp: filter_id_conv list_all_iff dest: url_safe_no_newline)
  then show ?thesis
    using sextets_bound [of s]
    by (simp add: RawURLDecode_def RawURLEncode_def those_b64 octets_sextets)
qed

interpretation b64: text_codec RawURLEncode RawURLDecode url_safe
  by unfold_locales
    (simp_all add: RawURLDecode_Encode RawURLEncode_safe, simp add: RawURLEncode_def sextets_neq_Nil)

end
