(* ===== verification/Random_Ids.thy ===== *)
theory Random_Ids
  imports Base64
begin

unbundle bit_operations_syntax

text \<open>
  The identifiers made from random bytes (http\_client.go: \<open>randomUUID\<close>,
  \<open>randomBase64URL\<close>; session.go: \<open>mustUUID\<close>). The operating system's random source is a
  parameter: what \<open>rand.Read\<close> delivers, or the error it returns.
\<close>

definition randomBase64URL :: "'e + string \<Rightarrow> 'e + string" where
  "randomBase64URL rnd = (case rnd of Inl e \<Rightarrow> Inl e | Inr raw \<Rightarrow> Inr (RawURLEncode raw))"

text \<open>The version nibble and the variant bits are forced before the sixteen bytes are printed.\<close>

definition uuid_stamp :: "string \<Rightarrow> string" where
  "uuid_stamp raw =
     (let raw6 = raw[6 := char_of ((byte (raw ! 6) AND 15) OR 64)]
      in raw6[8 := char_of ((byte (raw6 ! 8) AND 63) OR 128)])"

definition formatUUID :: "string \<Rightarrow> string" where
  "formatUUID raw =
     (let encoded = hex_encode (uuid_stamp raw)
      in take 8 encoded @ ''-'' @ take 4 (drop 8 encoded) @ ''-'' @ take 4 (drop 12 encoded)
         @ ''-'' @ take 4 (drop 16 encoded) @ ''-'' @ drop 20 encoded)"

definition randomUUID :: "'e + string \<Rightarrow> 'e + string" where
  "randomUUID rnd = (case rnd of Inl e \<Rightarrow> Inl e | Inr raw \<Rightarrow> Inr (formatUUID raw))"

text \<open>\<open>mustUUID\<close> drops the error; the id is then empty.\<close>

definition mustUUID :: "'e + string \<Rightarrow> string" where
  "mustUUID rnd = (case randomUUID rnd of Inl _ \<Rightarrow> [] | Inr u \<Rightarrow> u)"

definition uuid_char :: "char \<Rightarrow> bool" where
  "uuid_char c \<longleftrightarrow> is_digit c \<or> (97 \<le> byte c \<and> byte c \<le> 102) \<or> c = CHR ''-''"

lemma hex_digit_uuid_char: "d < 16 \<Longrightarrow> uuid_char (hex_digit d)"
  by (auto simp: uuid_char_def hex_digit_def is_digit_def)

lemma hex_encode_uuid: "list_all uuid_char (hex_encode s)"
proof -
  have "byte c div 16 < 16" for c :: char by (rule byte_parts)
  then show ?thesis
    by (auto simp: hex_encode_def hex_byte_def list_all_iff hex_digit_uuid_char)
qed

lemma length_hex_encode [simp]: "length (hex_encode s) = 2 * length s"
  by (induction s) (simp_all add: hex_encode_def hex_byte_def)

lemma length_uuid_stamp [simp]: "length (uuid_stamp raw) = length raw"
  by (simp add: uuid_stamp_def Let_def)

lemma list_all_take: "list_all P s \<Longrightarrow> list_all P (take n s)"
  by (auto simp: list_all_iff dest: in_set_takeD)

lemma list_all_drop: "list_all P s \<Longrightarrow> list_all P (drop n s)"
  by (auto simp: list_all_iff dest: in_set_dropD)

lemma formatUUID_chars: "list_all uuid_char (formatUUID raw)"
  using hex_encode_uuid [of "uuid_stamp raw"]
  by (simp add: formatUUID_def Let_def list_all_take list_all_drop uuid_char_def)

lemma formatUUID_length: "length raw = 16 \<Longrightarrow> length (formatUUID raw) = 36"
  by (simp add: formatUUID_def Let_def)

lemma formatUUID_dash: "length raw = 16 \<Longrightarrow> formatUUID raw ! 8 = CHR ''-''"
  by (simp add: formatUUID_def Let_def nth_append)

lemma mustUUID_chars: "list_all uuid_char (mustUUID rnd)"
  by (auto simp: mustUUID_def randomUUID_def formatUUID_chars split: sum.splits)

lemma uuid_char_url_safe: "uuid_char c \<Longrightarrow> url_safe c"
  by (auto simp: uuid_char_def url_safe_def is_lower_def)

lemma hex_encode_append: "hex_encode (xs @ ys) = hex_encode xs @ hex_encode ys"
  by (simp add: hex_encode_def)

lemma hex_encode_drop: "drop (2 * n) (hex_encode s) = hex_encode (drop n s)"
proof (induction n arbitrary: s)
  case (Suc n)
  then show ?case by (cases s) (simp_all add: hex_encode_def hex_byte_def)
qed simp

end
