(* ===== verification/Tool_Call_Id.thy ===== *)
theory Tool_Call_Id
  imports Random_Ids
begin

text \<open>
  tool\_call\_id.go: how the plugin shows a provider's tool call id to callers and how it
  recovers the provider's id from the caller's history.
\<close>

section \<open>The code\<close>

definition encodedToolCallIDPrefix :: string where
  "encodedToolCallIDPrefix = ''cursor_tc_''"

text \<open>The regular expression \<open>^[A-Za-z0-9_-]+$\<close>.\<close>

definition safeToolCallID :: "string \<Rightarrow> bool" where
  "safeToolCallID s \<longleftrightarrow> s \<noteq> [] \<and> list_all url_safe s"

definition is_hex_lower :: "char \<Rightarrow> bool" where
  "is_hex_lower c \<longleftrightarrow> is_digit c \<or> (97 \<le> byte c \<and> byte c \<le> 102)"

text \<open>The regular expression \<open>^call_([0-9a-f]{32})_fc_([0-9a-f]{32})$\<close> with its two groups.\<close>

definition legacyMuseCallID :: "string \<Rightarrow> (string \<times> string) option" where
  "legacyMuseCallID s =
     (let g1 = take 32 (drop 5 s); g2 = drop 41 s
      in if length s = 73 \<and> take 5 s = ''call_'' \<and> take 4 (drop 37 s) = ''_fc_''
            \<and> list_all is_hex_lower g1 \<and> list_all is_hex_lower g2
         then Some (g1, g2) else None)"

definition normalizeToolCallID :: "string \<Rightarrow> string \<Rightarrow> string" where
  "normalizeToolCallID uuid value =
     (if TrimSpace value = [] then ''call_'' @ uuid
      else if safeToolCallID value \<and> \<not> HasPrefix value encodedToolCallIDPrefix
              \<and> legacyMuseCallID value = None then value
      else encodedToolCallIDPrefix @ RawURLEncode value)"

definition restoreLegacy :: "string \<Rightarrow> string" where
  "restoreLegacy value =
     (case legacyMuseCallID value of
        Some (m1, m2) \<Rightarrow> if m1 = m2 then ''call_'' @ m1 @ [CHR 0x0A] @ ''fc_'' @ m2 else value
      | None \<Rightarrow> value)"

definition restoreToolCallID :: "string \<Rightarrow> string" where
  "restoreToolCallID value =
     (case CutPrefix value encodedToolCallIDPrefix of
        Some encoded \<Rightarrow>
          if encoded \<noteq> [] then
            (case RawURLDecode encoded of Some decoded \<Rightarrow> decoded | None \<Rightarrow> restoreLegacy value)
          else restoreLegacy value
      | None \<Rightarrow> restoreLegacy value)"

section \<open>The two functions are the escaping of the library\<close>

definition passes_through :: "string \<Rightarrow> bool" where
  "passes_through s \<longleftrightarrow> safeToolCallID s \<and> \<not> HasPrefix s encodedToolCallIDPrefix
     \<and> legacyMuseCallID s = None"

interpretation ids: id_escaping RawURLEncode RawURLDecode url_safe encodedToolCallIDPrefix
  passes_through restoreLegacy
proof unfold_locales
  show "list_all url_safe encodedToolCallIDPrefix"
    by (simp add: encodedToolCallIDPrefix_def url_safe_def is_lower_def)
qed (auto simp: passes_through_def safeToolCallID_def restoreLegacy_def)

lemma normalizeToolCallID_escape:
  "TrimSpace v \<noteq> [] \<Longrightarrow> normalizeToolCallID u v = ids.escape v"
  by (simp add: normalizeToolCallID_def ids.escape_def passes_through_def)

lemma restoreToolCallID_unescape: "restoreToolCallID v = ids.unescape v"
  by (simp add: restoreToolCallID_def ids.unescape_def split: option.splits)

lemma not_blank_neq_Nil: "TrimSpace v \<noteq> [] \<Longrightarrow> v \<noteq> []"
  by auto

text \<open>An id made of \<open>call_\<close> and a UUID has a dash where the legacy form has a hex digit.\<close>

lemma uuid_dash_not_legacy:
  assumes "length raw = 16"
  shows "legacyMuseCallID (''call_'' @ formatUUID raw) = None"
  using formatUUID_length [OF assms] by (simp add: legacyMuseCallID_def Let_def)

lemma call_uuid_untagged: "CutPrefix (''call_'' @ u) encodedToolCallIDPrefix = None"
  by (simp add: CutPrefix_def HasPrefix_def encodedToolCallIDPrefix_def)

section \<open>Properties\<close>

text \<open>
  C23. Restoring a caller's id gives back exactly the provider's id it was made from, for
  every id that is not blank, whatever bytes it holds.
\<close>

theorem restore_normalize:
  assumes "TrimSpace v \<noteq> []"
  shows "restoreToolCallID (normalizeToolCallID u v) = v"
  using assms ids.unescape_escape [OF not_blank_neq_Nil [OF assms]]
  by (simp add: restoreToolCallID_unescape normalizeToolCallID_escape)

theorem restore_normalize_witness:
  "TrimSpace [CHR ''a'', CHR 0x0A, CHR ''b''] \<noteq> [] \<and>
   normalizeToolCallID [] [CHR ''a'', CHR 0x0A, CHR ''b''] = ''cursor_tc_YQpi'' \<and>
   restoreToolCallID ''cursor_tc_YQpi'' = [CHR ''a'', CHR 0x0A, CHR ''b'']"
proof -
  let ?v = "[CHR ''a'', CHR 0x0A, CHR ''b'']"
  have "TrimSpace ?v = ?v" by (rule TrimSpace_ends) (simp_all add: ascii_space_def)
  then have ne: "TrimSpace ?v \<noteq> []" by simp
  have n: "normalizeToolCallID [] ?v = ''cursor_tc_YQpi''"
    using ne by (simp add: normalizeToolCallID_def safeToolCallID_def url_safe_def is_upper_def
      is_lower_def is_digit_def encodedToolCallIDPrefix_def RawURLEncode_def b64_char_def char_of_def bit_0)
  show ?thesis using restore_normalize [OF ne, of "[]"] ne n by simp
qed

text \<open>
  C39. What callers see is never empty and uses only letters, digits, dash and underscore,
  so every client accepts it: also for the ids generated in place of a blank one.
\<close>

theorem normalize_safe: "safeToolCallID (normalizeToolCallID (mustUUID rnd) v)"
proof (cases "TrimSpace v = []")
  case True
  have "list_all url_safe (mustUUID rnd)"
    using mustUUID_chars [of rnd] by (auto simp: list_all_iff uuid_char_url_safe)
  with True show ?thesis
    by (simp add: normalizeToolCallID_def safeToolCallID_def url_safe_def is_lower_def)
next
  case False
  then have "ids.escape v \<noteq> []"
    unfolding ids.escape_def by (auto simp: encodedToolCallIDPrefix_def)
  with False ids.escape_alphabet [of v] show ?thesis
    by (simp add: normalizeToolCallID_escape safeToolCallID_def)
qed

text \<open>
  Distinct provider ids never collide in the caller's history.
\<close>

theorem normalize_inj:
  assumes "TrimSpace v \<noteq> []" "TrimSpace w \<noteq> []"
    and "normalizeToolCallID u v = normalizeToolCallID u' w"
  shows "v = w"
  using assms ids.escape_inj [of v w] not_blank_neq_Nil
  by (simp add: normalizeToolCallID_escape)

theorem normalize_inj_witness:
  "normalizeToolCallID [] ''call/1'' \<noteq> normalizeToolCallID [] ''call_1''"
proof
  assume eq: "normalizeToolCallID [] ''call/1'' = normalizeToolCallID [] ''call_1''"
  have "TrimSpace ''call/1'' = ''call/1''" "TrimSpace ''call_1'' = ''call_1''"
    by (rule TrimSpace_ends; simp add: ascii_space_def)+
  then have ne: "TrimSpace ''call/1'' \<noteq> []" "TrimSpace ''call_1'' \<noteq> []" by simp_all
  show False using normalize_inj [OF ne eq] by simp
qed

end
