(* ===== verification/Go_Errors.thy ===== *)
theory Go_Errors
  imports Go_Text
begin

text \<open>
  Go errors as values: the error types of the plugin (errors.go: \<open>StatusError\<close>,
  http\_client.go: \<open>UpstreamError\<close>), the standard ones it compares against, and the
  wrapping done by \<open>fmt.Errorf("...: %w", err)\<close> that \<open>errors.Is\<close> and \<open>errors.As\<close> look
  through.
\<close>

text \<open>A \<open>time.Duration\<close> is a number of nanoseconds, a \<open>time.Time\<close> nanoseconds since 1970 (UTC).\<close>

type_synonym duration = int
type_synonym time = int

definition second :: duration where "second = 1000000000"
definition millisecond :: duration where "millisecond = 1000000"
definition minute :: duration where "minute = 60 * second"

text \<open>The difference of two times saturates at the ends of \<open>int64\<close>.\<close>

definition time_sub :: "time \<Rightarrow> time \<Rightarrow> duration" where
  "time_sub t u = max (- (2 ^ 63)) (min (2 ^ 63 - 1) (t - u))"

record StatusError =
  se_Code :: string
  se_Message :: string
  se_HTTPStatus :: int
  se_Retryable :: bool
  se_RetryAfter :: duration

text \<open>\<open>http.Header\<close>: the values of a header by its canonical name.\<close>

type_synonym http_header = "(string \<times> string list) list"

record UpstreamError =
  ue_Status :: int
  ue_Body :: string
  ue_Headers :: http_header

definition status_error :: "string \<Rightarrow> string \<Rightarrow> int \<Rightarrow> StatusError" where
  "status_error code message status =
     \<lparr>se_Code = code, se_Message = message, se_HTTPStatus = status, se_Retryable = False,
      se_RetryAfter = 0\<rparr>"

text \<open>
  \<open>UrlErr\<close> is what \<open>http.Client.Do\<close> returns (a \<open>*url.Error\<close>, which is a \<open>net.Error\<close>
  and wraps its cause); \<open>NetErr\<close> is any other \<open>net.Error\<close>; \<open>JsonErr\<close> and \<open>PlainErr\<close>
  carry only their text; \<open>WrapErr\<close> is \<open>fmt.Errorf\<close> with a prefix and \<open>%w\<close>.
\<close>

datatype goerr =
    StatusErr StatusError
  | UpstreamErr UpstreamError
  | ErrEOF
  | ErrUnexpectedEOF
  | ErrCanceled
  | ErrDeadlineExceeded
  | ErrTurnFinished
  | NetErr string
  | UrlErr string goerr
  | JsonErr string
  | PlainErr string
  | WrapErr string goerr

text \<open>The \<open>Error()\<close> method of the two types of the plugin.\<close>

definition StatusError_Error :: "StatusError \<Rightarrow> string" where
  "StatusError_Error e = TrimSpace (se_Message e)"

definition UpstreamError_Error :: "UpstreamError \<Rightarrow> string" where
  "UpstreamError_Error e = ''Cursor upstream returned HTTP '' @ Itoa (ue_Status e)"

fun err_text :: "goerr \<Rightarrow> string" where
  "err_text (StatusErr e) = StatusError_Error e"
| "err_text (UpstreamErr e) = UpstreamError_Error e"
| "err_text ErrEOF = ''EOF''"
| "err_text ErrUnexpectedEOF = ''unexpected EOF''"
| "err_text ErrCanceled = ''context canceled''"
| "err_text ErrDeadlineExceeded = ''context deadline exceeded''"
| "err_text ErrTurnFinished = ''Cursor turn finished''"
| "err_text (NetErr t) = t"
| "err_text (UrlErr p e) = p @ '': '' @ err_text e"
| "err_text (JsonErr t) = t"
| "err_text (PlainErr t) = t"
| "err_text (WrapErr p e) = p @ '': '' @ err_text e"

text \<open>The chain that \<open>errors.Is\<close> and \<open>errors.As\<close> walk.\<close>

fun err_chain :: "goerr \<Rightarrow> goerr list" where
  "err_chain (UrlErr p e) = UrlErr p e # err_chain e"
| "err_chain (WrapErr p e) = WrapErr p e # err_chain e"
| "err_chain e = [e]"

definition errors_is :: "goerr \<Rightarrow> goerr \<Rightarrow> bool" where
  "errors_is e target \<longleftrightarrow> target \<in> set (err_chain e)"

fun first_status :: "goerr list \<Rightarrow> StatusError option" where
  "first_status [] = None"
| "first_status (StatusErr e # es) = Some e"
| "first_status (_ # es) = first_status es"

definition as_status :: "goerr \<Rightarrow> StatusError option" where
  "as_status e = first_status (err_chain e)"

fun first_upstream :: "goerr list \<Rightarrow> UpstreamError option" where
  "first_upstream [] = None"
| "first_upstream (UpstreamErr e # es) = Some e"
| "first_upstream (_ # es) = first_upstream es"

definition as_upstream :: "goerr \<Rightarrow> UpstreamError option" where
  "as_upstream e = first_upstream (err_chain e)"

fun is_net_err :: "goerr \<Rightarrow> bool" where
  "is_net_err (NetErr _) = True"
| "is_net_err (UrlErr _ _) = True"
| "is_net_err ErrDeadlineExceeded = True"
| "is_net_err _ = False"

definition as_net :: "goerr \<Rightarrow> bool" where
  "as_net e \<longleftrightarrow> list_ex is_net_err (err_chain e)"

lemma err_chain_wrap [simp]:
  "as_status (WrapErr p e) = as_status e"
  "as_upstream (WrapErr p e) = as_upstream e"
  "as_net (WrapErr p e) = as_net e"
  "errors_is (WrapErr p e) t \<longleftrightarrow> t = WrapErr p e \<or> errors_is e t"
  by (auto simp: as_status_def as_upstream_def as_net_def errors_is_def)

lemma as_status_StatusErr [simp]: "as_status (StatusErr e) = Some e"
  by (simp add: as_status_def)

lemma first_status_in: "first_status es = Some s \<Longrightarrow> StatusErr s \<in> set es"
  by (induction es rule: first_status.induct) auto

lemma as_status_Some: "as_status e = Some s \<Longrightarrow> StatusErr s \<in> set (err_chain e)"
  by (simp add: as_status_def first_status_in)

section \<open>HTTP status codes\<close>

text \<open>errors.go: \<open>isTransientHTTPStatus\<close>.\<close>

definition isTransientHTTPStatus :: "int \<Rightarrow> bool" where
  "isTransientHTTPStatus status \<longleftrightarrow>
     status = 408 \<or> status = 500 \<or> status = 502 \<or> status = 503 \<or> status = 504"

text \<open>\<open>http.StatusText\<close> on the codes that reach \<open>cursorStatusError\<close> with a text of their own.\<close>

definition StatusText :: "int \<Rightarrow> string" where
  "StatusText status =
     (case map_of
        [(100, ''Continue''), (101, ''Switching Protocols''), (102, ''Processing''),
         (103, ''Early Hints''), (200, ''OK''), (201, ''Created''), (202, ''Accepted''),
         (203, ''Non-Authoritative Information''), (204, ''No Content''),
         (205, ''Reset Content''), (206, ''Partial Content''), (207, ''Multi-Status''),
         (208, ''Already Reported''), (226, ''IM Used''), (300, ''Multiple Choices''),
         (301, ''Moved Permanently''), (302, ''Found''), (303, ''See Other''),
         (304, ''Not Modified''), (305, ''Use Proxy''), (307, ''Temporary Redirect''),
         (308, ''Permanent Redirect''), (400, ''Bad Request''), (401, ''Unauthorized''),
         (402, ''Payment Required''), (403, ''Forbidden''), (404, ''Not Found''),
         (405, ''Method Not Allowed''), (406, ''Not Acceptable''),
         (407, ''Proxy Authentication Required''), (408, ''Request Timeout''),
         (409, ''Conflict''), (410, ''Gone''), (411, ''Length Required''),
         (412, ''Precondition Failed''), (413, ''Request Entity Too Large''),
         (414, ''Request URI Too Long''), (415, ''Unsupported Media Type''),
         (416, ''Requested Range Not Satisfiable''), (417, ''Expectation Failed''),
         (418, [CHR ''I'', CHR 0x27] @ ''m a teapot''), (421, ''Misdirected Request''),
         (422, ''Unprocessable Entity''), (423, ''Locked''), (424, ''Failed Dependency''),
         (425, ''Too Early''), (426, ''Upgrade Required''), (428, ''Precondition Required''),
         (429, ''Too Many Requests''), (431, ''Request Header Fields Too Large''),
         (451, ''Unavailable For Legal Reasons''), (500, ''Internal Server Error''),
         (501, ''Not Implemented''), (502, ''Bad Gateway''), (503, ''Service Unavailable''),
         (504, ''Gateway Timeout''), (505, ''HTTP Version Not Supported''),
         (506, ''Variant Also Negotiates''), (507, ''Insufficient Storage''),
         (508, ''Loop Detected''), (510, ''Not Extended''),
         (511, ''Network Authentication Required'')] status
      of Some t \<Rightarrow> t | None \<Rightarrow> [])"

end
