(* ===== verification/Plugin_Config.thy ===== *)
theory Plugin_Config
  imports Go_Errors
begin

text \<open>
  config.go: the plugin configuration, its defaults, its validation and the values derived
  from it. The YAML decoder is third-party code: it is the parameter \<open>yaml\<close>, which fills
  the default configuration from the text or fails.
\<close>

section \<open>The code\<close>

definition ProviderID :: string where
  "ProviderID = ''cursor''"

record Config =
  cfg_Enabled :: bool
  cfg_ProviderID :: string
  cfg_ModelPrefix :: string
  cfg_ModelMode :: string
  cfg_DefaultReasoningEffort :: string
  cfg_ModelDisplayNames :: "(string, string) gomap"
  cfg_CursorBaseURL :: string
  cfg_ClientVersion :: string
  cfg_AllowedNativeTools :: "string list"
  cfg_RequestTimeoutSeconds :: int
  cfg_TransientRetryCount :: int
  cfg_TransientRetryDelayMS :: int
  cfg_ModelCacheTTLSeconds :: int
  cfg_ContinuationPrompt :: string
  cfg_MaxRequestBytes :: int
  cfg_MaxHistoryMessageBytes :: int

definition DefaultConfig :: Config where
  "DefaultConfig = \<lparr>
     cfg_Enabled = True,
     cfg_ProviderID = ProviderID,
     cfg_ModelPrefix = [],
     cfg_ModelMode = ''normalized'',
     cfg_DefaultReasoningEffort = ''high'',
     cfg_ModelDisplayNames = [],
     cfg_CursorBaseURL = ''https://api2.cursor.sh'',
     cfg_ClientVersion = ''cli-2026.10.16-e3cb207'',
     cfg_AllowedNativeTools = [''mcp_tool_call'', ''get_mcp_tools_tool_call''],
     cfg_RequestTimeoutSeconds = 300,
     cfg_TransientRetryCount = 1,
     cfg_TransientRetryDelayMS = 250,
     cfg_ModelCacheTTLSeconds = 600,
     cfg_ContinuationPrompt = ''Continue, using the tool results above.'',
     cfg_MaxRequestBytes = 64 * 2 ^ 20,
     cfg_MaxHistoryMessageBytes = 4 * 2 ^ 20\<rparr>"

text \<open>
  The loop over the display names. Go leaves the order of the iteration open; the
  association list is any one of these orders.
\<close>

fun normalizeDisplayNames :: "(string, string) gomap \<Rightarrow> (string, string) gomap \<Rightarrow> (string, string) gomap" where
  "normalizeDisplayNames acc [] = acc"
| "normalizeDisplayNames acc ((modelID, displayName) # rest) =
     (let modelID = ToLower (TrimSpace modelID); displayName = TrimSpace displayName
      in if modelID = [] \<or> displayName = [] then normalizeDisplayNames acc rest
         else normalizeDisplayNames (gm_set modelID displayName acc) rest)"

definition normalizeProvider :: "Config \<Rightarrow> Config" where
  "normalizeProvider cfg =
     (let p = TrimSpace (cfg_ProviderID cfg) in cfg\<lparr>cfg_ProviderID := (if p = [] then ProviderID else p)\<rparr>)"

definition requireDiscoveryTool :: "Config \<Rightarrow> Config" where
  "requireDiscoveryTool cfg =
     (if cfg_AllowedNativeTools cfg \<noteq> [] \<and> \<not> contains (cfg_AllowedNativeTools cfg) ''get_mcp_tools_tool_call''
      then cfg\<lparr>cfg_AllowedNativeTools := cfg_AllowedNativeTools cfg @ [''get_mcp_tools_tool_call'']\<rparr>
      else cfg)"

definition normalizeMode :: "Config \<Rightarrow> Config" where
  "normalizeMode cfg = cfg\<lparr>cfg_ModelMode := ToLower (TrimSpace (cfg_ModelMode cfg))\<rparr>"

text \<open>\<open>ParseConfig\<close> after the decoding: normalisation and checks, in the order of the code.\<close>

definition validateConfig :: "Config \<Rightarrow> goerr + Config" where
  "validateConfig cfg0 =
     (let cfg = normalizeProvider cfg0 in
      if cfg_ProviderID cfg \<noteq> ProviderID
      then Inl (PlainErr (''provider_id must be '' @ [CHR 0x22] @ ProviderID @ [CHR 0x22]))
      else let cfg = normalizeMode (requireDiscoveryTool cfg) in
      if cfg_ModelMode cfg \<noteq> ''raw'' \<and> cfg_ModelMode cfg \<noteq> ''normalized'' \<and> cfg_ModelMode cfg \<noteq> ''both''
      then Inl (PlainErr ''model_mode must be raw, normalized, or both'')
      else let cfg = cfg\<lparr>cfg_ModelDisplayNames := normalizeDisplayNames [] (cfg_ModelDisplayNames cfg)\<rparr> in
      if TrimSpace (cfg_CursorBaseURL cfg) = []
      then Inl (PlainErr ''cursor_base_url is required'')
      else if cfg_RequestTimeoutSeconds cfg < 1 \<or> 1800 < cfg_RequestTimeoutSeconds cfg
      then Inl (PlainErr ''request_timeout_seconds must be between 1 and 1800'')
      else if cfg_TransientRetryCount cfg < 0 \<or> 3 < cfg_TransientRetryCount cfg
      then Inl (PlainErr ''transient_retry_count must be between 0 and 3'')
      else if cfg_TransientRetryDelayMS cfg < 0 \<or> 5000 < cfg_TransientRetryDelayMS cfg
      then Inl (PlainErr ''transient_retry_delay_ms must be between 0 and 5000'')
      else if cfg_ModelCacheTTLSeconds cfg < 0 \<or> 86400 < cfg_ModelCacheTTLSeconds cfg
      then Inl (PlainErr ''model_cache_ttl_seconds must be between 0 and 86400'')
      else if cfg_MaxRequestBytes cfg < 1024
      then Inl (PlainErr ''max_request_bytes must be at least 1024'')
      else if cfg_MaxHistoryMessageBytes cfg < 1024
      then Inl (PlainErr ''max_history_message_bytes must be at least 1024'')
      else Inr cfg)"

definition ParseConfig :: "(string \<Rightarrow> Config \<Rightarrow> goerr + Config) \<Rightarrow> string \<Rightarrow> goerr + Config" where
  "ParseConfig yaml raw =
     (if 0 < length raw then
        (case yaml raw DefaultConfig of
           Inl err \<Rightarrow> Inl (WrapErr ''decode Cursor plugin config'' err)
         | Inr cfg \<Rightarrow> validateConfig cfg)
      else validateConfig DefaultConfig)"

definition ModelDisplayName :: "Config \<Rightarrow> string \<Rightarrow> string \<Rightarrow> string" where
  "ModelDisplayName c modelID fallback =
     (let displayName = TrimSpace (case gm_get (cfg_ModelDisplayNames c) (ToLower (TrimSpace modelID)) of
            Some n \<Rightarrow> n | None \<Rightarrow> [])
      in if displayName \<noteq> [] then displayName else fallback)"

definition RequestTimeout :: "Config \<Rightarrow> duration" where
  "RequestTimeout c = cfg_RequestTimeoutSeconds c * second"

definition TransientRetryDelay :: "Config \<Rightarrow> duration" where
  "TransientRetryDelay c = cfg_TransientRetryDelayMS c * millisecond"

definition ModelCacheTTL :: "Config \<Rightarrow> duration" where
  "ModelCacheTTL c = cfg_ModelCacheTTLSeconds c * second"

section \<open>What a configuration in use satisfies\<close>

definition display_names_ok :: "(string, string) gomap \<Rightarrow> bool" where
  "display_names_ok m \<longleftrightarrow> distinct (gm_keys m) \<and>
     list_all (\<lambda>(k, v). k \<noteq> [] \<and> v \<noteq> [] \<and> TrimSpace v = v) m"

definition config_ok :: "Config \<Rightarrow> bool" where
  "config_ok c \<longleftrightarrow>
     cfg_ProviderID c = ProviderID
     \<and> (cfg_AllowedNativeTools c = [] \<or> ''get_mcp_tools_tool_call'' \<in> set (cfg_AllowedNativeTools c))
     \<and> cfg_ModelMode c \<in> {''raw'', ''normalized'', ''both''}
     \<and> display_names_ok (cfg_ModelDisplayNames c)
     \<and> TrimSpace (cfg_CursorBaseURL c) \<noteq> []
     \<and> 1 \<le> cfg_RequestTimeoutSeconds c \<and> cfg_RequestTimeoutSeconds c \<le> 1800
     \<and> 0 \<le> cfg_TransientRetryCount c \<and> cfg_TransientRetryCount c \<le> 3
     \<and> 0 \<le> cfg_TransientRetryDelayMS c \<and> cfg_TransientRetryDelayMS c \<le> 5000
     \<and> 0 \<le> cfg_ModelCacheTTLSeconds c \<and> cfg_ModelCacheTTLSeconds c \<le> 86400
     \<and> 1024 \<le> cfg_MaxRequestBytes c \<and> 1024 \<le> cfg_MaxHistoryMessageBytes c"

lemma list_all_gm_set:
  "list_all P m \<Longrightarrow> P (k, v) \<Longrightarrow> list_all P (gm_set k v m)"
  by (induction m) auto

lemma normalizeDisplayNames_ok: "display_names_ok acc \<Longrightarrow> display_names_ok (normalizeDisplayNames acc m)"
proof (induction acc m rule: normalizeDisplayNames.induct)
  case (2 acc k v rest)
  let ?k = "ToLower (TrimSpace k)" and ?v = "TrimSpace v"
  show ?case
  proof (cases "?k = [] \<or> ?v = []")
    case True
    with 2 show ?thesis by (simp add: Let_def)
  next
    case False
    with 2(3) have "display_names_ok (gm_set ?k ?v acc)"
      by (auto simp: display_names_ok_def gm_distinct_set intro!: list_all_gm_set)
    with False 2 show ?thesis by (simp add: Let_def)
  qed
qed simp

text \<open>When the order of the iteration does not matter: the normalised keys are distinct.\<close>

lemma normalizeDisplayNames_get_acc:
  "k \<notin> set (map (\<lambda>(i, n). ToLower (TrimSpace i)) m) \<Longrightarrow>
   gm_get (normalizeDisplayNames acc m) k = gm_get acc k"
  by (induction acc m rule: normalizeDisplayNames.induct) (auto simp: Let_def)

lemma normalizeDisplayNames_get:
  assumes "(i, n) \<in> set m" "distinct (map (\<lambda>(i, n). ToLower (TrimSpace i)) m)"
    and "ToLower (TrimSpace i) \<noteq> []" "TrimSpace n \<noteq> []"
  shows "gm_get (normalizeDisplayNames acc m) (ToLower (TrimSpace i)) = Some (TrimSpace n)"
  using assms
proof (induction acc m rule: normalizeDisplayNames.induct)
  case (2 acc i' n' rest)
  show ?case
  proof (cases "(i, n) = (i', n')")
    case True
    with 2(4) have "ToLower (TrimSpace i) \<notin> set (map (\<lambda>(i, n). ToLower (TrimSpace i)) rest)" by auto
    with True 2(5,6) show ?thesis by (simp add: Let_def normalizeDisplayNames_get_acc)
  next
    case False
    with 2(3) have "(i, n) \<in> set rest" by auto
    moreover have "distinct (map (\<lambda>(i, n). ToLower (TrimSpace i)) rest)" using 2(4) by simp
    ultimately show ?thesis
      using 2(1,2,5,6)
      by (cases "ToLower (TrimSpace i') = [] \<or> TrimSpace n' = []") (auto simp: Let_def)
  qed
qed simp

lemmas config_field_defs = normalizeProvider_def requireDiscoveryTool_def normalizeMode_def Let_def

lemma ToLower_const: "is_ascii s \<Longrightarrow> list_all (\<lambda>c. \<not> is_upper c) s \<Longrightarrow> ToLower s = s"
  by (auto simp: ToLower_def lower_char_def list_all_iff intro!: map_idI)

definition config_acceptable :: "Config \<Rightarrow> bool" where
  "config_acceptable c \<longleftrightarrow>
     TrimSpace (cfg_ProviderID c) \<in> {[], ProviderID}
     \<and> ToLower (TrimSpace (cfg_ModelMode c)) \<in> {''raw'', ''normalized'', ''both''}
     \<and> TrimSpace (cfg_CursorBaseURL c) \<noteq> []
     \<and> cfg_RequestTimeoutSeconds c \<in> {1..1800}
     \<and> cfg_TransientRetryCount c \<in> {0..3} \<and> cfg_TransientRetryDelayMS c \<in> {0..5000}
     \<and> cfg_ModelCacheTTLSeconds c \<in> {0..86400}
     \<and> 1024 \<le> cfg_MaxRequestBytes c \<and> 1024 \<le> cfg_MaxHistoryMessageBytes c"

lemma normalized_fields [simp]:
  "cfg_ModelMode (normalizeMode c) = ToLower (TrimSpace (cfg_ModelMode c))"
  "cfg_ModelMode (requireDiscoveryTool c) = cfg_ModelMode c"
  "cfg_ModelMode (normalizeProvider c) = cfg_ModelMode c"
  "cfg_CursorBaseURL (normalizeMode c) = cfg_CursorBaseURL c"
  "cfg_CursorBaseURL (requireDiscoveryTool c) = cfg_CursorBaseURL c"
  "cfg_CursorBaseURL (normalizeProvider c) = cfg_CursorBaseURL c"
  "cfg_RequestTimeoutSeconds (normalizeMode c) = cfg_RequestTimeoutSeconds c"
  "cfg_RequestTimeoutSeconds (requireDiscoveryTool c) = cfg_RequestTimeoutSeconds c"
  "cfg_RequestTimeoutSeconds (normalizeProvider c) = cfg_RequestTimeoutSeconds c"
  "cfg_TransientRetryCount (normalizeMode c) = cfg_TransientRetryCount c"
  "cfg_TransientRetryCount (requireDiscoveryTool c) = cfg_TransientRetryCount c"
  "cfg_TransientRetryCount (normalizeProvider c) = cfg_TransientRetryCount c"
  "cfg_TransientRetryDelayMS (normalizeMode c) = cfg_TransientRetryDelayMS c"
  "cfg_TransientRetryDelayMS (requireDiscoveryTool c) = cfg_TransientRetryDelayMS c"
  "cfg_TransientRetryDelayMS (normalizeProvider c) = cfg_TransientRetryDelayMS c"
  "cfg_ModelCacheTTLSeconds (normalizeMode c) = cfg_ModelCacheTTLSeconds c"
  "cfg_ModelCacheTTLSeconds (requireDiscoveryTool c) = cfg_ModelCacheTTLSeconds c"
  "cfg_ModelCacheTTLSeconds (normalizeProvider c) = cfg_ModelCacheTTLSeconds c"
  "cfg_MaxRequestBytes (normalizeMode c) = cfg_MaxRequestBytes c"
  "cfg_MaxRequestBytes (requireDiscoveryTool c) = cfg_MaxRequestBytes c"
  "cfg_MaxRequestBytes (normalizeProvider c) = cfg_MaxRequestBytes c"
  "cfg_MaxHistoryMessageBytes (normalizeMode c) = cfg_MaxHistoryMessageBytes c"
  "cfg_MaxHistoryMessageBytes (requireDiscoveryTool c) = cfg_MaxHistoryMessageBytes c"
  "cfg_MaxHistoryMessageBytes (normalizeProvider c) = cfg_MaxHistoryMessageBytes c"
  by (simp_all add: config_field_defs)

lemma normalizeProvider_ID:
  "cfg_ProviderID (normalizeProvider c) = ProviderID \<longleftrightarrow> TrimSpace (cfg_ProviderID c) \<in> {[], ProviderID}"
  by (auto simp: normalizeProvider_def Let_def ProviderID_def)

lemma ParseConfig_in_bounds:
  assumes "ParseConfig yaml raw = Inr c"
  shows "config_ok c"
proof -
  from assms obtain c0 where v: "validateConfig c0 = Inr c"
    by (auto simp: ParseConfig_def split: if_splits sum.splits)
  have names: "display_names_ok (normalizeDisplayNames [] m)" for m
    by (rule normalizeDisplayNames_ok) (simp add: display_names_ok_def)
  let ?c = "normalizeMode (requireDiscoveryTool (normalizeProvider c0))"
  have tools: "cfg_AllowedNativeTools ?c = [] \<or> ''get_mcp_tools_tool_call'' \<in> set (cfg_AllowedNativeTools ?c)"
    by (auto simp: config_field_defs)
  have prov: "cfg_ProviderID ?c = cfg_ProviderID (normalizeProvider c0)"
    by (simp add: normalizeMode_def requireDiscoveryTool_def)
  from v tools names prov show ?thesis
    by (simp add: validateConfig_def Let_def config_ok_def split: if_splits) auto
qed

section \<open>Properties\<close>

text \<open>
  C32. A configuration the plugin accepts lies within all documented bounds, names the
  provider \<open>cursor\<close>, keeps the MCP discovery tool in a non-empty allow list, and has clean
  display names, whatever the YAML decoder delivered.
\<close>

theorem ParseConfig_ok:
  assumes "ParseConfig yaml raw = Inr c"
  shows "config_ok c"
  using assms by (rule ParseConfig_in_bounds)

theorem ParseConfig_ok_witness:
  "config_ok (DefaultConfig\<lparr>cfg_TransientRetryCount := 3\<rparr>)"
proof (rule ParseConfig_ok)
  have trims: "TrimSpace ''cursor'' = ''cursor''" "TrimSpace ''normalized'' = ''normalized''"
    "TrimSpace ''https://api2.cursor.sh'' = ''https://api2.cursor.sh''"
    by (rule TrimSpace_ends; simp add: ascii_space_def)+
  have low: "ToLower ''normalized'' = ''normalized''"
    by (rule ToLower_const) (simp_all add: is_ascii_def is_upper_def)
  show "ParseConfig (\<lambda>raw c. Inr (c\<lparr>cfg_TransientRetryCount := 3\<rparr>)) ''transient_retry_count: 3''
      = Inr (DefaultConfig\<lparr>cfg_TransientRetryCount := 3\<rparr>)"
    by (simp add: ParseConfig_def validateConfig_def config_field_defs DefaultConfig_def ProviderID_def
      trims low)
qed

text \<open>
  The only configurations that are rejected are those with a value out of range: the
  validation succeeds exactly when the provider is \<open>cursor\<close> or blank, the mode is one of the
  three (up to case and blanks), and every number is within its bounds.
\<close>

theorem validateConfig_accepts: "(\<exists>c'. validateConfig c = Inr c') \<longleftrightarrow> config_acceptable c"
  by (auto simp: validateConfig_def Let_def config_acceptable_def normalizeProvider_ID)

text \<open>
  With no configuration text the plugin runs with exactly the documented defaults.
\<close>

theorem ParseConfig_empty: "ParseConfig yaml [] = Inr DefaultConfig"
proof -
  have trims: "TrimSpace ''cursor'' = ''cursor''" "TrimSpace ''normalized'' = ''normalized''"
    "TrimSpace ''https://api2.cursor.sh'' = ''https://api2.cursor.sh''"
    by (rule TrimSpace_ends; simp add: ascii_space_def)+
  have low: "ToLower ''normalized'' = ''normalized''"
    by (rule ToLower_const) (simp_all add: is_ascii_def is_upper_def)
  show ?thesis
    by (simp add: ParseConfig_def validateConfig_def config_field_defs DefaultConfig_def ProviderID_def
      trims low)
qed

text \<open>
  A configured display name is found for its model id whatever the case of the
  configured key and of the requested id, provided no two configured keys coincide after
  normalisation; without a configured name the catalog's name is used.
\<close>

theorem ModelDisplayName_configured:
  assumes "validateConfig c0 = Inr c"
    and "(i, n) \<in> set (cfg_ModelDisplayNames c0)"
    and "distinct (map (\<lambda>(i, n). ToLower (TrimSpace i)) (cfg_ModelDisplayNames c0))"
    and "ToLower (TrimSpace i) \<noteq> []" "TrimSpace n \<noteq> []"
    and "ToLower (TrimSpace m) = ToLower (TrimSpace i)"
  shows "ModelDisplayName c m fallback = TrimSpace n"
proof -
  have "cfg_ModelDisplayNames c = normalizeDisplayNames [] (cfg_ModelDisplayNames c0)"
    using assms(1) by (auto simp: validateConfig_def config_field_defs split: if_splits)
  then have "gm_get (cfg_ModelDisplayNames c) (ToLower (TrimSpace m)) = Some (TrimSpace n)"
    using normalizeDisplayNames_get [OF assms(2,3,4,5)] assms(6) by simp
  then show ?thesis using assms(5) by (simp add: ModelDisplayName_def)
qed

theorem ModelDisplayName_configured_witness:
  "ModelDisplayName (DefaultConfig\<lparr>cfg_ModelDisplayNames := [(''grok'', ''Grok'')]\<rparr>) ''GROK'' ''x'' = ''Grok''"
proof -
  let ?c0 = "DefaultConfig\<lparr>cfg_ModelDisplayNames := [(''Grok'', ''Grok'')]\<rparr>"
  have t: "TrimSpace ''Grok'' = ''Grok''" "TrimSpace ''GROK'' = ''GROK''"
    "TrimSpace ''cursor'' = ''cursor''" "TrimSpace ''normalized'' = ''normalized''"
    "TrimSpace ''https://api2.cursor.sh'' = ''https://api2.cursor.sh''"
    by (rule TrimSpace_ends; simp add: ascii_space_def)+
  have l: "ToLower ''Grok'' = ''grok''" "ToLower ''GROK'' = ''grok''"
    by (simp_all add: ToLower_def is_ascii_def lower_char_def is_upper_def char_of_def bit_0)
  have low: "ToLower ''normalized'' = ''normalized''"
    by (rule ToLower_const) (simp_all add: is_ascii_def is_upper_def)
  have v: "validateConfig ?c0 = Inr (DefaultConfig\<lparr>cfg_ModelDisplayNames := [(''grok'', ''Grok'')]\<rparr>)"
    by (simp add: validateConfig_def config_field_defs DefaultConfig_def ProviderID_def t l low)
  show ?thesis
    using ModelDisplayName_configured [OF v, of "''Grok''" "''Grok''" "''GROK''" "''x''"]
    by (simp add: t l DefaultConfig_def)
qed

end
