(* ===== verification/Go_Value.thy ===== *)
theory Go_Value
  imports Go_Text
begin

text \<open>
  Dynamically typed Go values (\<open>any\<close>) as the plugin builds and inspects them: what
  \<open>json.Unmarshal\<close> and \<open>Decoder.Decode\<close> produce, plus the \<open>int\<close> values the code puts into
  payloads, and \<open>json.Marshal\<close> of such a value.
\<close>

section \<open>Floating-point numbers\<close>

text \<open>
  The code never computes with the \<open>float64\<close> values it passes through JSON. A finite one is
  given by its shortest decimal \<open>(-1)^s * d * 10^e\<close>, which is what
  \<open>strconv.FormatFloat(f, 'e', -1, 64)\<close> prints and which determines it (\<open>d\<close> has no trailing
  zero unless \<open>d = 0\<close>, where \<open>e = 0\<close>).
\<close>

datatype float64 = FNaN | FInf bool | FDec bool nat int

text \<open>
  \<open>encoding/json\<close> prints a float with exponent 'e' below \<open>1e-6\<close> and from \<open>1e21\<close> on, in
  positional form otherwise. \<open>p\<close> is the position of the decimal point: the value is
  \<open>0.ds * 10^p\<close>.
\<close>

definition float_positional :: "string \<Rightarrow> int \<Rightarrow> string" where
  "float_positional ds p =
     (if p \<le> 0 then ''0.'' @ replicate (nat (- p)) (CHR ''0'') @ ds
      else if int (length ds) \<le> p then ds @ replicate (nat (p - int (length ds))) (CHR ''0'')
      else take (nat p) ds @ ''.'' @ drop (nat p) ds)"

definition float_scientific :: "string \<Rightarrow> int \<Rightarrow> string" where
  "float_scientific ds p =
     (let x = p - 1;
          mant = take 1 ds @ (if length ds = 1 then [] else ''.'' @ drop 1 ds)
      in mant @ ''e'' @ (if x < 0 then ''-'' else ''+'') @ nat_digits (nat \<bar>x\<bar>))"

fun float_json :: "float64 \<Rightarrow> string option" where
  "float_json FNaN = None"
| "float_json (FInf _) = None"
| "float_json (FDec s d e) =
     Some ((if s then ''-'' else []) @
       (if d = 0 then ''0''
        else let ds = nat_digits d; p = int (length ds) + e
             in if p < -5 \<or> 21 < p then float_scientific ds p else float_positional ds p))"

section \<open>Values\<close>

text \<open>
  \<open>GNumber\<close> is a \<open>json.Number\<close> (the literal's text, produced when the decoder was told to
  \<open>UseNumber\<close>), \<open>GFloat\<close> a \<open>float64\<close>, \<open>GInt\<close> one of Go's integer types. A
  \<open>map[string]any\<close> is an association list with distinct keys.
\<close>

datatype goval =
    GNil
  | GBool bool
  | GNumber string
  | GInt int
  | GFloat float64
  | GStr string
  | GList "goval list"
  | GMap "(string, goval) gomap"

type_synonym object = "(string, goval) gomap"

text \<open>\<open>m[key]\<close> on a \<open>map[string]any\<close>, where a missing key reads as \<open>nil\<close>.\<close>

definition field :: "object \<Rightarrow> string \<Rightarrow> goval" where
  "field m k = (case gm_get m k of Some v \<Rightarrow> v | None \<Rightarrow> GNil)"

text \<open>Type assertions with the comma-ok form; on failure the code uses the zero value.\<close>

fun as_map :: "goval \<Rightarrow> object option" where
  "as_map (GMap m) = Some m"
| "as_map _ = None"

fun as_list :: "goval \<Rightarrow> goval list option" where
  "as_list (GList l) = Some l"
| "as_list _ = None"

fun as_string :: "goval \<Rightarrow> string option" where
  "as_string (GStr s) = Some s"
| "as_string _ = None"

definition map_or_nil :: "goval \<Rightarrow> object" where
  "map_or_nil v = (case as_map v of Some m \<Rightarrow> m | None \<Rightarrow> [])"

definition list_or_nil :: "goval \<Rightarrow> goval list" where
  "list_or_nil v = (case as_list v of Some l \<Rightarrow> l | None \<Rightarrow> [])"

definition string_or_empty :: "goval \<Rightarrow> string" where
  "string_or_empty v = (case as_string v of Some s \<Rightarrow> s | None \<Rightarrow> [])"

text \<open>translate.go: \<open>stringValue\<close>, \<open>boolValue\<close>.\<close>

definition stringValue :: "goval \<Rightarrow> string" where
  "stringValue v = TrimSpace (string_or_empty v)"

fun boolValue :: "goval \<Rightarrow> bool" where
  "boolValue (GBool b) = b"
| "boolValue _ = False"

lemma stringValue_GStr [simp]: "stringValue (GStr s) = TrimSpace s"
  by (simp add: stringValue_def string_or_empty_def)

lemma stringValue_GNil [simp]: "stringValue GNil = []"
  by (simp add: stringValue_def string_or_empty_def)

lemma stringValue_trimmed [simp]: "TrimSpace (stringValue v) = stringValue v"
  by (simp add: stringValue_def)

lemma field_Nil [simp]: "field [] k = GNil"
  by (simp add: field_def)

lemma field_Cons [simp]: "field ((k', v) # m) k = (if k = k' then v else field m k)"
  by (simp add: field_def)

lemma field_set [simp]: "field (gm_set k v m) k' = (if k' = k then v else field m k')"
  by (simp add: field_def)

section \<open>UTF-8\<close>

text \<open>The number of bytes of the well-formed UTF-8 character at the front (0 if there is none).\<close>

definition cont :: "char \<Rightarrow> bool" where
  "cont c \<longleftrightarrow> 128 \<le> byte c \<and> byte c \<le> 191"

definition lead3 :: "char \<Rightarrow> char \<Rightarrow> bool" where
  "lead3 a b \<longleftrightarrow>
     (byte a = 224 \<and> 160 \<le> byte b \<and> byte b \<le> 191) \<or>
     (byte a = 237 \<and> 128 \<le> byte b \<and> byte b \<le> 159) \<or>
     (((225 \<le> byte a \<and> byte a \<le> 236) \<or> byte a = 238 \<or> byte a = 239) \<and> cont b)"

definition lead4 :: "char \<Rightarrow> char \<Rightarrow> bool" where
  "lead4 a b \<longleftrightarrow>
     (byte a = 240 \<and> 144 \<le> byte b \<and> byte b \<le> 191) \<or>
     (byte a = 244 \<and> 128 \<le> byte b \<and> byte b \<le> 143) \<or>
     (241 \<le> byte a \<and> byte a \<le> 243 \<and> cont b)"

fun rune_len :: "string \<Rightarrow> nat" where
  "rune_len [] = 0"
| "rune_len (a # s) =
     (if byte a < 128 then 1
      else if 194 \<le> byte a \<and> byte a \<le> 223 then
        (case s of b # _ \<Rightarrow> if cont b then 2 else 0 | [] \<Rightarrow> 0)
      else if 224 \<le> byte a \<and> byte a \<le> 239 then
        (case s of b # c # _ \<Rightarrow> if lead3 a b \<and> cont c then 3 else 0 | _ \<Rightarrow> 0)
      else if 240 \<le> byte a \<and> byte a \<le> 244 then
        (case s of b # c # d # _ \<Rightarrow> if lead4 a b \<and> cont c \<and> cont d then 4 else 0 | _ \<Rightarrow> 0)
      else 0)"

text \<open>The characters of a string; each byte that belongs to none is a character of its own.\<close>

function runes :: "string \<Rightarrow> (bool \<times> string) list" where
  "runes s =
     (if s = [] then []
      else if rune_len s = 0 then (False, take 1 s) # runes (drop 1 s)
      else (True, take (rune_len s) s) # runes (drop (rune_len s) s))"
  by pat_completeness auto
termination
  by (relation "measure length") auto

declare runes.simps [simp del]

definition ValidString :: "string \<Rightarrow> bool" where
  "ValidString s \<longleftrightarrow> list_all fst (runes s)"

lemma runes_Nil [simp]: "runes [] = []"
  by (simp add: runes.simps)

lemma runes_ascii: "byte a < 128 \<Longrightarrow> runes (a # s) = (True, [a]) # runes s"
  by (simp add: runes.simps [of "a # s"])

lemma runes_concat: "concat (map snd (runes s)) = s"
proof (induction s rule: runes.induct)
  case (1 s)
  then show ?case by (cases "s = []"; cases "rune_len s = 0") (simp_all add: runes.simps [of s])
qed

lemma runes_is_ascii: "is_ascii s \<Longrightarrow> runes s = map (\<lambda>c. (True, [c])) s"
  by (induction s) (simp_all add: is_ascii_def runes_ascii)

lemma ValidString_ascii: "is_ascii s \<Longrightarrow> ValidString s"
  by (simp add: ValidString_def runes_is_ascii list_all_iff)

section \<open>json.Marshal\<close>

text \<open>
  Strings: quotes, backslashes and control characters are escaped, \<open><\<close>, \<open>>\<close> and \<open>&\<close> are
  written as \<open>\u003c\<close> and so on, U+2028 and U+2029 are escaped, and a byte that is not UTF-8
  becomes \<open>\ufffd\<close>.
\<close>

definition backslash :: char where "backslash = CHR 0x5C"
definition dquote :: char where "dquote = CHR 0x22"

definition escape_u00 :: "char \<Rightarrow> string" where
  "escape_u00 c = backslash # ''u00'' @ hex_byte c"

definition quote_ascii :: "char \<Rightarrow> string" where
  "quote_ascii c =
     (if c = backslash \<or> c = dquote then [backslash, c]
      else if byte c = 8 then [backslash, CHR ''b'']
      else if byte c = 12 then [backslash, CHR ''f'']
      else if byte c = 10 then [backslash, CHR ''n'']
      else if byte c = 13 then [backslash, CHR ''r'']
      else if byte c = 9 then [backslash, CHR ''t'']
      else if byte c < 32 \<or> c = CHR ''<'' \<or> c = CHR ''>'' \<or> c = CHR ''&'' then escape_u00 c
      else [c])"

definition quote_rune :: "bool \<times> string \<Rightarrow> string" where
  "quote_rune r =
     (if \<not> fst r then backslash # ''ufffd''
      else if map byte (snd r) = [226, 128, 168] then backslash # ''u2028''
      else if map byte (snd r) = [226, 128, 169] then backslash # ''u2029''
      else case snd r of [c] \<Rightarrow> quote_ascii c | cs \<Rightarrow> cs)"

definition quote :: "string \<Rightarrow> string" where
  "quote s = dquote # concat (map quote_rune (runes s)) @ [dquote]"

definition marshal_list :: "string option list \<Rightarrow> string option" where
  "marshal_list vs = map_option (\<lambda>ss. ''['' @ Join '','' ss @ '']'') (those vs)"

definition marshal_map :: "(string \<times> string option) list \<Rightarrow> string option" where
  "marshal_map kvs =
     map_option (\<lambda>ss. ''{'' @ Join '','' ss @ ''}'')
       (those (map (\<lambda>(k, v). map_option (\<lambda>t. quote k @ '':'' @ t) v) (sort_key fst kvs)))"

text \<open>
  \<open>None\<close> is the error for a value JSON cannot express (a NaN or an infinity). The keys of a
  map are written in the order of their bytes. A \<open>json.Number\<close> is written as it was read.
\<close>

primrec json_marshal :: "goval \<Rightarrow> string option" where
  "json_marshal GNil = Some ''null''"
| "json_marshal (GBool b) = Some (if b then ''true'' else ''false'')"
| "json_marshal (GNumber t) = Some t"
| "json_marshal (GInt i) = Some (Itoa i)"
| "json_marshal (GFloat f) = float_json f"
| "json_marshal (GStr s) = Some (quote s)"
| "json_marshal (GList vs) = marshal_list (map json_marshal vs)"
| "json_marshal (GMap kvs) = marshal_map (map (map_prod id json_marshal) kvs)"

text \<open>A struct: its members in their order.\<close>

definition struct_json :: "(string \<times> string) list \<Rightarrow> string" where
  "struct_json members = ''{'' @ Join '','' (map (\<lambda>(k, v). quote k @ '':'' @ v) members) @ ''}''"

definition marshal_struct :: "(string \<times> string option) list \<Rightarrow> string option" where
  "marshal_struct members = map_option struct_json (those (map (\<lambda>(k, v). map_option (Pair k) v) members))"

text \<open>\<open>raw, _ := json.Marshal(v)\<close>: on an error the bytes are \<open>nil\<close>.\<close>

definition marshal_or_nil :: "goval \<Rightarrow> string" where
  "marshal_or_nil v = (case json_marshal v of Some t \<Rightarrow> t | None \<Rightarrow> [])"

text \<open>A value free of NaN and infinities.\<close>

fun float_ok :: "float64 \<Rightarrow> bool" where
  "float_ok (FDec _ _ _) = True"
| "float_ok _ = False"

primrec marshalable :: "goval \<Rightarrow> bool" where
  "marshalable GNil = True"
| "marshalable (GBool b) = True"
| "marshalable (GNumber t) = True"
| "marshalable (GInt i) = True"
| "marshalable (GFloat f) = float_ok f"
| "marshalable (GStr s) = True"
| "marshalable (GList vs) = list_all id (map marshalable vs)"
| "marshalable (GMap kvs) = list_all snd (map (map_prod id marshalable) kvs)"

lemma those_Some_iff: "(\<exists>ys. those xs = Some ys) \<longleftrightarrow> list_all (\<lambda>x. x \<noteq> None) xs"
  by (induction xs) (auto split: option.splits)

lemma marshal_list_Some: "(\<exists>t. marshal_list vs = Some t) \<longleftrightarrow> list_all (\<lambda>v. v \<noteq> None) vs"
  using those_Some_iff [of vs] by (auto simp: marshal_list_def)

lemma marshal_map_Some: "(\<exists>t. marshal_map kvs = Some t) \<longleftrightarrow> list_all (\<lambda>kv. snd kv \<noteq> None) kvs"
proof -
  let ?vs = "map (\<lambda>(k, v). map_option (\<lambda>t. quote k @ '':'' @ t) v) (sort_key fst kvs)"
  have "(\<exists>t. marshal_map kvs = Some t) \<longleftrightarrow> (\<exists>ss. those ?vs = Some ss)"
    by (auto simp: marshal_map_def)
  then show ?thesis
    by (auto simp: those_Some_iff list_all_iff split: prod.splits)
qed

lemma marshal_struct_Some: "(\<exists>t. marshal_struct ms = Some t) \<longleftrightarrow> list_all (\<lambda>m. snd m \<noteq> None) ms"
  using those_Some_iff [of "map (\<lambda>(k, v). map_option (Pair k) v) ms"]
  by (auto simp: marshal_struct_def list_all_iff split_beta)

lemma marshal_struct_Pair [simp]: "marshal_struct (map (map_prod id Some) ms) = Some (struct_json ms)"
proof -
  have "those (map (\<lambda>(k, v). map_option (Pair k) v) (map (map_prod id Some) ms)) = Some ms"
    by (induction ms) auto
  then show ?thesis by (simp add: marshal_struct_def)
qed

lemma json_marshal_total: "marshalable v \<longleftrightarrow> (\<exists>t. json_marshal v = Some t)"
proof (induction v)
  case (GFloat f)
  then show ?case by (cases f) auto
next
  case (GList vs)
  then show ?case by (auto simp: marshal_list_Some list_all_iff)
next
  case (GMap kvs)
  have "marshalable v \<longleftrightarrow> (\<exists>t. json_marshal v = Some t)" if "(k, v) \<in> set kvs" for k v
    using GMap [of "(k, v)" v] that by (simp add: snds.simps)
  then show ?case by (force simp: marshal_map_Some list_all_iff)
qed auto

section \<open>Quoting in messages\<close>

text \<open>\<open>%q\<close>: exact for printable ASCII, which every known format is.\<close>

definition unicode_quote :: "string \<Rightarrow> string" where
  "unicode_quote = undefined"

definition go_quote :: "string \<Rightarrow> string" where
  "go_quote s =
     (if list_all (\<lambda>c. 32 \<le> byte c \<and> byte c \<le> 126) s
      then dquote # concat (map (\<lambda>c. if c = dquote \<or> c = backslash then [backslash, c] else [c]) s) @ [dquote]
      else unicode_quote s)"

end
