(* ===== verification/Wire_Messages.thy ===== *)
theory Wire_Messages
  imports Go_Value
begin

text \<open>
  The messages of the Cursor agent protocol that the plugin builds and inspects
  (internal/pb, generated from the wire descriptor), with the fields it uses. A oneof is a
  datatype with one constructor per case the plugin handles and one for all the others; the
  getters return \<open>None\<close> where the generated ones return \<open>nil\<close>.
\<close>

section \<open>Models and tools\<close>

record ModelParameter =
  mp_Id :: string
  mp_Value :: string

record RequestedModel =
  rm_ModelId :: string
  rm_Parameters :: "ModelParameter list"

record McpToolDefinition =
  td_Name :: string
  td_ProviderIdentifier :: string
  td_ToolName :: string
  td_Description :: string
  td_InputSchemaJson :: string

text \<open>The arguments of a tool call are serialised \<open>google.protobuf.Value\<close>s by name.\<close>

record McpArgs =
  ma_Name :: string
  ma_Args :: "(string, string) gomap"
  ma_ToolCallId :: string
  ma_ToolName :: string

datatype Value =
    V_Null
  | V_Number float64
  | V_String string
  | V_Bool bool
  | V_Struct "(string, Value) gomap"
  | V_List "Value list"
  | V_Unset

section \<open>Messages from the server\<close>

text \<open>\<open>TurnEnded\<close> carries the fields the bundled descriptor does not know, undecoded.\<close>

datatype InteractionUpdate =
    TextDelta string
  | ThinkingDelta string
  | TokenDelta int
  | TurnEnded string
  | OtherUpdate

fun GetTextDelta :: "InteractionUpdate \<Rightarrow> string option" where
  "GetTextDelta (TextDelta t) = Some t"
| "GetTextDelta _ = None"

fun GetThinkingDelta :: "InteractionUpdate \<Rightarrow> string option" where
  "GetThinkingDelta (ThinkingDelta t) = Some t"
| "GetThinkingDelta _ = None"

fun GetTokenDelta :: "InteractionUpdate \<Rightarrow> int option" where
  "GetTokenDelta (TokenDelta n) = Some n"
| "GetTokenDelta _ = None"

fun GetTurnEnded :: "InteractionUpdate \<Rightarrow> string option" where
  "GetTurnEnded (TurnEnded u) = Some u"
| "GetTurnEnded _ = None"

record SetBlobArgs =
  sb_BlobId :: string
  sb_BlobData :: string

datatype KvServerMessage_oneof =
    Kv_GetBlobArgs string
  | Kv_SetBlobArgs SetBlobArgs
  | Kv_Unset

record KvServerMessage =
  ks_Id :: nat
  ks_Message :: KvServerMessage_oneof

fun GetGetBlobArgs :: "KvServerMessage_oneof \<Rightarrow> string option" where
  "GetGetBlobArgs (Kv_GetBlobArgs i) = Some i"
| "GetGetBlobArgs _ = None"

fun GetSetBlobArgs :: "KvServerMessage_oneof \<Rightarrow> SetBlobArgs option" where
  "GetSetBlobArgs (Kv_SetBlobArgs a) = Some a"
| "GetSetBlobArgs _ = None"

datatype ExecServerMessage_oneof =
    Exec_RequestContextArgs
  | Exec_McpStateExecArgs
  | Exec_McpArgs McpArgs
  | Exec_Other

record ExecServerMessage =
  es_Id :: nat
  es_ExecId :: string
  es_Message :: ExecServerMessage_oneof

fun GetMcpArgs :: "ExecServerMessage_oneof \<Rightarrow> McpArgs option" where
  "GetMcpArgs (Exec_McpArgs a) = Some a"
| "GetMcpArgs _ = None"

datatype AgentServerMessage =
    Server_InteractionUpdate InteractionUpdate
  | Server_ExecServerMessage ExecServerMessage
  | Server_KvServerMessage KvServerMessage
  | Server_Other

fun GetInteractionUpdate :: "AgentServerMessage \<Rightarrow> InteractionUpdate option" where
  "GetInteractionUpdate (Server_InteractionUpdate u) = Some u"
| "GetInteractionUpdate _ = None"

fun GetExecServerMessage :: "AgentServerMessage \<Rightarrow> ExecServerMessage option" where
  "GetExecServerMessage (Server_ExecServerMessage m) = Some m"
| "GetExecServerMessage _ = None"

fun GetKvServerMessage :: "AgentServerMessage \<Rightarrow> KvServerMessage option" where
  "GetKvServerMessage (Server_KvServerMessage m) = Some m"
| "GetKvServerMessage _ = None"

section \<open>Messages to the server\<close>

text \<open>\<open>GetBlobResult\<close> has an optional field: \<open>None\<close> when the blob is absent.\<close>

datatype KvClientMessage_oneof =
    KvClient_GetBlobResult "string option"
  | KvClient_SetBlobResult

record KvClientMessage =
  kc_Id :: nat
  kc_Message :: KvClientMessage_oneof

record RequestContextEnv =
  re_OsVersion :: string
  re_Shell :: string
  re_SandboxEnabled :: bool
  re_TimeZone :: string

record RequestContext =
  rc_Tools :: "McpToolDefinition list"
  rc_Env :: RequestContextEnv

record McpStateServer =
  ms_ServerName :: string
  ms_ServerIdentifier :: string
  ms_Tools :: "McpToolDefinition list"

datatype ExecClientMessage_oneof =
    ExecClient_RequestContextResult RequestContext
  | ExecClient_McpStateExecResult "McpStateServer list"

record ExecClientMessage =
  ec_Id :: nat
  ec_ExecId :: string
  ec_Message :: ExecClientMessage_oneof

record UserMessage =
  um_Text :: string
  um_MessageId :: string

datatype ConversationAction =
    UserMessageAction UserMessage
  | ResumeAction

record AgentRunRequest =
  rr_RootPromptMessagesJson :: "string list"
  rr_Action :: ConversationAction
  rr_RequestedModel :: RequestedModel
  rr_McpTools :: "McpToolDefinition list option"
  rr_ConversationId :: string

datatype AgentClientMessage =
    Client_RunRequest AgentRunRequest
  | Client_ExecClientMessage ExecClientMessage
  | Client_KvClientMessage KvClientMessage

end
