(* ===== verification/Usage.thy ===== *)
theory Usage
  imports Wire_Messages Go_Errors
begin

text \<open>
  usage.go: the token counts of a turn, how they are accumulated, the usage blocks of the
  three response formats, and their extraction from the wire. Sums are taken in \<open>int64\<close>;
  \<open>wrap64\<close> is the value of such a sum.
\<close>

section \<open>The code\<close>

record tokenUsage =
  u_InputTokens :: int
  u_OutputTokens :: int
  u_CacheReadTokens :: int
  u_CacheWriteTokens :: int
  u_ReasoningTokens :: int
  u_Reported :: bool

definition zero_usage :: tokenUsage where
  "zero_usage = \<lparr>u_InputTokens = 0, u_OutputTokens = 0, u_CacheReadTokens = 0,
     u_CacheWriteTokens = 0, u_ReasoningTokens = 0, u_Reported = False\<rparr>"

text \<open>An event brings either a complete report or a number of output tokens.\<close>

definition observe :: "tokenUsage \<Rightarrow> tokenUsage \<Rightarrow> int \<Rightarrow> tokenUsage" where
  "observe u event_usage event_tokens =
     (if u_Reported event_usage then event_usage
      else if \<not> u_Reported u then u\<lparr>u_OutputTokens := wrap64 (u_OutputTokens u + event_tokens)\<rparr>
      else u)"

definition usageBlock :: "tokenUsage \<Rightarrow> goval" where
  "usageBlock usage0 =
     (let usage = usage0\<lparr>u_OutputTokens := max (u_OutputTokens usage0) 0\<rparr> in
      GMap [(''prompt_tokens'', GInt (u_InputTokens usage)),
            (''completion_tokens'', GInt (u_OutputTokens usage)),
            (''total_tokens'', GInt (wrap64 (u_InputTokens usage + u_OutputTokens usage))),
            (''prompt_tokens_details'', GMap [(''cached_tokens'', GInt (u_CacheReadTokens usage)),
               (''cache_write_tokens'', GInt (u_CacheWriteTokens usage))]),
            (''completion_tokens_details'', GMap [(''reasoning_tokens'', GInt (u_ReasoningTokens usage))])])"

definition responseUsageBlock :: "tokenUsage \<Rightarrow> goval" where
  "responseUsageBlock usage0 =
     (let usage = usage0\<lparr>u_OutputTokens := max (u_OutputTokens usage0) 0\<rparr> in
      GMap [(''input_tokens'', GInt (u_InputTokens usage)),
            (''output_tokens'', GInt (u_OutputTokens usage)),
            (''total_tokens'', GInt (wrap64 (u_InputTokens usage + u_OutputTokens usage))),
            (''input_tokens_details'', GMap [(''cached_tokens'', GInt (u_CacheReadTokens usage)),
               (''cache_write_tokens'', GInt (u_CacheWriteTokens usage))]),
            (''output_tokens_details'', GMap [(''reasoning_tokens'', GInt (u_ReasoningTokens usage))])])"

definition claudeInput :: "tokenUsage \<Rightarrow> int" where
  "claudeInput usage =
     max (wrap64 (wrap64 (u_InputTokens usage - u_CacheReadTokens usage) - u_CacheWriteTokens usage)) 0"

definition claudeUsageBlock :: "tokenUsage \<Rightarrow> goval" where
  "claudeUsageBlock usage =
     GMap [(''input_tokens'', GInt (claudeInput usage)),
           (''output_tokens'', GInt (max (u_OutputTokens usage) 0)),
           (''cache_read_input_tokens'', GInt (u_CacheReadTokens usage)),
           (''cache_creation_input_tokens'', GInt (u_CacheWriteTokens usage)),
           (''output_tokens_details'', GMap [(''thinking_tokens'', GInt (u_ReasoningTokens usage))])]"

section \<open>usageFromTurnEnded\<close>

text \<open>
  The package \<open>protowire\<close> is third-party code and a parameter: each function returns what it
  read and how many bytes it took, a negative number being an error.
\<close>

record protowire =
  pw_ConsumeTag :: "string \<Rightarrow> int \<times> int \<times> int"
  pw_ConsumeVarint :: "string \<Rightarrow> int \<times> int"
  pw_ConsumeFieldValue :: "int \<Rightarrow> int \<Rightarrow> string \<Rightarrow> int"
  pw_ParseError :: "int \<Rightarrow> goerr"

text \<open>Its documented contract: a successful call takes at least one and at most all bytes.\<close>

definition takes :: "int \<Rightarrow> string \<Rightarrow> bool" where
  "takes n b \<longleftrightarrow> n < 0 \<or> (0 < n \<and> n \<le> int (length b))"

definition protowire_ok :: "protowire \<Rightarrow> bool" where
  "protowire_ok pw \<longleftrightarrow>
     (\<forall>b. takes (snd (snd (pw_ConsumeTag pw b))) b) \<and>
     (\<forall>b. takes (snd (pw_ConsumeVarint pw b)) b \<and> (0 \<le> snd (pw_ConsumeVarint pw b) \<longrightarrow> 0 \<le> fst (pw_ConsumeVarint pw b))) \<and>
     (\<forall>num ty b. takes (pw_ConsumeFieldValue pw num ty b) b)"

definition usage_prefix :: string where
  "usage_prefix = ''decode Cursor token usage''"

definition store_count :: "int \<Rightarrow> int \<Rightarrow> tokenUsage \<Rightarrow> tokenUsage" where
  "store_count number v usage =
     (if number = 1 then usage\<lparr>u_InputTokens := v\<rparr>
      else if number = 2 then usage\<lparr>u_OutputTokens := v\<rparr>
      else if number = 3 then usage\<lparr>u_CacheReadTokens := v\<rparr>
      else if number = 4 then usage\<lparr>u_CacheWriteTokens := v\<rparr>
      else usage\<lparr>u_ReasoningTokens := v\<rparr>)"

text \<open>
  The loop over the unknown fields, with fuel; \<open>None\<close> is a loop that did not end within it.
  Every round takes at least one byte, so the length of the input is enough.
\<close>

fun usage_loop :: "nat \<Rightarrow> protowire \<Rightarrow> string \<Rightarrow> tokenUsage \<Rightarrow> (goerr + tokenUsage) option" where
  "usage_loop 0 pw raw usage = (if raw = [] then Some (Inr usage) else None)"
| "usage_loop (Suc fuel) pw raw usage =
     (if raw = [] then Some (Inr usage)
      else case pw_ConsumeTag pw raw of (number, wireType, n) \<Rightarrow>
        if n < 0 then Some (Inl (WrapErr usage_prefix (pw_ParseError pw n)))
        else let raw = drop (nat n) raw in
          if 1 \<le> number \<and> number \<le> 5 then
            if wireType \<noteq> 0 then
              Some (Inl (PlainErr (usage_prefix @ '': field '' @ Itoa number @ '' has wire type '' @ Itoa wireType)))
            else (case pw_ConsumeVarint pw raw of (v, n) \<Rightarrow>
              if n < 0 then Some (Inl (WrapErr usage_prefix (pw_ParseError pw n)))
              else if MaxInt64 < v then
                Some (Inl (PlainErr (usage_prefix @ '': field '' @ Itoa number @ '' is negative'')))
              else usage_loop fuel pw (drop (nat n) raw) ((store_count number v usage)\<lparr>u_Reported := True\<rparr>))
          else let n = pw_ConsumeFieldValue pw number wireType raw in
            if n < 0 then Some (Inl (WrapErr usage_prefix (pw_ParseError pw n)))
            else usage_loop fuel pw (drop (nat n) raw) usage)"

text \<open>\<open>update\<close> is the unknown part of the message; a \<open>nil\<close> message is \<open>None\<close>.\<close>

definition usageFromTurnEnded :: "protowire \<Rightarrow> string option \<Rightarrow> (goerr + tokenUsage) option" where
  "usageFromTurnEnded pw update =
     (case update of None \<Rightarrow> Some (Inr zero_usage)
      | Some raw \<Rightarrow> usage_loop (length raw) pw raw zero_usage)"

section \<open>Lemmas\<close>

definition counts_ok :: "tokenUsage \<Rightarrow> bool" where
  "counts_ok u \<longleftrightarrow>
     list_all (\<lambda>x. 0 \<le> x \<and> x \<le> MaxInt64)
       [u_InputTokens u, u_OutputTokens u, u_CacheReadTokens u, u_CacheWriteTokens u, u_ReasoningTokens u]"

lemma zero_usage_ok: "counts_ok zero_usage"
  by (simp add: counts_ok_def zero_usage_def MaxInt64_def)

lemma store_count_ok: "counts_ok u \<Longrightarrow> 0 \<le> v \<Longrightarrow> v \<le> MaxInt64 \<Longrightarrow> counts_ok ((store_count i v u)\<lparr>u_Reported := True\<rparr>)"
  by (simp add: counts_ok_def store_count_def)

lemma takes_drop: "takes n raw \<Longrightarrow> \<not> n < 0 \<Longrightarrow> length (drop (nat n) raw) < length raw"
  by (auto simp: takes_def)

lemma protowire_okD:
  assumes "protowire_ok pw"
  shows "takes (snd (snd (pw_ConsumeTag pw b))) b" "takes (snd (pw_ConsumeVarint pw b)) b"
    "0 \<le> snd (pw_ConsumeVarint pw b) \<Longrightarrow> 0 \<le> fst (pw_ConsumeVarint pw b)"
    "takes (pw_ConsumeFieldValue pw num ty b) b"
  using assms unfolding protowire_ok_def by blast+

lemma usage_loop_ends:
  assumes pw: "protowire_ok pw"
  shows "length raw \<le> fuel \<Longrightarrow> counts_ok u \<Longrightarrow>
    \<exists>r. usage_loop fuel pw raw u = Some r \<and> (\<forall>u'. r = Inr u' \<longrightarrow> counts_ok u')"
proof (induction fuel arbitrary: raw u)
  case 0
  then show ?case by simp
next
  case (Suc fuel)
  show ?case
  proof (cases "raw = []")
    case True
    with Suc.prems show ?thesis by simp
  next
    case ne: False
    obtain num ty n where tag: "pw_ConsumeTag pw raw = (num, ty, n)" by (cases "pw_ConsumeTag pw raw") auto
    obtain v k where var: "pw_ConsumeVarint pw (drop (nat n) raw) = (v, k)" by (cases "pw_ConsumeVarint pw (drop (nat n) raw)") auto
    let ?f = "pw_ConsumeFieldValue pw num ty (drop (nat n) raw)"
    have d1: "length (drop (nat n) raw) < length raw" if "\<not> n < 0"
      using takes_drop protowire_okD(1) [OF pw, of raw] that tag by simp
    have d2: "length (drop (nat k) (drop (nat n) raw)) \<le> fuel" if "\<not> n < 0" "\<not> k < 0"
    proof -
      have "length (drop (nat k) (drop (nat n) raw)) < length (drop (nat n) raw)"
        using takes_drop [of k "drop (nat n) raw"] protowire_okD(2) [OF pw, of "drop (nat n) raw"] var that by simp
      with d1 that Suc.prems show ?thesis by linarith
    qed
    have d3: "length (drop (nat ?f) (drop (nat n) raw)) \<le> fuel" if "\<not> n < 0" "\<not> ?f < 0"
    proof -
      have "length (drop (nat ?f) (drop (nat n) raw)) < length (drop (nat n) raw)"
        using takes_drop [of ?f "drop (nat n) raw"] protowire_okD(4) [OF pw, of num ty "drop (nat n) raw"] that by simp
      with d1 that Suc.prems show ?thesis by linarith
    qed
    have c: "counts_ok ((store_count num v u)\<lparr>u_Reported := True\<rparr>)" if "\<not> k < 0" "\<not> MaxInt64 < v"
      using protowire_okD(3) [OF pw, of "drop (nat n) raw"] var that Suc.prems
      by (auto intro!: store_count_ok)
    show ?thesis
      using ne tag var Suc.IH [OF d2 c] Suc.IH [OF d3 Suc.prems(2)]
      by (auto simp: Let_def simp del: drop_drop)
  qed
qed

section \<open>A reading of the wire format\<close>

text \<open>
  A decoder with the documented contract, for concrete inputs: base-128 varints of at most
  ten bytes, 4 and 8 byte scalars and length-delimited fields; groups are rejected.
\<close>

fun varint_at :: "nat \<Rightarrow> string \<Rightarrow> (nat \<times> nat) option" where
  "varint_at 0 b = None"
| "varint_at (Suc f) [] = None"
| "varint_at (Suc f) (c # b) =
     (if byte c < 128 then Some (byte c, 1)
      else map_option (\<lambda>(v, n). ((byte c - 128) + 128 * v, Suc n)) (varint_at f b))"

definition ref_varint :: "string \<Rightarrow> int \<times> int" where
  "ref_varint b = (case varint_at 10 b of Some (v, n) \<Rightarrow> (int v, int n) | None \<Rightarrow> (0, - 1))"

definition ref_tag :: "string \<Rightarrow> int \<times> int \<times> int" where
  "ref_tag b = (case ref_varint b of (v, n) \<Rightarrow>
     if n < 0 then (0, 0, n) else if v div 8 < 1 then (0, 0, - 2) else (v div 8, v mod 8, n))"

definition ref_value :: "int \<Rightarrow> int \<Rightarrow> string \<Rightarrow> int" where
  "ref_value num ty b =
     (let len = int (length b) in
      if ty = 0 then snd (ref_varint b)
      else if ty = 1 then (if 8 \<le> len then 8 else - 1)
      else if ty = 5 then (if 4 \<le> len then 4 else - 1)
      else if ty = 2 then (case ref_varint b of (v, n) \<Rightarrow> if n < 0 \<or> len < n + v then - 1 else n + v)
      else - 3)"

definition ref_wire :: protowire where
  "ref_wire = \<lparr>pw_ConsumeTag = ref_tag, pw_ConsumeVarint = ref_varint,
     pw_ConsumeFieldValue = ref_value, pw_ParseError = (\<lambda>n. PlainErr ''unexpected EOF'')\<rparr>"

lemma varint_at_takes: "varint_at f b = Some (v, n) \<Longrightarrow> 0 < n \<and> n \<le> length b"
proof (induction f b arbitrary: v n rule: varint_at.induct)
  case (3 f c b)
  then show ?case by (cases "varint_at f b") (auto split: if_splits)
qed simp_all

lemma ref_varint_takes: "takes (snd (ref_varint b)) b" "0 \<le> fst (ref_varint b)"
  using varint_at_takes [of 10 b] by (auto simp: ref_varint_def takes_def split: option.splits)

lemma ref_wire_ok: "protowire_ok ref_wire"
proof -
  have "takes (snd (snd (ref_tag b))) b" for b
    using ref_varint_takes(1) [of b] by (auto simp: ref_tag_def takes_def split: prod.splits)
  moreover have "takes (ref_value num ty b) b" for num ty b
    using ref_varint_takes [of b] by (auto simp: ref_value_def takes_def Let_def split: prod.splits)
  ultimately show ?thesis
    using ref_varint_takes by (simp add: protowire_ok_def ref_wire_def)
qed

text \<open>Accumulating a sequence of observations, each a report or a delta.\<close>

definition observe_all :: "(tokenUsage \<times> int) list \<Rightarrow> tokenUsage \<Rightarrow> tokenUsage" where
  "observe_all es u = fold (\<lambda>(r, n) u. observe u r n) es u"

definition reports :: "(tokenUsage \<times> int) list \<Rightarrow> tokenUsage list" where
  "reports es = filter u_Reported (map fst es)"

lemma observe_all_reported:
  "u_Reported u \<Longrightarrow> observe_all es u = (if reports es = [] then u else last (reports es))"
proof (induction es arbitrary: u)
  case (Cons e es)
  then show ?case by (cases e) (auto simp: observe_all_def observe_def reports_def)
qed (simp add: observe_all_def reports_def)

lemma observe_all_last:
  "reports es \<noteq> [] \<Longrightarrow> observe_all es u = last (reports es)"
proof (induction es arbitrary: u)
  case (Cons e es)
  obtain r n where e: "e = (r, n)" by (cases e) auto
  show ?case
  proof (cases "u_Reported r")
    case True
    then have "observe_all (e # es) u = observe_all es r" by (simp add: e observe_all_def observe_def)
    moreover have "reports (e # es) = r # reports es" using True by (simp add: e reports_def)
    ultimately show ?thesis using observe_all_reported [OF True, of es] by simp
  next
    case False
    then have "reports (e # es) = reports es" by (simp add: e reports_def)
    moreover have "observe_all (e # es) u = observe_all es (observe u r n)" by (simp add: e observe_all_def)
    ultimately show ?thesis using Cons.IH [of "observe u r n"] Cons.prems by simp
  qed
qed (simp add: reports_def)

lemma observe_all_deltas:
  "reports es = [] \<Longrightarrow> \<not> u_Reported u \<Longrightarrow> int64 (u_OutputTokens u) \<Longrightarrow>
   (\<And>k. k \<le> length es \<Longrightarrow> int64 (u_OutputTokens u + sum_list (map snd (take k es)))) \<Longrightarrow>
   observe_all es u = u\<lparr>u_OutputTokens := u_OutputTokens u + sum_list (map snd es)\<rparr>"
proof (induction es arbitrary: u)
  case (Cons e es)
  obtain r n where e: "e = (r, n)" by (cases e) auto
  let ?u = "u\<lparr>u_OutputTokens := u_OutputTokens u + n\<rparr>"
  have "int64 (u_OutputTokens u + n)" using Cons.prems(4) [of 1] by (simp add: e)
  then have o: "observe u r n = ?u"
    using Cons.prems(1,2) by (auto simp: e observe_def reports_def split: if_splits)
  have "observe_all es ?u = ?u\<lparr>u_OutputTokens := u_OutputTokens ?u + sum_list (map snd es)\<rparr>"
  proof (rule Cons.IH)
    show "reports es = []" using Cons.prems(1) by (simp add: reports_def split: if_splits)
    show "\<not> u_Reported ?u" using Cons.prems(2) by simp
    show "int64 (u_OutputTokens ?u)" using \<open>int64 (u_OutputTokens u + n)\<close> by simp
    show "int64 (u_OutputTokens ?u + sum_list (map snd (take k es)))" if "k \<le> length es" for k
      using Cons.prems(4) [of "Suc k"] that by (simp add: e add.assoc)
  qed
  then show ?case by (simp add: e o observe_all_def add.assoc)
qed (simp add: observe_all_def)

section \<open>Properties\<close>

text \<open>
  Reading the token usage of a finished turn always ends, whatever bytes the server
  sent, and a count that is reported is never negative and fits \<open>int64\<close>. The decoder of the
  wire format is assumed to take between one and all of the bytes it is given.
\<close>

theorem usage_total:
  assumes "protowire_ok pw"
  shows "\<exists>r. usageFromTurnEnded pw update = Some r \<and> (\<forall>u. r = Inr u \<longrightarrow> counts_ok u)"
  using usage_loop_ends [OF assms, of _ _ zero_usage]
  by (cases update) (auto simp: usageFromTurnEnded_def zero_usage_ok)


theorem usage_total_witness:
  "\<exists>r. usageFromTurnEnded ref_wire (Some [CHR 0x08, CHR 0x80]) = Some r \<and> (\<forall>u. r = Inr u \<longrightarrow> counts_ok u)"
  using usage_total [OF ref_wire_ok] by simp

text \<open>
  The authoritative report wins: once the server has reported the usage of the turn,
  the deltas before and after it no longer count, and the last report is the result.
\<close>

theorem usage_last_report:
  assumes "reports es \<noteq> []"
  shows "observe_all es u = last (reports es)"
  using assms by (rule observe_all_last)

theorem usage_last_report_witness:
  "u_OutputTokens (observe_all [(zero_usage, 7), (zero_usage\<lparr>u_OutputTokens := 40, u_Reported := True\<rparr>, 0),
     (zero_usage, 5)] zero_usage) = 40"
proof -
  let ?es = "[(zero_usage, 7), (zero_usage\<lparr>u_OutputTokens := 40, u_Reported := True\<rparr>, 0), (zero_usage, 5 :: int)]"
  have r: "reports ?es = [zero_usage\<lparr>u_OutputTokens := 40, u_Reported := True\<rparr>]"
    by (simp add: reports_def zero_usage_def)
  then show ?thesis using usage_last_report [of ?es zero_usage] by simp
qed

text \<open>
  The three formats agree on the prompt: for a report within its range whose cache
  counts are part of the input, Anthropic's uncached input plus its cache reads and cache
  writes is the prompt total the OpenAI formats show; the uncached input is never negative.
\<close>

theorem claude_input_partition:
  assumes "counts_ok u" and "u_CacheReadTokens u + u_CacheWriteTokens u \<le> u_InputTokens u"
  shows "0 \<le> claudeInput u
    \<and> claudeInput u + u_CacheReadTokens u + u_CacheWriteTokens u = u_InputTokens u"
proof -
  have "int64 (u_InputTokens u - u_CacheReadTokens u)"
    "int64 (u_InputTokens u - u_CacheReadTokens u - u_CacheWriteTokens u)"
    using assms by (auto simp: counts_ok_def int64_def MaxInt64_def)
  then show ?thesis using assms(2) by (simp add: claudeInput_def)
qed

theorem claude_input_partition_witness:
  "claudeInput (zero_usage\<lparr>u_InputTokens := 1000, u_CacheReadTokens := 700, u_CacheWriteTokens := 100\<rparr>)
     + 700 + 100 = 1000"
  using claude_input_partition [of "zero_usage\<lparr>u_InputTokens := 1000, u_CacheReadTokens := 700, u_CacheWriteTokens := 100\<rparr>"]
  by (simp add: counts_ok_def zero_usage_def MaxInt64_def)

end
