(* ===== verification/Connect_Frames.thy ===== *)
theory Connect_Frames
  imports Go_Errors
begin

text \<open>
  session.go: the frames of the Connect protocol. A frame is a flag byte, the length of its
  payload in four bytes, most significant first, and the payload.
\<close>

section \<open>The code\<close>

definition put_uint32 :: "nat \<Rightarrow> string" where
  "put_uint32 n = [char_of (n div 2 ^ 24 mod 256), char_of (n div 2 ^ 16 mod 256),
     char_of (n div 2 ^ 8 mod 256), char_of (n mod 256)]"

definition uint32 :: "string \<Rightarrow> nat" where
  "uint32 b = ((byte (b ! 0) * 256 + byte (b ! 1)) * 256 + byte (b ! 2)) * 256 + byte (b ! 3)"

text \<open>The frame \<open>send\<close> builds: the flag is zero, the length is converted to 32 bits.\<close>

definition connect_frame :: "char \<times> string \<Rightarrow> string" where
  "connect_frame p = fst p # put_uint32 (length (snd p) mod 2 ^ 32) @ snd p"

definition send_frame :: "string \<Rightarrow> string" where
  "send_frame payload = connect_frame (char_of (0 :: nat), payload)"

text \<open>
  A response body is what it delivers and the error with which it ends, \<open>ErrEOF\<close> being the
  regular end. \<open>io.ReadFull\<close> reports a regular end in the middle as \<open>ErrUnexpectedEOF\<close>.
\<close>

type_synonym body = "string \<times> goerr"

definition ReadFull :: "nat \<Rightarrow> body \<Rightarrow> goerr + (string \<times> body)" where
  "ReadFull n b =
     (if n \<le> length (fst b) then Inr (take n (fst b), (drop n (fst b), snd b))
      else Inl (if fst b \<noteq> [] \<and> snd b = ErrEOF then ErrUnexpectedEOF else snd b))"

definition max_frame :: nat where
  "max_frame = 64 * 2 ^ 20"

definition readConnectFrame :: "body \<Rightarrow> goerr + ((char \<times> string) \<times> body)" where
  "readConnectFrame b =
     rbind (ReadFull 5 b) (\<lambda>(header, b).
       let length = uint32 (drop 1 header) in
       if max_frame < length then Inl (PlainErr ''Cursor frame exceeds 64 MiB'')
       else rbind (ReadFull length b) (\<lambda>(payload, b). Inr ((hd header, payload), b)))"

definition connectFlagCompressed :: "char \<Rightarrow> bool" where
  "connectFlagCompressed flag \<longleftrightarrow> odd (byte flag)"

definition connectFlagEndStream :: "char \<Rightarrow> bool" where
  "connectFlagEndStream flag \<longleftrightarrow> odd (byte flag div 2)"

text \<open>
  \<open>gunzipPayload\<close>: \<open>gzip\<close> is \<open>gzip.NewReader\<close>, which fails on a bad header and otherwise delivers the
  decompressed bytes and an end. The limit is a \<open>LimitReader\<close>'s: it is a regular end.
\<close>

definition gunzipPayload :: "(string \<Rightarrow> goerr + body) \<Rightarrow> string \<Rightarrow> goerr + string" where
  "gunzipPayload gzip payload =
     rbind (gzip payload) (\<lambda>(data, e).
       if 64 * 2 ^ 20 < length data then Inr (take (64 * 2 ^ 20) data)
       else if e = ErrEOF then Inr data else Inl e)"

text \<open>
  A frame whose length is over the limit is refused; one that is over it only after decompression is cut
  off, without an error.
\<close>

lemma gunzip_cuts_off:
  assumes "gzip payload = Inr (data, e)" "max_frame < length data"
  shows "gunzipPayload gzip payload = Inr (take max_frame data)"
  using assms by (simp add: gunzipPayload_def max_frame_def)

lemma gunzip_bounded: "gunzipPayload gzip payload = Inr data \<Longrightarrow> length data \<le> max_frame"
  by (auto simp: gunzipPayload_def res_simps max_frame_def split: if_splits)

section \<open>The interface: reading back what was framed\<close>

locale framing =
  fixes frame :: "'p \<Rightarrow> string"
    and read :: "body \<Rightarrow> goerr + ('p \<times> body)"
    and fits :: "'p \<Rightarrow> bool"
  assumes read_frame: "fits p \<Longrightarrow> read (frame p @ rest, e) = Inr (p, (rest, e))"
    and read_shrinks: "read b = Inr (p, b') \<Longrightarrow> length (fst b') < length (fst b)"
    and read_end: "read ([], e) = Inl e"
begin

primrec read_all :: "nat \<Rightarrow> body \<Rightarrow> 'p list \<times> goerr option" where
  "read_all 0 b = ([], None)"
| "read_all (Suc n) b =
     (case read b of Inl e \<Rightarrow> ([], Some e)
      | Inr (p, b') \<Rightarrow> (case read_all n b' of (ps, e) \<Rightarrow> (p # ps, e)))"

lemma read_all_frames:
  "list_all fits ps \<Longrightarrow> length ps < n \<Longrightarrow> read_all n (concat (map frame ps), e) = (ps, Some e)"
proof (induction ps arbitrary: n)
  case Nil
  then show ?case by (cases n) (simp_all add: read_end)
next
  case (Cons p ps)
  then show ?case by (cases n) (simp_all add: read_frame)
qed

lemma read_all_ends: "length (fst b) < n \<Longrightarrow> \<exists>ps e. read_all n b = (ps, Some e)"
proof (induction n arbitrary: b)
  case (Suc n)
  show ?case
  proof (cases "read b")
    case (Inr pb)
    then obtain p b' where pb: "read b = Inr (p, b')" by (cases pb) auto
    then have "length (fst b') < n" using read_shrinks [OF pb] Suc.prems by simp
    with Suc.IH obtain ps e where "read_all n b' = (ps, Some e)" by blast
    with pb show ?thesis by simp
  qed simp
qed simp

end

lemma put_uint32_length [simp]: "length (put_uint32 n) = 4"
  by (simp add: put_uint32_def)

lemma uint32_put:
  assumes "n < 2 ^ 32"
  shows "uint32 (put_uint32 n) = n"
proof -
  obtain a b c where abc: "a = n div 256" "b = a div 256" "c = b div 256" by simp
  have d: "n div 2 ^ 24 = c" "n div 2 ^ 16 = b" "n div 2 ^ 8 = a"
    by (simp_all add: abc div_mult2_eq [symmetric])
  have "c < 256" using assms by (simp add: abc less_mult_imp_div_less)
  moreover have "n = a * 256 + n mod 256" "a = b * 256 + a mod 256" "b = c * 256 + b mod 256"
    by (simp_all add: abc)
  ultimately show ?thesis
    unfolding uint32_def put_uint32_def d by simp
qed

lemma put_uint32_eq: "put_uint32 n = [put_uint32 n ! 0, put_uint32 n ! 1, put_uint32 n ! 2, put_uint32 n ! 3]"
  by (simp add: put_uint32_def)

lemma max_frame_bound: "n \<le> max_frame \<Longrightarrow> n mod 2 ^ 32 = n" "n \<le> max_frame \<Longrightarrow> n < 2 ^ 32"
  by (simp_all add: max_frame_def)

lemma take_5: "length h = 4 \<Longrightarrow> take 5 (x # h @ r) = x # h" "length h = 4 \<Longrightarrow> drop 5 (x # h @ r) = r"
  by simp_all

lemma readConnectFrame_frame:
  assumes "length (snd p) \<le> max_frame"
  shows "readConnectFrame (connect_frame p @ rest, e) = Inr (p, (rest, e))"
proof -
  note l = max_frame_bound [OF assms]
  let ?h = "put_uint32 (length (snd p))"
  have f: "connect_frame p @ rest = fst p # ?h @ (snd p @ rest)"
    unfolding connect_frame_def l(1) by simp
  have "ReadFull 5 (connect_frame p @ rest, e) = Inr (fst p # ?h, (snd p @ rest, e))"
    unfolding f ReadFull_def by (simp add: take_5)
  moreover have "ReadFull (length (snd p)) (snd p @ rest, e) = Inr (snd p, (rest, e))"
    by (simp add: ReadFull_def)
  ultimately show ?thesis
    using assms by (simp add: readConnectFrame_def uint32_put [OF l(2)])
qed

lemma ReadFull_length: "ReadFull n b = Inr (x, b') \<Longrightarrow> length (fst b) = n + length (fst b') \<and> length x = n"
  by (auto simp: ReadFull_def split: if_splits)

lemma readConnectFrame_shrinks:
  assumes "readConnectFrame b = Inr (p, b')"
  shows "length (fst b) = 5 + length (snd p) + length (fst b')"
  using assms
  by (auto simp: readConnectFrame_def res_simps Let_def split: if_splits dest!: ReadFull_length)

interpretation frames: framing connect_frame readConnectFrame "\<lambda>p. length (snd p) \<le> max_frame"
proof unfold_locales
  show "readConnectFrame ([], e) = Inl e" for e
    by (simp add: readConnectFrame_def ReadFull_def)
  show "length (fst b') < length (fst b)" if "readConnectFrame b = Inr (p, b')" for b p b'
    using readConnectFrame_shrinks [OF that] by simp
qed (simp add: readConnectFrame_frame)

text \<open>A stream that breaks off within a frame is told apart from one that ends between frames.\<close>

lemma truncated_header:
  assumes "s \<noteq> []" "length s < 5"
  shows "readConnectFrame (s, ErrEOF) = Inl ErrUnexpectedEOF"
  using assms by (simp add: readConnectFrame_def ReadFull_def)

text \<open>With one exception: directly after the header of a non-empty frame the end looks regular.\<close>

lemma truncated_after_header:
  assumes "0 < length (snd p)" "length (snd p) \<le> max_frame"
  shows "readConnectFrame (take 5 (connect_frame p), ErrEOF) = Inl ErrEOF"
proof -
  note l = max_frame_bound [OF assms(2)]
  let ?h = "put_uint32 (length (snd p))"
  have "take 5 (connect_frame p) = fst p # ?h"
    unfolding connect_frame_def l(1) using take_5(1) [of ?h "fst p" "snd p"] by simp
  then have "ReadFull 5 (take 5 (connect_frame p), ErrEOF) = Inr (fst p # ?h, ([], ErrEOF))"
    by (simp add: ReadFull_def)
  moreover have "ReadFull (length (snd p)) ([], ErrEOF) = Inl ErrEOF"
    using assms(1) by (simp add: ReadFull_def)
  ultimately show ?thesis
    using assms(2) by (simp add: readConnectFrame_def uint32_put [OF l(2)])
qed

end
