(* ===== verification/Go_Json.thy ===== *)
theory Go_Json
  imports Go_Value Go_Errors
begin

text \<open>
  \<open>encoding/json\<close>, decoding: the syntax (with its white space, numbers, escapes and UTF-8
  repair), \<open>Decoder.Decode\<close>, which reads the first value of the input and leaves the rest,
  \<open>Unmarshal\<close>, which wants the whole input to be one value, and decoding into Go structs.
  The decoder's limit of 10000 nested containers is not modelled.
\<close>

section \<open>Syntax trees\<close>

text \<open>Members keep the order and the duplicates of the text; numbers keep their literal.\<close>

datatype jsonv =
    JNull
  | JBool bool
  | JNum string
  | JStr string
  | JArr "jsonv list"
  | JObj "(string \<times> jsonv) list"

section \<open>Scanning\<close>

definition is_ws :: "char \<Rightarrow> bool" where
  "is_ws c \<longleftrightarrow> byte c = 32 \<or> byte c = 9 \<or> byte c = 10 \<or> byte c = 13"

definition skip_ws :: "string \<Rightarrow> string" where
  "skip_ws s = dropWhile is_ws s"

definition scan_digits :: "string \<Rightarrow> string \<times> string" where
  "scan_digits s = (takeWhile is_digit s, dropWhile is_digit s)"

definition scan_int :: "string \<Rightarrow> (string \<times> string) option" where
  "scan_int s = (case s of [] \<Rightarrow> None
     | c # r \<Rightarrow> if c = CHR ''0'' then Some (''0'', r)
                else if is_digit c then Some (scan_digits s) else None)"

definition scan_frac :: "string \<Rightarrow> (string \<times> string) option" where
  "scan_frac s = (case s of c # r \<Rightarrow>
       if c = CHR ''.'' then
         (case scan_digits r of (ds, r') \<Rightarrow> if ds = [] then None else Some (c # ds, r'))
       else Some ([], s)
     | [] \<Rightarrow> Some ([], s))"

definition scan_exp :: "string \<Rightarrow> (string \<times> string) option" where
  "scan_exp s = (case s of c # r \<Rightarrow>
       if c = CHR ''e'' \<or> c = CHR ''E'' then
         (let (sg, r1) = (case r of d # r' \<Rightarrow> if d = CHR ''+'' \<or> d = CHR ''-'' then ([d], r') else ([], r)
                          | [] \<Rightarrow> ([], r))
          in case scan_digits r1 of (ds, r2) \<Rightarrow> if ds = [] then None else Some (c # sg @ ds, r2))
       else Some ([], s)
     | [] \<Rightarrow> Some ([], s))"

definition scan_number :: "string \<Rightarrow> (string \<times> string) option" where
  "scan_number s =
     (let (sg, s0) = (case s of c # r \<Rightarrow> if c = CHR ''-'' then ([c], r) else ([], s) | [] \<Rightarrow> ([], s))
      in case scan_int s0 of None \<Rightarrow> None | Some (i, s1) \<Rightarrow>
         (case scan_frac s1 of None \<Rightarrow> None | Some (f, s2) \<Rightarrow>
            (case scan_exp s2 of None \<Rightarrow> None | Some (e, s3) \<Rightarrow> Some (sg @ i @ f @ e, s3))))"

definition hex_value :: "char \<Rightarrow> nat option" where
  "hex_value c = (if is_digit c then Some (byte c - 48)
                  else if 97 \<le> byte c \<and> byte c \<le> 102 then Some (byte c - 87)
                  else if 65 \<le> byte c \<and> byte c \<le> 70 then Some (byte c - 55) else None)"

definition hex4 :: "string \<Rightarrow> nat option" where
  "hex4 s = (case s of a # b # c # d # _ \<Rightarrow>
       (case (hex_value a, hex_value b, hex_value c, hex_value d) of
          (Some w, Some x, Some y, Some z) \<Rightarrow> Some (((w * 16 + x) * 16 + y) * 16 + z)
        | _ \<Rightarrow> None)
     | _ \<Rightarrow> None)"

definition encode_rune :: "nat \<Rightarrow> string" where
  "encode_rune r =
     (if r < 128 then [char_of r]
      else if r < 2048 then [char_of (192 + r div 64), char_of (128 + r mod 64)]
      else if r < 65536 then
        [char_of (224 + r div 4096), char_of (128 + r div 64 mod 64), char_of (128 + r mod 64)]
      else [char_of (240 + r div 262144), char_of (128 + r div 4096 mod 64),
            char_of (128 + r div 64 mod 64), char_of (128 + r mod 64)])"

definition replacement :: string where
  "replacement = encode_rune 65533"

definition simple_escape :: "char \<Rightarrow> char option" where
  "simple_escape e =
     (if e = dquote \<or> e = backslash \<or> e = CHR ''/'' then Some e
      else if e = CHR ''b'' then Some (char_of (8::nat)) else if e = CHR ''f'' then Some (char_of (12::nat))
      else if e = CHR ''n'' then Some (char_of (10::nat)) else if e = CHR ''r'' then Some (char_of (13::nat))
      else if e = CHR ''t'' then Some (char_of (9::nat)) else None)"

text \<open>
  A \<open>\u\<close> escape: the code unit, joined with the next escape when the two are a surrogate pair;
  a surrogate on its own becomes U+FFFD. The result says how many bytes the escape takes.
\<close>

definition unicode_escape :: "string \<Rightarrow> (string \<times> nat) option" where
  "unicode_escape s =
     (case hex4 s of None \<Rightarrow> None
      | Some u \<Rightarrow>
          if u < 55296 \<or> 57343 < u then Some (encode_rune u, 4)
          else if u < 56320 then
            (case drop 4 s of b # v # r \<Rightarrow>
               if b = backslash \<and> v = CHR ''u'' then
                 (case hex4 r of Some l \<Rightarrow>
                    if 56320 \<le> l \<and> l \<le> 57343
                    then Some (encode_rune (65536 + (u - 55296) * 1024 + (l - 56320)), 10)
                    else Some (replacement, 4)
                  | None \<Rightarrow> Some (replacement, 4))
               else Some (replacement, 4)
             | _ \<Rightarrow> Some (replacement, 4))
          else Some (replacement, 4))"

text \<open>The contents of a string literal after its opening quote, and what follows its closing one.\<close>

function unquote :: "string \<Rightarrow> (string \<times> string) option" where
  "unquote s = (case s of [] \<Rightarrow> None
     | c # r \<Rightarrow>
        if c = dquote then Some ([], r)
        else if c = backslash then
          (case r of [] \<Rightarrow> None
           | e # r' \<Rightarrow>
              (case simple_escape e of
                 Some x \<Rightarrow> map_option (\<lambda>(t, q). (x # t, q)) (unquote r')
               | None \<Rightarrow>
                   if e = CHR ''u'' then
                     (case unicode_escape r' of None \<Rightarrow> None
                      | Some (x, n) \<Rightarrow> map_option (\<lambda>(t, q). (x @ t, q)) (unquote (drop n r')))
                   else None))
        else if byte c < 32 then None
        else if rune_len s = 0 then map_option (\<lambda>(t, q). (replacement @ t, q)) (unquote r)
        else map_option (\<lambda>(t, q). (take (rune_len s) s @ t, q)) (unquote (drop (rune_len s) s)))"
  by pat_completeness auto
termination
  by (relation "measure length") auto

declare unquote.simps [simp del]

section \<open>Values\<close>

text \<open>
  Recursive descent with fuel. Every two nested calls consume at least one character, so
  \<open>json_fuel s\<close> units are enough for the input \<open>s\<close>.
\<close>

fun parse_value :: "nat \<Rightarrow> string \<Rightarrow> (jsonv \<times> string) option"
  and parse_elems :: "nat \<Rightarrow> string \<Rightarrow> (jsonv list \<times> string) option"
  and parse_members :: "nat \<Rightarrow> string \<Rightarrow> ((string \<times> jsonv) list \<times> string) option"
where
  "parse_value 0 s = None"
| "parse_value (Suc n) s =
     (case skip_ws s of [] \<Rightarrow> None
      | c # r \<Rightarrow>
        if c = dquote then map_option (\<lambda>(t, q). (JStr t, q)) (unquote r)
        else if c = CHR ''{'' then
          (case skip_ws r of [] \<Rightarrow> None
           | d # r' \<Rightarrow> if d = CHR ''}'' then Some (JObj [], r')
                       else map_option (\<lambda>(m, q). (JObj m, q)) (parse_members n (d # r')))
        else if c = CHR ''['' then
          (case skip_ws r of [] \<Rightarrow> None
           | d # r' \<Rightarrow> if d = CHR '']'' then Some (JArr [], r')
                       else map_option (\<lambda>(l, q). (JArr l, q)) (parse_elems n (d # r')))
        else if HasPrefix (c # r) ''true'' then Some (JBool True, drop 3 r)
        else if HasPrefix (c # r) ''false'' then Some (JBool False, drop 4 r)
        else if HasPrefix (c # r) ''null'' then Some (JNull, drop 3 r)
        else map_option (\<lambda>(t, q). (JNum t, q)) (scan_number (c # r)))"
| "parse_elems 0 s = None"
| "parse_elems (Suc n) s =
     (case parse_value n s of None \<Rightarrow> None
      | Some (v, r) \<Rightarrow>
        (case skip_ws r of [] \<Rightarrow> None
         | c # r' \<Rightarrow> if c = CHR '']'' then Some ([v], r')
                     else if c = CHR '','' then map_option (\<lambda>(l, q). (v # l, q)) (parse_elems n r')
                     else None))"
| "parse_members 0 s = None"
| "parse_members (Suc n) s =
     (case skip_ws s of [] \<Rightarrow> None
      | c # r \<Rightarrow> if c \<noteq> dquote then None
        else (case unquote r of None \<Rightarrow> None
          | Some (k, r1) \<Rightarrow>
            (case skip_ws r1 of [] \<Rightarrow> None
             | d # r2 \<Rightarrow> if d \<noteq> CHR '':'' then None
               else (case parse_value n r2 of None \<Rightarrow> None
                 | Some (v, r3) \<Rightarrow>
                   (case skip_ws r3 of [] \<Rightarrow> None
                    | e # r4 \<Rightarrow> if e = CHR ''}'' then Some ([(k, v)], r4)
                       else if e = CHR '','' then map_option (\<lambda>(m, q). ((k, v) # m, q)) (parse_members n r4)
                       else None)))))"

definition json_fuel :: "string \<Rightarrow> nat" where
  "json_fuel s = 2 * length s + 2"

definition json_first :: "string \<Rightarrow> jsonv option" where
  "json_first s = map_option fst (parse_value (json_fuel s) s)"

definition json_whole :: "string \<Rightarrow> jsonv option" where
  "json_whole s = (case parse_value (json_fuel s) s of None \<Rightarrow> None
     | Some (v, r) \<Rightarrow> if skip_ws r = [] then Some v else None)"

text \<open>The text of a syntax error is the library's; it is left unspecified.\<close>

definition json_error_text :: "string \<Rightarrow> string" where
  "json_error_text = undefined"

section \<open>Decimal to binary floating point\<close>

fun bit_length :: "nat \<Rightarrow> nat" where
  "bit_length n = (if n = 0 then 0 else Suc (bit_length (n div 2)))"

declare bit_length.simps [simp del]

text \<open>\<open>num / den\<close> rounded to the nearest integer, ties to even.\<close>

definition round_div :: "nat \<Rightarrow> nat \<Rightarrow> nat" where
  "round_div num den =
     (let q = num div den; r = num mod den
      in if 2 * r < den then q else if den < 2 * r then q + 1 else if even q then q else q + 1)"

definition scale_div :: "nat \<Rightarrow> nat \<Rightarrow> int \<Rightarrow> nat" where
  "scale_div num den e = (if 0 \<le> e then round_div num (den * 2 ^ nat e) else round_div (num * 2 ^ nat (- e)) den)"

text \<open>The double nearest to \<open>num / den > 0\<close>, as mantissa (at most 53 bits) and exponent.\<close>

definition nearest_double :: "nat \<Rightarrow> nat \<Rightarrow> nat \<times> int" where
  "nearest_double num den =
     (let e0 = int (bit_length num) - int (bit_length den) - 53;
          big = (if 0 \<le> e0 then den * 2 ^ (53 + nat e0) \<le> num else den * 2 ^ 53 \<le> num * 2 ^ nat (- e0));
          e = max (if big then e0 + 1 else e0) (- 1074);
          m = scale_div num den e
      in if m = 2 ^ 53 then (2 ^ 52, e + 1) else (m, e))"

fun leading_zeros :: "nat \<Rightarrow> nat \<Rightarrow> nat \<Rightarrow> nat" where
  "leading_zeros 0 num den = 0"
| "leading_zeros (Suc f) num den = (if den \<le> 10 * num then 0 else Suc (leading_zeros f (10 * num) den))"

text \<open>\<open>p\<close> with \<open>10^(p-1) \<le> num/den < 10^p\<close>.\<close>

definition decimal_point :: "nat \<Rightarrow> nat \<Rightarrow> int" where
  "decimal_point num den =
     (if den \<le> num then int (length (nat_digits (num div den)))
      else - int (leading_zeros (length (nat_digits den)) num den))"

text \<open>The decimals with \<open>k\<close> digits next to \<open>num/den\<close> that round to the same double; the nearer first.\<close>

definition digit_candidates :: "nat \<Rightarrow> int \<Rightarrow> nat \<Rightarrow> nat \<Rightarrow> nat \<Rightarrow> nat list" where
  "digit_candidates m e num den k =
     (let x = decimal_point num den - int k;
          un = (if 0 \<le> x then 10 ^ nat x else 1); ud = (if 0 \<le> x then 1 else 10 ^ nat (- x));
          lo = (num * ud) div (den * un);
          ok = (\<lambda>c. c \<noteq> 0 \<and> nearest_double (c * un) ud = (m, e));
          r = (num * ud) mod (den * un);
          both = (if 2 * r \<le> den * un then [lo, lo + 1] else [lo + 1, lo])
      in filter ok both)"

fun strip_zeros :: "nat \<Rightarrow> nat \<Rightarrow> int \<Rightarrow> nat \<times> int" where
  "strip_zeros 0 d e = (d, e)"
| "strip_zeros (Suc f) d e = (if d \<noteq> 0 \<and> d mod 10 = 0 then strip_zeros f (d div 10) (e + 1) else (d, e))"

fun shortest_from :: "nat list \<Rightarrow> nat \<Rightarrow> int \<Rightarrow> nat \<Rightarrow> nat \<Rightarrow> nat \<times> int" where
  "shortest_from [] m e num den = (0, 0)"
| "shortest_from (k # ks) m e num den =
     (case digit_candidates m e num den k of
        [] \<Rightarrow> shortest_from ks m e num den
      | c # _ \<Rightarrow> strip_zeros (Suc k) c (decimal_point num den - int k))"

text \<open>\<open>strconv.ParseFloat\<close> of a JSON number; \<open>None\<close> when it is out of range.\<close>

definition decimal_to_float :: "bool \<Rightarrow> nat \<Rightarrow> int \<Rightarrow> float64 option" where
  "decimal_to_float neg d x =
     (if d = 0 then Some (FDec neg 0 0)
      else let num = (if 0 \<le> x then d * 10 ^ nat x else d); den = (if 0 \<le> x then 1 else 10 ^ nat (- x));
               (m, e) = nearest_double num den
           in if m = 0 then Some (FDec neg 0 0)
              else if 971 < e then None
              else let bn = (if 0 \<le> e then m * 2 ^ nat e else m); bd = (if 0 \<le> e then 1 else 2 ^ nat (- e));
                       (c, y) = shortest_from [1..<18] m e bn bd
                   in Some (FDec neg c y))"

definition parse_exp :: "string \<Rightarrow> int" where
  "parse_exp s =
     (case s of [] \<Rightarrow> 0
      | _ # r \<Rightarrow>
        (let neg = (case r of c # _ \<Rightarrow> c = CHR ''-'' | [] \<Rightarrow> False);
             ds = (case r of c # q \<Rightarrow> if c = CHR ''-'' \<or> c = CHR ''+'' then q else r | [] \<Rightarrow> []);
             n = (case parse_digits 0 ds of Some n \<Rightarrow> int n | None \<Rightarrow> 0)
         in if neg then - n else n))"

definition parse_float :: "string \<Rightarrow> float64 option" where
  "parse_float t =
     (let neg = (case t of c # _ \<Rightarrow> c = CHR ''-'' | [] \<Rightarrow> False);
          u = (if neg then drop 1 t else t);
          i = takeWhile is_digit u; r = dropWhile is_digit u;
          f = (case r of c # q \<Rightarrow> if c = CHR ''.'' then takeWhile is_digit q else [] | [] \<Rightarrow> []);
          ex = dropWhile (\<lambda>c. c \<noteq> CHR ''e'' \<and> c \<noteq> CHR ''E'') r;
          d = (case parse_digits 0 (i @ f) of Some n \<Rightarrow> n | None \<Rightarrow> 0)
      in decimal_to_float neg d (parse_exp ex - int (length f)))"

section \<open>Decoding into any\<close>

text \<open>
  In a map the last of several equal keys wins. Without \<open>UseNumber\<close> a number becomes a
  \<open>float64\<close>, and one out of range is an error.
\<close>

definition collect_fields :: "(string \<times> goval option) list \<Rightarrow> object option" where
  "collect_fields kvs =
     map_option (\<lambda>ps. fold (\<lambda>(k, v). gm_set k v) ps [])
       (those (map (\<lambda>(k, v). map_option (Pair k) v) kvs))"

primrec to_any :: "bool \<Rightarrow> jsonv \<Rightarrow> goval option" where
  "to_any un JNull = Some GNil"
| "to_any un (JBool b) = Some (GBool b)"
| "to_any un (JNum t) = (if un then Some (GNumber t) else map_option GFloat (parse_float t))"
| "to_any un (JStr s) = Some (GStr s)"
| "to_any un (JArr vs) = map_option GList (those (map (to_any un) vs))"
| "to_any un (JObj kvs) = map_option GMap (collect_fields (map (map_prod id (to_any un)) kvs))"

text \<open>\<open>json.Unmarshal(raw, &v)\<close> for \<open>v any\<close>.\<close>

definition unmarshal_any :: "string \<Rightarrow> goval option" where
  "unmarshal_any raw = Option.bind (json_whole raw) (to_any False)"

text \<open>
  \<open>decoder.UseNumber(); decoder.Decode(&m)\<close> for \<open>m map[string]any\<close>: the input's first
  value has to be an object, or \<open>null\<close>, which leaves the map \<open>nil\<close>.
\<close>

definition decode_object :: "string \<Rightarrow> object option" where
  "decode_object raw =
     (case json_first raw of None \<Rightarrow> None
      | Some v \<Rightarrow> (case v of JNull \<Rightarrow> Some []
                   | JObj _ \<Rightarrow> Option.bind (to_any True v) as_map
                   | _ \<Rightarrow> None))"

section \<open>Decoding into structs\<close>

text \<open>
  A member sets the field whose JSON name it equals up to case; members that name no field
  are ignored; \<open>null\<close> leaves a field as it is. A member of the wrong type is remembered as
  an error while the rest is still decoded: the result is the struct and whether all fitted.
\<close>

type_synonym 'r field_decoder = "jsonv \<Rightarrow> 'r \<Rightarrow> 'r \<times> bool"

fun find_field :: "(string \<times> 'r field_decoder) list \<Rightarrow> string \<Rightarrow> 'r field_decoder option" where
  "find_field [] k = None"
| "find_field ((n, d) # fs) k = (if EqualFold n k then Some d else find_field fs k)"

fun decode_members :: "(string \<times> 'r field_decoder) list \<Rightarrow> (string \<times> jsonv) list \<Rightarrow> 'r \<Rightarrow> 'r \<times> bool" where
  "decode_members fs [] r = (r, True)"
| "decode_members fs ((k, v) # kvs) r =
     (case find_field fs k of
        None \<Rightarrow> decode_members fs kvs r
      | Some d \<Rightarrow> (case d v r of (r1, ok1) \<Rightarrow>
                   (case decode_members fs kvs r1 of (r2, ok2) \<Rightarrow> (r2, ok1 \<and> ok2))))"

definition decode_struct :: "(string \<times> 'r field_decoder) list \<Rightarrow> 'r field_decoder" where
  "decode_struct fs v r =
     (case v of JObj kvs \<Rightarrow> decode_members fs kvs r | JNull \<Rightarrow> (r, True) | _ \<Rightarrow> (r, False))"

definition decode_string :: "(string \<Rightarrow> 'r \<Rightarrow> 'r) \<Rightarrow> 'r field_decoder" where
  "decode_string put v r = (case v of JStr s \<Rightarrow> (put s r, True) | JNull \<Rightarrow> (r, True) | _ \<Rightarrow> (r, False))"

definition decode_bool :: "(bool \<Rightarrow> 'r \<Rightarrow> 'r) \<Rightarrow> 'r field_decoder" where
  "decode_bool put v r = (case v of JBool b \<Rightarrow> (put b r, True) | JNull \<Rightarrow> (r, True) | _ \<Rightarrow> (r, False))"

text \<open>A pointer field: \<open>null\<close> stores \<open>nil\<close>.\<close>

definition decode_bool_ptr :: "(bool option \<Rightarrow> 'r \<Rightarrow> 'r) \<Rightarrow> 'r field_decoder" where
  "decode_bool_ptr put v r =
     (case v of JBool b \<Rightarrow> (put (Some b) r, True) | JNull \<Rightarrow> (put None r, True) | _ \<Rightarrow> (r, False))"

text \<open>An integer field takes a literal without fraction and exponent in the range of \<open>int64\<close>.\<close>

definition decode_int :: "(int \<Rightarrow> 'r \<Rightarrow> 'r) \<Rightarrow> 'r field_decoder" where
  "decode_int put v r =
     (case v of JNum t \<Rightarrow> (case Atoi t of Some i \<Rightarrow> (put i r, True) | None \<Rightarrow> (r, False))
      | JNull \<Rightarrow> (r, True) | _ \<Rightarrow> (r, False))"

text \<open>A list of structs; \<open>null\<close> makes it \<open>nil\<close>.\<close>

definition decode_list :: "'e field_decoder \<Rightarrow> 'e \<Rightarrow> ('e list \<Rightarrow> 'r \<Rightarrow> 'r) \<Rightarrow> 'r field_decoder" where
  "decode_list d zero put v r =
     (case v of
        JArr vs \<Rightarrow> (let es = map (\<lambda>x. d x zero) vs in (put (map fst es) r, list_all snd es))
      | JNull \<Rightarrow> (put [] r, True) | _ \<Rightarrow> (r, False))"

text \<open>
  \<open>json.Unmarshal(raw, &r)\<close>: \<open>Inl\<close> on a syntax error, which leaves \<open>r\<close> alone; otherwise
  the struct and whether every member fitted.
\<close>

definition unmarshal_struct :: "'r field_decoder \<Rightarrow> string \<Rightarrow> 'r \<Rightarrow> 'r \<times> bool" where
  "unmarshal_struct d raw r = (case json_whole raw of None \<Rightarrow> (r, False) | Some v \<Rightarrow> d v r)"

end
