(* ===== verification/Http_Client.thy ===== *)
theory Http_Client
  imports Connect_Frames Plugin_Config Go_Json Random_Ids
begin

text \<open>
  http\_client.go: JSON requests to Cursor, the refresh of an access token and the address of
  the login page. The HTTP client of the standard library is a parameter that acts on a
  world \<open>'w\<close>; the hash is the parameter \<open>sha256\<close>.
\<close>

section \<open>Requests and responses\<close>

record http_request =
  rq_Method :: string
  rq_URL :: string
  rq_Header :: http_header
  rq_Body :: string

record http_response =
  hr_StatusCode :: int
  hr_Header :: http_header
  hr_Body :: body

text \<open>\<open>hc_NewRequest\<close> is the error for a malformed URL; \<open>hc_Do\<close> takes the client's timeout.\<close>

record 'w http_client =
  hc_NewRequest :: "string \<Rightarrow> goerr option"
  hc_Do :: "duration \<Rightarrow> http_request \<Rightarrow> 'w \<Rightarrow> 'w \<times> (goerr + http_response)"

definition maxJSONResponseBytes :: nat where
  "maxJSONResponseBytes = 4 * 2 ^ 20"

text \<open>\<open>io.ReadAll(io.LimitReader(body, n))\<close>: an error behind the limit is not seen.\<close>

definition ReadLimited :: "nat \<Rightarrow> body \<Rightarrow> goerr + string" where
  "ReadLimited n b =
     (if n \<le> length (fst b) then Inr (take n (fst b))
      else if snd b = ErrEOF then Inr (fst b) else Inl (snd b))"

text \<open>
  The status, the headers and the result. \<open>unmarshal\<close> decodes into the target, which keeps
  its value \<open>target\<close> when the body is blank.
\<close>

definition doJSON :: "'w http_client \<Rightarrow> string \<Rightarrow> string \<Rightarrow> http_header \<Rightarrow> string \<Rightarrow> duration \<Rightarrow>
    (string \<Rightarrow> 'r option) \<Rightarrow> 'r \<Rightarrow> 'w \<Rightarrow> 'w \<times> int \<times> http_header \<times> (goerr + 'r)" where
  "doJSON hc method endpoint headers reqBody timeout unmarshal target w =
     (case hc_NewRequest hc endpoint of
        Some err \<Rightarrow> (w, 0, [], Inl (WrapErr ''build Cursor request'' err))
      | None \<Rightarrow>
          (case hc_Do hc timeout \<lparr>rq_Method = method, rq_URL = endpoint, rq_Header = headers, rq_Body = reqBody\<rparr> w of
             (w', Inl err) \<Rightarrow> (w', 0, [], Inl (WrapErr ''send Cursor request'' err))
           | (w', Inr resp) \<Rightarrow>
               (w', hr_StatusCode resp, hr_Header resp,
                (case ReadLimited (maxJSONResponseBytes + 1) (hr_Body resp) of
                   Inl err \<Rightarrow> Inl (WrapErr ''read Cursor response'' err)
                 | Inr raw \<Rightarrow>
                     if maxJSONResponseBytes < length raw then
                       Inl (PlainErr (''Cursor response exceeds '' @ Itoa (int maxJSONResponseBytes) @ '' bytes''))
                     else if hr_StatusCode resp < 200 \<or> 300 \<le> hr_StatusCode resp then
                       Inl (UpstreamErr \<lparr>ue_Status = hr_StatusCode resp, ue_Body = raw, ue_Headers = hr_Header resp\<rparr>)
                     else if 0 < length (TrimSpace raw) then
                       (case unmarshal raw of
                          None \<Rightarrow> Inl (WrapErr ''decode Cursor response'' (JsonErr (json_error_text raw)))
                        | Some r \<Rightarrow> Inr r)
                     else Inr target))))"

text \<open>Decoding into a struct: any misfit is an error.\<close>

definition unmarshal_strict :: "'r field_decoder \<Rightarrow> 'r \<Rightarrow> string \<Rightarrow> 'r option" where
  "unmarshal_strict d r raw = (case unmarshal_struct d raw r of (r', ok) \<Rightarrow> if ok then Some r' else None)"

section \<open>Token refresh\<close>

record refreshResponse =
  rf_AccessToken :: string
  rf_RefreshToken :: string

definition decode_refresh :: "refreshResponse field_decoder" where
  "decode_refresh = decode_struct
     [(''accessToken'', decode_string (\<lambda>s r. r\<lparr>rf_AccessToken := s\<rparr>)),
      (''refreshToken'', decode_string (\<lambda>s r. r\<lparr>rf_RefreshToken := s\<rparr>))]"

definition zero_refresh :: refreshResponse where
  "zero_refresh = \<lparr>rf_AccessToken = [], rf_RefreshToken = []\<rparr>"

definition exchangeRefreshToken :: "'w http_client \<Rightarrow> string \<Rightarrow> Config \<Rightarrow> 'w \<Rightarrow> 'w \<times> (goerr + refreshResponse)" where
  "exchangeRefreshToken hc refresh cfg w =
     (case doJSON hc ''POST'' (TrimRightSlash (cfg_CursorBaseURL cfg) @ ''/auth/exchange_user_api_key'')
         [(''Authorization'', [''Bearer '' @ refresh]), (''Content-Type'', [''application/json'']), (''Accept'', [''application/json''])]
         ''{}'' (30 * second) (unmarshal_strict decode_refresh zero_refresh) zero_refresh w of
        (w', _, _, Inl err) \<Rightarrow> (w', Inl (WrapErr ''refresh Cursor access token'' err))
      | (w', _, _, Inr response) \<Rightarrow>
          (w', if TrimSpace (rf_AccessToken response) = []
               then Inl (PlainErr ''Cursor refresh response contained no access token'') else Inr response))"

section \<open>The login page\<close>

text \<open>\<open>url.QueryEscape\<close> and \<open>url.Values.Encode\<close>, the latter on values sorted by key.\<close>

definition upper_hex :: "nat \<Rightarrow> char" where
  "upper_hex d = (if d < 10 then char_of (48 + d) else char_of (55 + d))"

definition escape_char :: "char \<Rightarrow> string" where
  "escape_char c =
     (if is_upper c \<or> is_lower c \<or> is_digit c \<or> c \<in> set ''-_.~'' then [c]
      else if c = CHR '' '' then ''+''
      else [CHR ''%'', upper_hex (byte c div 16), upper_hex (byte c mod 16)])"

definition QueryEscape :: "string \<Rightarrow> string" where
  "QueryEscape s = concat (map escape_char s)"

definition encode_values :: "(string \<times> string) list \<Rightarrow> string" where
  "encode_values kvs = Join ''&'' (map (\<lambda>(k, v). QueryEscape k @ ''='' @ QueryEscape v) (sort_key fst kvs))"

definition loginURL :: "(string \<Rightarrow> string) \<Rightarrow> string \<Rightarrow> string \<Rightarrow> string" where
  "loginURL sha256 uuid verifier =
     ''https://www.cursor.com/loginDeepControl?'' @
       encode_values [(''challenge'', RawURLEncode (sha256 verifier)), (''uuid'', uuid), (''mode'', ''login''),
         (''redirectTarget'', ''cli'')]"

section \<open>Lemmas\<close>

text \<open>No response body the plugin decodes is longer than the limit.\<close>

lemma doJSON_bounded:
  assumes "doJSON hc method endpoint headers reqBody timeout unmarshal target w = (w', st, hs, Inr r)"
  shows "r = target \<or> (\<exists>raw. length raw \<le> maxJSONResponseBytes \<and> unmarshal raw = Some r)"
  using assms by (auto simp: doJSON_def split: option.splits prod.splits sum.splits if_splits)

text \<open>A status outside 2xx with a readable body is always an \<open>UpstreamError\<close> with that status.\<close>

lemma doJSON_upstream:
  assumes "doJSON hc method endpoint headers reqBody timeout unmarshal target w = (w', st, hs, Inl (UpstreamErr u))"
  shows "ue_Status u = st \<and> ue_Headers u = hs \<and> (st < 200 \<or> 300 \<le> st)"
  using assms by (auto simp: doJSON_def split: option.splits prod.splits sum.splits if_splits)

lemma exchange_has_token:
  "exchangeRefreshToken hc refresh cfg w = (w', Inr r) \<Longrightarrow> TrimSpace (rf_AccessToken r) \<noteq> []"
  by (auto simp: exchangeRefreshToken_def split: prod.splits sum.splits if_splits)

text \<open>Escaped text has no separator of a query, so encoded values can be told apart.\<close>

lemma QueryEscape_separators: "set (QueryEscape s) \<inter> set ''&=?#'' = {}"
proof -
  have "c \<notin> set (escape_char x)" if "c \<in> set ''&=?#''" for c x
  proof -
    have u: "upper_hex d \<notin> set ''&=?#''" if "d < 16" for d
    proof -
      have "upper_hex d \<in> upper_hex ` {0..<16}" using that by simp
      also have "\<dots> = set (map upper_hex [0..<16])" by simp
      finally show ?thesis by (auto simp: upper_hex_def upt_rec char_of_def bit_0)
    qed
    have "byte x div 16 < 16" "byte x mod 16 < 16" using byte_parts(2) [of x] by simp_all
    then have "upper_hex (byte x div 16) \<noteq> c" "upper_hex (byte x mod 16) \<noteq> c"
      using u that by blast+
    moreover have "\<not> is_upper c \<and> \<not> is_lower c \<and> \<not> is_digit c"
      using that by (auto simp: is_upper_def is_lower_def is_digit_def)
    ultimately show ?thesis using that by (auto simp: escape_char_def)
  qed
  then show ?thesis by (fastforce simp: QueryEscape_def)
qed

text \<open>A server for the examples, which gives one answer to every request.\<close>

definition demo_http :: "string \<Rightarrow> unit http_client" where
  "demo_http raw = \<lparr>hc_NewRequest = (\<lambda>_. None),
     hc_Do = (\<lambda>_ _ w. (w, Inr \<lparr>hr_StatusCode = 200, hr_Header = [], hr_Body = (raw, ErrEOF)\<rparr>))\<rparr>"

lemma doJSON_demo:
  assumes "length raw \<le> 1000" "TrimSpace raw \<noteq> []" "unmarshal raw = Some r"
  shows "doJSON (demo_http raw) method url hs body timeout unmarshal target () = ((), 200, [], Inr r)"
  using assms by (simp add: doJSON_def demo_http_def ReadLimited_def maxJSONResponseBytes_def)

end
