(* ===== verification/Turn_Types.thy ===== *)
theory Turn_Types
  imports Usage
begin

text \<open>
  The values that pass between the translation of a request, the session with Cursor and
  the rendering of the response: tool identities and tool calls (tools.go, executor.go), the
  input and the events of a turn (session.go).
\<close>

section \<open>Tools\<close>

record toolIdentity =
  tid_Name :: string
  tid_Namespace :: string
  tid_Custom :: bool

text \<open>A \<open>map[string]any\<close> that may be \<open>nil\<close>: as a value, \<open>nil\<close> is encoded as \<open>null\<close>.\<close>

definition nilable :: "object option \<Rightarrow> goval" where
  "nilable m = (case m of None \<Rightarrow> GNil | Some kvs \<Rightarrow> GMap kvs)"

record toolCall =
  tc_ID :: string
  tc_Name :: string
  tc_Namespace :: string
  tc_Custom :: bool
  tc_Args :: "object option"

section \<open>Turns\<close>

record TurnInput =
  in_RootMessages :: "string list"
  in_UserText :: string
  in_Tools :: "McpToolDefinition list"
  in_ToolIdentities :: "(string, toolIdentity) gomap"

record TurnEvent =
  te_Type :: string
  te_Text :: string
  te_ToolCallID :: string
  te_ToolName :: string
  te_ToolNamespace :: string
  te_ToolCustom :: bool
  te_ToolArgs :: "object option"
  te_Tokens :: int
  te_Usage :: tokenUsage
  te_DoneReason :: string
  te_Err :: "goerr option"

text \<open>The literal \<open>TurnEvent{Type: t, ...}\<close> leaves every other field at its zero value.\<close>

definition event_of :: "string \<Rightarrow> TurnEvent" where
  "event_of t = \<lparr>te_Type = t, te_Text = [], te_ToolCallID = [], te_ToolName = [],
     te_ToolNamespace = [], te_ToolCustom = False, te_ToolArgs = None, te_Tokens = 0,
     te_Usage = zero_usage, te_DoneReason = [], te_Err = None\<rparr>"

definition text_event :: "string \<Rightarrow> TurnEvent" where
  "text_event t = (event_of ''text'')\<lparr>te_Text := t\<rparr>"

definition thinking_event :: "string \<Rightarrow> TurnEvent" where
  "thinking_event t = (event_of ''thinking'')\<lparr>te_Text := t\<rparr>"

definition tokens_event :: "int \<Rightarrow> TurnEvent" where
  "tokens_event n = (event_of ''usage'')\<lparr>te_Tokens := n\<rparr>"

definition usage_event :: "tokenUsage \<Rightarrow> TurnEvent" where
  "usage_event u = (event_of ''usage'')\<lparr>te_Usage := u\<rparr>"

definition done_event :: "string \<Rightarrow> TurnEvent" where
  "done_event reason = (event_of ''done'')\<lparr>te_DoneReason := reason\<rparr>"

definition error_event :: "goerr \<Rightarrow> TurnEvent" where
  "error_event e = (event_of ''done'')\<lparr>te_DoneReason := ''error'', te_Err := Some e\<rparr>"

lemmas event_defs = event_of_def text_event_def thinking_event_def tokens_event_def
  usage_event_def done_event_def error_event_def

text \<open>tools.go: \<open>toolCallFromEvent\<close>.\<close>

definition toolCallFromEvent :: "TurnEvent \<Rightarrow> toolCall" where
  "toolCallFromEvent event =
     \<lparr>tc_ID = te_ToolCallID event, tc_Name = te_ToolName event, tc_Namespace = te_ToolNamespace event,
      tc_Custom = te_ToolCustom event, tc_Args = te_ToolArgs event\<rparr>"

end
