(* ===== verification/Tools.thy ===== *)
theory Tools
  imports Turn_Types
begin

text \<open>
  tools.go: the caller's tool declarations as MCP tools of Cursor, the names under which
  Cursor sees them, and the way back from a call to the caller's tool.
\<close>

section \<open>The code\<close>

definition callerToolName :: "string \<Rightarrow> string \<Rightarrow> string" where
  "callerToolName namespace name = (if namespace = [] then name else namespace @ ''__'' @ name)"

text \<open>The error of \<open>json.Marshal\<close> names the first value, in the order of encoding, that has no JSON form.\<close>

fun unsupported_float :: "float64 \<Rightarrow> string list" where
  "unsupported_float FNaN = [''NaN'']"
| "unsupported_float (FInf neg) = [if neg then ''-Inf'' else ''+Inf'']"
| "unsupported_float (FDec _ _ _) = []"

primrec unsupported_values :: "goval \<Rightarrow> string list" where
  "unsupported_values GNil = []"
| "unsupported_values (GBool b) = []"
| "unsupported_values (GNumber t) = []"
| "unsupported_values (GInt i) = []"
| "unsupported_values (GFloat f) = unsupported_float f"
| "unsupported_values (GStr s) = []"
| "unsupported_values (GList vs) = concat (map unsupported_values vs)"
| "unsupported_values (GMap kvs) = concat (map snd (sort_key fst (map (map_prod id unsupported_values) kvs)))"

definition marshal_error :: "goval \<Rightarrow> goerr" where
  "marshal_error v = JsonErr (''json: unsupported value: '' @
     (case unsupported_values v of t # _ \<Rightarrow> t | [] \<Rightarrow> []))"

text \<open>What \<open>visit\<close> accumulates: the MCP tools and the identities by wire name.\<close>

type_synonym tool_table = "McpToolDefinition list \<times> (string, toolIdentity) gomap"

text \<open>The schema of a custom tool without one of its own, and the note on its input format.\<close>

definition custom_schema :: goval where
  "custom_schema = GMap [(''type'', GStr ''object''),
     (''properties'', GMap [(''input'', GMap [(''type'', GStr ''string'')])]),
     (''required'', GList [GStr ''input'']), (''additionalProperties'', GBool False)]"

definition custom_description :: "goval \<Rightarrow> string \<Rightarrow> goerr + string" where
  "custom_description format description =
     (if format = GNil then Inr description
      else (case json_marshal format of
              None \<Rightarrow> Inl (marshal_error format)
            | Some raw \<Rightarrow> Inr (description @ [CHR 0x0A] @
                ''Pass the raw tool input in the input string. Input format: '' @ raw)))"

definition tool_definition :: "string \<Rightarrow> string \<Rightarrow> string \<Rightarrow> McpToolDefinition" where
  "tool_definition wireName description schema =
     \<lparr>td_Name = wireName, td_ProviderIdentifier = ''openai-caller'', td_ToolName = wireName,
      td_Description = description, td_InputSchemaJson = schema\<rparr>"

definition declared_schema :: "object \<Rightarrow> goval" where
  "declared_schema definition0 =
     (if field definition0 ''parameters'' = GNil then field definition0 ''input_schema''
      else field definition0 ''parameters'')"

definition is_custom :: "string \<Rightarrow> object \<Rightarrow> bool" where
  "is_custom kind definition0 \<longleftrightarrow> kind = ''custom'' \<and> declared_schema definition0 = GNil"

definition wire_schema :: "string \<Rightarrow> object \<Rightarrow> goval" where
  "wire_schema kind definition0 =
     (if is_custom kind definition0 then custom_schema
      else if declared_schema definition0 = GNil then GMap [(''type'', GStr ''object'')]
      else declared_schema definition0)"

definition wire_description :: "string \<Rightarrow> object \<Rightarrow> string \<Rightarrow> string \<Rightarrow> goerr + string" where
  "wire_description kind definition0 namespace name =
     (let description = stringValue (field definition0 ''description'');
          description = (if namespace \<noteq> [] then namespace @ ''.'' @ name @ '': '' @ description else description)
      in if is_custom kind definition0 then custom_description (field definition0 ''format'') description
         else Inr description)"

text \<open>The body of the loop for a tool that is not a namespace, once it has a name.\<close>

definition add_named :: "string \<Rightarrow> object \<Rightarrow> string \<Rightarrow> string \<Rightarrow> tool_table \<Rightarrow> goerr + tool_table" where
  "add_named kind definition0 namespace name st =
     (let wireName = callerToolName namespace name in
      if gm_get (snd st) wireName \<noteq> None then
        Inl (StatusErr (status_error ''duplicate_tool'' ''caller tool names collide after namespace encoding'' 400))
      else rbind (wire_description kind definition0 namespace name) (\<lambda>description.
        case json_marshal (wire_schema kind definition0) of
          None \<Rightarrow> Inl (StatusErr (status_error ''invalid_tool'' ''tool schema is not valid JSON'' 400))
        | Some text0 \<Rightarrow>
            Inr (fst st @ [tool_definition wireName description text0],
                 gm_set wireName \<lparr>tid_Name = name, tid_Namespace = namespace,
                   tid_Custom = is_custom kind definition0\<rparr> (snd st))))"

definition nested_definition :: "object \<Rightarrow> object" where
  "nested_definition tool =
     (case as_map (field tool ''function'') of Some nested \<Rightarrow> nested | None \<Rightarrow> tool)"

definition add_tool :: "object \<Rightarrow> string \<Rightarrow> tool_table \<Rightarrow> goerr + tool_table" where
  "add_tool tool namespace st =
     (let kind = stringValue (field tool ''type'') in
      if kind \<noteq> [] \<and> kind \<noteq> ''function'' \<and> kind \<noteq> ''custom'' then Inr st
      else let definition0 = nested_definition tool;
               name = firstNonEmpty [stringValue (field definition0 ''name''), stringValue (field tool ''name'')]
           in if name = [] then Inr st else add_named kind definition0 namespace name st)"

text \<open>The recursion into namespaces goes into a part of the value, which ends it.\<close>

lemma size_list_or_nil: "size_list size (list_or_nil v) \<le> size v"
  by (cases v) (simp_all add: list_or_nil_def)

lemma size_as_map_field: "as_map v = Some m \<Longrightarrow> size (field m k) < size v"
proof -
  assume "as_map v = Some m"
  then have v: "v = GMap m" by (cases v) auto
  show ?thesis
  proof (cases "map_of m k")
    case None
    then show ?thesis by (simp add: field_def v)
  next
    case (Some x)
    then have "(k, x) \<in> set m" by (rule map_of_SomeD)
    then have "size_prod (\<lambda>_. 0) size (k, x) \<le> size_list (size_prod (\<lambda>_. 0) size) m"
      by (rule size_list_estimation') simp
    with Some show ?thesis by (simp add: field_def v)
  qed
qed

function (sequential) visit :: "goval \<Rightarrow> string \<Rightarrow> tool_table \<Rightarrow> goerr + tool_table"
  and visit_items :: "goval list \<Rightarrow> string \<Rightarrow> tool_table \<Rightarrow> goerr + tool_table"
where
  "visit value namespace st = visit_items (list_or_nil value) namespace st"
| "visit_items [] namespace st = Inr st"
| "visit_items (item # items) namespace st =
     (case as_map item of
        None \<Rightarrow> visit_items items namespace st
      | Some tool \<Rightarrow>
          if stringValue (field tool ''type'') = ''namespace'' then
            (let name = stringValue (field tool ''name'') in
             if name = [] then
               Inl (StatusErr (status_error ''invalid_tool'' ''tool namespace has no name'' 400))
             else (case visit (field tool ''tools'') (callerToolName namespace name) st of
                     Inl err \<Rightarrow> Inl err
                   | Inr st' \<Rightarrow> visit_items items namespace st'))
          else (case add_tool tool namespace st of
                  Inl err \<Rightarrow> Inl err
                | Inr st' \<Rightarrow> visit_items items namespace st'))"
  by pat_completeness auto
termination
  by (relation "measure (\<lambda>x. case x of Inl (v, _, _) \<Rightarrow> Suc (size v) | Inr (items, _, _) \<Rightarrow> size_list size items)")
    (auto simp: size_list_or_nil le_imp_less_Suc dest!: size_as_map_field [of _ _ "''tools''"])

definition parseTools :: "goval \<Rightarrow> goerr + tool_table" where
  "parseTools value = visit value [] ([], [])"

text \<open>The two names of a call are tried in this order.\<close>

definition resolveToolIdentity :: "McpArgs \<Rightarrow> (string, toolIdentity) gomap \<Rightarrow> goerr + toolIdentity" where
  "resolveToolIdentity args identities =
     (case gm_get identities (ma_ToolName args) of
        Some identity \<Rightarrow> Inr identity
      | None \<Rightarrow> (case gm_get identities (ma_Name args) of
                   Some identity \<Rightarrow> Inr identity
                 | None \<Rightarrow> Inl (StatusErr (status_error ''unknown_tool''
                     ''Cursor requested a tool not declared by the caller'' 502))))"

definition responseToolItem :: "toolCall \<Rightarrow> object" where
  "responseToolItem call =
     [(''id'', GStr (tc_ID call)), (''call_id'', GStr (tc_ID call)), (''name'', GStr (tc_Name call)),
      (''status'', GStr ''completed'')]
     @ (if tc_Namespace call \<noteq> [] then [(''namespace'', GStr (tc_Namespace call))] else [])
     @ (if tc_Custom call then
          [(''type'', GStr ''custom_tool_call''),
           (''input'', GStr (string_or_empty (field (map_or_nil (nilable (tc_Args call))) ''input'')))]
        else
          [(''type'', GStr ''function_call''),
           (''arguments'', GStr (marshal_or_nil (nilable (tc_Args call))))])"

definition historyToolName :: "object \<Rightarrow> string" where
  "historyToolName message =
     callerToolName (TrimSpace (stringValue (field message ''namespace''))) (stringValue (field message ''name''))"

text \<open>
  The rewriting of one part, and of the content of one message. A type assertion without
  comma-ok panics; \<open>None\<close> is such a panic.
\<close>

definition wrap_part :: "object \<Rightarrow> object" where
  "wrap_part part =
     (if field part ''type'' = GStr ''tool-call'' then
        gm_set ''toolName'' (GStr ''CallDynamicTool'')
          (gm_set ''args'' (GMap [(''namespace'', GStr ''openai-caller''),
             (''toolName'', field part ''toolName''), (''arguments'', field part ''args'')]) part)
      else if field part ''type'' = GStr ''tool-result'' then
        gm_set ''toolName'' (GStr ''CallDynamicTool'') part
      else part)"

definition wrap_message :: "object \<Rightarrow> object option" where
  "wrap_message message =
     (case as_list (field message ''content'') of
        None \<Rightarrow> Some message
      | Some parts \<Rightarrow>
          map_option (\<lambda>ps. gm_set ''content'' (GList (map (GMap \<circ> wrap_part) ps)) message)
            (those (map as_map parts)))"

definition cursorToolHistory :: "goval list \<Rightarrow> goval list option" where
  "cursorToolHistory messages =
     those (map (\<lambda>item. Option.bind (as_map item) (\<lambda>m. map_option GMap (wrap_message m))) messages)"

section \<open>The tool table\<close>

text \<open>
  The invariant of the table: the tools stand in the order of their identities, each under
  its own wire name, which is the encoding of its identity.
\<close>

definition table_ok :: "tool_table \<Rightarrow> bool" where
  "table_ok st \<longleftrightarrow>
     distinct (gm_keys (snd st)) \<and> map td_Name (fst st) = gm_keys (snd st)
     \<and> list_all (\<lambda>t. td_ToolName t = td_Name t \<and> td_ProviderIdentifier t = ''openai-caller'') (fst st)
     \<and> list_all (\<lambda>(w, i). w = callerToolName (tid_Namespace i) (tid_Name i) \<and> tid_Name i \<noteq> []) (snd st)"

lemma table_ok_empty: "table_ok ([], [])"
  by (simp add: table_ok_def)

lemma table_ok_add:
  assumes "table_ok st" "w \<notin> set (gm_keys (snd st))" "w = callerToolName ns name" "name \<noteq> []"
  shows "table_ok (fst st @ [tool_definition w d s],
     gm_set w \<lparr>tid_Name = name, tid_Namespace = ns, tid_Custom = c\<rparr> (snd st))"
  using assms by (simp add: table_ok_def gm_set_absent tool_definition_def)

lemma add_named_ok:
  assumes "add_named kind d ns name st = Inr st'" "name \<noteq> []" "table_ok st"
  shows "table_ok st'"
  using assms
  by (auto simp: add_named_def Let_def res_simps map_of_eq_None_iff table_ok_add split: if_splits option.splits)

lemma add_tool_ok: "add_tool tool ns st = Inr st' \<Longrightarrow> table_ok st \<Longrightarrow> table_ok st'"
  by (auto simp: add_tool_def Let_def simp del: firstNonEmpty.simps split: if_splits dest: add_named_ok)

lemma visit_ok:
  "visit v ns st = Inr st' \<Longrightarrow> table_ok st \<Longrightarrow> table_ok st'"
  "visit_items items ns st = Inr st' \<Longrightarrow> table_ok st \<Longrightarrow> table_ok st'"
proof (induction v ns st and items ns st arbitrary: st' and st' rule: visit_visit_items.induct)
  case (3 item items ns st)
  show ?case
  proof (cases "as_map item")
    case None
    with 3 show ?thesis by simp
  next
    case (Some tool)
    show ?thesis
    proof (cases "stringValue (field tool ''type'') = ''namespace''")
      case True
      then obtain st1 where
        "visit (field tool ''tools'') (callerToolName ns (stringValue (field tool ''name''))) st = Inr st1"
        "visit_items items ns st1 = Inr st'" "stringValue (field tool ''name'') \<noteq> []"
        using 3(5) Some by (auto simp: Let_def split: if_splits sum.splits)
      then show ?thesis using 3(2) [OF Some True refl] 3(3) [OF Some True refl] 3(6) by metis
    next
      case False
      then obtain st1 where "add_tool tool ns st = Inr st1" "visit_items items ns st1 = Inr st'"
        using 3(5) Some by (auto split: sum.splits)
      then show ?thesis using 3(4) [OF Some False] add_tool_ok 3(6) by metis
    qed
  qed
qed simp_all

lemma parseTools_ok: "parseTools v = Inr st \<Longrightarrow> table_ok st"
  unfolding parseTools_def using table_ok_empty by (rule visit_ok(1) [rotated])

lemma table_lookup:
  assumes "table_ok (tools, identities)"
  shows "gm_get identities w \<noteq> None \<longleftrightarrow> w \<in> set (map td_Name tools)"
    and "gm_get identities w = Some i \<Longrightarrow> callerToolName (tid_Namespace i) (tid_Name i) = w \<and> tid_Name i \<noteq> []"
proof -
  from assms have keys: "map td_Name tools = gm_keys identities" by (simp add: table_ok_def)
  show "gm_get identities w \<noteq> None \<longleftrightarrow> w \<in> set (map td_Name tools)"
    unfolding keys by (simp add: map_of_eq_None_iff)
  show "callerToolName (tid_Namespace i) (tid_Name i) = w \<and> tid_Name i \<noteq> []" if "gm_get identities w = Some i"
    using map_of_SomeD [OF that] assms by (auto simp: table_ok_def list_all_iff)
qed

section \<open>Properties\<close>

text \<open>
  C13. Every tool Cursor is told about can be called and no other: the wire names are
  pairwise distinct; a call resolves exactly when one of its two names was declared, to an
  identity whose encoding is that name; any other call is answered with a 502.
\<close>

theorem declared_tools_resolve:
  assumes "parseTools v = Inr (tools, identities)"
  shows "distinct (map td_Name tools) \<and>
    (case resolveToolIdentity args identities of
       Inr i \<Rightarrow> tid_Name i \<noteq> []
         \<and> callerToolName (tid_Namespace i) (tid_Name i) \<in> set (map td_Name tools) \<inter> {ma_ToolName args, ma_Name args}
     | Inl err \<Rightarrow> ma_ToolName args \<notin> set (map td_Name tools) \<and> ma_Name args \<notin> set (map td_Name tools)
         \<and> map_option se_HTTPStatus (as_status err) = Some 502)"
proof -
  have ok: "table_ok (tools, identities)" using assms by (rule parseTools_ok)
  then have d: "distinct (map td_Name tools)" by (simp add: table_ok_def)
  show ?thesis
    using d table_lookup [OF ok, of "ma_ToolName args"] table_lookup [OF ok, of "ma_Name args"]
    by (auto simp: resolveToolIdentity_def status_error_def split: option.split)
qed

definition fs_tools :: goval where
  "fs_tools = GList [GMap [(''type'', GStr ''namespace''), (''name'', GStr ''fs''),
     (''tools'', GList [GMap [(''type'', GStr ''function''), (''name'', GStr ''read'')]])]]"

lemma parse_fs_tools:
  "parseTools fs_tools = Inr (
     [tool_definition ''fs__read'' ''fs.read: '' (the (json_marshal (GMap [(''type'', GStr ''object'')])))],
     [(''fs__read'', \<lparr>tid_Name = ''read'', tid_Namespace = ''fs'', tid_Custom = False\<rparr>)])"
  by code_simp

theorem declared_tools_resolve_witness:
  "(\<exists>i. resolveToolIdentity \<lparr>ma_Name = ''fs__read'', ma_Args = [], ma_ToolCallId = [], ma_ToolName = []\<rparr>
      [(''fs__read'', \<lparr>tid_Name = ''read'', tid_Namespace = ''fs'', tid_Custom = False\<rparr>)] = Inr i
      \<and> callerToolName (tid_Namespace i) (tid_Name i) = ''fs__read'')
   \<and> distinct (map td_Name [tool_definition ''fs__read'' ''fs.read: '' (the (json_marshal (GMap [(''type'', GStr ''object'')])))])"
  using declared_tools_resolve [OF parse_fs_tools,
    of "\<lparr>ma_Name = ''fs__read'', ma_Args = [], ma_ToolCallId = [], ma_ToolName = []\<rparr>"]
  by (simp add: resolveToolIdentity_def callerToolName_def)

end
