(* ===== verification/Cursor_Errors.thy ===== *)
theory Cursor_Errors
  imports Go_Json
begin

text \<open>
  errors.go: how an error body of the Cursor service becomes the \<open>StatusError\<close> the host
  acts on (its code, HTTP status, whether it may be retried and after how long).
\<close>

section \<open>The error envelope\<close>

text \<open>
  One entry of \<open>error.details\<close>, its nested structs flattened. \<open>providerStatusCode\<close> is a
  \<open>json.RawMessage\<close>: the value is kept undecoded (\<open>None\<close> when the member is absent).
\<close>

record cursorErrorDetail =
  ced_Error :: string
  ced_Title :: string
  ced_Detail :: string
  ced_IsRetryable :: "bool option"
  ced_ChatMessage :: string
  ced_ProviderStatusCode :: "jsonv option"

record cursorErrorEnvelope =
  cee_Code :: string
  cee_Message :: string
  cee_Details :: "cursorErrorDetail list"

definition zero_detail :: cursorErrorDetail where
  "zero_detail = \<lparr>ced_Error = [], ced_Title = [], ced_Detail = [], ced_IsRetryable = None,
     ced_ChatMessage = [], ced_ProviderStatusCode = None\<rparr>"

definition zero_envelope :: cursorErrorEnvelope where
  "zero_envelope = \<lparr>cee_Code = [], cee_Message = [], cee_Details = []\<rparr>"

definition decode_additionalInfo :: "cursorErrorDetail field_decoder" where
  "decode_additionalInfo = decode_struct
     [(''chatMessage'', decode_string (\<lambda>s d. d\<lparr>ced_ChatMessage := s\<rparr>)),
      (''providerStatusCode'', \<lambda>v d. (d\<lparr>ced_ProviderStatusCode := Some v\<rparr>, True))]"

definition decode_debug_details :: "cursorErrorDetail field_decoder" where
  "decode_debug_details = decode_struct
     [(''title'', decode_string (\<lambda>s d. d\<lparr>ced_Title := s\<rparr>)),
      (''detail'', decode_string (\<lambda>s d. d\<lparr>ced_Detail := s\<rparr>)),
      (''isRetryable'', decode_bool_ptr (\<lambda>b d. d\<lparr>ced_IsRetryable := b\<rparr>)),
      (''additionalInfo'', decode_additionalInfo)]"

definition decode_debug :: "cursorErrorDetail field_decoder" where
  "decode_debug = decode_struct
     [(''error'', decode_string (\<lambda>s d. d\<lparr>ced_Error := s\<rparr>)),
      (''details'', decode_debug_details)]"

definition decode_error :: "cursorErrorEnvelope field_decoder" where
  "decode_error = decode_struct
     [(''code'', decode_string (\<lambda>s e. e\<lparr>cee_Code := s\<rparr>)),
      (''message'', decode_string (\<lambda>s e. e\<lparr>cee_Message := s\<rparr>)),
      (''details'', decode_list (decode_struct [(''debug'', decode_debug)]) zero_detail
         (\<lambda>ds e. e\<lparr>cee_Details := ds\<rparr>))]"

definition decode_envelope :: "cursorErrorEnvelope field_decoder" where
  "decode_envelope = decode_struct [(''error'', decode_error)]"

section \<open>Dates\<close>

definition is_word :: "char \<Rightarrow> bool" where
  "is_word c \<longleftrightarrow> is_upper c \<or> is_lower c \<or> is_digit c \<or> c = CHR ''_''"

text \<open>The pattern \<open>(\d{1,2})/(\d{1,2})/(\d{4})\b\<close> at the front of a string.\<close>

definition date_at :: "string \<Rightarrow> (nat \<times> nat \<times> nat) option" where
  "date_at s =
     (case scan_digits s of (m, r1) \<Rightarrow>
      (case r1 of [] \<Rightarrow> None | c1 # r2 \<Rightarrow>
        (case scan_digits r2 of (d, r3) \<Rightarrow>
         (case r3 of [] \<Rightarrow> None | c2 # r4 \<Rightarrow>
           (case scan_digits r4 of (y, r5) \<Rightarrow>
              if length m \<in> {1, 2} \<and> c1 = CHR ''/'' \<and> length d \<in> {1, 2} \<and> c2 = CHR ''/''
                 \<and> length y = 4 \<and> (case r5 of [] \<Rightarrow> True | c # _ \<Rightarrow> \<not> is_word c)
              then (case (parse_digits 0 m, parse_digits 0 d, parse_digits 0 y) of
                      (Some m', Some d', Some y') \<Rightarrow> Some (m', d', y') | _ \<Rightarrow> None)
              else None)))))"

text \<open>The leftmost match, which begins at a word boundary: month, day and year.\<close>

fun find_date :: "bool \<Rightarrow> string \<Rightarrow> (nat \<times> nat \<times> nat) option" where
  "find_date after_word [] = None"
| "find_date after_word (c # s) =
     (case (if after_word then None else date_at (c # s)) of
        Some d \<Rightarrow> Some d
      | None \<Rightarrow> find_date (is_word c) s)"

definition leap_year :: "nat \<Rightarrow> bool" where
  "leap_year y \<longleftrightarrow> y mod 4 = 0 \<and> (y mod 100 \<noteq> 0 \<or> y mod 400 = 0)"

definition days_in_month :: "nat \<Rightarrow> nat \<Rightarrow> nat" where
  "days_in_month y m =
     (if m = 2 then (if leap_year y then 29 else 28) else if m \<in> {4, 6, 9, 11} then 30 else 31)"

text \<open>
  \<open>time.Date\<close> normalises a date that does not exist; the code keeps the result only if the
  year, month and day come back unchanged, which is to say if the date exists.
\<close>

definition valid_date :: "nat \<Rightarrow> nat \<Rightarrow> nat \<Rightarrow> bool" where
  "valid_date y m d \<longleftrightarrow> 1 \<le> m \<and> m \<le> 12 \<and> 1 \<le> d \<and> d \<le> days_in_month y m"

definition days_from_civil :: "nat \<Rightarrow> nat \<Rightarrow> nat \<Rightarrow> int" where
  "days_from_civil y m d =
     (let y' = int y - (if m \<le> 2 then 1 else 0);
          mp = (int m + 9) mod 12;
          doy = (153 * mp + 2) div 5 + int d - 1
      in y' * 365 + y' div 4 - y' div 100 + y' div 400 + doy - 719468)"

definition date_time :: "nat \<Rightarrow> nat \<Rightarrow> nat \<Rightarrow> time" where
  "date_time y m d = days_from_civil y m d * 86400 * second"

section \<open>The code\<close>

definition parseProviderStatus :: "jsonv option \<Rightarrow> int" where
  "parseProviderStatus raw =
     (case raw of
        Some (JNum t) \<Rightarrow> (case Atoi t of Some status \<Rightarrow> if status < 400 \<or> 599 < status then 0 else status | None \<Rightarrow> 0)
      | Some (JStr t) \<Rightarrow> (case Atoi t of Some status \<Rightarrow> if status < 400 \<or> 599 < status then 0 else status | None \<Rightarrow> 0)
      | _ \<Rightarrow> 0)"

text \<open>The variables of the loop over the details.\<close>

record detail_state =
  ds_message :: string
  ds_retryable :: bool
  ds_retryabilitySet :: bool
  ds_upstreamError :: string
  ds_providerStatus :: int
  ds_resetAt :: "time option"

definition detail_candidate :: "cursorErrorDetail \<Rightarrow> string" where
  "detail_candidate d = firstNonEmpty [ced_Detail d, ced_ChatMessage d, ced_Title d, ced_Error d]"

definition apply_message :: "cursorErrorDetail \<Rightarrow> detail_state \<Rightarrow> detail_state" where
  "apply_message d st =
     (if detail_candidate d \<noteq> [] then st\<lparr>ds_message := detail_candidate d\<rparr> else st)"

definition apply_hint :: "cursorErrorDetail \<Rightarrow> detail_state \<Rightarrow> detail_state" where
  "apply_hint d st =
     (case ced_IsRetryable d of None \<Rightarrow> st
      | Some hint \<Rightarrow>
          (if \<not> ds_retryabilitySet st \<or> \<not> hint then st\<lparr>ds_retryable := hint\<rparr> else st)
            \<lparr>ds_retryabilitySet := True\<rparr>)"

definition is_upstream_failure :: "string \<Rightarrow> bool" where
  "is_upstream_failure e \<longleftrightarrow> e = ''ERROR_PROVIDER_ERROR'' \<or> e = ''ERROR_NETWORK_ERROR''"

definition apply_upstream :: "cursorErrorDetail \<Rightarrow> detail_state \<Rightarrow> detail_state" where
  "apply_upstream d st =
     (if is_upstream_failure (ced_Error d) then
        (let st = st\<lparr>ds_upstreamError := ced_Error d\<rparr>; status = parseProviderStatus (ced_ProviderStatusCode d)
         in if status \<noteq> 0 then st\<lparr>ds_providerStatus := status\<rparr> else st)
      else st)"

definition apply_reset :: "cursorErrorDetail \<Rightarrow> detail_state \<Rightarrow> detail_state" where
  "apply_reset d st =
     (case find_date False (detail_candidate d) of None \<Rightarrow> st
      | Some (m, day, y) \<Rightarrow> if valid_date y m day then st\<lparr>ds_resetAt := Some (date_time y m day)\<rparr> else st)"

definition apply_detail :: "cursorErrorDetail \<Rightarrow> detail_state \<Rightarrow> detail_state" where
  "apply_detail d st = apply_reset d (apply_upstream d (apply_hint d (apply_message d st)))"

definition init_details :: "string \<Rightarrow> detail_state" where
  "init_details message =
     \<lparr>ds_message = message, ds_retryable = False, ds_retryabilitySet = False,
      ds_upstreamError = [], ds_providerStatus = 0, ds_resetAt = None\<rparr>"

definition details_loop :: "string \<Rightarrow> cursorErrorDetail list \<Rightarrow> detail_state" where
  "details_loop message ds = fold apply_detail ds (init_details message)"

text \<open>The part after the loop; \<open>now\<close> is the clock's reading.\<close>

definition resolve_status :: "string \<Rightarrow> int \<Rightarrow> detail_state \<Rightarrow> int" where
  "resolve_status code fallbackStatus st =
     (let status = (if EqualFold code ''resource_exhausted'' then 429 else fallbackStatus);
          p = ds_providerStatus st;
          status = (if ds_upstreamError st \<noteq> [] then (if p = 429 \<or> 500 \<le> p then p else 502) else status)
      in if status = 0 then 502 else status)"

definition classify :: "time \<Rightarrow> string \<Rightarrow> int \<Rightarrow> detail_state \<Rightarrow> StatusError" where
  "classify now code fallbackStatus st =
     (let status = resolve_status code fallbackStatus st;
          code = (if ds_upstreamError st \<noteq> []
                  then ''cursor_'' @ ToLower (TrimPrefix (ds_upstreamError st) ''ERROR_'') else code);
          message = (if ds_message st = [] then StatusText status else ds_message st);
          message = (if ds_providerStatus st \<noteq> 0
                     then message @ '' (provider HTTP '' @ Itoa (ds_providerStatus st) @ '')'' else message);
          retryable = (if \<not> ds_retryabilitySet st \<and> isTransientHTTPStatus status then True else ds_retryable st);
          retryAfter = (case ds_resetAt st of Some t \<Rightarrow> if status = 429 \<and> now < t then time_sub t now else 0 | None \<Rightarrow> 0)
      in \<lparr>se_Code = firstNonEmpty [code, ''cursor_upstream_error''], se_Message = message,
          se_HTTPStatus = status, se_Retryable = retryable, se_RetryAfter = retryAfter\<rparr>)"

definition envelopeError :: "time \<Rightarrow> cursorErrorEnvelope \<Rightarrow> int \<Rightarrow> StatusError" where
  "envelopeError now envelope fallbackStatus =
     classify now (TrimSpace (cee_Code envelope)) fallbackStatus
       (details_loop (TrimSpace (cee_Message envelope)) (cee_Details envelope))"

definition cursorStatusError :: "time \<Rightarrow> string \<Rightarrow> int \<Rightarrow> StatusError" where
  "cursorStatusError now raw fallbackStatus =
     envelopeError now (fst (unmarshal_struct decode_envelope raw zero_envelope)) fallbackStatus"

section \<open>The loop\<close>

definition hints :: "cursorErrorDetail list \<Rightarrow> bool list" where
  "hints ds = List.map_filter ced_IsRetryable ds"

lemma apply_fields [simp]:
  "ds_retryable (apply_message d st) = ds_retryable st"
  "ds_retryabilitySet (apply_message d st) = ds_retryabilitySet st"
  "ds_upstreamError (apply_message d st) = ds_upstreamError st"
  "ds_providerStatus (apply_message d st) = ds_providerStatus st"
  "ds_upstreamError (apply_hint d st) = ds_upstreamError st"
  "ds_providerStatus (apply_hint d st) = ds_providerStatus st"
  "ds_retryable (apply_upstream d st) = ds_retryable st"
  "ds_retryabilitySet (apply_upstream d st) = ds_retryabilitySet st"
  "ds_retryable (apply_reset d st) = ds_retryable st"
  "ds_retryabilitySet (apply_reset d st) = ds_retryabilitySet st"
  "ds_upstreamError (apply_reset d st) = ds_upstreamError st"
  "ds_providerStatus (apply_reset d st) = ds_providerStatus st"
  by (auto simp: apply_message_def apply_hint_def apply_upstream_def apply_reset_def Let_def
      split: option.splits)

lemma apply_detail_hint:
  "ds_retryabilitySet (apply_detail d st) \<longleftrightarrow> ds_retryabilitySet st \<or> ced_IsRetryable d \<noteq> None"
  "ds_retryable (apply_detail d st) =
     (case ced_IsRetryable d of None \<Rightarrow> ds_retryable st
      | Some h \<Rightarrow> if ds_retryabilitySet st then ds_retryable st \<and> h else h)"
  by (auto simp: apply_detail_def apply_hint_def split: option.splits)

lemma fold_hint:
  "ds_retryabilitySet (fold apply_detail ds st) \<longleftrightarrow> ds_retryabilitySet st \<or> hints ds \<noteq> []"
  "ds_retryabilitySet st \<Longrightarrow>
     ds_retryable (fold apply_detail ds st) \<longleftrightarrow> ds_retryable st \<and> (\<forall>h \<in> set (hints ds). h)"
  "\<not> ds_retryabilitySet st \<Longrightarrow>
     ds_retryable (fold apply_detail ds st) \<longleftrightarrow>
       (if hints ds = [] then ds_retryable st else (\<forall>h \<in> set (hints ds). h))"
proof (induction ds arbitrary: st)
  case (Cons d ds)
  { case 1 then show ?case using Cons.IH(1) by (auto simp: hints_def apply_detail_hint map_filter_simps split: option.splits)
  next
    case 2 then show ?case using Cons.IH(2) by (auto simp: hints_def apply_detail_hint map_filter_simps split: option.splits)
  next
    case 3 then show ?case using Cons.IH(2,3) by (auto simp: hints_def apply_detail_hint map_filter_simps split: option.splits)
  }
qed (simp_all add: hints_def map_filter_simps)

definition upstream_failures :: "cursorErrorDetail list \<Rightarrow> string list" where
  "upstream_failures ds = filter is_upstream_failure (map ced_Error ds)"

lemma apply_detail_upstream:
  "ds_upstreamError (apply_detail d st) = (if is_upstream_failure (ced_Error d) then ced_Error d else ds_upstreamError st)"
  by (auto simp: apply_detail_def apply_upstream_def Let_def)

lemma fold_upstream:
  "ds_upstreamError (fold apply_detail ds st) =
     (if upstream_failures ds = [] then ds_upstreamError st else last (upstream_failures ds))"
  by (induction ds arbitrary: st) (auto simp: upstream_failures_def apply_detail_upstream)

lemma parseProviderStatus_range: "parseProviderStatus raw = 0 \<or> 400 \<le> parseProviderStatus raw \<and> parseProviderStatus raw \<le> 599"
  by (auto simp: parseProviderStatus_def split: option.splits jsonv.splits)

lemma apply_detail_provider:
  "ds_providerStatus (apply_detail d st) = ds_providerStatus st \<or>
   ds_providerStatus (apply_detail d st) = parseProviderStatus (ced_ProviderStatusCode d) \<and> is_upstream_failure (ced_Error d)"
  by (auto simp: apply_detail_def apply_upstream_def Let_def)

lemma fold_provider_range:
  "ds_providerStatus st = 0 \<or> 400 \<le> ds_providerStatus st \<and> ds_providerStatus st \<le> 599 \<Longrightarrow>
   ds_providerStatus (fold apply_detail ds st) = 0 \<or>
     400 \<le> ds_providerStatus (fold apply_detail ds st) \<and> ds_providerStatus (fold apply_detail ds st) \<le> 599"
proof (induction ds arbitrary: st)
  case (Cons d ds)
  have "ds_providerStatus (apply_detail d st) = 0 \<or>
      400 \<le> ds_providerStatus (apply_detail d st) \<and> ds_providerStatus (apply_detail d st) \<le> 599"
    using apply_detail_provider [of d st] parseProviderStatus_range [of "ced_ProviderStatusCode d"] Cons.prems
    by metis
  from Cons.IH [OF this] show ?case by simp
qed simp

lemma fold_provider_source:
  "ds_providerStatus (fold apply_detail ds st) = ds_providerStatus st \<or>
   (\<exists>d \<in> set ds. is_upstream_failure (ced_Error d) \<and>
      ds_providerStatus (fold apply_detail ds st) = parseProviderStatus (ced_ProviderStatusCode d))"
proof (induction ds arbitrary: st)
  case (Cons d ds)
  then show ?case using apply_detail_provider [of d st] by (metis fold_simps(2) list.set_intros)
qed simp

lemma upstream_failures_neq_Nil: "set (upstream_failures ds) \<subseteq> {''ERROR_PROVIDER_ERROR'', ''ERROR_NETWORK_ERROR''}"
  by (auto simp: upstream_failures_def is_upstream_failure_def)

lemma details_loop_upstream:
  "ds_upstreamError (details_loop msg ds) = (if upstream_failures ds = [] then [] else last (upstream_failures ds))"
  by (simp add: details_loop_def fold_upstream init_details_def)

lemma details_loop_hint:
  "ds_retryabilitySet (details_loop msg ds) \<longleftrightarrow> hints ds \<noteq> []"
  "ds_retryable (details_loop msg ds) \<longleftrightarrow> hints ds \<noteq> [] \<and> False \<notin> set (hints ds)"
proof -
  have "(\<forall>h \<in> set (hints ds). h) \<longleftrightarrow> False \<notin> set (hints ds)" by (metis (full_types))
  then show "ds_retryable (details_loop msg ds) \<longleftrightarrow> hints ds \<noteq> [] \<and> False \<notin> set (hints ds)"
    by (simp add: details_loop_def fold_hint init_details_def)
qed (simp add: details_loop_def fold_hint init_details_def)

lemma details_loop_upstream_empty: "ds_upstreamError (details_loop msg ds) = [] \<longleftrightarrow> upstream_failures ds = []"
proof -
  have "last (upstream_failures ds) \<noteq> []" if "upstream_failures ds \<noteq> []"
    using upstream_failures_neq_Nil [of ds] last_in_set [OF that] by auto
  then show ?thesis by (simp add: details_loop_upstream)
qed

lemma details_loop_provider_range:
  "ds_providerStatus (details_loop msg ds) = 0 \<or>
   400 \<le> ds_providerStatus (details_loop msg ds) \<and> ds_providerStatus (details_loop msg ds) \<le> 599"
  unfolding details_loop_def by (rule fold_provider_range) (simp add: init_details_def)

lemma details_loop_provider_source:
  "ds_providerStatus (details_loop msg ds) = p \<Longrightarrow> p \<noteq> 0 \<Longrightarrow>
   \<exists>d \<in> set ds. is_upstream_failure (ced_Error d) \<and> parseProviderStatus (ced_ProviderStatusCode d) = p"
  using fold_provider_source [of ds "init_details msg"] by (auto simp: details_loop_def init_details_def)

lemma envelopeError_fields:
  "se_HTTPStatus (envelopeError now env fb) =
     resolve_status (TrimSpace (cee_Code env)) fb (details_loop (TrimSpace (cee_Message env)) (cee_Details env))"
  by (simp add: envelopeError_def classify_def Let_def)

section \<open>Properties\<close>

text \<open>
  C24. When the details report a failure of the model provider or of the network, the host
  sees a 429 (and starts a quota cooldown) only if the provider itself answered 429; a
  \<open>resource_exhausted\<close> code around such a failure does not count.
\<close>

theorem quota_only_from_provider:
  assumes "upstream_failures (cee_Details env) \<noteq> []"
    and "se_HTTPStatus (envelopeError now env fallback) = 429"
  shows "\<exists>d \<in> set (cee_Details env). is_upstream_failure (ced_Error d)
           \<and> parseProviderStatus (ced_ProviderStatusCode d) = 429"
proof -
  let ?st = "details_loop (TrimSpace (cee_Message env)) (cee_Details env)"
  have "ds_upstreamError ?st \<noteq> []" using assms(1) by (simp add: details_loop_upstream_empty)
  with assms(2) have "ds_providerStatus ?st = 429"
    by (simp add: envelopeError_fields resolve_status_def Let_def split: if_splits)
  then show ?thesis by (rule details_loop_provider_source) simp
qed

theorem quota_only_from_provider_witness:
  "se_HTTPStatus (envelopeError 0 (zero_envelope\<lparr>cee_Code := ''resource_exhausted'',
      cee_Details := [zero_detail\<lparr>ced_Error := ''ERROR_PROVIDER_ERROR'', ced_ProviderStatusCode := Some (JNum ''429'')\<rparr>]\<rparr>) 502) = 429
   \<and> (\<exists>d \<in> set [zero_detail\<lparr>ced_Error := ''ERROR_PROVIDER_ERROR'', ced_ProviderStatusCode := Some (JNum ''429'')\<rparr>].
        is_upstream_failure (ced_Error d) \<and> parseProviderStatus (ced_ProviderStatusCode d) = 429)"
proof -
  let ?d = "zero_detail\<lparr>ced_Error := ''ERROR_PROVIDER_ERROR'', ced_ProviderStatusCode := Some (JNum ''429'')\<rparr>"
  let ?env = "zero_envelope\<lparr>cee_Code := ''resource_exhausted'', cee_Details := [?d]\<rparr>"
  have p: "parseProviderStatus (Some (JNum ''429'')) = 429"
    by (simp add: parseProviderStatus_def Atoi_def Let_def is_digit_def)
  have u: "upstream_failures (cee_Details ?env) \<noteq> []"
    by (simp add: upstream_failures_def is_upstream_failure_def)
  have "ds_providerStatus (details_loop [] [?d]) = 429" "ds_upstreamError (details_loop [] [?d]) \<noteq> []"
    by (simp_all add: details_loop_def apply_detail_def apply_upstream_def is_upstream_failure_def p Let_def)
  then have s: "se_HTTPStatus (envelopeError 0 ?env 502) = 429"
    by (simp add: envelopeError_fields resolve_status_def zero_envelope_def Let_def)
  show ?thesis using quota_only_from_provider [OF u s] s by simp
qed

text \<open>
  An explicit rejection of retries anywhere in the details wins over every hint to the
  contrary and over what the status suggests; without any hint the error may be retried
  exactly when its status is a transient one.
\<close>

theorem retryable_rule:
  "se_Retryable (envelopeError now env fallback) \<longleftrightarrow>
     (if hints (cee_Details env) = [] then isTransientHTTPStatus (se_HTTPStatus (envelopeError now env fallback))
      else False \<notin> set (hints (cee_Details env)))"
  by (auto simp: envelopeError_def classify_def Let_def details_loop_hint)

text \<open>
  The status is always an error status the host can act on when the transport's was
  (or was missing): provider data cannot push it out of the range 400 to 599.
\<close>

theorem status_in_range:
  assumes "fallback = 0 \<or> 400 \<le> fallback \<and> fallback \<le> 599"
  shows "400 \<le> se_HTTPStatus (cursorStatusError now raw fallback)
         \<and> se_HTTPStatus (cursorStatusError now raw fallback) \<le> 599"
  using assms details_loop_provider_range
    [of "TrimSpace (cee_Message (fst (unmarshal_struct decode_envelope raw zero_envelope)))"
        "cee_Details (fst (unmarshal_struct decode_envelope raw zero_envelope))"]
  by (auto simp: cursorStatusError_def envelopeError_fields resolve_status_def Let_def)

theorem status_in_range_witness:
  "400 \<le> se_HTTPStatus (cursorStatusError 5 ''Bad Gateway'' 502)"
  using status_in_range [of 502 5 "''Bad Gateway''"] by simp

text \<open>
  A retry delay is only ever announced together with status 429, is never negative,
  and points at the reset date found in the details (as far as a duration reaches).
\<close>

theorem retry_after_rule:
  "0 \<le> se_RetryAfter (envelopeError now env fallback) \<and>
   (se_RetryAfter (envelopeError now env fallback) \<noteq> 0 \<longrightarrow>
      se_HTTPStatus (envelopeError now env fallback) = 429 \<and>
      (\<exists>t. ds_resetAt (details_loop (TrimSpace (cee_Message env)) (cee_Details env)) = Some t \<and> now < t \<and>
        se_RetryAfter (envelopeError now env fallback) = time_sub t now))"
  by (auto simp: envelopeError_def classify_def Let_def time_sub_def split: option.splits)

theorem retry_after_rule_witness:
  "se_RetryAfter (envelopeError 0 (zero_envelope\<lparr>cee_Code := ''resource_exhausted'',
      cee_Details := [zero_detail\<lparr>ced_Detail := ''1/2/1970''\<rparr>]\<rparr>) 502) = 86400 * second
   \<and> se_HTTPStatus (envelopeError 0 (zero_envelope\<lparr>cee_Code := ''resource_exhausted'',
      cee_Details := [zero_detail\<lparr>ced_Detail := ''1/2/1970''\<rparr>]\<rparr>) 502) = 429"
proof -
  let ?d = "zero_detail\<lparr>ced_Detail := ''1/2/1970''\<rparr>"
  let ?env = "zero_envelope\<lparr>cee_Code := ''resource_exhausted'', cee_Details := [?d]\<rparr>"
  have t: "TrimSpace ''1/2/1970'' = ''1/2/1970''" "TrimSpace ''resource_exhausted'' = ''resource_exhausted''"
    by (rule TrimSpace_ends; simp add: ascii_space_def)+
  have "detail_candidate ?d = ''1/2/1970''" by (simp add: detail_candidate_def Let_def t)
  moreover have "find_date False ''1/2/1970'' = Some (1, 2, 1970)"
    by (simp add: date_at_def scan_digits_def is_digit_def)
  moreover have "valid_date 1970 1 2" "date_time 1970 1 2 = 86400 * second"
    by (simp_all add: valid_date_def days_in_month_def date_time_def days_from_civil_def)
  ultimately have "ds_resetAt (details_loop [] [?d]) = Some (86400 * second)"
    by (simp add: details_loop_def apply_detail_def apply_reset_def)
  moreover have "ds_upstreamError (details_loop [] [?d]) = []"
    by (simp add: details_loop_upstream upstream_failures_def is_upstream_failure_def zero_detail_def)
  ultimately have "se_RetryAfter (envelopeError 0 ?env 502) = 86400 * second"
    by (simp add: envelopeError_def classify_def resolve_status_def zero_envelope_def t Let_def
      EqualFold_def is_ascii_def second_def time_sub_def)
  then show ?thesis using retry_after_rule [of 0 ?env 502] by (simp add: second_def)
qed

end
