(* ===== verification/Session.thy ===== *)
theory Session
  imports Http_Client Tools Tool_Call_Id Cursor_Errors Plugin_Config
begin

text \<open>
  session.go: one turn with Cursor. The plugin opens a stream, sends the run request, then
  answers the server's requests for blobs, for the request context and for the tool catalog,
  and turns its updates into events until the turn is over.

  Code outside the repository is a parameter, collected in a record: the wire codec
  (\<open>google.golang.org/protobuf\<close>), decompression, the hash, and the pipe and the connection
  to the server, which act on a world \<open>'w\<close>.
\<close>

section \<open>The environment of a turn\<close>

record 'w transport =
  tp_Marshal :: "AgentClientMessage \<Rightarrow> goerr + string"
  tp_Unmarshal :: "string \<Rightarrow> AgentServerMessage option"
  tp_UnmarshalValue :: "string \<Rightarrow> Value option"
  tp_MarshalValue :: "Value \<Rightarrow> string"
  tp_Wire :: protowire
  tp_GzipReader :: "string \<Rightarrow> goerr + body"
  tp_Sha256 :: "string \<Rightarrow> string"
  tp_Write :: "string \<Rightarrow> 'w \<Rightarrow> 'w \<times> goerr option"

text \<open>The blobs, by the hexadecimal form of their id.\<close>

type_synonym blobs = "(string, string) gomap"

definition send :: "'w transport \<Rightarrow> AgentClientMessage \<Rightarrow> 'w \<Rightarrow> 'w \<times> goerr option" where
  "send tp message w =
     (case tp_Marshal tp message of
        Inl marshalErr \<Rightarrow> (w, Some marshalErr)
      | Inr payload \<Rightarrow> tp_Write tp (send_frame payload) w)"

section \<open>Tool arguments\<close>

text \<open>
  A value is decoded, and its components are encoded again for the recursive call. The fuel
  counts the levels of nesting; \<open>None\<close> means that it did not suffice.
\<close>

fun decodeValue :: "nat \<Rightarrow> 'w transport \<Rightarrow> string \<Rightarrow> goval option" where
  "decodeValue 0 tp raw = None"
| "decodeValue (Suc fuel) tp raw =
     (case tp_UnmarshalValue tp raw of
        None \<Rightarrow> Some (GStr raw)
      | Some (V_String s) \<Rightarrow> Some (GStr s)
      | Some (V_Number n) \<Rightarrow> Some (GFloat n)
      | Some (V_Bool b) \<Rightarrow> Some (GBool b)
      | Some V_Null \<Rightarrow> Some GNil
      | Some (V_Struct kvs) \<Rightarrow>
          map_option GMap (those (map (\<lambda>(key, inner). map_option (Pair key) (decodeValue fuel tp (tp_MarshalValue tp inner))) kvs))
      | Some (V_List values) \<Rightarrow>
          map_option GList (those (map (\<lambda>inner. decodeValue fuel tp (tp_MarshalValue tp inner)) values))
      | Some V_Unset \<Rightarrow> Some GNil)"

text \<open>Enough fuel for the value in question: its size bounds its depth.\<close>

definition value_fuel :: "'w transport \<Rightarrow> string \<Rightarrow> nat" where
  "value_fuel tp raw = (case tp_UnmarshalValue tp raw of None \<Rightarrow> 1 | Some v \<Rightarrow> Suc (size v))"

definition decodeArgs :: "'w transport \<Rightarrow> (string, string) gomap \<Rightarrow> object option" where
  "decodeArgs tp args =
     those (map (\<lambda>(key, value). map_option (Pair key) (decodeValue (value_fuel tp value) tp value)) args)"

section \<open>handleServerMessage\<close>

text \<open>
  What a handler leaves behind: the blobs, the world, the events it queued and its error.
  \<open>None\<close>: it did not return (see \<open>decodeValue\<close>).
\<close>

type_synonym 'w handled = "((blobs \<times> 'w) \<times> TurnEvent list \<times> goerr option) option"

definition answer :: "'w transport \<Rightarrow> AgentClientMessage \<Rightarrow> blobs \<Rightarrow> 'w \<Rightarrow> 'w handled" where
  "answer tp message blobs w =
     (case send tp message w of (w', err) \<Rightarrow> Some ((blobs, w'), [], err))"

definition blob_key :: "string \<Rightarrow> string" where
  "blob_key i = hex_encode i"

text \<open>An empty stored blob is a \<open>nil\<close> slice, like an absent one.\<close>

definition blob_data :: "blobs \<Rightarrow> string \<Rightarrow> string option" where
  "blob_data blobs i =
     (case gm_get blobs (blob_key i) of None \<Rightarrow> None | Some d \<Rightarrow> if d = [] then None else Some d)"

definition handle_kv :: "'w transport \<Rightarrow> KvServerMessage \<Rightarrow> blobs \<Rightarrow> 'w \<Rightarrow> 'w handled" where
  "handle_kv tp kv blobs w =
     (case GetGetBlobArgs (ks_Message kv) of
        Some blobId \<Rightarrow>
          answer tp (Client_KvClientMessage \<lparr>kc_Id = ks_Id kv, kc_Message = KvClient_GetBlobResult (blob_data blobs blobId)\<rparr>) blobs w
      | None \<Rightarrow>
          (case GetSetBlobArgs (ks_Message kv) of
             Some args \<Rightarrow>
               answer tp (Client_KvClientMessage \<lparr>kc_Id = ks_Id kv, kc_Message = KvClient_SetBlobResult\<rparr>)
                 (gm_set (blob_key (sb_BlobId args)) (sb_BlobData args) blobs) w
           | None \<Rightarrow> Some ((blobs, w), [], None)))"

definition request_context :: "McpToolDefinition list \<Rightarrow> RequestContext" where
  "request_context tools =
     \<lparr>rc_Tools = tools,
      rc_Env = \<lparr>re_OsVersion = ''linux'', re_Shell = ''bash'', re_SandboxEnabled = False, re_TimeZone = ''UTC''\<rparr>\<rparr>"

definition mcp_servers :: "McpToolDefinition list \<Rightarrow> McpStateServer list" where
  "mcp_servers tools =
     (if 0 < length tools
      then [\<lparr>ms_ServerName = ''openai-caller'', ms_ServerIdentifier = ''openai-caller'', ms_Tools = tools\<rparr>]
      else [])"

definition exec_answer :: "ExecServerMessage \<Rightarrow> ExecClientMessage_oneof \<Rightarrow> AgentClientMessage" where
  "exec_answer execMessage result =
     Client_ExecClientMessage \<lparr>ec_Id = es_Id execMessage, ec_ExecId = es_ExecId execMessage, ec_Message = result\<rparr>"

definition invalid_input_error :: goerr where
  "invalid_input_error = StatusErr (status_error ''invalid_tool_input''
     ''Cursor returned a custom tool call without a string input'' 502)"

definition tool_call_event :: "string \<Rightarrow> McpArgs \<Rightarrow> toolIdentity \<Rightarrow> object \<Rightarrow> TurnEvent" where
  "tool_call_event uuid args identity decoded =
     (event_of ''tool_call'')\<lparr>te_ToolCallID := normalizeToolCallID uuid (ma_ToolCallId args),
        te_ToolName := tid_Name identity, te_ToolNamespace := tid_Namespace identity,
        te_ToolCustom := tid_Custom identity, te_ToolArgs := Some decoded\<rparr>"

definition handle_mcp :: "'w transport \<Rightarrow> string \<Rightarrow> (string, toolIdentity) gomap \<Rightarrow> McpArgs \<Rightarrow> blobs \<Rightarrow> 'w \<Rightarrow> 'w handled" where
  "handle_mcp tp uuid identities args blobs w =
     (case resolveToolIdentity args identities of
        Inl err \<Rightarrow> Some ((blobs, w), [], Some err)
      | Inr identity \<Rightarrow>
          (case decodeArgs tp (ma_Args args) of
             None \<Rightarrow> None
           | Some decoded \<Rightarrow>
               if tid_Custom identity \<and> as_string (field decoded ''input'') = None
               then Some ((blobs, w), [], Some invalid_input_error)
               else Some ((blobs, w),
                      [tool_call_event uuid args identity decoded, done_event ''tool_calls''],
                      Some ErrTurnFinished)))"

definition handle_exec :: "'w transport \<Rightarrow> string \<Rightarrow> McpToolDefinition list \<Rightarrow> (string, toolIdentity) gomap \<Rightarrow>
    ExecServerMessage \<Rightarrow> blobs \<Rightarrow> 'w \<Rightarrow> 'w handled" where
  "handle_exec tp uuid tools identities execMessage blobs w =
     (case es_Message execMessage of
        Exec_RequestContextArgs \<Rightarrow>
          answer tp (exec_answer execMessage (ExecClient_RequestContextResult (request_context tools))) blobs w
      | Exec_McpStateExecArgs \<Rightarrow>
          answer tp (exec_answer execMessage (ExecClient_McpStateExecResult (mcp_servers tools))) blobs w
      | Exec_McpArgs args \<Rightarrow> handle_mcp tp uuid identities args blobs w
      | Exec_Other \<Rightarrow> Some ((blobs, w), [], None))"

definition handle_update :: "'w transport \<Rightarrow> InteractionUpdate \<Rightarrow> (TurnEvent list \<times> goerr option) option" where
  "handle_update tp update =
     (case update of
        TextDelta t \<Rightarrow> Some (if t \<noteq> [] then [text_event t] else [], None)
      | ThinkingDelta t \<Rightarrow> Some (if t \<noteq> [] then [thinking_event t] else [], None)
      | TokenDelta n \<Rightarrow> Some ([tokens_event n], None)
      | TurnEnded unknown \<Rightarrow>
          (case usageFromTurnEnded (tp_Wire tp) (Some unknown) of
             None \<Rightarrow> None
           | Some (Inl err) \<Rightarrow> Some ([], Some err)
           | Some (Inr usage) \<Rightarrow> Some ([usage_event usage], None))
      | OtherUpdate \<Rightarrow> Some ([], None))"

definition handleServerMessage :: "'w transport \<Rightarrow> string \<Rightarrow> McpToolDefinition list \<Rightarrow>
    (string, toolIdentity) gomap \<Rightarrow> AgentServerMessage \<Rightarrow> blobs \<Rightarrow> 'w \<Rightarrow> 'w handled" where
  "handleServerMessage tp uuid tools identities message blobs w =
     (case message of
        Server_KvServerMessage kv \<Rightarrow> handle_kv tp kv blobs w
      | Server_ExecServerMessage execMessage \<Rightarrow> handle_exec tp uuid tools identities execMessage blobs w
      | Server_InteractionUpdate update \<Rightarrow>
          map_option (\<lambda>(events, err). ((blobs, w), events, err)) (handle_update tp update)
      | Server_Other \<Rightarrow> Some ((blobs, w), [], None))"

section \<open>The loop of a turn\<close>

text \<open>Whether the message ends the turn after it was handled.\<close>

definition ends_turn :: "AgentServerMessage \<Rightarrow> bool" where
  "ends_turn message =
     (case GetInteractionUpdate message of None \<Rightarrow> False | Some update \<Rightarrow> GetTurnEnded update \<noteq> None)"

definition end_stream_event :: "time \<Rightarrow> string \<Rightarrow> TurnEvent" where
  "end_stream_event now payload =
     (if 0 < length (TrimSpace payload) \<and> TrimSpace payload \<noteq> ''{}''
      then error_event (StatusErr (cursorStatusError now payload 502))
      else done_event ''stop'')"

text \<open>\<open>ctx_done\<close>: the context of the turn has ended when the body fails.\<close>

function turn_loop :: "'w transport \<Rightarrow> string \<Rightarrow> time \<Rightarrow> bool \<Rightarrow> TurnInput \<Rightarrow> body \<Rightarrow> blobs \<Rightarrow> 'w \<Rightarrow> ('w \<times> TurnEvent list) option" where
  "turn_loop tp uuid now ctx_done input b blobs w =
     (case readConnectFrame b of
        Inl frameErr \<Rightarrow> Some (w, if frameErr \<noteq> ErrEOF \<and> \<not> ctx_done then [error_event frameErr] else [])
      | Inr ((flag, payload0), b') \<Rightarrow>
          (case (if connectFlagCompressed flag then gunzipPayload (tp_GzipReader tp) payload0 else Inr payload0) of
             Inl err \<Rightarrow> Some (w, [error_event err])
           | Inr payload \<Rightarrow>
               if connectFlagEndStream flag then Some (w, [end_stream_event now payload])
               else (case tp_Unmarshal tp payload of
                       None \<Rightarrow> turn_loop tp uuid now ctx_done input b' blobs w
                     | Some message \<Rightarrow>
                         (case handleServerMessage tp uuid (in_Tools input) (in_ToolIdentities input) message blobs w of
                            None \<Rightarrow> None
                          | Some ((blobs', w'), events, Some err) \<Rightarrow>
                              Some (w', events @ (if errors_is err ErrTurnFinished then [] else [error_event err]))
                          | Some ((blobs', w'), events, None) \<Rightarrow>
                              if ends_turn message then Some (w', events @ [done_event ''stop''])
                              else map_option (\<lambda>(w'', rest). (w'', events @ rest))
                                     (turn_loop tp uuid now ctx_done input b' blobs' w')))))"
  by pat_completeness auto
termination
  by (relation "measure (\<lambda>(tp, u, n, c, i, b, bl, w). length (fst b))") (auto dest!: readConnectFrame_shrinks)

declare turn_loop.simps [simp del]

section \<open>Opening the turn\<close>

definition turn_url :: "Config \<Rightarrow> string" where
  "turn_url cfg = TrimRightSlash (cfg_CursorBaseURL cfg) @ ''/agent.v1.AgentService/Run''"

definition turn_headers :: "Config \<Rightarrow> string \<Rightarrow> string \<Rightarrow> (string \<times> string) list" where
  "turn_headers cfg token requestID =
     [(''Content-Type'', ''application/connect+proto''), (''Connect-Protocol-Version'', ''1''),
      (''TE'', ''trailers''), (''Authorization'', ''Bearer '' @ token), (''X-Ghost-Mode'', ''true''),
      (''X-Cursor-Client-Version'', cfg_ClientVersion cfg), (''X-Cursor-Client-Type'', ''cli''),
      (''X-Request-Id'', requestID)]
     @ (if 0 < length (cfg_AllowedNativeTools cfg)
        then [(''X-Cursor-Agent-Allowed-Tools'', Join '','' (cfg_AllowedNativeTools cfg))] else [])"

text \<open>The blobs and the ids of the history, one per message.\<close>

definition root_blobs :: "(string \<Rightarrow> string) \<Rightarrow> string list \<Rightarrow> blobs" where
  "root_blobs sha256 messages = fold (\<lambda>m. gm_set (blob_key (sha256 m)) m) messages []"

definition newRunRequest :: "RequestedModel \<Rightarrow> string list \<Rightarrow> ConversationAction \<Rightarrow> string \<Rightarrow>
    McpToolDefinition list \<Rightarrow> AgentRunRequest" where
  "newRunRequest model rootIDs action conversationID tools =
     \<lparr>rr_RootPromptMessagesJson = rootIDs, rr_Action = action, rr_RequestedModel = model,
      rr_McpTools = (if 0 < length tools then Some tools else None), rr_ConversationId = conversationID\<rparr>"

definition turn_action :: "string \<Rightarrow> string \<Rightarrow> ConversationAction" where
  "turn_action messageID userText =
     (if TrimSpace userText \<noteq> [] then UserMessageAction \<lparr>um_Text = userText, um_MessageId = messageID\<rparr>
      else ResumeAction)"

text \<open>
  The four random ids of a turn (request, conversation, message, tool call) are \<open>uuid 0\<close> to
  \<open>uuid 3\<close>. \<open>new_request\<close> fails on a malformed URL; \<open>do\<close> is the exchange with the server.
\<close>

record 'w connection =
  cn_NewRequest :: "string \<Rightarrow> goerr option"
  cn_Do :: "string \<Rightarrow> (string \<times> string) list \<Rightarrow> 'w \<Rightarrow> 'w \<times> (goerr + http_response)"
  cn_CtxDone :: "'w \<Rightarrow> bool"
  cn_Now :: "'w \<Rightarrow> time"

definition run_request :: "'w transport \<Rightarrow> (nat \<Rightarrow> string) \<Rightarrow> RequestedModel \<Rightarrow> TurnInput \<Rightarrow> AgentRunRequest" where
  "run_request tp uuid model input =
     newRunRequest model (map (tp_Sha256 tp) (in_RootMessages input)) (turn_action (uuid 2) (in_UserText input))
       (uuid 1) (in_Tools input)"

text \<open>
  The result is the error of the opening, or everything the channel of the turn delivers
  until it is closed. \<open>None\<close>: the turn does not end.
\<close>

definition runTurn :: "Config \<Rightarrow> 'w transport \<Rightarrow> 'w connection \<Rightarrow> (nat \<Rightarrow> string) \<Rightarrow> string \<Rightarrow>
    RequestedModel \<Rightarrow> TurnInput \<Rightarrow> 'w \<Rightarrow> ('w \<times> (goerr + TurnEvent list)) option" where
  "runTurn cfg tp cn uuid token model input w =
     (case cn_NewRequest cn (turn_url cfg) of
        Some err \<Rightarrow> Some (w, Inl (WrapErr ''build Cursor stream request'' err))
      | None \<Rightarrow>
          (case send tp (Client_RunRequest (run_request tp uuid model input)) w of
             (w1, Some err) \<Rightarrow> Some (w1, Inl (WrapErr ''start Cursor turn'' err))
           | (w1, None) \<Rightarrow>
               (case cn_Do cn (turn_url cfg) (turn_headers cfg token (uuid 0)) w1 of
                  (w2, Inl err) \<Rightarrow> Some (w2, Inl (WrapErr ''open Cursor turn'' err))
                | (w2, Inr response) \<Rightarrow>
                    if hr_StatusCode response \<noteq> 200 then
                      Some (w2, Inl (StatusErr (cursorStatusError (cn_Now cn w2)
                        (take maxJSONResponseBytes (fst (hr_Body response))) (hr_StatusCode response))))
                    else map_option (\<lambda>(w3, events). (w3, Inr events))
                           (turn_loop tp (uuid 3) (cn_Now cn w2) (cn_CtxDone cn w2) input (hr_Body response)
                              (root_blobs (tp_Sha256 tp) (in_RootMessages input)) w2))))"

section \<open>Tool arguments are read directly\<close>

primrec value_any :: "Value \<Rightarrow> goval" where
  "value_any V_Null = GNil"
| "value_any (V_Number n) = GFloat n"
| "value_any (V_String s) = GStr s"
| "value_any (V_Bool b) = GBool b"
| "value_any (V_Struct kvs) = GMap (map (map_prod id value_any) kvs)"
| "value_any (V_List vs) = GList (map value_any vs)"
| "value_any V_Unset = GNil"

fun components :: "Value \<Rightarrow> Value list" where
  "components (V_Struct kvs) = map snd kvs"
| "components (V_List vs) = vs"
| "components _ = []"

text \<open>The documented round trip of the codec, for the components of a decoded value.\<close>

definition codec_ok :: "'w transport \<Rightarrow> bool" where
  "codec_ok tp \<longleftrightarrow> (\<forall>raw v. tp_UnmarshalValue tp raw = Some v \<longrightarrow>
     list_all (\<lambda>c. tp_UnmarshalValue tp (tp_MarshalValue tp c) = Some c) (components v))"

lemma those_map_Some: "list_all (\<lambda>x. f x = Some (g x)) xs \<Longrightarrow> those (map f xs) = Some (map g xs)"
  by (induction xs) simp_all

lemma component_size: "c \<in> set (components v) \<Longrightarrow> size c < size v"
proof (cases v)
  case (V_Struct kvs)
  assume "c \<in> set (components v)"
  then obtain k where "(k, c) \<in> set kvs" using V_Struct by auto
  then have "size_prod (\<lambda>_. 0) size (k, c) \<le> size_list (size_prod (\<lambda>_. 0) size) kvs"
    by (rule size_list_estimation') simp
  then show ?thesis by (simp add: V_Struct)
next
  case (V_List vs)
  assume "c \<in> set (components v)"
  then have "size c \<le> size_list size vs" using V_List by (auto intro: size_list_estimation')
  then show ?thesis by (simp add: V_List)
qed auto

lemma decodeValue_direct:
  assumes ok: "codec_ok tp"
  shows "tp_UnmarshalValue tp raw = Some v \<Longrightarrow> size v < fuel \<Longrightarrow> decodeValue fuel tp raw = Some (value_any v)"
proof (induction fuel arbitrary: raw v)
  case (Suc fuel)
  have comp: "decodeValue fuel tp (tp_MarshalValue tp c) = Some (value_any c)" if "c \<in> set (components v)" for c
  proof (rule Suc.IH)
    show "tp_UnmarshalValue tp (tp_MarshalValue tp c) = Some c"
      using ok Suc.prems(1) that unfolding codec_ok_def list_all_iff by blast
    show "size c < fuel" using component_size [OF that] Suc.prems(2) by simp
  qed
  show ?case
  proof (cases v)
    case (V_Struct kvs)
    have "list_all (\<lambda>x. (\<lambda>(key, inner). map_option (Pair key) (decodeValue fuel tp (tp_MarshalValue tp inner))) x
        = Some (map_prod id value_any x)) kvs"
      using comp by (force simp: V_Struct list_all_iff)
    then show ?thesis using Suc.prems(1) by (simp add: V_Struct those_map_Some [where g = "map_prod id value_any"])
  next
    case (V_List vs)
    have "list_all (\<lambda>c. decodeValue fuel tp (tp_MarshalValue tp c) = Some (value_any c)) vs"
      using comp by (simp add: V_List list_all_iff)
    then show ?thesis using Suc.prems(1) by (simp add: V_List those_map_Some)
  qed (use Suc.prems(1) in simp_all)
qed simp

definition direct_arg :: "'w transport \<Rightarrow> string \<Rightarrow> goval" where
  "direct_arg tp raw = (case tp_UnmarshalValue tp raw of None \<Rightarrow> GStr raw | Some v \<Rightarrow> value_any v)"

lemma decodeArgs_direct_lemma:
  assumes "codec_ok tp"
  shows "decodeArgs tp args = Some (map (map_prod id (direct_arg tp)) args)"
proof -
  have "decodeValue (value_fuel tp raw) tp raw = Some (direct_arg tp raw)" for raw
    by (cases "tp_UnmarshalValue tp raw")
      (simp_all add: value_fuel_def direct_arg_def decodeValue_direct [OF assms] del: decodeValue.simps(2), simp)
  then show ?thesis
    unfolding decodeArgs_def by (intro those_map_Some) (simp add: list_all_iff split: prod.split)
qed

section \<open>What a turn delivers\<close>

definition quiet :: "TurnEvent \<Rightarrow> bool" where
  "quiet e \<longleftrightarrow> te_Type e \<in> {''text'', ''thinking'', ''usage''} \<and> te_Err e = None"

text \<open>A tool call as it leaves the session, and the four ways in which a turn ends.\<close>

definition proper_call :: "TurnEvent \<Rightarrow> bool" where
  "proper_call c \<longleftrightarrow> te_Type c = ''tool_call'' \<and> te_Err c = None
     \<and> (\<exists>args. te_ToolArgs c = Some args \<and> (te_ToolCustom c \<longrightarrow> as_string (field args ''input'') \<noteq> None))"

definition turn_end :: "TurnEvent list \<Rightarrow> bool" where
  "turn_end es \<longleftrightarrow> es = [] \<or> es = [done_event ''stop''] \<or> (\<exists>e. es = [error_event e])
     \<or> (\<exists>c. es = [c, done_event ''tool_calls''] \<and> proper_call c)"

definition turn_shape :: "TurnEvent list \<Rightarrow> bool" where
  "turn_shape es \<longleftrightarrow> (\<exists>qs fs. es = qs @ fs \<and> list_all quiet qs \<and> turn_end fs)"

lemma turn_end_simps [simp]: "turn_end []" "turn_end [done_event ''stop'']" "turn_end [error_event e]"
  by (auto simp: turn_end_def)

lemma turn_shape_end: "turn_end fs \<Longrightarrow> turn_shape fs"
  unfolding turn_shape_def by (intro exI [of _ "[]"] exI [of _ fs]) simp

lemma turn_shape_append: "list_all quiet qs \<Longrightarrow> turn_shape es \<Longrightarrow> turn_shape (qs @ es)"
  unfolding turn_shape_def by (metis append.assoc list_all_append)

lemma handle_mcp_shape:
  assumes "handle_mcp tp uuid ids args blobs w = Some (s, es, err)"
  shows "es = [] \<and> err \<noteq> None \<or> err = Some ErrTurnFinished \<and> turn_end es"
  using assms
  by (auto simp: handle_mcp_def turn_end_def proper_call_def tool_call_event_def event_of_def
      split: sum.splits option.splits if_splits)

lemma handle_update_shape: "handle_update tp u = Some (es, err) \<Longrightarrow> list_all quiet es \<and> (err = None \<or> es = [])"
  by (auto simp: handle_update_def quiet_def event_defs split: InteractionUpdate.splits if_splits option.splits sum.splits)

lemma handle_shape:
  assumes "handleServerMessage tp uuid tools ids m blobs w = Some (s, es, err)"
  shows "list_all quiet es \<and> (err = None \<or> es = []) \<or> err = Some ErrTurnFinished \<and> turn_end es"
proof (cases m)
  case (Server_KvServerMessage kv)
  with assms have "es = []"
    by (auto simp: handleServerMessage_def handle_kv_def answer_def split: option.splits prod.splits)
  then show ?thesis by simp
next
  case (Server_InteractionUpdate u)
  with assms show ?thesis
    by (auto simp: handleServerMessage_def dest: handle_update_shape)
next
  case (Server_ExecServerMessage x)
  with assms have "handle_exec tp uuid tools ids x blobs w = Some (s, es, err)"
    by (simp add: handleServerMessage_def)
  then show ?thesis
    by (auto simp: handle_exec_def answer_def split: ExecServerMessage_oneof.splits prod.splits dest: handle_mcp_shape)
next
  case Server_Other
  with assms show ?thesis by (simp add: handleServerMessage_def)
qed

text \<open>What a round does with a message, and what it does before.\<close>

definition message_round :: "'w transport \<Rightarrow> string \<Rightarrow> time \<Rightarrow> bool \<Rightarrow> TurnInput \<Rightarrow> AgentServerMessage \<Rightarrow> body \<Rightarrow> blobs \<Rightarrow> 'w \<Rightarrow>
    ('w \<times> TurnEvent list) option" where
  "message_round tp uuid now cd input m b blobs w =
     (case handleServerMessage tp uuid (in_Tools input) (in_ToolIdentities input) m blobs w of
        None \<Rightarrow> None
      | Some ((blobs', w'), events, Some err) \<Rightarrow>
          Some (w', events @ (if errors_is err ErrTurnFinished then [] else [error_event err]))
      | Some ((blobs', w'), events, None) \<Rightarrow>
          if ends_turn m then Some (w', events @ [done_event ''stop''])
          else map_option (\<lambda>(w'', rest). (w'', events @ rest)) (turn_loop tp uuid now cd input b blobs' w'))"

lemma turn_loop_read:
  fixes tp :: "'w transport"
  obtains
    (over) es where "turn_loop tp uuid now cd input b blobs w = Some (w, es)" "turn_end es"
  | (skip) b' where "length (fst b') < length (fst b)"
      "turn_loop tp uuid now cd input b blobs w = turn_loop tp uuid now cd input b' blobs w"
  | (message) m b' where "length (fst b') < length (fst b)"
      "turn_loop tp uuid now cd input b blobs w = message_round tp uuid now cd input m b' blobs w"
proof (cases "readConnectFrame b")
  case (Inl e)
  then show thesis using over by (simp add: turn_loop.simps [of _ _ _ _ _ b])
next
  case (Inr r)
  then obtain flag payload0 b' where r: "readConnectFrame b = Inr ((flag, payload0), b')" by (cases r) auto
  have shorter: "length (fst b') < length (fst b)" using readConnectFrame_shrinks [OF r] by simp
  note eq = turn_loop.simps [of tp uuid now cd input b blobs w, simplified r sum.case prod.case]
  show thesis
  proof (cases "if connectFlagCompressed flag then gunzipPayload (tp_GzipReader tp) payload0 else Inr payload0")
    case (Inl e)
    then show thesis using over eq by simp
  next
    case p: (Inr payload)
    note eq = eq [unfolded p sum.case]
    show thesis
    proof (cases "connectFlagEndStream flag")
      case True
      moreover have "turn_end [end_stream_event now payload]" by (simp add: end_stream_event_def split: option.split)
      ultimately show thesis using over eq by simp
    next
      case False
      then show thesis
        using skip [OF shorter] message [OF shorter, folded message_round_def] eq
        by (cases "tp_Unmarshal tp payload") (simp_all add: message_round_def)
    qed
  qed
qed

text \<open>One round of the loop.\<close>

lemma turn_loop_round:
  fixes tp :: "'w transport"
  obtains
    (over) es where "turn_loop tp uuid now cd input b blobs w = Some (w, es)" "turn_end es"
  | (skip) b' where "length (fst b') < length (fst b)"
      "turn_loop tp uuid now cd input b blobs w = turn_loop tp uuid now cd input b' blobs w"
  | (stuck) m where "handleServerMessage tp uuid (in_Tools input) (in_ToolIdentities input) m blobs w = None"
      "turn_loop tp uuid now cd input b blobs w = None"
  | (last) m blobs1 w1 evs err es where
      "handleServerMessage tp uuid (in_Tools input) (in_ToolIdentities input) m blobs w = Some ((blobs1, w1), evs, err)"
      "turn_loop tp uuid now cd input b blobs w = Some (w1, evs @ es)" "turn_end es" "err = Some ErrTurnFinished \<longrightarrow> es = []"
  | (more) m blobs1 w1 evs b' where "length (fst b') < length (fst b)"
      "handleServerMessage tp uuid (in_Tools input) (in_ToolIdentities input) m blobs w = Some ((blobs1, w1), evs, None)"
      "turn_loop tp uuid now cd input b blobs w
         = map_option (\<lambda>(w'', rest). (w'', evs @ rest)) (turn_loop tp uuid now cd input b' blobs1 w1)"
proof (cases rule: turn_loop_read [of tp uuid now cd input b blobs w])
  case (message m b')
  let ?h = "handleServerMessage tp uuid (in_Tools input) (in_ToolIdentities input) m blobs w"
  note eq = message(2) [unfolded message_round_def]
  show thesis
  proof (cases ?h)
    case None
    then show thesis using stuck [OF None] eq by simp
  next
    case (Some h)
    then obtain blobs1 w1 evs err where h: "?h = Some ((blobs1, w1), evs, err)" by (cases h) auto
    show thesis
    proof (cases err)
      case (Some e)
      then show thesis using last [OF h, of "if errors_is e ErrTurnFinished then [] else [error_event e]"] eq h
        by (simp add: errors_is_def)
    next
      case None
      then show thesis using last [OF h, of "[done_event ''stop'']"] more [OF message(1)] eq h
        by (cases "ends_turn m") simp_all
    qed
  qed
qed (use over skip in blast)+

lemma turn_loop_shape:
  "turn_loop tp uuid now cd input b blobs w = Some (w', es) \<Longrightarrow> turn_shape es"
proof (induction "length (fst b)" arbitrary: b blobs w es rule: less_induct)
  case less
  show ?case
  proof (cases rule: turn_loop_round [of tp uuid now cd input b blobs w])
    case (over es')
    then show ?thesis using less.prems by (simp add: turn_shape_end)
  next
    case (skip b')
    then show ?thesis using less.hyps [OF skip(1)] less.prems by metis
  next
    case (last m blobs1 w1 evs err es')
    then have "es = evs @ es'" using less.prems by simp
    then show ?thesis
      using handle_shape [OF last(1)] turn_shape_append [OF _ turn_shape_end [OF last(3)]] last(4) turn_shape_end by fastforce
  next
    case (more m blobs1 w1 evs b')
    then obtain rest where "turn_loop tp uuid now cd input b' blobs1 w1 = Some (w', rest)" "es = evs @ rest"
      using less.prems by (cases "turn_loop tp uuid now cd input b' blobs1 w1") auto
    then show ?thesis
      using less.hyps [OF more(1)] handle_shape [OF more(2)] by (auto simp: turn_shape_append)
  qed (use less.prems in simp)
qed

text \<open>The rule for what the loop does to the blobs and the world, and that it ends.\<close>

lemma turn_loop_world:
  assumes step: "\<And>m blobs w blobs' w' es err. P blobs w \<Longrightarrow>
      handleServerMessage tp uuid (in_Tools input) (in_ToolIdentities input) m blobs w = Some ((blobs', w'), es, err) \<Longrightarrow> P blobs' w'"
  shows "P blobs w \<Longrightarrow> turn_loop tp uuid now cd input b blobs w = Some (w', es) \<Longrightarrow> \<exists>blobs'. P blobs' w'"
proof (induction "length (fst b)" arbitrary: b blobs w es rule: less_induct)
  case less
  show ?case
  proof (cases rule: turn_loop_round [of tp uuid now cd input b blobs w])
    case (last m blobs1 w1 evs err es')
    then show ?thesis using step [OF less.prems(1) last(1)] less.prems(2) by auto
  next
    case (more m blobs1 w1 evs b')
    then obtain rest where "turn_loop tp uuid now cd input b' blobs1 w1 = Some (w', rest)"
      using less.prems(2) more(3) by (cases "turn_loop tp uuid now cd input b' blobs1 w1") auto
    then show ?thesis using less.hyps [OF more(1) step [OF less.prems(1) more(2)]] by blast
  next
    case (skip b')
    then show ?thesis using less.hyps [OF skip(1) less.prems(1)] less.prems(2) by metis
  qed (use less.prems in auto)
qed

lemma turn_loop_total:
  assumes total: "\<And>m blobs w. handleServerMessage tp uuid (in_Tools input) (in_ToolIdentities input) m blobs w \<noteq> None"
  shows "turn_loop tp uuid now cd input b blobs w \<noteq> None"
proof (induction "length (fst b)" arbitrary: b blobs w rule: less_induct)
  case less
  show ?case
  proof (cases rule: turn_loop_round [of tp uuid now cd input b blobs w])
    case (more m blobs1 w1 evs b')
    then show ?thesis using less.hyps [OF more(1), of blobs1 w1] by auto
  next
    case (skip b')
    then show ?thesis using less.hyps [OF skip(1), of blobs w] by simp
  next
    case (stuck m)
    then show ?thesis using total by blast
  qed auto
qed

lemma handle_total:
  assumes "codec_ok tp" "protowire_ok (tp_Wire tp)"
  shows "handleServerMessage tp uuid tools ids m blobs w \<noteq> None"
proof -
  have "usageFromTurnEnded (tp_Wire tp) (Some raw) \<noteq> None" for raw
    using usage_loop_ends [OF assms(2), of raw "length raw" zero_usage]
    by (auto simp: usageFromTurnEnded_def zero_usage_ok)
  then have u: "\<exists>r. usageFromTurnEnded (tp_Wire tp) (Some raw) = Some r" for raw by blast
  have "handle_update tp x \<noteq> None" for x
  proof (cases x)
    case (TurnEnded raw)
    then show ?thesis using u [of raw] by (auto simp: handle_update_def split: sum.split)
  qed (simp_all add: handle_update_def)
  then show ?thesis
    by (auto simp: handleServerMessage_def handle_kv_def handle_exec_def handle_mcp_def answer_def
        decodeArgs_direct_lemma [OF assms(1)] split: AgentServerMessage.split
        ExecServerMessage_oneof.split option.split prod.split sum.split)
qed

lemma handle_world:
  assumes "handleServerMessage tp uuid tools ids m blobs w = Some ((blobs', w'), es, err)"
  shows "w' = w \<or> (\<exists>msg. w' = fst (send tp msg w))"
proof -
  have "\<exists>msg. w' = fst (send tp msg w)" if "send tp msg w = (w', e)" for msg e
    using that by (metis fst_conv)
  then show ?thesis using assms
    by (auto simp: handleServerMessage_def handle_kv_def handle_exec_def handle_mcp_def answer_def
        split: AgentServerMessage.splits
        ExecServerMessage_oneof.splits option.splits prod.splits sum.splits if_splits)
qed

section \<open>What the server reads\<close>

text \<open>A transport whose world is the sequence of bytes written so far.\<close>

definition appends :: "string transport \<Rightarrow> bool" where
  "appends tp \<longleftrightarrow> tp_Write tp = (\<lambda>s w. (w @ s, None))"

text \<open>The bytes after \<open>start\<close> are frames of messages of this transport.\<close>

definition framed :: "string transport \<Rightarrow> string \<Rightarrow> string \<Rightarrow> bool" where
  "framed tp start w \<longleftrightarrow>
     (\<exists>ps. w = start @ concat (map send_frame ps) \<and> list_all (\<lambda>p. \<exists>m. tp_Marshal tp m = Inr p) ps)"

lemma framed_refl: "framed tp w w"
  unfolding framed_def by (intro exI [of _ "[]"]) simp

lemma framed_snoc: "framed tp start w \<Longrightarrow> tp_Marshal tp m = Inr p \<Longrightarrow> framed tp start (w @ send_frame p)"
proof -
  assume "framed tp start w" and p: "tp_Marshal tp m = Inr p"
  then obtain ps where "w = start @ concat (map send_frame ps)" "list_all (\<lambda>p. \<exists>m. tp_Marshal tp m = Inr p) ps"
    by (auto simp: framed_def)
  with p show ?thesis unfolding framed_def by (intro exI [of _ "ps @ [p]"]) auto
qed

lemma framed_send: "appends tp \<Longrightarrow> framed tp start w \<Longrightarrow> framed tp start (fst (send tp m w))"
  by (auto simp: send_def appends_def framed_snoc split: sum.split)

lemma framed_loop:
  assumes "appends tp" "turn_loop tp u n c input b bl w = Some (w', es)" "framed tp start w"
  shows "framed tp start w'"
proof -
  have "framed tp start ww'" if "framed tp start ww"
      "handleServerMessage tp u (in_Tools input) (in_ToolIdentities input) m bl ww = Some ((bl', ww'), es, e)"
    for m bl ww bl' ww' es e
    using handle_world [OF that(2)] that(1) framed_send [OF assms(1)] by auto
  then show ?thesis using turn_loop_world [of "\<lambda>_. framed tp start" tp u input bl w n c b w' es] assms(2,3) by blast
qed

lemma send_appends:
  assumes "appends tp" "send tp m w = (w', err)"
  shows "err = None \<and> (\<exists>p. tp_Marshal tp m = Inr p \<and> w' = w @ send_frame p) \<or> err \<noteq> None \<and> w' = w"
  using assms by (auto simp: send_def appends_def split: sum.splits)

text \<open>What a turn has written: nothing, or the run request and then frames.\<close>

lemma runTurn_framed:
  assumes "appends tp" "\<And>u h w. fst (cn_Do cn u h w) = w" "runTurn cfg tp cn uuid token model input [] = Some (w', r)"
  shows "(\<exists>err. r = Inl err) \<and> w' = []
    \<or> (\<exists>p. tp_Marshal tp (Client_RunRequest (run_request tp uuid model input)) = Inr p \<and> framed tp (send_frame p) w')"
proof (cases "\<exists>err. r = Inl err \<and> w' = []")
  case False
  obtain w1 err1 where s: "send tp (Client_RunRequest (run_request tp uuid model input)) [] = (w1, err1)"
    by (cases "send tp (Client_RunRequest (run_request tp uuid model input)) []")
  have n: "cn_NewRequest cn (turn_url cfg) = None" using assms(3) False by (auto simp: runTurn_def split: option.splits)
  have "err1 = None" using assms(3) False n s send_appends [OF assms(1) s] by (cases err1) (auto simp: runTurn_def)
  with send_appends [OF assms(1) s] obtain p where
    p: "tp_Marshal tp (Client_RunRequest (run_request tp uuid model input)) = Inr p" "w1 = send_frame p" by auto
  obtain d where d: "cn_Do cn (turn_url cfg) (turn_headers cfg token (uuid 0)) w1 = (w1, d)"
    using assms(2) [of "turn_url cfg" "turn_headers cfg token (uuid 0)" w1] by (metis prod.collapse)
  have "framed tp w1 w'"
    using assms(3)
    by (auto simp: runTurn_def n s \<open>err1 = None\<close> d framed_refl split: sum.splits if_splits
        intro: framed_loop [OF assms(1) _ framed_refl])
  then have "framed tp (send_frame p) w'" by (simp only: p(2))
  with p(1) show ?thesis by blast
qed auto

text \<open>Reading back what was framed, when no message is too big for a reader.\<close>

lemma framed_payloads:
  "framed tp (send_frame p) w \<Longrightarrow> tp_Marshal tp m = Inr p \<Longrightarrow>
   \<exists>ps. w = concat (map send_frame (p # ps)) \<and> list_all (\<lambda>p. \<exists>m. tp_Marshal tp m = Inr p) (p # ps)"
  by (auto simp: framed_def)

lemma frames_read:
  assumes "list_all (\<lambda>p. length p \<le> max_frame) ps"
  shows "frames.read_all (Suc (length (concat (map send_frame ps)))) (concat (map send_frame ps), ErrEOF)
    = (map (Pair (char_of (0 :: nat))) ps, Some ErrEOF)"
proof -
  let ?fs = "map (Pair (char_of (0 :: nat))) ps"
  have e: "concat (map send_frame ps) = concat (map connect_frame ?fs)" by (simp add: send_frame_def [abs_def] comp_def)
  have "length qs \<le> length (concat (map send_frame qs))" for qs
  proof (induction qs)
    case (Cons q qs)
    have "1 \<le> length (send_frame q)" by (simp add: send_frame_def connect_frame_def)
    with Cons.IH show ?case unfolding list.map concat.simps length_append list.size by linarith
  qed simp
  then have "length ?fs < Suc (length (concat (map send_frame ps)))" using le_imp_less_Suc by (metis length_map)
  moreover have "list_all (\<lambda>p. length (snd p) \<le> max_frame) ?fs" using assms by (simp add: list_all_iff)
  ultimately show ?thesis unfolding e by (intro frames.read_all_frames) simp_all
qed

section \<open>Blobs\<close>

lemma blob_key_inj: "blob_key a = blob_key b \<longleftrightarrow> a = b"
  by (auto simp: blob_key_def dest: hex_encode_inj)

lemma root_blobs_puts: "root_blobs sha ms = gm.puts (map (\<lambda>m. (blob_key (sha m), m)) ms) []"
  unfolding root_blobs_def gm.puts_def by (simp add: fold_map comp_def)

lemma root_blobs_get:
  assumes "inj_on sha (set ms)" "m \<in> set ms"
  shows "gm_get (root_blobs sha ms) (blob_key (sha m)) = Some m"
proof -
  have "gm_get (rev (map (\<lambda>m. (blob_key (sha m), m)) ms)) (blob_key (sha m)) \<noteq> None"
    using assms(2) by (auto simp: map_of_eq_None_iff image_iff)
  then obtain m' where m': "gm_get (rev (map (\<lambda>m. (blob_key (sha m), m)) ms)) (blob_key (sha m)) = Some m'" by blast
  then have "m' \<in> set ms" "sha m' = sha m" by (auto dest!: map_of_SomeD simp: blob_key_inj)
  then have "m' = m" using assms by (auto dest: inj_onD)
  then show ?thesis using m' by (simp add: root_blobs_puts gm.lookup_puts)
qed

text \<open>The messages of a turn one after the other, and the id a message stores a blob under.\<close>

fun handle_all :: "'w transport \<Rightarrow> string \<Rightarrow> McpToolDefinition list \<Rightarrow> (string, toolIdentity) gomap \<Rightarrow>
    AgentServerMessage list \<Rightarrow> blobs \<Rightarrow> 'w \<Rightarrow> (blobs \<times> 'w) option" where
  "handle_all tp uuid tools ids [] blobs w = Some (blobs, w)"
| "handle_all tp uuid tools ids (m # ms) blobs w =
     (case handleServerMessage tp uuid tools ids m blobs w of
        Some ((blobs', w'), _, None) \<Rightarrow> handle_all tp uuid tools ids ms blobs' w'
      | _ \<Rightarrow> None)"

definition stored_id :: "AgentServerMessage \<Rightarrow> string option" where
  "stored_id m = (case m of Server_KvServerMessage kv \<Rightarrow> map_option sb_BlobId (GetSetBlobArgs (ks_Message kv)) | _ \<Rightarrow> None)"

lemma handle_keeps:
  assumes "handleServerMessage tp uuid tools ids m blobs w = Some ((blobs', w'), es, err)" "stored_id m \<noteq> Some i"
  shows "gm_get blobs' (blob_key i) = gm_get blobs (blob_key i)"
proof (cases m)
  case (Server_KvServerMessage kv)
  then show ?thesis
    using assms by (cases "ks_Message kv")
      (auto simp: handleServerMessage_def handle_kv_def answer_def stored_id_def blob_key_inj split: prod.splits)
next
  case (Server_ExecServerMessage x)
  then show ?thesis
    using assms(1) by (auto simp: handleServerMessage_def handle_exec_def handle_mcp_def answer_def
        split: ExecServerMessage_oneof.splits option.splits prod.splits sum.splits if_splits)
qed (use assms(1) in \<open>auto simp: handleServerMessage_def\<close>)

lemma handle_all_keeps:
  "handle_all tp uuid tools ids ms blobs w = Some (blobs', w') \<Longrightarrow> \<forall>x \<in> set ms. stored_id x \<noteq> Some i \<Longrightarrow>
   gm_get blobs' (blob_key i) = gm_get blobs (blob_key i)"
  by (induction ms arbitrary: blobs w) (auto split: option.splits prod.splits dest!: handle_keeps [where i = i])

section \<open>A transport for concrete inputs\<close>

text \<open>What the plugin writes is put into the world by \<open>put\<close>; by default the world is what was written.\<close>

definition demo_transport_on :: "(string \<Rightarrow> 'w \<Rightarrow> 'w) \<Rightarrow> 'w transport" where
  "demo_transport_on put = \<lparr>
     tp_Marshal = (\<lambda>m. Inr (case m of Client_RunRequest _ \<Rightarrow> ''R'' | Client_ExecClientMessage _ \<Rightarrow> ''E''
                               | Client_KvClientMessage _ \<Rightarrow> ''K'')),
     tp_Unmarshal = (\<lambda>s. if s = ''D'' then Some (Server_InteractionUpdate (TextDelta ''hi''))
                         else if s = ''E'' then Some (Server_InteractionUpdate (TurnEnded []))
                         else if s = ''C'' then Some (Server_ExecServerMessage
                           \<lparr>es_Id = 1, es_ExecId = ''x'', es_Message = Exec_RequestContextArgs\<rparr>) else None),
     tp_UnmarshalValue = (\<lambda>raw. case raw of [] \<Rightarrow> None
         | c # s \<Rightarrow> if c = CHR ''s'' then Some (V_String s) else if c = CHR ''b'' then Some (V_Bool True)
                    else if c = CHR ''l'' then Some (V_List [V_String s, V_Bool True]) else None),
     tp_MarshalValue = (\<lambda>v. case v of V_String s \<Rightarrow> CHR ''s'' # s | V_Bool _ \<Rightarrow> ''b'' | _ \<Rightarrow> []),
     tp_Wire = ref_wire, tp_GzipReader = (\<lambda>s. Inr (s, ErrEOF)), tp_Sha256 = (\<lambda>s. s), tp_Write = (\<lambda>s w. (put s w, None))\<rparr>"

abbreviation demo_transport :: "string transport" where
  "demo_transport \<equiv> demo_transport_on (\<lambda>s w. w @ s)"

definition demo_requests :: "AgentServerMessage list" where
  "demo_requests = [Server_KvServerMessage \<lparr>ks_Id = 7, ks_Message = Kv_SetBlobArgs \<lparr>sb_BlobId = ''z'', sb_BlobData = ''q''\<rparr>\<rparr>,
     Server_InteractionUpdate (TextDelta ''hi''), Server_KvServerMessage \<lparr>ks_Id = 8, ks_Message = Kv_GetBlobArgs ''z''\<rparr>]"

lemma demo_codec_ok: "codec_ok demo_transport"
  by (auto simp: codec_ok_def demo_transport_on_def split: list.splits if_splits)

lemma demo_wire_ok: "protowire_ok (tp_Wire demo_transport)"
  by (simp add: demo_transport_on_def ref_wire_ok)

lemma demo_appends: "appends demo_transport"
  by (simp add: appends_def demo_transport_on_def)

lemma demo_marshal: "tp_Marshal demo_transport m = Inr p \<Longrightarrow> length p = 1"
  by (cases m) (auto simp: demo_transport_on_def)

definition demo_connection :: "string \<Rightarrow> 'w connection" where
  "demo_connection body = \<lparr>cn_NewRequest = (\<lambda>u. None),
     cn_Do = (\<lambda>u h w. (w, Inr \<lparr>hr_StatusCode = 200, hr_Header = [], hr_Body = (body, ErrEOF)\<rparr>)),
     cn_CtxDone = (\<lambda>w. False), cn_Now = (\<lambda>w. 0)\<rparr>"

definition demo_model :: RequestedModel where
  "demo_model = \<lparr>rm_ModelId = ''grok'', rm_Parameters = []\<rparr>"

definition demo_input :: TurnInput where
  "demo_input = \<lparr>in_RootMessages = [''m''], in_UserText = ''hi'', in_Tools = [], in_ToolIdentities = []\<rparr>"

definition demo_body :: string where
  "demo_body = send_frame ''C'' @ send_frame ''D'' @ send_frame ''E''"

lemma demo_turn_any:
  assumes "in_Tools input = []" "in_ToolIdentities input = []"
  shows "runTurn cfg (demo_transport_on put) (demo_connection demo_body) uuid token model input w
     = Some (put (send_frame ''E'') (put (send_frame ''R'') w),
         Inr [text_event ''hi'', usage_event zero_usage, done_event ''stop''])"
proof -
  have rd: "readConnectFrame (send_frame [c] @ rest, e) = Inr ((char_of (0 :: nat), [c]), (rest, e))" for c rest e
    using readConnectFrame_frame [of "(char_of (0 :: nat), [c])" rest e] by (simp add: send_frame_def max_frame_def)
  have body: "demo_body = send_frame ''C'' @ (send_frame ''D'' @ (send_frame ''E'' @ []))" by (simp add: demo_body_def)
  have flags: "\<not> connectFlagCompressed (char_of (0 :: nat))" "\<not> connectFlagEndStream (char_of (0 :: nat))"
    by (simp_all add: connectFlagCompressed_def connectFlagEndStream_def)
  note tl = turn_loop.simps [of _ _ _ _ _ "(send_frame [c] @ rest, e)" for c rest e]
    turn_loop.simps [of _ _ _ _ _ "(send_frame [c], e)" for c e]
  have u: "tp_Unmarshal (demo_transport_on put) ''C'' = Some (Server_ExecServerMessage
      \<lparr>es_Id = 1, es_ExecId = ''x'', es_Message = Exec_RequestContextArgs\<rparr>)"
    "tp_Unmarshal (demo_transport_on put) ''D'' = Some (Server_InteractionUpdate (TextDelta ''hi''))"
    "tp_Unmarshal (demo_transport_on put) ''E'' = Some (Server_InteractionUpdate (TurnEnded []))"
    "tp_Marshal (demo_transport_on put) (Client_RunRequest x) = Inr ''R''"
    "tp_Marshal (demo_transport_on put) (Client_ExecClientMessage y) = Inr ''E''"
    "tp_Write (demo_transport_on put) = (\<lambda>s w. (put s w, None))" for x y
    by (simp_all add: demo_transport_on_def)
  show ?thesis
    unfolding runTurn_def demo_connection_def
    by (simp add: body assms tl rd rd [where rest = "[]", simplified] flags u handleServerMessage_def handle_exec_def exec_answer_def answer_def send_def
        handle_update_def usageFromTurnEnded_def ends_turn_def)
qed

lemma demo_turn:
  "runTurn DefaultConfig demo_transport (demo_connection demo_body) (\<lambda>_. []) [] demo_model demo_input []
     = Some (send_frame ''R'' @ send_frame ''E'',
         Inr [text_event ''hi'', usage_event zero_usage, done_event ''stop''])"
  using demo_turn_any [of demo_input DefaultConfig "\<lambda>s w. w @ s" "\<lambda>_. []" "[]" demo_model "[]"] by (simp add: demo_input_def)

lemma runTurn_total:
  assumes "codec_ok tp" and "protowire_ok (tp_Wire tp)"
  shows "\<exists>w' r. runTurn cfg tp cn uuid token model input w = Some (w', r)"
proof -
  have t: "turn_loop tp u n c input b bl ww \<noteq> None" for u n c b bl ww
    using handle_total [OF assms] by (rule turn_loop_total)
  have "runTurn cfg tp cn uuid token model input w \<noteq> None"
    using t by (auto simp: runTurn_def simp del: not_None_eq split: option.split prod.split sum.split)
  then show ?thesis by auto
qed

section \<open>Properties\<close>

text \<open>
  C33. Cursor's structured tool arguments reach the caller unchanged: encoding and decoding
  the components again, level by level, always ends and gives each value its direct reading;
  an argument that is no valid value is passed on as text.
\<close>

theorem decoded_arguments:
  assumes "codec_ok tp"
  shows "decodeArgs tp args = Some (map (map_prod id (direct_arg tp)) args)"
  using assms by (rule decodeArgs_direct_lemma)

theorem decoded_arguments_witness:
  "decodeArgs demo_transport [(''a'', ''lx''), (''b'', ''?'')]
     = Some [(''a'', GList [GStr ''x'', GBool True]), (''b'', GStr ''?'')]"
  using decoded_arguments [OF demo_codec_ok, of "[(''a'', ''lx''), (''b'', ''?'')]"]
  by (simp add: direct_arg_def demo_transport_on_def)

text \<open>
  C9. A turn always ends, whatever the server sends: every round reads at least the five
  bytes of a frame header, and no handler runs forever.
\<close>

theorem turn_terminates:
  assumes "codec_ok tp" and "protowire_ok (tp_Wire tp)"
  shows "\<exists>w' r. runTurn cfg tp cn uuid token model input w = Some (w', r)"
  using assms by (rule runTurn_total)

theorem turn_terminates_witness:
  "\<exists>w' r. runTurn DefaultConfig demo_transport (demo_connection (replicate 7 (char_of (1 :: nat)))) (\<lambda>_. []) [] demo_model
     demo_input [] = Some (w', r)"
  by (rule turn_terminates [OF demo_codec_ok demo_wire_ok])

text \<open>
  C10. The events of a turn have the form the rest of the plugin relies on: deltas and usage
  without errors, then at most one end: a stop, an error, or exactly one tool call followed
  by its end. A custom tool call carries a string input. Nothing follows the end.
\<close>

theorem turn_events:
  assumes "runTurn cfg tp cn uuid token model input w = Some (w', Inr es)"
  shows "turn_shape es"
  using assms
  by (auto simp: runTurn_def split: option.splits prod.splits sum.splits if_splits dest: turn_loop_shape)

theorem turn_events_witness:
  "turn_shape [text_event ''hi'', usage_event zero_usage, done_event ''stop'']"
  by (rule turn_events [OF demo_turn])

text \<open>
  C11. What the plugin writes to the server during a turn is a sequence of frames, whole and in order,
  each holding a message it encoded; once the turn has been opened the first of them is the run
  request. A reader with the plugin's own limit of 64 MiB for a frame gets exactly these
  messages back and then the end of the data, provided none of them is bigger than that (the writer
  does not check it).
\<close>

theorem server_reads_frames:
  assumes "appends tp" and "\<And>u h w. fst (cn_Do cn u h w) = w"
    and "runTurn cfg tp cn uuid token model input [] = Some (w', r)"
  shows "\<exists>ps. w' = concat (map send_frame ps)
     \<and> list_all (\<lambda>p. \<exists>m. tp_Marshal tp m = Inr p) ps
     \<and> (\<forall>events. r = Inr events \<longrightarrow>
          (\<exists>p qs. ps = p # qs \<and> tp_Marshal tp (Client_RunRequest (run_request tp uuid model input)) = Inr p))
     \<and> (list_all (\<lambda>p. length p \<le> max_frame) ps \<longrightarrow>
          frames.read_all (Suc (length w')) (w', ErrEOF) = (map (Pair (char_of (0 :: nat))) ps, Some ErrEOF))"
  using runTurn_framed [OF assms]
proof (elim disjE exE conjE)
  fix p
  assume p: "tp_Marshal tp (Client_RunRequest (run_request tp uuid model input)) = Inr p" "framed tp (send_frame p) w'"
  obtain ps where "w' = concat (map send_frame (p # ps))" "list_all (\<lambda>p. \<exists>m. tp_Marshal tp m = Inr p) (p # ps)"
    using framed_payloads [OF p(2,1)] by blast
  with p(1) frames_read [of "p # ps"] show ?thesis by (intro exI [of _ "p # ps"]) (simp only:, simp)
next
  fix err
  assume "r = Inl err" "w' = []"
  then show ?thesis using frames_read [of "[]"] by (intro exI [of _ "[]"]) simp
qed

theorem server_reads_frames_witness:
  "\<exists>ps. frames.read_all (Suc (length (send_frame ''R'' @ send_frame ''E''))) (send_frame ''R'' @ send_frame ''E'', ErrEOF)
     = (map (Pair (char_of (0 :: nat))) (''R'' # ps), Some ErrEOF)"
proof -
  have do: "fst (cn_Do (demo_connection demo_body) u h w) = w" for u h w by (simp add: demo_connection_def)
  have run: "tp_Marshal demo_transport (Client_RunRequest x) = Inr p \<Longrightarrow> p = ''R''" for x p
    by (simp add: demo_transport_on_def)
  obtain p qs where ps: "list_all (\<lambda>p. \<exists>m. tp_Marshal demo_transport m = Inr p) (p # qs)"
    "tp_Marshal demo_transport (Client_RunRequest (run_request demo_transport (\<lambda>_. []) demo_model demo_input)) = Inr p"
    "list_all (\<lambda>p. length p \<le> max_frame) (p # qs) \<longrightarrow>
       frames.read_all (Suc (length (send_frame ''R'' @ send_frame ''E''))) (send_frame ''R'' @ send_frame ''E'', ErrEOF)
         = (map (Pair (char_of (0 :: nat))) (p # qs), Some ErrEOF)"
    using server_reads_frames [OF demo_appends do demo_turn]
    by (elim exE conjE allE [where x = "[text_event ''hi'', usage_event zero_usage, done_event ''stop'']"] impE [OF _ refl]) simp
  have "list_all (\<lambda>p. length p \<le> max_frame) (p # qs)"
    using ps(1) by (auto simp: list_all_iff max_frame_def dest!: demo_marshal)
  with ps(3) run [OF ps(2)] show ?thesis by blast
qed

text \<open>
  C34. The server gets the history it was promised: whatever messages it sent before, and whatever
  blobs of its own it stored under other ids, if it asks for the id of a history message, the plugin
  answers with that message. The hash is assumed to have no collision among the messages of the
  conversation.
\<close>

theorem history_blob_served:
  assumes "inj_on (tp_Sha256 tp) (set history)" and "m \<in> set history" and "m \<noteq> []"
    and "handle_all tp uuid tools ids ms (root_blobs (tp_Sha256 tp) history) w = Some (blobs, w')"
    and "\<forall>x \<in> set ms. stored_id x \<noteq> Some (tp_Sha256 tp m)"
  shows "handleServerMessage tp uuid tools ids
      (Server_KvServerMessage \<lparr>ks_Id = i, ks_Message = Kv_GetBlobArgs (tp_Sha256 tp m)\<rparr>) blobs w'
    = answer tp (Client_KvClientMessage \<lparr>kc_Id = i, kc_Message = KvClient_GetBlobResult (Some m)\<rparr>) blobs w'"
proof -
  have "gm_get blobs (blob_key (tp_Sha256 tp m)) = Some m"
    using handle_all_keeps [OF assms(4,5)] root_blobs_get [OF assms(1,2)] by simp
  then show ?thesis using assms(3) by (simp add: handleServerMessage_def handle_kv_def blob_data_def)
qed

theorem history_blob_served_witness:
  "\<exists>blobs w. handle_all demo_transport [] [] [] demo_requests (root_blobs (tp_Sha256 demo_transport) [''m'', ''n'']) [] = Some (blobs, w)
    \<and> handleServerMessage demo_transport [] [] [] (Server_KvServerMessage \<lparr>ks_Id = 1, ks_Message = Kv_GetBlobArgs ''m''\<rparr>) blobs w
      = answer demo_transport (Client_KvClientMessage \<lparr>kc_Id = 1, kc_Message = KvClient_GetBlobResult (Some ''m'')\<rparr>) blobs w"
proof -
  let ?bl = "root_blobs (tp_Sha256 demo_transport) [''m'', ''n'']"
  have id: "tp_Sha256 demo_transport = (\<lambda>s. s)" by (simp add: demo_transport_on_def)
  obtain blobs w where h: "handle_all demo_transport [] [] [] demo_requests ?bl [] = Some (blobs, w)"
    by (simp add: demo_requests_def handleServerMessage_def handle_kv_def answer_def send_def demo_transport_on_def
        handle_update_def)
  have "\<forall>x \<in> set demo_requests. stored_id x \<noteq> Some (tp_Sha256 demo_transport ''m'')"
    by (simp add: demo_requests_def stored_id_def id)
  from history_blob_served [OF _ _ _ h this, of 1] h show ?thesis by (auto simp: id)
qed

text \<open>
  An observation on errors: a connection that cannot be opened closes the read end of the
  pipe, so the pending write of the run request fails first, with an error that is neither
  an end of file nor a network error. The retry of the executor does not apply to it.
\<close>

lemma closed_pipe_hides_network_error:
  assumes "cn_NewRequest cn (turn_url cfg) = None"
    and "send tp (Client_RunRequest (run_request tp uuid model input)) w = (w1, Some (PlainErr ''io: read/write on closed pipe''))"
  shows "runTurn cfg tp cn uuid token model input w
    = Some (w1, Inl (WrapErr ''start Cursor turn'' (PlainErr ''io: read/write on closed pipe'')))"
  using assms by (simp add: runTurn_def)

end
