(* ===== verification/Stream.thy ===== *)
theory Stream
  imports Session
begin

text \<open>
  executor.go, the rendering of a turn: the streaming state machine of the three response
  formats, the preparation of a stream and its delivery, and the collected, non-streaming
  response. The channel of a turn is the list of the events it delivers until it is closed
  (see \<open>Turn_Channel\<close> for the channel itself).
\<close>

section \<open>Collected turns\<close>

record collectedTurn =
  ct_Text :: string
  ct_Thinking :: string
  ct_ToolCalls :: "toolCall list"
  ct_Usage :: tokenUsage
  ct_DoneReason :: string

definition observe_event :: "tokenUsage \<Rightarrow> TurnEvent \<Rightarrow> tokenUsage" where
  "observe_event u event = observe u (te_Usage event) (te_Tokens event)"

definition new_collected :: collectedTurn where
  "new_collected = \<lparr>ct_Text = [], ct_Thinking = [], ct_ToolCalls = [], ct_Usage = zero_usage, ct_DoneReason = ''stop''\<rparr>"

fun collect_loop :: "TurnEvent list \<Rightarrow> collectedTurn \<Rightarrow> goerr + collectedTurn" where
  "collect_loop [] result = Inr result"
| "collect_loop (event # events) result =
     (if te_Type event = ''text'' then
        collect_loop events (result\<lparr>ct_Text := ct_Text result @ te_Text event\<rparr>)
      else if te_Type event = ''thinking'' then
        collect_loop events (result\<lparr>ct_Thinking := ct_Thinking result @ te_Text event\<rparr>)
      else if te_Type event = ''tool_call'' then
        collect_loop events (result\<lparr>ct_ToolCalls := ct_ToolCalls result @ [toolCallFromEvent event]\<rparr>)
      else if te_Type event = ''usage'' then
        collect_loop events (result\<lparr>ct_Usage := observe_event (ct_Usage result) event\<rparr>)
      else if te_Type event = ''done'' then
        (case te_Err event of
           Some err \<Rightarrow> Inl err
         | None \<Rightarrow> collect_loop events (result\<lparr>ct_DoneReason := te_DoneReason event\<rparr>))
      else collect_loop events result)"

definition collectTurn :: "TurnEvent list \<Rightarrow> goerr + collectedTurn" where
  "collectTurn events = collect_loop events new_collected"

section \<open>Chunks\<close>

text \<open>A frame of the stream before it is encoded: plain JSON, or a named server-sent event.\<close>

datatype chunk = Data goval | Event string goval

definition jsonData :: "goval \<Rightarrow> string" where
  "jsonData payload = marshal_or_nil payload"

definition sseEvent :: "string \<Rightarrow> goval \<Rightarrow> string" where
  "sseEvent name payload =
     ''event: '' @ name @ [CHR 0x0A] @ ''data: '' @ marshal_or_nil payload @ [CHR 0x0A, CHR 0x0A]"

fun chunk_bytes :: "chunk \<Rightarrow> string" where
  "chunk_bytes (Data payload) = jsonData payload"
| "chunk_bytes (Event name payload) = sseEvent name payload"

record streamState =
  st_format :: string
  st_model :: string
  st_created :: int
  st_id :: string
  st_opened :: bool
  st_toolIdx :: int
  st_seq :: int
  st_text :: string
  st_reasoning :: string
  st_messageID :: string
  st_toolCalls :: "toolCall list"
  st_usage :: tokenUsage

text \<open>The two ids drawn for the stream are \<open>uuid 0\<close> and \<open>uuid 1\<close>.\<close>

definition newStreamState :: "(nat \<Rightarrow> string) \<Rightarrow> string \<Rightarrow> string \<Rightarrow> int \<Rightarrow> streamState" where
  "newStreamState uuid format model created =
     \<lparr>st_format = format, st_model = model, st_created = created, st_id = uuid 0, st_opened = False,
      st_toolIdx = 0, st_seq = 0, st_text = [], st_reasoning = [], st_messageID = ''msg_'' @ uuid 1,
      st_toolCalls = [], st_usage = zero_usage\<rparr>"

section \<open>OpenAI Chat\<close>

definition chatChunk :: "streamState \<Rightarrow> goval \<Rightarrow> goval \<Rightarrow> object" where
  "chatChunk s delta finish =
     [(''id'', GStr (''chatcmpl-'' @ st_id s)), (''object'', GStr ''chat.completion.chunk''),
      (''created'', GInt (st_created s)), (''model'', GStr (st_model s)),
      (''choices'', GList [GMap [(''index'', GInt 0), (''delta'', delta), (''finish_reason'', finish)]])]"

definition tool_finish :: "string \<Rightarrow> string" where
  "tool_finish reason = (if reason = ''tool_calls'' then ''tool_calls'' else ''stop'')"

definition open_state :: "streamState \<Rightarrow> streamState" where
  "open_state s = s\<lparr>st_opened := True\<rparr>"

definition chat_prelude :: "streamState \<Rightarrow> chunk list" where
  "chat_prelude s =
     (if \<not> st_opened s then [Data (GMap (chatChunk s (GMap [(''role'', GStr ''assistant'')]) GNil))] else [])"

definition chat_call :: "streamState \<Rightarrow> TurnEvent \<Rightarrow> goval" where
  "chat_call s event =
     GMap [(''index'', GInt (st_toolIdx s)), (''id'', GStr (te_ToolCallID event)), (''type'', GStr ''function''),
       (''function'', GMap [(''name'', GStr (te_ToolName event)),
          (''arguments'', GStr (marshal_or_nil (nilable (te_ToolArgs event))))])]"

definition openAIChatFrames :: "streamState \<Rightarrow> TurnEvent \<Rightarrow> streamState \<times> chunk list" where
  "openAIChatFrames s0 event =
     (let pre = chat_prelude s0; s = open_state s0 in
      if te_Type event = ''text'' then
        (s, pre @ [Data (GMap (chatChunk s (GMap [(''content'', GStr (te_Text event))]) GNil))])
      else if te_Type event = ''thinking'' then
        (s, pre @ [Data (GMap (chatChunk s (GMap [(''reasoning_content'', GStr (te_Text event))]) GNil))])
      else if te_Type event = ''tool_call'' then
        (s\<lparr>st_toolIdx := st_toolIdx s + 1\<rparr>,
         pre @ [Data (GMap (chatChunk s (GMap [(''tool_calls'', GList [chat_call s event])]) GNil))])
      else if te_Type event = ''done'' then
        (s, pre @ [Data (GMap (gm_set ''usage'' (usageBlock (st_usage s))
           (chatChunk s (GMap []) (GStr (tool_finish (te_DoneReason event))))))])
      else (s, pre))"

section \<open>OpenAI Responses\<close>

definition responseEvent :: "streamState \<Rightarrow> string \<Rightarrow> object \<Rightarrow> streamState \<times> chunk" where
  "responseEvent s name kvs =
     (s\<lparr>st_seq := st_seq s + 1\<rparr>,
      Event name (GMap (gm_set ''sequence_number'' (GInt (st_seq s)) (gm_set ''type'' (GStr name) kvs))))"

text \<open>The events of one call of \<open>append\<close>, numbered from left to right.\<close>

fun responseEvents :: "streamState \<Rightarrow> (string \<times> object) list \<Rightarrow> streamState \<times> chunk list" where
  "responseEvents s [] = (s, [])"
| "responseEvents s ((name, kvs) # es) =
     (case responseEvent s name kvs of (s1, c) \<Rightarrow>
        (case responseEvents s1 es of (s2, cs) \<Rightarrow> (s2, c # cs)))"

definition output_text :: "string \<Rightarrow> goval" where
  "output_text t = GMap [(''type'', GStr ''output_text''), (''text'', GStr t), (''annotations'', GList [])]"

definition message_item :: "string \<Rightarrow> string \<Rightarrow> goval list \<Rightarrow> goval" where
  "message_item messageID status content =
     GMap [(''id'', GStr messageID), (''type'', GStr ''message''), (''status'', GStr status),
       (''role'', GStr ''assistant''), (''content'', GList content)]"

definition text_place :: "streamState \<Rightarrow> object" where
  "text_place s = [(''item_id'', GStr (st_messageID s)), (''output_index'', GInt 0), (''content_index'', GInt 0)]"

definition response_object :: "streamState \<Rightarrow> string \<Rightarrow> goval list \<Rightarrow> object" where
  "response_object s status outputs =
     [(''id'', GStr (''resp_'' @ st_id s)), (''object'', GStr ''response''), (''created_at'', GInt (st_created s)),
      (''status'', GStr status), (''model'', GStr (st_model s)), (''output'', GList outputs)]"

definition response_prelude :: "streamState \<Rightarrow> (string \<times> object) list" where
  "response_prelude s =
     [(''response.created'', [(''response'', GMap (response_object s ''in_progress'' []))]),
      (''response.output_item.added'', [(''output_index'', GInt 0), (''item'', message_item (st_messageID s) ''in_progress'' [])]),
      (''response.content_part.added'', text_place s @ [(''part'', output_text [])])]"

definition call_field :: "toolCall \<Rightarrow> string" where
  "call_field call = (if tc_Custom call then ''input'' else ''arguments'')"

definition call_prefix :: "toolCall \<Rightarrow> string" where
  "call_prefix call = (if tc_Custom call then ''response.custom_tool_call_input'' else ''response.function_call_arguments'')"

text \<open>\<open>n\<close> is the number of calls, this one included.\<close>

definition response_call_events :: "toolCall \<Rightarrow> nat \<Rightarrow> (string \<times> object) list" where
  "response_call_events call n =
     (let item = responseToolItem call;
          added = gm_set (call_field call) (GStr []) (gm_set ''status'' (GStr ''in_progress'') item);
          place = [(''item_id'', GStr (tc_ID call)), (''output_index'', GInt (int n))]
      in [(''response.output_item.added'', [(''output_index'', GInt (int n)), (''item'', GMap added)]),
          (call_prefix call @ ''.delta'', place @ [(''delta'', field item (call_field call))]),
          (call_prefix call @ ''.done'', place @ [(call_field call, field item (call_field call))]),
          (''response.output_item.done'', [(''output_index'', GInt (int n)), (''item'', GMap item)])])"

definition response_done_events :: "streamState \<Rightarrow> (string \<times> object) list" where
  "response_done_events s =
     (let message = message_item (st_messageID s) ''completed'' [output_text (st_text s)];
          outputs = message # map (\<lambda>call. GMap (responseToolItem call)) (st_toolCalls s)
      in [(''response.output_text.done'', text_place s @ [(''text'', GStr (st_text s)), (''logprobs'', GList [])]),
          (''response.content_part.done'', text_place s @ [(''part'', output_text (st_text s))]),
          (''response.output_item.done'', [(''output_index'', GInt 0), (''item'', message)]),
          (''response.completed'', [(''response'', GMap (response_object s ''completed'' outputs
              @ [(''usage'', responseUsageBlock (st_usage s))]))])])"

text \<open>
  The events of the opening come first, then those of the event itself; all are numbered in
  this order, as the calls of \<open>responseEvent\<close> are made.
\<close>

definition openAIResponseFrames :: "streamState \<Rightarrow> TurnEvent \<Rightarrow> streamState \<times> chunk list" where
  "openAIResponseFrames s0 event =
     (let pre = (if \<not> st_opened s0 then response_prelude s0 else []); s = open_state s0 in
      if te_Type event = ''text'' then
        responseEvents (s\<lparr>st_text := st_text s @ te_Text event\<rparr>)
          (pre @ [(''response.output_text.delta'', text_place s @ [(''delta'', GStr (te_Text event)), (''logprobs'', GList [])])])
      else if te_Type event = ''thinking'' then
        responseEvents (s\<lparr>st_reasoning := st_reasoning s @ te_Text event\<rparr>) pre
      else if te_Type event = ''tool_call'' then
        (let call = toolCallFromEvent event; s1 = s\<lparr>st_toolCalls := st_toolCalls s @ [call]\<rparr>
         in responseEvents s1 (pre @ response_call_events call (length (st_toolCalls s1))))
      else if te_Type event = ''done'' then responseEvents s (pre @ response_done_events s)
      else responseEvents s pre)"

section \<open>Anthropic\<close>

definition stop_reason :: "bool \<Rightarrow> string" where
  "stop_reason tool = (if tool then ''tool_use'' else ''end_turn'')"

definition claude_prelude :: "streamState \<Rightarrow> chunk list" where
  "claude_prelude s =
     (if \<not> st_opened s then
        [Event ''message_start'' (GMap [(''type'', GStr ''message_start''),
           (''message'', GMap [(''id'', GStr (''msg_'' @ st_id s)), (''type'', GStr ''message''), (''role'', GStr ''assistant''),
              (''model'', GStr (st_model s)), (''content'', GList []),
              (''usage'', GMap [(''input_tokens'', GInt 0), (''output_tokens'', GInt 0)])])])]
      else [])"

definition claude_delta :: "object \<Rightarrow> chunk" where
  "claude_delta delta =
     Event ''content_block_delta'' (GMap [(''type'', GStr ''content_block_delta''), (''index'', GInt 0), (''delta'', GMap delta)])"

definition tool_use :: "string \<Rightarrow> string \<Rightarrow> object option \<Rightarrow> goval" where
  "tool_use i name args =
     GMap [(''type'', GStr ''tool_use''), (''id'', GStr i), (''name'', GStr name), (''input'', nilable args)]"

definition claudeFrames :: "streamState \<Rightarrow> TurnEvent \<Rightarrow> streamState \<times> chunk list" where
  "claudeFrames s0 event =
     (let pre = claude_prelude s0; s = open_state s0 in
      if te_Type event = ''text'' then
        (s, pre @ [claude_delta [(''type'', GStr ''text_delta''), (''text'', GStr (te_Text event))]])
      else if te_Type event = ''thinking'' then
        (s, pre @ [claude_delta [(''type'', GStr ''thinking_delta''), (''thinking'', GStr (te_Text event))]])
      else if te_Type event = ''tool_call'' then
        (s\<lparr>st_toolIdx := st_toolIdx s + 1\<rparr>,
         pre @ [Event ''content_block_start'' (GMap [(''type'', GStr ''content_block_start''), (''index'', GInt (st_toolIdx s + 1)),
           (''content_block'', tool_use (te_ToolCallID event) (te_ToolName event) (te_ToolArgs event))])])
      else if te_Type event = ''done'' then
        (s, pre @ [Event ''message_delta'' (GMap [(''type'', GStr ''message_delta''),
             (''delta'', GMap [(''stop_reason'', GStr (stop_reason (te_DoneReason event = ''tool_calls'')))]),
             (''usage'', claudeUsageBlock (st_usage s))]),
           Event ''message_stop'' (GMap [(''type'', GStr ''message_stop'')])])
      else (s, pre))"

section \<open>The stream\<close>

definition frames_chunks :: "streamState \<Rightarrow> TurnEvent \<Rightarrow> streamState \<times> (goerr + chunk list)" where
  "frames_chunks s event =
     (if te_Type event = ''usage'' then (s\<lparr>st_usage := observe_event (st_usage s) event\<rparr>, Inr [])
      else if st_format s = ''openai-chat'' then map_prod id Inr (openAIChatFrames s event)
      else if st_format s = ''openai-response'' then map_prod id Inr (openAIResponseFrames s event)
      else if st_format s = ''claude'' then map_prod id Inr (claudeFrames s event)
      else (s, Inl (PlainErr (''unsupported stream format '' @ go_quote (st_format s)))))"

definition frames :: "streamState \<Rightarrow> TurnEvent \<Rightarrow> streamState \<times> (goerr + string list)" where
  "frames s event = map_prod id (map_sum id (map chunk_bytes)) (frames_chunks s event)"

definition jsonHeaders :: http_header where
  "jsonHeaders = [(''Content-Type'', [''application/json''])]"

definition streamHeaders :: http_header where
  "streamHeaders = [(''Content-Type'', [''text/event-stream'']), (''Cache-Control'', [''no-cache''])]"

text \<open>The events not yet read from the channel are part of the prepared stream.\<close>

record PreparedStream =
  ps_headers :: http_header
  ps_events :: "TurnEvent list"
  ps_pending :: "TurnEvent list"
  ps_state :: "streamState option"

definition streamEventCommits :: "string \<Rightarrow> TurnEvent \<Rightarrow> bool" where
  "streamEventCommits format event =
     (if te_Type event = ''text'' \<or> te_Type event = ''tool_call'' \<or> te_Type event = ''done'' then True
      else if te_Type event = ''thinking'' then format \<noteq> ''openai-response''
      else False)"

definition stream_error :: "string \<Rightarrow> string \<Rightarrow> goerr" where
  "stream_error code message = StatusErr ((status_error code message 502)\<lparr>se_Retryable := True\<rparr>)"

definition empty_error :: goerr where
  "empty_error = stream_error ''cursor_stream_empty'' ''Cursor stream closed before producing a response''"

definition incomplete_error :: goerr where
  "incomplete_error = stream_error ''cursor_stream_incomplete'' ''Cursor stream ended without a terminal event''"

fun prepare_loop :: "(nat \<Rightarrow> string) \<Rightarrow> string \<Rightarrow> string \<Rightarrow> int \<Rightarrow> TurnEvent list \<Rightarrow> TurnEvent list \<Rightarrow> goerr + PreparedStream" where
  "prepare_loop uuid format model created pending [] = Inl empty_error"
| "prepare_loop uuid format model created pending (event # events) =
     (if te_Type event = ''done'' \<and> te_Err event \<noteq> None then Inl (the (te_Err event))
      else let pending = pending @ [event] in
        if streamEventCommits format event then
          Inr \<lparr>ps_headers = streamHeaders, ps_events = events, ps_pending = pending,
               ps_state = Some (newStreamState uuid format model created)\<rparr>
        else prepare_loop uuid format model created pending events)"

definition prepareEventStream :: "(nat \<Rightarrow> string) \<Rightarrow> string \<Rightarrow> string \<Rightarrow> int \<Rightarrow> TurnEvent list \<Rightarrow> goerr + PreparedStream" where
  "prepareEventStream uuid format model created events = prepare_loop uuid format model created [] events"

definition Headers :: "PreparedStream option \<Rightarrow> http_header" where
  "Headers p = (case p of None \<Rightarrow> [] | Some ps \<Rightarrow> ps_headers ps)"

text \<open>Delivery: \<open>emit\<close> acts on a world and may fail.\<close>

type_synonym 'w emit = "string \<Rightarrow> 'w \<Rightarrow> 'w \<times> goerr option"

fun emit_all :: "'w emit \<Rightarrow> string list \<Rightarrow> 'w \<Rightarrow> 'w \<times> goerr option" where
  "emit_all emit [] w = (w, None)"
| "emit_all emit (f # fs) w =
     (case emit f w of (w', Some err) \<Rightarrow> (w', Some err) | (w', None) \<Rightarrow> emit_all emit fs w')"

text \<open>The result says whether the stream is over (\<open>Some\<close>), and then with which error.\<close>

definition consume :: "'w emit \<Rightarrow> streamState \<Rightarrow> TurnEvent \<Rightarrow> 'w \<Rightarrow> streamState \<times> 'w \<times> goerr option option" where
  "consume emit s event w =
     (if te_Type event = ''done'' \<and> te_Err event \<noteq> None then (s, w, Some (te_Err event))
      else (case frames s event of
              (s', Inl frameErr) \<Rightarrow> (s', w, Some (Some frameErr))
            | (s', Inr fs) \<Rightarrow>
                (case emit_all emit fs w of
                   (w', Some err) \<Rightarrow> (s', w', Some (Some err))
                 | (w', None) \<Rightarrow> (s', w', if te_Type event = ''done'' then Some None else None))))"

fun pump_events :: "'w emit \<Rightarrow> streamState \<Rightarrow> TurnEvent list \<Rightarrow> 'w \<Rightarrow> streamState \<times> 'w \<times> goerr option option \<times> TurnEvent list" where
  "pump_events emit s [] w = (s, w, None, [])"
| "pump_events emit s (event # events) w =
     (case consume emit s event w of
        (s', w', Some r) \<Rightarrow> (s', w', Some r, events)
      | (s', w', None) \<Rightarrow> pump_events emit s' events w')"

definition unprepared_error :: goerr where
  "unprepared_error = StatusErr (status_error ''cursor_stream_unprepared'' ''Cursor stream was not prepared'' 500)"

definition emitter_error :: goerr where
  "emitter_error = StatusErr (status_error ''cursor_stream_emitter_missing'' ''Cursor stream emitter is required'' 500)"

text \<open>The prepared stream afterwards, the world, and the error.\<close>

definition Pump :: "PreparedStream option \<Rightarrow> 'w emit option \<Rightarrow> 'w \<Rightarrow> PreparedStream option \<times> 'w \<times> goerr option" where
  "Pump p emit w =
     (case p of
        None \<Rightarrow> (p, w, Some unprepared_error)
      | Some ps \<Rightarrow>
        (case ps_state ps of
           None \<Rightarrow> (p, w, Some unprepared_error)
         | Some s \<Rightarrow>
           (case emit of
              None \<Rightarrow> (p, w, Some emitter_error)
            | Some e \<Rightarrow>
              (case pump_events e s (ps_pending ps) w of
                 (s1, w1, Some r, _) \<Rightarrow> (Some (ps\<lparr>ps_pending := [], ps_state := Some s1\<rparr>), w1, r)
               | (s1, w1, None, _) \<Rightarrow>
                   (case pump_events e s1 (ps_events ps) w1 of
                      (s2, w2, Some r, rest) \<Rightarrow> (Some (ps\<lparr>ps_pending := [], ps_events := rest, ps_state := Some s2\<rparr>), w2, r)
                    | (s2, w2, None, rest) \<Rightarrow>
                        (Some (ps\<lparr>ps_pending := [], ps_events := rest, ps_state := Some s2\<rparr>), w2, Some incomplete_error))))))"

section \<open>The non-streaming response\<close>

definition finishReason :: "collectedTurn \<Rightarrow> string" where
  "finishReason result =
     (if 0 < length (ct_ToolCalls result) \<or> ct_DoneReason result = ''tool_calls'' then ''tool_calls'' else ''stop'')"

definition nullableText :: "string \<Rightarrow> goval" where
  "nullableText t = (if t = [] then GNil else GStr t)"

definition openAIToolCalls :: "toolCall list \<Rightarrow> goval list" where
  "openAIToolCalls calls =
     map (\<lambda>call. GMap [(''id'', GStr (tc_ID call)), (''type'', GStr ''function''),
       (''function'', GMap [(''name'', GStr (tc_Name call)), (''arguments'', GStr (marshal_or_nil (nilable (tc_Args call))))])]) calls"

definition chat_payload :: "(nat \<Rightarrow> string) \<Rightarrow> string \<Rightarrow> collectedTurn \<Rightarrow> int \<Rightarrow> goval" where
  "chat_payload uuid model result created =
     (let message = [(''role'', GStr ''assistant''), (''content'', nullableText (ct_Text result))]
            @ (if ct_Thinking result \<noteq> [] then [(''reasoning_content'', GStr (ct_Thinking result))] else [])
            @ (if 0 < length (ct_ToolCalls result) then [(''tool_calls'', GList (openAIToolCalls (ct_ToolCalls result)))] else [])
      in GMap [(''id'', GStr (''chatcmpl-'' @ uuid 0)), (''object'', GStr ''chat.completion''), (''created'', GInt created),
           (''model'', GStr model),
           (''choices'', GList [GMap [(''index'', GInt 0), (''message'', GMap message), (''finish_reason'', GStr (finishReason result))]]),
           (''usage'', usageBlock (ct_Usage result))])"

text \<open>The id of the message, if there is one, is drawn before the id of the response.\<close>

definition response_payload :: "(nat \<Rightarrow> string) \<Rightarrow> string \<Rightarrow> collectedTurn \<Rightarrow> int \<Rightarrow> goval" where
  "response_payload uuid model result created =
     (let spoken = (ct_Text result \<noteq> [] \<or> ct_Thinking result \<noteq> []);
          outputs = (if spoken then [message_item (''msg_'' @ uuid 0) ''completed'' [output_text (ct_Text result)]] else [])
            @ map (\<lambda>call. GMap (responseToolItem call)) (ct_ToolCalls result)
      in GMap [(''id'', GStr (''resp_'' @ uuid (if spoken then 1 else 0))), (''object'', GStr ''response''),
           (''created_at'', GInt created), (''status'', GStr ''completed''), (''model'', GStr model),
           (''output'', GList outputs), (''usage'', responseUsageBlock (ct_Usage result))])"

definition claude_payload :: "(nat \<Rightarrow> string) \<Rightarrow> string \<Rightarrow> collectedTurn \<Rightarrow> goval" where
  "claude_payload uuid model result =
     (let content = (if ct_Thinking result \<noteq> [] then [GMap [(''type'', GStr ''thinking''), (''thinking'', GStr (ct_Thinking result))]] else [])
            @ (if ct_Text result \<noteq> [] then [GMap [(''type'', GStr ''text''), (''text'', GStr (ct_Text result))]] else [])
            @ map (\<lambda>call. tool_use (tc_ID call) (tc_Name call) (tc_Args call)) (ct_ToolCalls result)
      in GMap [(''id'', GStr (''msg_'' @ uuid 0)), (''type'', GStr ''message''), (''role'', GStr ''assistant''), (''model'', GStr model),
           (''content'', GList content), (''stop_reason'', GStr (stop_reason (0 < length (ct_ToolCalls result)))),
           (''usage'', claudeUsageBlock (ct_Usage result))])"

definition marshal_result :: "goval \<Rightarrow> goerr + string" where
  "marshal_result v = (case json_marshal v of Some t \<Rightarrow> Inr t | None \<Rightarrow> Inl (marshal_error v))"

definition nonStreamingPayload :: "(nat \<Rightarrow> string) \<Rightarrow> string \<Rightarrow> string \<Rightarrow> collectedTurn \<Rightarrow> int \<Rightarrow> goerr + string" where
  "nonStreamingPayload uuid format model result created =
     (if format = ''openai-chat'' then marshal_result (chat_payload uuid model result created)
      else if format = ''openai-response'' then marshal_result (response_payload uuid model result created)
      else if format = ''claude'' then marshal_result (claude_payload uuid model result)
      else Inl (PlainErr (''unsupported response format '' @ go_quote format)))"

definition retryAfterSeconds :: "duration \<Rightarrow> int" where
  "retryAfterSeconds d =
     (if d \<le> 0 then 0 else if d mod second \<noteq> 0 then d div second + 1 else d div second)"

definition errorMessage :: "goerr option \<Rightarrow> string" where
  "errorMessage err = (case err of None \<Rightarrow> [] | Some e \<Rightarrow> TrimSpace (err_text e))"

end
