(* ===== verification/Stream_Correct.thy ===== *)
theory Stream_Correct
  imports Stream
begin

text \<open>
  What makes the streams right: the framing of the three formats by one opening and one
  closing chunk, stated as an interface and proved for the code's renderer; the numbering of
  the Responses events; that buffering before the commit is invisible; and that a stream says
  the same as the collected response.
\<close>

section \<open>The interface: streams with an opening and a closing chunk\<close>

locale stream_machine =
  fixes step :: "'s \<Rightarrow> 'e \<Rightarrow> 's \<times> 'c list"
    and inv opened :: "'s \<Rightarrow> bool"
    and silent ends :: "'e \<Rightarrow> bool"
    and starts finishes :: "'c \<Rightarrow> bool"
  assumes inv_step: "inv s \<Longrightarrow> inv (fst (step s e))"
    and silent_step: "inv s \<Longrightarrow> silent e \<Longrightarrow> snd (step s e) = [] \<and> opened (fst (step s e)) = opened s"
    and first_step: "inv s \<Longrightarrow> \<not> silent e \<Longrightarrow> \<not> opened s \<Longrightarrow>
      \<exists>c cs. snd (step s e) = c # cs \<and> starts c \<and> list_all (\<lambda>c. \<not> starts c) cs"
    and later_step: "inv s \<Longrightarrow> \<not> silent e \<Longrightarrow> opened s \<Longrightarrow> list_all (\<lambda>c. \<not> starts c) (snd (step s e))"
    and opens_step: "inv s \<Longrightarrow> \<not> silent e \<Longrightarrow> opened (fst (step s e))"
    and end_step: "inv s \<Longrightarrow> ends e \<Longrightarrow>
      \<exists>cs c. snd (step s e) = cs @ [c] \<and> finishes c \<and> list_all (\<lambda>c. \<not> finishes c) cs"
    and open_step: "inv s \<Longrightarrow> \<not> ends e \<Longrightarrow> list_all (\<lambda>c. \<not> finishes c) (snd (step s e))"
    and ends_loud: "ends e \<Longrightarrow> \<not> silent e"
begin

primrec run :: "'e list \<Rightarrow> 's \<Rightarrow> 's \<times> 'c list" where
  "run [] s = (s, [])"
| "run (e # es) s = (case step s e of (s', cs) \<Rightarrow> (case run es s' of (s'', ds) \<Rightarrow> (s'', cs @ ds)))"

lemma run_Cons: "run (e # es) s =
   (fst (run es (fst (step s e))), snd (step s e) @ snd (run es (fst (step s e))))"
  by (simp add: split_def)

lemma run_append: "run (es @ fs) s = (fst (run fs (fst (run es s))), snd (run es s) @ snd (run fs (fst (run es s))))"
  by (induction es arbitrary: s) (simp_all add: split_def)

lemma run_inv: "inv s \<Longrightarrow> inv (fst (run es s))"
  by (induction es arbitrary: s) (simp_all add: split_def inv_step)

lemma run_opened: "inv s \<Longrightarrow> opened s \<Longrightarrow> list_all (\<lambda>c. \<not> starts c) (snd (run es s))"
proof (induction es arbitrary: s)
  case (Cons e es)
  have "opened (fst (step s e))" using Cons.prems silent_step opens_step by (cases "silent e") auto
  moreover have "list_all (\<lambda>c. \<not> starts c) (snd (step s e))"
    using Cons.prems silent_step [of s e] later_step by (cases "silent e") auto
  ultimately show ?case using Cons.IH inv_step Cons.prems(1) by (simp add: split_def)
qed simp

lemma run_starts_once:
  "inv s \<Longrightarrow> \<not> opened s \<Longrightarrow> \<not> list_all silent es \<Longrightarrow>
   \<exists>c cs. snd (run es s) = c # cs \<and> starts c \<and> list_all (\<lambda>c. \<not> starts c) cs"
proof (induction es arbitrary: s)
  case (Cons e es)
  show ?case
  proof (cases "silent e")
    case True
    then show ?thesis
      using Cons.IH [of "fst (step s e)"] Cons.prems silent_step [of s e] inv_step by (simp add: run_Cons del: run.simps)
  next
    case False
    then obtain c cs where "snd (step s e) = c # cs" "starts c" "list_all (\<lambda>c. \<not> starts c) cs"
      using first_step Cons.prems by blast
    moreover have "list_all (\<lambda>c. \<not> starts c) (snd (run es (fst (step s e))))"
      using run_opened inv_step opens_step Cons.prems(1) False by blast
    ultimately show ?thesis by (simp add: run_Cons del: run.simps)
  qed
qed simp

lemma run_silent: "inv s \<Longrightarrow> list_all silent es \<Longrightarrow> snd (run es s) = []"
  by (induction es arbitrary: s) (simp_all add: split_def silent_step inv_step)

lemma run_unfinished: "inv s \<Longrightarrow> list_all (\<lambda>e. \<not> ends e) es \<Longrightarrow> list_all (\<lambda>c. \<not> finishes c) (snd (run es s))"
  by (induction es arbitrary: s) (simp_all add: split_def open_step inv_step)

lemma run_finished:
  assumes "inv s" "list_all (\<lambda>e. \<not> ends e) es" "ends e"
  shows "\<exists>cs c. snd (run (es @ [e]) s) = cs @ [c] \<and> finishes c \<and> list_all (\<lambda>c. \<not> finishes c) cs"
proof -
  obtain cs c where "snd (step (fst (run es s)) e) = cs @ [c]" "finishes c" "list_all (\<lambda>c. \<not> finishes c) cs"
    using end_step [OF run_inv [OF assms(1)] assms(3)] by blast
  then show ?thesis
    using run_unfinished [OF assms(1,2)]
    by (intro exI [of _ "snd (run es s) @ cs"] exI [of _ c]) (simp add: run_append split_def)
qed

end

section \<open>The renderer of the code\<close>

definition formats :: "string list" where
  "formats = [''openai-chat'', ''openai-response'', ''claude'']"

definition step_chunks :: "streamState \<Rightarrow> TurnEvent \<Rightarrow> streamState \<times> chunk list" where
  "step_chunks s event = (case frames_chunks s event of (s', r) \<Rightarrow> (s', case r of Inr cs \<Rightarrow> cs | Inl _ \<Rightarrow> []))"

definition supported :: "streamState \<Rightarrow> bool" where
  "supported s \<longleftrightarrow> st_format s \<in> set formats"

text \<open>What the chunks say, as a client reads them.\<close>

definition chat_choice :: "goval \<Rightarrow> object" where
  "chat_choice v = (case list_or_nil (field (map_or_nil v) ''choices'') of c # _ \<Rightarrow> map_or_nil c | [] \<Rightarrow> [])"

definition chat_delta :: "goval \<Rightarrow> object" where
  "chat_delta v = map_or_nil (field (chat_choice v) ''delta'')"

fun starts_chunk :: "chunk \<Rightarrow> bool" where
  "starts_chunk (Data v) \<longleftrightarrow> field (chat_delta v) ''role'' \<noteq> GNil"
| "starts_chunk (Event n v) \<longleftrightarrow> n = ''response.created'' \<or> n = ''message_start''"

fun finishes_chunk :: "chunk \<Rightarrow> bool" where
  "finishes_chunk (Data v) \<longleftrightarrow> field (chat_choice v) ''finish_reason'' \<noteq> GNil"
| "finishes_chunk (Event n v) \<longleftrightarrow> n = ''response.completed'' \<or> n = ''message_stop''"

definition is_usage :: "TurnEvent \<Rightarrow> bool" where
  "is_usage e \<longleftrightarrow> te_Type e = ''usage''"

definition is_done :: "TurnEvent \<Rightarrow> bool" where
  "is_done e \<longleftrightarrow> te_Type e = ''done''"

lemma chatChunk_reads [simp]:
  "chat_choice (GMap (chatChunk s d f)) = [(''index'', GInt 0), (''delta'', d), (''finish_reason'', f)]"
  "chat_delta (GMap (chatChunk s d f)) = map_or_nil d"
  "chat_choice (GMap (gm_set ''usage'' u (chatChunk s d f))) = [(''index'', GInt 0), (''delta'', d), (''finish_reason'', f)]"
  "chat_delta (GMap (gm_set ''usage'' u (chatChunk s d f))) = map_or_nil d"
  by (simp_all add: chat_delta_def chat_choice_def chatChunk_def map_or_nil_def list_or_nil_def)

lemma map_or_nil_GMap' [simp]: "map_or_nil (GMap m) = m"
  by (simp add: map_or_nil_def)

lemma responseEvents_names:
  "map (\<lambda>c. case c of Event n _ \<Rightarrow> n | Data _ \<Rightarrow> []) (snd (responseEvents s es)) = map fst es"
  by (induction s es rule: responseEvents.induct) (auto simp: responseEvent_def split: prod.split)

fun chunk_name :: "chunk \<Rightarrow> string" where
  "chunk_name (Event n v) = n"
| "chunk_name (Data v) = []"

lemma responseEvents_shape:
  "snd (responseEvents s es) = map (\<lambda>(c, n). Event n (case c of Event _ v \<Rightarrow> v | Data v \<Rightarrow> v)) (zip (snd (responseEvents s es)) (map fst es))"
  by (induction s es rule: responseEvents.induct) (auto simp: responseEvent_def split: prod.split)

lemma responseEvents_all:
  "(\<And>n v. P (Event n v) \<longleftrightarrow> Q n) \<Longrightarrow> list_all P (snd (responseEvents s es)) \<longleftrightarrow> list_all Q (map fst es)"
  by (induction s es rule: responseEvents.induct) (auto simp: responseEvent_def split: prod.split)

lemma responseEvents_state:
  "fst (responseEvents s es) = s\<lparr>st_seq := st_seq s + int (length es)\<rparr>"
  by (induction s es rule: responseEvents.induct) (auto simp: responseEvent_def split: prod.split)

lemma responseEvents_append:
  "responseEvents s (es @ fs) =
     (case responseEvents s es of (s1, cs) \<Rightarrow> (case responseEvents s1 fs of (s2, ds) \<Rightarrow> (s2, cs @ ds)))"
  by (induction s es rule: responseEvents.induct) (auto split: prod.split)

text \<open>The Responses renderer as one list of events.\<close>

definition response_pre :: "streamState \<Rightarrow> (string \<times> object) list" where
  "response_pre s = (if \<not> st_opened s then response_prelude s else [])"

definition response_main :: "streamState \<Rightarrow> TurnEvent \<Rightarrow> (string \<times> object) list" where
  "response_main s e =
     (if te_Type e = ''text'' then
        [(''response.output_text.delta'', text_place s @ [(''delta'', GStr (te_Text e)), (''logprobs'', GList [])])]
      else if te_Type e = ''tool_call'' then response_call_events (toolCallFromEvent e) (Suc (length (st_toolCalls s)))
      else if te_Type e = ''done'' then response_done_events s
      else [])"

definition response_next :: "streamState \<Rightarrow> TurnEvent \<Rightarrow> streamState" where
  "response_next s e =
     (if te_Type e = ''text'' then (open_state s)\<lparr>st_text := st_text s @ te_Text e\<rparr>
      else if te_Type e = ''thinking'' then (open_state s)\<lparr>st_reasoning := st_reasoning s @ te_Text e\<rparr>
      else if te_Type e = ''tool_call'' then (open_state s)\<lparr>st_toolCalls := st_toolCalls s @ [toolCallFromEvent e]\<rparr>
      else open_state s)"

lemma response_frames:
  "openAIResponseFrames s e = responseEvents (response_next s e) (response_pre s @ response_main s e)"
  by (simp add: openAIResponseFrames_def response_pre_def response_main_def response_next_def Let_def
      open_state_def text_place_def response_done_events_def response_object_def)

lemma response_frames_fst:
  "fst (openAIResponseFrames s e) =
     (response_next s e)\<lparr>st_seq := st_seq (response_next s e) + int (length (response_pre s @ response_main s e))\<rparr>"
  unfolding response_frames by (rule responseEvents_state)

lemma response_next_fields [simp]:
  "st_seq (response_next s e) = st_seq s" "st_opened (response_next s e)" "st_format (response_next s e) = st_format s"
  "st_usage (response_next s e) = st_usage s"
  by (simp_all add: response_next_def open_state_def)

lemma response_names:
  "te_Type e \<noteq> ''done'' \<Longrightarrow> list_all (\<lambda>n. \<not> (n = ''response.completed'' \<or> n = ''message_stop'')) (map fst (response_pre s @ response_main s e))"
  "list_all (\<lambda>n. \<not> (n = ''response.created'' \<or> n = ''message_start'')) (map fst (response_main s e))"
  by (auto simp: response_pre_def response_prelude_def response_main_def response_call_events_def
      response_done_events_def call_prefix_def Let_def)

lemma chat_opened [simp]: "st_opened (fst (openAIChatFrames s e))" "st_format (fst (openAIChatFrames s e)) = st_format s"
  "st_usage (fst (openAIChatFrames s e)) = st_usage s"
  by (simp_all add: openAIChatFrames_def open_state_def Let_def)

lemma claude_opened [simp]: "st_opened (fst (claudeFrames s e))" "st_format (fst (claudeFrames s e)) = st_format s"
  "st_usage (fst (claudeFrames s e)) = st_usage s"
  by (simp_all add: claudeFrames_def open_state_def Let_def)

lemma inr_chunks: "(case map_prod id Inr x of (s', r) \<Rightarrow> (s', case r of Inl _ \<Rightarrow> [] | Inr cs \<Rightarrow> cs)) = x"
  by (cases x) simp

lemma step_chunks_cases:
  assumes "supported s" "\<not> is_usage e"
  obtains (chat) "st_format s = ''openai-chat''" "step_chunks s e = openAIChatFrames s e"
  | (response) "st_format s = ''openai-response''" "step_chunks s e = openAIResponseFrames s e"
  | (claude) "st_format s = ''claude''" "step_chunks s e = claudeFrames s e"
  using assms
  by (auto simp: supported_def formats_def step_chunks_def frames_chunks_def is_usage_def inr_chunks)

lemma step_usage: "is_usage e \<Longrightarrow> step_chunks s e = (s\<lparr>st_usage := observe_event (st_usage s) e\<rparr>, [])"
  by (simp add: step_chunks_def frames_chunks_def is_usage_def)

text \<open>The laws of the interface, one by one. First what is no opening and no closing chunk.\<close>

abbreviation opens_name :: "string \<Rightarrow> bool" where
  "opens_name n \<equiv> n = ''response.created'' \<or> n = ''message_start''"

abbreviation closes_name :: "string \<Rightarrow> bool" where
  "closes_name n \<equiv> n = ''response.completed'' \<or> n = ''message_stop''"

lemma events_not_opening:
  "list_all (\<lambda>n. \<not> opens_name n) (map fst es) \<Longrightarrow> list_all (\<lambda>c. \<not> starts_chunk c) (snd (responseEvents s es))"
  by (subst responseEvents_all [where Q = "\<lambda>n. \<not> opens_name n"]) simp_all

lemma events_not_closing:
  "list_all (\<lambda>n. \<not> closes_name n) (map fst es) \<Longrightarrow> list_all (\<lambda>c. \<not> finishes_chunk c) (snd (responseEvents s es))"
  by (subst responseEvents_all [where Q = "\<lambda>n. \<not> closes_name n"]) simp_all

lemmas chat_defs = openAIChatFrames_def chat_prelude_def Let_def
lemmas claude_defs = claudeFrames_def claude_prelude_def claude_delta_def Let_def

lemma supported_step:
  assumes "supported s"
  shows "supported (fst (step_chunks s e))"
proof (cases "is_usage e")
  case False
  with assms show ?thesis
    by (rule step_chunks_cases) (use assms in \<open>simp_all add: supported_def response_frames_fst\<close>)
qed (use assms in \<open>simp add: step_usage supported_def\<close>)

lemma step_opens:
  assumes "supported s" "\<not> is_usage e" "\<not> st_opened s"
  shows "\<exists>c cs. snd (step_chunks s e) = c # cs \<and> starts_chunk c \<and> list_all (\<lambda>c. \<not> starts_chunk c) cs"
  using assms(1,2)
proof (cases rule: step_chunks_cases)
  case response
  obtain v pre where pre: "response_prelude s = (''response.created'', v) # pre"
    "list_all (\<lambda>n. \<not> opens_name n) (map fst pre)"
    by (simp add: response_prelude_def)
  have "list_all (\<lambda>c. \<not> starts_chunk c) (snd (responseEvents t (pre @ response_main s e)))" for t
    using pre(2) response_names(2) [of s e] by (intro events_not_opening) simp
  moreover have "openAIResponseFrames s e = responseEvents (response_next s e) ((''response.created'', v) # pre @ response_main s e)"
    using assms(3) by (simp add: response_frames response_pre_def pre(1))
  ultimately show ?thesis by (simp add: response(2) responseEvent_def split_def)
qed (use assms(3) in \<open>auto simp: chat_defs claude_defs\<close>)

lemma step_opened:
  assumes "supported s" "\<not> is_usage e" "st_opened s"
  shows "list_all (\<lambda>c. \<not> starts_chunk c) (snd (step_chunks s e))"
  using assms(1,2)
proof (cases rule: step_chunks_cases)
  case response
  then show ?thesis
    using assms(3) events_not_opening [OF response_names(2)] by (simp add: response_frames response_pre_def)
qed (use assms(3) in \<open>auto simp: chat_defs claude_defs\<close>)

lemma step_finishes:
  assumes "supported s" "is_done e"
  shows "\<exists>cs c. snd (step_chunks s e) = cs @ [c] \<and> finishes_chunk c \<and> list_all (\<lambda>c. \<not> finishes_chunk c) cs"
proof -
  from assms(2) have nu: "\<not> is_usage e" and t: "te_Type e = ''done''" by (simp_all add: is_usage_def is_done_def)
  from assms(1) nu show ?thesis
  proof (cases rule: step_chunks_cases)
    case response
    obtain es v where split: "response_pre s @ response_main s e = es @ [(''response.completed'', v)]"
      and es: "list_all (\<lambda>n. \<not> closes_name n) (map fst es)"
      using t by (auto simp: response_main_def response_done_events_def response_pre_def response_prelude_def Let_def)
    show ?thesis
      unfolding response(2) response_frames split responseEvents_append
      using events_not_closing [OF es] by (simp add: split_def responseEvent_def)
  qed (use t in \<open>auto simp: chat_defs claude_defs\<close>)
qed

lemma step_unfinished:
  assumes "supported s" "\<not> is_done e"
  shows "list_all (\<lambda>c. \<not> finishes_chunk c) (snd (step_chunks s e))"
proof (cases "is_usage e")
  case False
  with assms(1) show ?thesis
  proof (cases rule: step_chunks_cases)
    case response
    then show ?thesis
      using assms(2) events_not_closing [OF response_names(1)] by (simp add: response_frames is_done_def)
  qed (use assms(2) in \<open>auto simp: chat_defs claude_defs is_done_def\<close>)
qed (simp add: step_usage)

interpretation stream: stream_machine step_chunks supported st_opened is_usage is_done starts_chunk finishes_chunk
proof unfold_locales
  fix s :: streamState and e :: TurnEvent
  assume sup: "supported s"
  show "st_opened (fst (step_chunks s e))" if "\<not> is_usage e"
    using sup that by (cases rule: step_chunks_cases) (simp_all add: response_frames_fst)
qed (use supported_step step_opens step_opened step_finishes step_unfinished
  in \<open>auto simp: step_usage is_usage_def is_done_def\<close>)

section \<open>Delivery\<close>

text \<open>What a stream of events is worth: its chunks and its outcome.\<close>

fun stream_spec :: "streamState \<Rightarrow> TurnEvent list \<Rightarrow> chunk list \<times> goerr option" where
  "stream_spec s [] = ([], Some incomplete_error)"
| "stream_spec s (e # es) =
     (if is_done e \<and> te_Err e \<noteq> None then ([], te_Err e)
      else if is_done e then (snd (step_chunks s e), None)
      else (snd (step_chunks s e) @ fst (stream_spec (fst (step_chunks s e)) es),
            snd (stream_spec (fst (step_chunks s e)) es)))"

text \<open>Emitting it: the emitter's error comes first.\<close>

definition delivered :: "'w emit \<Rightarrow> chunk list \<times> goerr option \<Rightarrow> 'w \<Rightarrow> 'w \<times> goerr option" where
  "delivered emit sp w =
     (case emit_all emit (map chunk_bytes (fst sp)) w of
        (w', Some err) \<Rightarrow> (w', Some err) | (w', None) \<Rightarrow> (w', snd sp))"

lemma emit_all_append:
  "emit_all emit (fs @ gs) w = (case emit_all emit fs w of (w', Some e) \<Rightarrow> (w', Some e) | (w', None) \<Rightarrow> emit_all emit gs w')"
  by (induction emit fs w rule: emit_all.induct) (auto split: prod.split option.split)

lemma frames_supported: "supported s \<Longrightarrow> frames s e = (fst (step_chunks s e), Inr (map chunk_bytes (snd (step_chunks s e))))"
  by (auto simp: frames_def step_chunks_def frames_chunks_def supported_def formats_def map_prod_def split_def)

definition outcome :: "streamState \<times> 'w \<times> goerr option option \<times> TurnEvent list \<Rightarrow> 'w \<times> goerr option" where
  "outcome x = (case x of (s, w, r, rest) \<Rightarrow> (w, case r of Some r \<Rightarrow> r | None \<Rightarrow> Some incomplete_error))"

lemma pump_delivers:
  "supported s \<Longrightarrow> outcome (pump_events emit s es w) = delivered emit (stream_spec s es) w"
proof (induction es arbitrary: s w)
  case Nil
  then show ?case by (simp add: outcome_def delivered_def)
next
  case (Cons e es)
  let ?s' = "fst (step_chunks s e)"
  show ?case
  proof (cases "is_done e \<and> te_Err e \<noteq> None")
    case True
    then show ?thesis by (auto simp: consume_def is_done_def outcome_def delivered_def)
  next
    case False
    have s': "supported ?s'" by (rule stream.inv_step) fact
    have cons: "consume emit s e w = (case emit_all emit (map chunk_bytes (snd (step_chunks s e))) w of
        (w', Some err) \<Rightarrow> (?s', w', Some (Some err)) | (w', None) \<Rightarrow> (?s', w', if is_done e then Some None else None))"
      using False by (simp add: consume_def is_done_def frames_supported [OF Cons.prems])
    obtain w' r where em: "emit_all emit (map chunk_bytes (snd (step_chunks s e))) w = (w', r)" by fastforce
    show ?thesis
    proof (cases r)
      case (Some err)
      then show ?thesis using False em by (auto simp: cons outcome_def delivered_def emit_all_append)
    next
      case None
      show ?thesis
      proof (cases "is_done e")
        case True
        then show ?thesis using None False em by (simp add: cons outcome_def delivered_def)
      next
        case nd: False
        have "outcome (pump_events emit s (e # es) w) = outcome (pump_events emit ?s' es w')"
          using None em nd by (simp add: cons)
        also have "\<dots> = delivered emit (stream_spec ?s' es) w'" by (rule Cons.IH [OF s'])
        finally show ?thesis
          using None em nd by (auto simp: delivered_def emit_all_append split: prod.split option.split)
      qed
    qed
  qed
qed

lemma pump_append:
  "pump_events emit s (xs @ ys) w =
     (case pump_events emit s xs w of
        (s', w', Some r, rest) \<Rightarrow> (s', w', Some r, rest @ ys)
      | (s', w', None, _) \<Rightarrow> pump_events emit s' ys w')"
  by (induction emit s xs w rule: pump_events.induct) (auto split: prod.split option.split)

lemma prepare_loop_Inr:
  "prepare_loop uuid f m c pending es = Inr ps \<Longrightarrow>
   ps_pending ps @ ps_events ps = pending @ es \<and> ps_state ps = Some (newStreamState uuid f m c)"
  by (induction uuid f m c pending es rule: prepare_loop.induct) (auto simp: Let_def split: if_splits)

lemma Pump_outcome:
  assumes "ps_state ps = Some s"
  shows "snd (Pump (Some ps) (Some emit) w) = outcome (pump_events emit s (ps_pending ps @ ps_events ps) w)"
  unfolding pump_append using assms
  by (auto simp: Pump_def outcome_def split: prod.split option.split)

lemma supported_new: "f \<in> set formats \<Longrightarrow> supported (newStreamState uuid f m c)"
  by (simp add: supported_def newStreamState_def)

section \<open>The shape of a stream\<close>

abbreviation before_done :: "TurnEvent list \<Rightarrow> TurnEvent list" where
  "before_done es \<equiv> takeWhile (\<lambda>e. \<not> is_done e) es"

abbreviation from_done :: "TurnEvent list \<Rightarrow> TurnEvent list" where
  "from_done es \<equiv> dropWhile (\<lambda>e. \<not> is_done e) es"

definition rendered :: "TurnEvent list \<Rightarrow> TurnEvent list" where
  "rendered es = before_done es @ (case from_done es of d # _ \<Rightarrow> if te_Err d = None then [d] else [] | [] \<Rightarrow> [])"

lemma stream_spec_run:
  "fst (stream_spec s es) = snd (stream.run (rendered es) s)"
  "snd (stream_spec s es) = (case from_done es of d # _ \<Rightarrow> te_Err d | [] \<Rightarrow> Some incomplete_error)"
proof -
  show "fst (stream_spec s es) = snd (stream.run (rendered es) s)"
    by (induction es arbitrary: s) (auto simp: rendered_def split_def)
  show "snd (stream_spec s es) = (case from_done es of d # _ \<Rightarrow> te_Err d | [] \<Rightarrow> Some incomplete_error)"
    by (induction es arbitrary: s) auto
qed

lemma before_done_ends: "list_all (\<lambda>e. \<not> is_done e) (before_done es)"
  by (induction es) auto

lemma from_done_head: "from_done es = d # rest \<Longrightarrow> is_done d"
  by (induction es) (auto split: if_splits)

lemma stream_spec_finish:
  assumes "supported s"
  shows "(case snd (stream_spec s es) of
      None \<Rightarrow> \<exists>cs c. fst (stream_spec s es) = cs @ [c] \<and> finishes_chunk c \<and> list_all (\<lambda>c. \<not> finishes_chunk c) cs
    | Some _ \<Rightarrow> list_all (\<lambda>c. \<not> finishes_chunk c) (fst (stream_spec s es)))"
proof (cases "from_done es")
  case Nil
  have "snd (stream_spec s es) = Some incomplete_error" "fst (stream_spec s es) = snd (stream.run (before_done es) s)"
    by (simp_all add: stream_spec_run rendered_def Nil)
  then show ?thesis
    using stream.run_unfinished [OF assms before_done_ends, of es] by simp
next
  case (Cons d rest)
  show ?thesis
  proof (cases "te_Err d")
    case None
    have "snd (stream_spec s es) = None" "fst (stream_spec s es) = snd (stream.run (before_done es @ [d]) s)"
      by (simp_all add: stream_spec_run rendered_def Cons None)
    then show ?thesis
      using stream.run_finished [OF assms before_done_ends [of es] from_done_head [OF Cons]] by simp
  next
    case (Some e)
    have "snd (stream_spec s es) = Some e" "fst (stream_spec s es) = snd (stream.run (before_done es) s)"
      by (simp_all add: stream_spec_run rendered_def Cons Some)
    then show ?thesis
      using stream.run_unfinished [OF assms before_done_ends, of es] by simp
  qed
qed

text \<open>A prepared stream has an event to show.\<close>

lemma commits_not_usage: "streamEventCommits f e \<Longrightarrow> \<not> is_usage e"
  by (auto simp: streamEventCommits_def is_usage_def split: if_splits)

lemma done_commits: "is_done e \<Longrightarrow> streamEventCommits f e"
  by (simp add: streamEventCommits_def is_done_def)

lemma prepare_loop_commits:
  "prepare_loop uuid f m c pending es = Inr ps \<Longrightarrow> \<not> list_all is_usage (rendered es)"
proof (induction uuid f m c pending es rule: prepare_loop.induct)
  case (2 uuid f m c pending e es)
  show ?case
  proof (cases "streamEventCommits f e")
    case True
    moreover have "\<not> (te_Type e = ''done'' \<and> te_Err e \<noteq> None)" using 2(2) by (auto split: if_splits)
    ultimately show ?thesis using commits_not_usage by (auto simp: rendered_def is_done_def)
  next
    case False
    then have "\<not> is_done e" using done_commits by blast
    moreover have "prepare_loop uuid f m c (pending @ [e]) es = Inr ps"
      using 2(2) False by (auto simp: Let_def split: if_splits)
    ultimately show ?thesis
      using 2(1) [OF _ refl False] by (auto simp: rendered_def is_done_def split: if_splits)
  qed
qed simp

section \<open>What the chunks say\<close>

fun chunk_text :: "chunk \<Rightarrow> string" where
  "chunk_text (Data v) = string_or_empty (field (chat_delta v) ''content'')"
| "chunk_text (Event n v) =
     (if n = ''response.output_text.delta'' then string_or_empty (field (map_or_nil v) ''delta'')
      else if n = ''content_block_delta'' then string_or_empty (field (map_or_nil (field (map_or_nil v) ''delta'')) ''text'')
      else [])"

text \<open>Thinking is not part of a Responses stream.\<close>

fun chunk_thinking :: "chunk \<Rightarrow> string" where
  "chunk_thinking (Data v) = string_or_empty (field (chat_delta v) ''reasoning_content'')"
| "chunk_thinking (Event n v) =
     (if n = ''content_block_delta'' then string_or_empty (field (map_or_nil (field (map_or_nil v) ''delta'')) ''thinking'') else [])"

text \<open>
  The tool calls of a chunk, each whole: the entries of a chat delta without their index, the item of a
  Responses call that is done, the block of a started tool use.
\<close>

definition is_call_entry :: "goval \<Rightarrow> bool" where
  "is_call_entry v \<longleftrightarrow>
     field (map_or_nil v) ''type'' \<in> {GStr ''function_call'', GStr ''custom_tool_call'', GStr ''tool_use''}"

fun chunk_calls :: "chunk \<Rightarrow> goval list" where
  "chunk_calls (Data v) =
     map (\<lambda>c. GMap (gm_del ''index'' (map_or_nil c))) (list_or_nil (field (chat_delta v) ''tool_calls''))"
| "chunk_calls (Event n v) =
     filter is_call_entry
       (if n = ''response.output_item.done'' then [field (map_or_nil v) ''item'']
        else if n = ''content_block_start'' then [field (map_or_nil v) ''content_block''] else [])"

text \<open>The arguments as a Responses stream delivers them before the call is done.\<close>

fun chunk_arguments :: "chunk \<Rightarrow> goval list" where
  "chunk_arguments (Data v) = []"
| "chunk_arguments (Event n v) =
     (if n = ''response.function_call_arguments.delta'' \<or> n = ''response.custom_tool_call_input.delta''
      then [field (map_or_nil v) ''delta''] else [])"

fun chunk_usage :: "chunk \<Rightarrow> goval list" where
  "chunk_usage (Data v) = (if field (map_or_nil v) ''usage'' = GNil then [] else [field (map_or_nil v) ''usage''])"
| "chunk_usage (Event n v) =
     (if n = ''response.completed'' then [field (map_or_nil (field (map_or_nil v) ''response'')) ''usage'']
      else if n = ''message_delta'' then [field (map_or_nil v) ''usage''] else [])"

fun chunk_seq :: "chunk \<Rightarrow> goval" where
  "chunk_seq (Data v) = GNil"
| "chunk_seq (Event n v) = field (map_or_nil v) ''sequence_number''"

definition usage_of_format :: "string \<Rightarrow> tokenUsage \<Rightarrow> goval" where
  "usage_of_format f u = (if f = ''openai-chat'' then usageBlock u
     else if f = ''openai-response'' then responseUsageBlock u else claudeUsageBlock u)"

text \<open>
  What a non-streaming payload says of its calls, and what an entry of a call says: the id, the name
  and the arguments, which are JSON text, the text of a custom call, or an object.
\<close>

definition payload_value :: "(nat \<Rightarrow> string) \<Rightarrow> string \<Rightarrow> string \<Rightarrow> collectedTurn \<Rightarrow> int \<Rightarrow> goval" where
  "payload_value uuid f model r created =
     (if f = ''openai-chat'' then chat_payload uuid model r created
      else if f = ''openai-response'' then response_payload uuid model r created else claude_payload uuid model r)"

definition payload_calls :: "string \<Rightarrow> goval \<Rightarrow> goval list" where
  "payload_calls f v =
     (if f = ''openai-chat'' then list_or_nil (field (map_or_nil (field (chat_choice v) ''message'')) ''tool_calls'')
      else filter is_call_entry (list_or_nil (field (map_or_nil v) (if f = ''openai-response'' then ''output'' else ''content''))))"

definition entry_parts :: "goval \<Rightarrow> goval \<times> goval \<times> goval" where
  "entry_parts v =
     (let entry = map_or_nil v; called = map_or_nil (field entry ''function'') in
      (if field entry ''call_id'' = GNil then field entry ''id'' else field entry ''call_id'',
       if called = [] then field entry ''name'' else field called ''name'',
       if called \<noteq> [] then field called ''arguments''
       else if field entry ''type'' = GStr ''function_call'' then field entry ''arguments'' else field entry ''input''))"

definition call_argument :: "string \<Rightarrow> toolCall \<Rightarrow> goval" where
  "call_argument f call =
     (if f = ''claude'' then nilable (tc_Args call)
      else if f = ''openai-response'' \<and> tc_Custom call
      then GStr (string_or_empty (field (map_or_nil (nilable (tc_Args call))) ''input''))
      else GStr (marshal_or_nil (nilable (tc_Args call))))"

definition call_parts :: "string \<Rightarrow> toolCall \<Rightarrow> goval \<times> goval \<times> goval" where
  "call_parts f call = (GStr (tc_ID call), GStr (tc_Name call), call_argument f call)"

definition calls_of_format :: "string \<Rightarrow> toolCall list \<Rightarrow> goval list" where
  "calls_of_format f calls =
     (if f = ''openai-chat'' then openAIToolCalls calls
      else if f = ''openai-response'' then map (\<lambda>call. GMap (responseToolItem call)) calls
      else map (\<lambda>call. tool_use (tc_ID call) (tc_Name call) (tc_Args call)) calls)"

definition event_calls :: "string \<Rightarrow> TurnEvent \<Rightarrow> goval list" where
  "event_calls f e = (if te_Type e = ''tool_call'' then calls_of_format f [toolCallFromEvent e] else [])"

definition arguments_of_format :: "string \<Rightarrow> toolCall list \<Rightarrow> goval list" where
  "arguments_of_format f calls = (if f = ''openai-response'' then map (call_argument f) calls else [])"

definition event_arguments :: "string \<Rightarrow> TurnEvent \<Rightarrow> goval list" where
  "event_arguments f e = (if te_Type e = ''tool_call'' then arguments_of_format f [toolCallFromEvent e] else [])"

definition thinking_of_format :: "string \<Rightarrow> string \<Rightarrow> string" where
  "thinking_of_format f t = (if f = ''openai-response'' then [] else t)"

definition event_reads :: "(chunk \<Rightarrow> 'a list) \<Rightarrow> (string \<times> object) list \<Rightarrow> 'a list" where
  "event_reads f es = concat (map (\<lambda>(n, kvs). f (Event n (GMap kvs))) es)"

lemma event_reads_simps [simp]:
  "event_reads f [] = []" "event_reads f ((n, kvs) # es) = f (Event n (GMap kvs)) @ event_reads f es"
  "event_reads f (xs @ ys) = event_reads f xs @ event_reads f ys"
  by (simp_all add: event_reads_def)

lemma responseEvents_read:
  "concat (map chunk_text (snd (responseEvents s es))) = event_reads chunk_text es"
  "concat (map chunk_calls (snd (responseEvents s es))) = event_reads chunk_calls es"
  "concat (map chunk_usage (snd (responseEvents s es))) = event_reads chunk_usage es"
  "concat (map chunk_arguments (snd (responseEvents s es))) = event_reads chunk_arguments es"
  "concat (map chunk_thinking (snd (responseEvents s es))) = event_reads chunk_thinking es"
  by (induction s es rule: responseEvents.induct) (auto simp: responseEvent_def Let_def split: prod.split)

lemma responseEvents_seq:
  "map chunk_seq (snd (responseEvents s es)) = map (\<lambda>i. GInt (st_seq s + int i)) [0..<length es]"
proof (induction es arbitrary: s)
  case (Cons e es)
  obtain n v where e: "e = (n, v)" by (cases e) auto
  have "map (\<lambda>i. GInt (st_seq s + int i)) [0..<Suc (length es)]
      = GInt (st_seq s) # map (\<lambda>i. GInt (st_seq s + 1 + int i)) [0..<length es]"
    by (subst upt_conv_Cons) (simp_all add: map_Suc_upt [symmetric] del: upt_Suc add: comp_def algebra_simps)
  then show ?case
    using Cons [of "s\<lparr>st_seq := st_seq s + 1\<rparr>"] by (simp add: e responseEvent_def split_def del: upt_Suc)
qed simp

lemma length_responseEvents [simp]: "length (snd (responseEvents s es)) = length es"
  by (induction s es rule: responseEvents.induct) (auto split: prod.split)

lemma responseToolItem_reads:
  "field (responseToolItem call) ''call_id'' = GStr (tc_ID call)"
  "field (responseToolItem call) ''type'' = GStr (if tc_Custom call then ''custom_tool_call'' else ''function_call'')"
  by (simp_all add: responseToolItem_def)

lemma string_or_empty_GStr [simp]: "string_or_empty (GStr s) = s" "string_or_empty GNil = []"
  by (simp_all add: string_or_empty_def)

lemma list_or_nil_simps [simp]: "list_or_nil (GList l) = l" "list_or_nil GNil = []"
  by (simp_all add: list_or_nil_def)

lemma map_or_nil_GNil [simp]: "map_or_nil GNil = []"
  by (simp add: map_or_nil_def)

lemma response_pre_reads:
  "event_reads chunk_text (response_pre s) = []"
  "event_reads chunk_calls (response_pre s) = []"
  "event_reads chunk_usage (response_pre s) = []"
  "event_reads chunk_arguments (response_pre s) = []"
  "event_reads chunk_thinking (response_pre s) = []"
  by (simp_all add: response_pre_def response_prelude_def)

lemma call_prefix_names:
  "call_prefix call @ t \<noteq> ''response.output_text.delta''" "call_prefix call @ t \<noteq> ''content_block_delta''"
  "call_prefix call @ t \<noteq> ''response.output_item.done''" "call_prefix call @ t \<noteq> ''content_block_start''"
  "call_prefix call @ t \<noteq> ''response.completed''" "call_prefix call @ t \<noteq> ''message_delta''"
  by (simp_all add: call_prefix_def)

lemma call_delta_names:
  "call_prefix call @ ''.delta'' = ''response.function_call_arguments.delta'' \<or> call_prefix call @ ''.delta'' = ''response.custom_tool_call_input.delta''"
  "call_prefix call @ ''.done'' \<noteq> ''response.function_call_arguments.delta''"
  "call_prefix call @ ''.done'' \<noteq> ''response.custom_tool_call_input.delta''"
  by (simp_all add: call_prefix_def)

lemma tool_item_entry: "is_call_entry (GMap (responseToolItem call))"
  by (simp add: is_call_entry_def responseToolItem_reads)

lemma tool_item_argument: "field (responseToolItem call) (call_field call) = call_argument ''openai-response'' call"
  by (simp add: responseToolItem_def call_field_def call_argument_def)

lemma response_call_reads:
  "event_reads chunk_text (response_call_events call k) = []"
  "event_reads chunk_calls (response_call_events call k) = [GMap (responseToolItem call)]"
  "event_reads chunk_usage (response_call_events call k) = []"
  "event_reads chunk_thinking (response_call_events call k) = []"
  by (simp_all add: response_call_events_def Let_def call_prefix_names tool_item_entry)

lemma response_call_arguments:
  "event_reads chunk_arguments (response_call_events call k) = [call_argument ''openai-response'' call]"
  using call_delta_names
  by (simp add: response_call_events_def Let_def tool_item_argument)

lemma message_item_no_call: "\<not> is_call_entry (message_item i st content)"
  by (simp add: is_call_entry_def message_item_def)

lemma response_done_reads:
  "event_reads chunk_text (response_done_events s) = []"
  "event_reads chunk_calls (response_done_events s) = []"
  "event_reads chunk_usage (response_done_events s) = [responseUsageBlock (st_usage s)]"
  "event_reads chunk_arguments (response_done_events s) = []"
  "event_reads chunk_thinking (response_done_events s) = []"
  by (simp_all add: response_done_events_def Let_def message_item_no_call response_object_def)

lemma response_main_reads:
  "event_reads chunk_text (response_main s e) = (if te_Type e = ''text'' then te_Text e else [])"
  "event_reads chunk_calls (response_main s e) = event_calls ''openai-response'' e"
  "event_reads chunk_usage (response_main s e)
     = (if te_Type e = ''done'' then [responseUsageBlock (st_usage s)] else [])"
  "event_reads chunk_arguments (response_main s e) = event_arguments ''openai-response'' e"
  "event_reads chunk_thinking (response_main s e) = []"
proof -
  have tp: "field (text_place s @ [(''delta'', v), (''logprobs'', w)]) ''delta'' = v" for v w
    by (simp add: text_place_def)
  consider "te_Type e = ''text''" | "te_Type e = ''tool_call''" | "te_Type e = ''done''"
    | "te_Type e \<notin> {''text'', ''tool_call'', ''done''}" by blast
  note cs = this
  show "event_reads chunk_text (response_main s e) = (if te_Type e = ''text'' then te_Text e else [])"
    by (cases rule: cs) (simp_all add: response_main_def tp response_call_reads response_done_reads)
  show "event_reads chunk_calls (response_main s e) = event_calls ''openai-response'' e"
    by (cases rule: cs)
      (simp_all add: response_main_def response_call_reads response_done_reads event_calls_def calls_of_format_def)
  show "event_reads chunk_usage (response_main s e)
     = (if te_Type e = ''done'' then [responseUsageBlock (st_usage s)] else [])"
    by (cases rule: cs) (simp_all add: response_main_def response_call_reads response_done_reads)
  show "event_reads chunk_arguments (response_main s e) = event_arguments ''openai-response'' e"
    by (cases rule: cs)
      (simp_all add: response_main_def response_call_arguments response_done_reads event_arguments_def arguments_of_format_def)
  show "event_reads chunk_thinking (response_main s e) = []"
    by (cases rule: cs) (simp_all add: response_main_def response_call_reads response_done_reads)
qed

lemma field_usage_chat: "field (gm_set ''usage'' u (chatChunk s d f)) ''usage'' = u"
  "field (chatChunk s d f) ''usage'' = GNil"
  by (simp_all add: chatChunk_def)

lemma usageBlock_not_nil: "usageBlock u \<noteq> GNil"
  by (simp add: usageBlock_def)

lemma chat_call_entry: "GMap (gm_del ''index'' (map_or_nil (chat_call s e))) = hd (openAIToolCalls [toolCallFromEvent e])"
  by (simp add: chat_call_def openAIToolCalls_def toolCallFromEvent_def)

lemma chat_reads:
  "concat (map chunk_text (snd (openAIChatFrames s e))) = (if te_Type e = ''text'' then te_Text e else [])"
  "concat (map chunk_calls (snd (openAIChatFrames s e))) = event_calls ''openai-chat'' e"
  "concat (map chunk_usage (snd (openAIChatFrames s e))) = (if te_Type e = ''done'' then [usageBlock (st_usage s)] else [])"
  "concat (map chunk_arguments (snd (openAIChatFrames s e))) = []"
  "concat (map chunk_thinking (snd (openAIChatFrames s e))) = (if te_Type e = ''thinking'' then te_Text e else [])"
  by (simp_all add: openAIChatFrames_def chat_prelude_def Let_def field_usage_chat usageBlock_not_nil open_state_def
      event_calls_def calls_of_format_def chat_call_entry openAIToolCalls_def)

lemma tool_use_entry: "is_call_entry (tool_use i n args)"
  by (simp add: is_call_entry_def tool_use_def)

lemma claude_reads:
  "concat (map chunk_text (snd (claudeFrames s e))) = (if te_Type e = ''text'' then te_Text e else [])"
  "concat (map chunk_calls (snd (claudeFrames s e))) = event_calls ''claude'' e"
  "concat (map chunk_usage (snd (claudeFrames s e))) = (if te_Type e = ''done'' then [claudeUsageBlock (st_usage s)] else [])"
  "concat (map chunk_arguments (snd (claudeFrames s e))) = []"
  "concat (map chunk_thinking (snd (claudeFrames s e))) = (if te_Type e = ''thinking'' then te_Text e else [])"
  by (simp_all add: claudeFrames_def claude_prelude_def claude_delta_def Let_def tool_use_entry open_state_def
      event_calls_def calls_of_format_def toolCallFromEvent_def)

lemma step_reads:
  assumes "supported s" "\<not> is_usage e"
  shows "concat (map chunk_text (snd (step_chunks s e))) = (if te_Type e = ''text'' then te_Text e else [])"
    "concat (map chunk_calls (snd (step_chunks s e))) = event_calls (st_format s) e"
    "concat (map chunk_usage (snd (step_chunks s e))) = (if te_Type e = ''done'' then [usage_of_format (st_format s) (st_usage s)] else [])"
    "concat (map chunk_arguments (snd (step_chunks s e))) = event_arguments (st_format s) e"
    "concat (map chunk_thinking (snd (step_chunks s e)))
      = thinking_of_format (st_format s) (if te_Type e = ''thinking'' then te_Text e else [])"
    "st_usage (fst (step_chunks s e)) = st_usage s"
proof -
  have r: "concat (map chunk_text (snd (openAIResponseFrames s e))) = (if te_Type e = ''text'' then te_Text e else [])"
    "concat (map chunk_calls (snd (openAIResponseFrames s e))) = event_calls ''openai-response'' e"
    "concat (map chunk_usage (snd (openAIResponseFrames s e))) = (if te_Type e = ''done'' then [responseUsageBlock (st_usage s)] else [])"
    "concat (map chunk_arguments (snd (openAIResponseFrames s e))) = event_arguments ''openai-response'' e"
    "concat (map chunk_thinking (snd (openAIResponseFrames s e))) = []"
    unfolding response_frames responseEvents_read by (simp_all add: response_pre_reads response_main_reads)
  have a: "event_arguments ''openai-chat'' e = []" "event_arguments ''claude'' e = []"
    by (simp_all add: event_arguments_def arguments_of_format_def)
  show "concat (map chunk_text (snd (step_chunks s e))) = (if te_Type e = ''text'' then te_Text e else [])"
    using assms by (cases rule: step_chunks_cases) (simp_all add: r chat_reads claude_reads)
  show "concat (map chunk_calls (snd (step_chunks s e))) = event_calls (st_format s) e"
    using assms by (cases rule: step_chunks_cases) (simp_all add: r chat_reads claude_reads)
  show "concat (map chunk_usage (snd (step_chunks s e))) = (if te_Type e = ''done'' then [usage_of_format (st_format s) (st_usage s)] else [])"
    using assms by (cases rule: step_chunks_cases) (simp_all add: r chat_reads claude_reads usage_of_format_def)
  show "concat (map chunk_arguments (snd (step_chunks s e))) = event_arguments (st_format s) e"
    using assms by (cases rule: step_chunks_cases) (simp_all add: r chat_reads claude_reads a)
  show "concat (map chunk_thinking (snd (step_chunks s e)))
      = thinking_of_format (st_format s) (if te_Type e = ''thinking'' then te_Text e else [])"
    using assms by (cases rule: step_chunks_cases) (simp_all add: r chat_reads claude_reads thinking_of_format_def)
  show "st_usage (fst (step_chunks s e)) = st_usage s"
    using assms by (cases rule: step_chunks_cases) (simp_all add: response_frames_fst)
qed

lemma step_format: "supported s \<Longrightarrow> st_format (fst (step_chunks s e)) = st_format s"
  by (cases "is_usage e")
    (auto simp: step_usage response_frames_fst elim!: step_chunks_cases)

lemma run_format: "supported s \<Longrightarrow> st_format (fst (stream.run es s)) = st_format s"
  by (induction es arbitrary: s) (simp_all add: split_def step_format stream.inv_step)

text \<open>What chunks without a usage block add to a collected turn.\<close>

definition adds :: "string \<Rightarrow> chunk list \<Rightarrow> collectedTurn \<Rightarrow> collectedTurn \<Rightarrow> bool" where
  "adds f cs r r' \<longleftrightarrow>
     ct_Text r' = ct_Text r @ concat (map chunk_text cs)
     \<and> thinking_of_format f (ct_Thinking r') = thinking_of_format f (ct_Thinking r) @ concat (map chunk_thinking cs)
     \<and> calls_of_format f (ct_ToolCalls r') = calls_of_format f (ct_ToolCalls r) @ concat (map chunk_calls cs)
     \<and> arguments_of_format f (ct_ToolCalls r') = arguments_of_format f (ct_ToolCalls r) @ concat (map chunk_arguments cs)
     \<and> concat (map chunk_usage cs) = []"

lemma adds_none: "adds f [] r r"
  by (simp add: adds_def)

lemma adds_append: "adds f cs r r1 \<Longrightarrow> adds f ds r1 r2 \<Longrightarrow> adds f (cs @ ds) r r2"
  by (simp add: adds_def)

lemma format_appends:
  "calls_of_format f (xs @ ys) = calls_of_format f xs @ calls_of_format f ys"
  "arguments_of_format f (xs @ ys) = arguments_of_format f xs @ arguments_of_format f ys"
  "thinking_of_format f (s @ t) = thinking_of_format f s @ thinking_of_format f t"
  by (simp_all add: calls_of_format_def arguments_of_format_def thinking_of_format_def openAIToolCalls_def)

lemma format_empty [simp]:
  "calls_of_format f [] = []" "arguments_of_format f [] = []" "thinking_of_format f [] = []"
  by (simp_all add: calls_of_format_def arguments_of_format_def thinking_of_format_def openAIToolCalls_def)

text \<open>A stream and a collected turn, before the end: one event, then all.\<close>

lemma collect_step:
  assumes "supported s" "te_Type e \<noteq> ''done''" "st_usage s = ct_Usage r"
  obtains r1 where "\<And>es. collect_loop (e # es) r = collect_loop es r1"
    "st_usage (fst (step_chunks s e)) = ct_Usage r1" "adds (st_format s) (snd (step_chunks s e)) r r1"
proof -
  let ?r1 = "(if te_Type e = ''text'' then r\<lparr>ct_Text := ct_Text r @ te_Text e\<rparr>
      else if te_Type e = ''thinking'' then r\<lparr>ct_Thinking := ct_Thinking r @ te_Text e\<rparr>
      else if te_Type e = ''tool_call'' then r\<lparr>ct_ToolCalls := ct_ToolCalls r @ [toolCallFromEvent e]\<rparr>
      else if te_Type e = ''usage'' then r\<lparr>ct_Usage := observe_event (ct_Usage r) e\<rparr> else r)"
  obtain r1 where r1: "r1 = ?r1" by simp
  have c: "collect_loop (e # es) r = collect_loop es r1" for es using assms(2) by (simp add: r1)
  show thesis
  proof (cases "is_usage e")
    case True
    then show thesis using that [OF c] assms(3) by (simp add: step_usage is_usage_def r1 adds_def)
  next
    case False
    note reads = step_reads [OF assms(1) False]
    have "adds (st_format s) (snd (step_chunks s e)) r r1"
      unfolding adds_def reads using assms(2) False
      by (simp add: r1 is_usage_def event_calls_def event_arguments_def format_appends)
    moreover have "st_usage (fst (step_chunks s e)) = ct_Usage r1"
      using reads(6) assms(3) False by (simp add: r1 is_usage_def)
    ultimately show thesis using that [OF c] by blast
  qed
qed

lemma collect_stream:
  "supported s \<Longrightarrow> list_all (\<lambda>e. \<not> is_done e) es \<Longrightarrow> st_usage s = ct_Usage r \<Longrightarrow>
   \<exists>r'. collect_loop (es @ fs) r = collect_loop fs r'
     \<and> adds (st_format s) (snd (stream.run es s)) r r' \<and> st_usage (fst (stream.run es s)) = ct_Usage r'"
proof (induction es arbitrary: s r)
  case Nil
  then show ?case using adds_none by auto
next
  case (Cons e es)
  let ?s' = "fst (step_chunks s e)"
  have s': "supported ?s'" and nd: "te_Type e \<noteq> ''done''" and es: "list_all (\<lambda>e. \<not> is_done e) es"
    using Cons.prems stream.inv_step by (simp_all add: is_done_def)
  obtain r1 where r1: "\<And>es. collect_loop (e # es) r = collect_loop es r1" "st_usage ?s' = ct_Usage r1"
    "adds (st_format s) (snd (step_chunks s e)) r r1"
    using collect_step [OF Cons.prems(1) nd Cons.prems(3)] by metis
  obtain r' where ih: "collect_loop (es @ fs) r1 = collect_loop fs r'"
    "adds (st_format s) (snd (stream.run es ?s')) r1 r'" "st_usage (fst (stream.run es ?s')) = ct_Usage r'"
    using Cons.IH [OF s' es r1(2)] step_format [OF Cons.prems(1), of e] by auto
  have "collect_loop ((e # es) @ fs) r = collect_loop fs r'" using r1(1) ih(1) by simp
  then show ?case
    unfolding stream.run_Cons fst_conv snd_conv using adds_append [OF r1(3) ih(2)] ih(3) by blast
qed

text \<open>The calls of a collected turn as the non-streaming payload shows them.\<close>

lemma filter_calls: "list_all P xs \<Longrightarrow> filter P xs = xs"
  by (induction xs) auto

lemma payload_calls_of_format:
  assumes "f \<in> set formats"
  shows "payload_calls f (payload_value uuid f m r c) = calls_of_format f (ct_ToolCalls r)"
proof -
  have items: "filter is_call_entry (map (\<lambda>call. GMap (responseToolItem call)) calls) = map (\<lambda>call. GMap (responseToolItem call)) calls"
    "filter is_call_entry (map (\<lambda>call. tool_use (tc_ID call) (tc_Name call) (tc_Args call)) calls)
      = map (\<lambda>call. tool_use (tc_ID call) (tc_Name call) (tc_Args call)) calls" for calls
    by (rule filter_calls, simp add: list_all_iff tool_item_entry tool_use_entry)+
  have blocks: "\<not> is_call_entry (GMap [(''type'', GStr ''thinking''), (''thinking'', GStr t)])"
    "\<not> is_call_entry (GMap [(''type'', GStr ''text''), (''text'', GStr t)])" for t
    by (simp_all add: is_call_entry_def)
  consider "f = ''openai-chat''" | "f = ''openai-response''" | "f = ''claude''" using assms by (auto simp: formats_def)
  then show ?thesis
  proof cases
    case 1
    then show ?thesis
      by (simp add: payload_calls_def payload_value_def chat_payload_def chat_choice_def calls_of_format_def openAIToolCalls_def Let_def)
  next
    case 2
    then show ?thesis
      by (simp add: payload_calls_def payload_value_def response_payload_def calls_of_format_def Let_def items message_item_no_call)
  next
    case 3
    then show ?thesis
      by (simp add: payload_calls_def payload_value_def claude_payload_def calls_of_format_def Let_def items blocks)
  qed
qed

lemma payload_value_marshalled:
  "f \<in> set formats \<Longrightarrow> nonStreamingPayload uuid f m r c = marshal_result (payload_value uuid f m r c)"
  by (auto simp: nonStreamingPayload_def payload_value_def formats_def)

text \<open>An entry says the id, the name and the arguments of its call, in every format.\<close>

lemma entry_parts_call: "f \<in> set formats \<Longrightarrow> map entry_parts (calls_of_format f calls) = map (call_parts f) calls"
  by (auto simp: formats_def calls_of_format_def openAIToolCalls_def entry_parts_def call_parts_def call_argument_def
      Let_def responseToolItem_def tool_use_def)

text \<open>A turn that ends without an error has one end, its last event.\<close>

lemma turn_ends_once:
  assumes "turn_shape es" "snd (stream_spec s es) = None"
  shows "\<exists>qs d. es = qs @ [d] \<and> list_all (\<lambda>e. \<not> is_done e) qs \<and> is_done d \<and> te_Err d = None"
proof -
  from assms(1) obtain qs fs where es: "es = qs @ fs" "list_all quiet qs" "turn_end fs" by (auto simp: turn_shape_def)
  have q: "list_all (\<lambda>e. \<not> is_done e) qs" using es(2) by (auto simp: list_all_iff quiet_def is_done_def)
  then have fd: "from_done es = from_done fs" by (simp add: es(1) list_all_iff dropWhile_append2)
  have n: "(case from_done fs of d # _ \<Rightarrow> te_Err d | [] \<Rightarrow> Some incomplete_error) = None"
    using assms(2) by (simp add: stream_spec_run fd)
  from es(3) show ?thesis unfolding turn_end_def
  proof (elim disjE exE conjE)
    assume "fs = [done_event ''stop'']"
    then show ?thesis using es(1) q
      by (intro exI [of _ qs] exI [of _ "done_event ''stop''"]) (simp add: event_defs is_done_def)
  next
    fix x assume "fs = [x, done_event ''tool_calls'']" "proper_call x"
    then show ?thesis using es(1) q
      by (intro exI [of _ "qs @ [x]"] exI [of _ "done_event ''tool_calls''"])
        (simp add: event_defs is_done_def proper_call_def)
  qed (use n in \<open>simp_all add: event_defs is_done_def\<close>)
qed

text \<open>The sequence numbers of a Responses stream.\<close>

lemma run_seq:
  "st_format s = ''openai-response'' \<Longrightarrow>
   map chunk_seq (snd (stream.run es s)) = map (\<lambda>i. GInt (st_seq s + int i)) [0..<length (snd (stream.run es s))]"
proof (induction es arbitrary: s)
  case (Cons e es)
  have sup: "supported s" using Cons.prems by (simp add: supported_def formats_def)
  let ?s' = "fst (step_chunks s e)" and ?cs = "snd (step_chunks s e)"
  have f: "st_format ?s' = ''openai-response''" using step_format [OF sup] Cons.prems by simp
  have step: "map chunk_seq ?cs = map (\<lambda>i. GInt (st_seq s + int i)) [0..<length ?cs] \<and> st_seq ?s' = st_seq s + int (length ?cs)"
  proof (cases "is_usage e")
    case False
    with Cons.prems have "step_chunks s e = openAIResponseFrames s e"
      by (simp add: step_chunks_def frames_chunks_def is_usage_def inr_chunks)
    then show ?thesis by (simp add: response_frames_fst) (simp add: response_frames responseEvents_seq)
  qed (simp add: step_usage)
  let ?n = "length ?cs" and ?m = "length (snd (stream.run es ?s'))"
  have "map (\<lambda>i. GInt (st_seq s + int i)) [0..<?n + ?m]
    = map (\<lambda>i. GInt (st_seq s + int i)) [0..<?n] @ map (\<lambda>i. GInt (st_seq s + int ?n + int i)) [0..<?m]"
  proof -
    have "[0..<?n + ?m] = [0..<?n] @ map (\<lambda>i. i + ?n) [0..<?m]"
      unfolding map_add_upt add.commute [of ?m ?n] by (rule upt_add_eq_append) simp
    then show ?thesis by (simp add: comp_def add.commute add.left_commute)
  qed
  then show ?case
    using step Cons.IH [OF f] by (simp add: stream.run_Cons del: stream.run.simps)
qed simp

section \<open>Content blocks\<close>

text \<open>
  A Claude stream sends the text of a turn as deltas of a content block it never opened, and
  closes no content block at all: only tool calls have a start, and nothing has a stop.
\<close>

theorem claude_blocks_unbalanced:
  "list_all (\<lambda>c. chunk_name c \<noteq> ''content_block_stop'') (snd (claudeFrames s e))
   \<and> (te_Type e = ''text'' \<longrightarrow> list_all (\<lambda>c. chunk_name c \<noteq> ''content_block_start'') (snd (claudeFrames s e))
        \<and> list_ex (\<lambda>c. chunk_name c = ''content_block_delta'') (snd (claudeFrames s e)))"
  by (auto simp: claudeFrames_def claude_prelude_def claude_delta_def Let_def)

section \<open>Properties\<close>

definition demo_events :: "TurnEvent list" where
  "demo_events = [text_event ''hi'', usage_event zero_usage, done_event ''stop'']"

definition demo_stream :: "string \<Rightarrow> PreparedStream" where
  "demo_stream f = \<lparr>ps_headers = streamHeaders, ps_events = [usage_event zero_usage, done_event ''stop''],
     ps_pending = [text_event ''hi''], ps_state = Some (newStreamState (\<lambda>_. []) f ''m'' 0)\<rparr>"

lemma demo_prepared: "prepareEventStream (\<lambda>_. []) f ''m'' 0 demo_events = Inr (demo_stream f)"
  by (simp add: prepareEventStream_def demo_events_def demo_stream_def event_defs streamEventCommits_def)

lemma prepared_delivers:
  assumes "f \<in> set formats" and "prepareEventStream uuid f m c es = Inr ps"
  shows "snd (Pump (Some ps) (Some emit) w) = delivered emit (stream_spec (newStreamState uuid f m c) es) w"
proof -
  have p: "ps_pending ps @ ps_events ps = es" "ps_state ps = Some (newStreamState uuid f m c)"
    using prepare_loop_Inr [of uuid f m c "[]" es ps] assms(2) by (simp_all add: prepareEventStream_def)
  show ?thesis
    unfolding Pump_outcome [OF p(2)] p(1) by (rule pump_delivers) (rule supported_new [OF assms(1)])
qed

text \<open>
  C5. Waiting for the first committing event changes nothing but the time at which errors
  appear: a prepared stream delivers exactly the chunks of the turn's events, in order and
  each once, up to the first event that ends the turn or the first failure of the emitter,
  and reports that failure, the turn's error, or the missing end of the turn.
\<close>

theorem prepared_stream_delivers_all:
  assumes "f \<in> set formats" and "prepareEventStream uuid f m c es = Inr ps"
  shows "snd (Pump (Some ps) (Some emit) w) = delivered emit (stream_spec (newStreamState uuid f m c) es) w"
  using assms by (rule prepared_delivers)

theorem prepared_stream_delivers_all_witness:
  "snd (Pump (Some (demo_stream ''claude'')) (Some (\<lambda>f w. (w @ [f], None))) [])
     = delivered (\<lambda>f w. (w @ [f], None)) (stream_spec (newStreamState (\<lambda>_. []) ''claude'' ''m'' 0) demo_events) []"
  using prepared_stream_delivers_all [OF _ demo_prepared, of "''claude''"] by (simp add: formats_def)

text \<open>
  C8. A stream that was committed is well framed in all three formats: it begins with the
  one opening chunk of its format, and it ends with the one closing chunk exactly when the
  turn ended without an error; a stream that fails late never announces a completion.
\<close>

theorem committed_stream_framed:
  assumes "f \<in> set formats" and "prepareEventStream uuid f m c es = Inr ps"
    and "stream_spec (newStreamState uuid f m c) es = (cs, r)"
  shows "(\<exists>o0 os. cs = o0 # os \<and> starts_chunk o0 \<and> list_all (\<lambda>c. \<not> starts_chunk c) os)
    \<and> (if r = None then \<exists>is z. cs = is @ [z] \<and> finishes_chunk z \<and> list_all (\<lambda>c. \<not> finishes_chunk c) is
       else list_all (\<lambda>c. \<not> finishes_chunk c) cs)"
proof -
  let ?s = "newStreamState uuid f m c"
  have s: "supported ?s" by (rule supported_new [OF assms(1)])
  have "\<not> list_all is_usage (rendered es)"
    using assms(2) prepare_loop_commits unfolding prepareEventStream_def by blast
  then have "\<exists>o0 os. snd (stream.run (rendered es) ?s) = o0 # os \<and> starts_chunk o0 \<and> list_all (\<lambda>c. \<not> starts_chunk c) os"
    using stream.run_starts_once [OF s, of "rendered es"] by (simp add: newStreamState_def)
  moreover have "cs = snd (stream.run (rendered es) ?s)"
    using stream_spec_run(1) [of ?s es] assms(3) by simp
  ultimately show ?thesis
    using stream_spec_finish [OF s, of es] assms(3) by (auto split: option.splits)
qed

theorem committed_stream_framed_witness:
  "\<exists>is z. fst (stream_spec (newStreamState (\<lambda>_. []) ''openai-chat'' ''m'' 0) demo_events) = is @ [z] \<and> finishes_chunk z"
proof -
  let ?sp = "stream_spec (newStreamState (\<lambda>_. []) ''openai-chat'' ''m'' 0) demo_events"
  have f: "''openai-chat'' \<in> set formats" by (simp add: formats_def)
  have n: "snd ?sp = None" by (simp add: demo_events_def event_defs is_done_def)
  have "?sp = (fst ?sp, snd ?sp)" by simp
  note framed = committed_stream_framed [OF f demo_prepared this]
  show ?thesis using conjunct2 [OF framed] unfolding n by auto
qed

text \<open>
  Errors are synchronous, so that the host can try another account, exactly as long as
  nothing was committed: preparing fails if and only if the turn's error, or the end of the
  channel, comes before the first event that commits the stream.
\<close>

theorem prepare_fails_iff:
  "prepareEventStream uuid f m c es = Inl err \<longleftrightarrow>
     (case dropWhile (\<lambda>e. \<not> streamEventCommits f e) es of
        [] \<Rightarrow> err = empty_error | e # _ \<Rightarrow> is_done e \<and> te_Err e = Some err)"
proof -
  have "prepare_loop uuid f m c pending es = Inl err \<longleftrightarrow>
     (case dropWhile (\<lambda>e. \<not> streamEventCommits f e) es of [] \<Rightarrow> err = empty_error | e # _ \<Rightarrow> is_done e \<and> te_Err e = Some err)"
    for pending
  proof (induction es arbitrary: pending)
    case (Cons e es)
    then show ?case
      using done_commits [of e f] by (auto simp: is_done_def Let_def)
  qed auto
  then show ?thesis by (simp add: prepareEventStream_def)
qed


text \<open>A turn that ends with a call.\<close>

definition call_events :: "TurnEvent list" where
  "call_events = [text_event ''hi'',
     (event_of ''tool_call'')\<lparr>te_ToolCallID := ''c'', te_ToolName := ''read'', te_ToolArgs := Some [(''p'', GStr ''x'')]\<rparr>,
     done_event ''tool_calls'']"

lemma call_events_shape: "turn_shape call_events"
  unfolding turn_shape_def call_events_def
  by (intro exI [of _ "[text_event ''hi'']"] exI [of _ "[(event_of ''tool_call'')\<lparr>te_ToolCallID := ''c'',
      te_ToolName := ''read'', te_ToolArgs := Some [(''p'', GStr ''x'')]\<rparr>, done_event ''tool_calls'']"])
    (simp add: quiet_def event_defs turn_end_def proper_call_def event_of_def)


text \<open>
  C35. The events of a Responses stream carry consecutive sequence numbers from zero, across
  all events of the turn.
\<close>

theorem response_sequence_numbers:
  "map chunk_seq (fst (stream_spec (newStreamState uuid ''openai-response'' m c) es))
     = map (\<lambda>i. GInt (int i)) [0..<length (fst (stream_spec (newStreamState uuid ''openai-response'' m c) es))]"
  using run_seq [of "newStreamState uuid ''openai-response'' m c" "rendered es"]
  by (simp add: stream_spec_run newStreamState_def)

text \<open>
  C36. A turn that breaks off without an end is treated in two ways: the stream reports the
  retryable error that it is incomplete, but the collected response is a success with the
  finish reason \<open>stop\<close> and the text so far.
\<close>

theorem truncated_turn_diverges:
  assumes "f \<in> set formats" and "list_all (\<lambda>e. \<not> is_done e) es"
    and "prepareEventStream uuid f m c es = Inr ps"
  shows "(\<exists>w'. snd (Pump (Some ps) (Some (\<lambda>f w. (w @ [f], None))) []) = (w', Some incomplete_error))
    \<and> (\<exists>r. collectTurn es = Inr r \<and> ct_DoneReason r = ''stop'')"
proof
  let ?s = "newStreamState uuid f m c"
  have s: "supported ?s" by (rule supported_new [OF assms(1)])
  have p: "ps_pending ps @ ps_events ps = es" "ps_state ps = Some ?s"
    using prepare_loop_Inr [of uuid f m c "[]" es ps] assms(3) by (simp_all add: prepareEventStream_def)
  have fd: "from_done es = []" using assms(2) by (simp add: list_all_iff)
  have ok: "emit_all (\<lambda>f w. (w @ [f], None)) fs w = (w @ fs, None)" for fs w
    by (induction fs arbitrary: w) simp_all
  have "snd (stream_spec ?s es) = Some incomplete_error" unfolding stream_spec_run(2) fd by simp
  then show "\<exists>w'. snd (Pump (Some ps) (Some (\<lambda>f w. (w @ [f], None))) []) = (w', Some incomplete_error)"
    unfolding Pump_outcome [OF p(2)] p(1) pump_delivers [OF s] by (simp add: delivered_def ok)
  have "\<exists>r'. collect_loop es r = Inr r' \<and> ct_DoneReason r' = ct_DoneReason r" if "list_all (\<lambda>e. \<not> is_done e) es" for es r
    using that by (induction es r rule: collect_loop.induct) (auto simp: is_done_def)
  then show "\<exists>r. collectTurn es = Inr r \<and> ct_DoneReason r = ''stop''"
    using assms(2) unfolding collectTurn_def by (metis collectedTurn.select_convs(5) new_collected_def)
qed

theorem truncated_turn_diverges_witness:
  "\<exists>r. collectTurn [text_event ''partial''] = Inr r \<and> ct_DoneReason r = ''stop''"
proof -
  have f: "''claude'' \<in> set formats" by (simp add: formats_def)
  have "\<exists>ps. prepareEventStream (\<lambda>_. []) ''claude'' ''m'' 0 [text_event ''partial''] = Inr ps"
    by (simp add: prepareEventStream_def event_defs streamEventCommits_def)
  then show ?thesis
    using truncated_turn_diverges [OF f, of "[text_event ''partial'']"] by (auto simp: event_defs is_done_def)
qed

end
