(* ===== verification/Turn_Channel.thy ===== *)
theory Turn_Channel
  imports Stream_Correct
begin

text \<open>
  session.go and executor.go: the goroutine of a turn and its reader share a channel with room
  for 32 events. The goroutine sends without watching its context; the reader may stop reading
  early (when the emitter of a stream fails). The step relation interleaves the two; it shows
  that a reader that keeps reading gets the list of all events, which is how the other
  theories treat the channel, and what becomes of the goroutine when the reader leaves.
\<close>

section \<open>The channel\<close>

definition capacity :: nat where
  "capacity = 32"

record channel =
  ch_unsent :: "TurnEvent list"
  ch_buffer :: "TurnEvent list"
  ch_received :: "TurnEvent list"
  ch_closed :: bool
  ch_reading :: bool

definition new_channel :: "TurnEvent list \<Rightarrow> channel" where
  "new_channel es = \<lparr>ch_unsent = es, ch_buffer = [], ch_received = [], ch_closed = False, ch_reading = True\<rparr>"

text \<open>
  A send blocks while the buffer is full; the channel is closed (and the connection released)
  when everything was sent; a receive takes the oldest event; the reader may leave.
\<close>

inductive step :: "channel \<Rightarrow> channel \<Rightarrow> bool" where
  send: "ch_unsent c = e # es \<Longrightarrow> length (ch_buffer c) < capacity \<Longrightarrow>
    step c (c\<lparr>ch_unsent := es, ch_buffer := ch_buffer c @ [e]\<rparr>)"
| close: "ch_unsent c = [] \<Longrightarrow> \<not> ch_closed c \<Longrightarrow> step c (c\<lparr>ch_closed := True\<rparr>)"
| receive: "ch_reading c \<Longrightarrow> ch_buffer c = e # es \<Longrightarrow>
    step c (c\<lparr>ch_buffer := es, ch_received := ch_received c @ [e]\<rparr>)"
| leave: "ch_reading c \<Longrightarrow> step c (c\<lparr>ch_reading := False\<rparr>)"

text \<open>The steps of a reader that keeps reading until the channel is closed.\<close>

definition drain_step :: "channel \<Rightarrow> channel \<Rightarrow> bool" where
  "drain_step c c' \<longleftrightarrow> step c c' \<and> ch_reading c'"

inductive_cases step_cases: "step c c'"

definition reachable :: "TurnEvent list \<Rightarrow> channel \<Rightarrow> bool" where
  "reachable es c \<longleftrightarrow> step\<^sup>*\<^sup>* (new_channel es) c"

section \<open>Invariants\<close>

definition channel_ok :: "TurnEvent list \<Rightarrow> channel \<Rightarrow> bool" where
  "channel_ok es c \<longleftrightarrow> ch_received c @ ch_buffer c @ ch_unsent c = es
     \<and> length (ch_buffer c) \<le> capacity \<and> (ch_closed c \<longrightarrow> ch_unsent c = [])"

lemma channel_ok_new: "channel_ok es (new_channel es)"
  by (simp add: channel_ok_def new_channel_def)

lemma channel_ok_step: "step c c' \<Longrightarrow> channel_ok es c \<Longrightarrow> channel_ok es c'"
  by (induction rule: step.induct) (auto simp: channel_ok_def)

interpretation turn: invariant_machine step "new_channel es" "channel_ok es" for es
  by unfold_locales (auto intro: channel_ok_new channel_ok_step)

lemma channel_ok_steps: "step\<^sup>*\<^sup>* c c' \<Longrightarrow> channel_ok es c \<Longrightarrow> channel_ok es c'"
  by (rule turn.inv_steps)

text \<open>The work left: it decreases with every step.\<close>

definition work :: "channel \<Rightarrow> nat" where
  "work c = 2 * length (ch_unsent c) + length (ch_buffer c) + (if ch_closed c then 0 else 1) + (if ch_reading c then 1 else 0)"

lemma work_step: "step c c' \<Longrightarrow> work c' < work c"
  by (induction rule: step.induct) (auto simp: work_def)

lemma drain_progress:
  assumes "channel_ok es c" "ch_reading c" "\<not> (ch_closed c \<and> ch_buffer c = [])"
  shows "\<exists>c'. drain_step c c'"
proof (cases "ch_buffer c")
  case (Cons e b)
  then show ?thesis
    using receive [OF assms(2) Cons] assms(2) by (fastforce simp: drain_step_def)
next
  case Nil
  show ?thesis
  proof (cases "ch_unsent c")
    case (Cons e us)
    then show ?thesis using send [OF Cons] Nil assms(2) by (fastforce simp: drain_step_def capacity_def)
  next
    case Nil': Nil
    then show ?thesis using close [OF Nil'] Nil assms by (fastforce simp: drain_step_def)
  qed
qed

definition delivered :: "TurnEvent list \<Rightarrow> channel \<Rightarrow> bool" where
  "delivered es c \<longleftrightarrow> ch_closed c \<and> ch_buffer c = [] \<and> ch_received c = es"

interpretation drain: terminating_machine drain_step "new_channel es" "\<lambda>c. channel_ok es c \<and> ch_reading c" work "delivered es"
  for es
proof
  show "channel_ok es (new_channel es) \<and> ch_reading (new_channel es)"
    using channel_ok_new by (simp add: new_channel_def)
  fix c c'
  show "drain_step c c' \<Longrightarrow> channel_ok es c \<and> ch_reading c \<Longrightarrow> channel_ok es c' \<and> ch_reading c'"
    using channel_ok_step by (auto simp: drain_step_def)
  show "drain_step c c' \<Longrightarrow> work c' < work c" by (simp add: drain_step_def work_step)
  have "delivered es c" if "channel_ok es c" "ch_closed c \<and> ch_buffer c = []"
    using that by (auto simp: channel_ok_def delivered_def)
  then show "channel_ok es c \<and> ch_reading c \<Longrightarrow> \<not> delivered es c \<Longrightarrow> \<exists>c'. drain_step c c'"
    using drain_progress by blast
qed

text \<open>Once nobody reads, what fits neither into the buffer nor through it stays unsent.\<close>

definition stranded :: "channel \<Rightarrow> bool" where
  "stranded c \<longleftrightarrow> \<not> ch_reading c \<and> \<not> ch_closed c \<and> capacity < length (ch_buffer c) + length (ch_unsent c)
     \<and> length (ch_buffer c) \<le> capacity"

lemma stranded_step: "step c c' \<Longrightarrow> stranded c \<Longrightarrow> stranded c'"
  by (induction rule: step.induct) (auto simp: stranded_def)

lemma stranded_steps: "step\<^sup>*\<^sup>* c c' \<Longrightarrow> stranded c \<Longrightarrow> stranded c'"
  by (induction rule: rtranclp_induct) (auto intro: stranded_step)

section \<open>Properties\<close>

text \<open>
  C37. The channel delivers the turn: in every state the events received are the first ones
  of the turn, in order and none lost or repeated, and never more than 32 wait. From then on, if the
  reader keeps reading, every run of the two ends after a bounded number of steps, whoever
  moves first, and it can only end with the channel closed and the complete list received.
\<close>

theorem channel_delivers:
  assumes "reachable es c" and "ch_reading c"
  shows "ch_received c = take (length (ch_received c)) es \<and> length (ch_buffer c) \<le> capacity
    \<and> (\<forall>n c'. (drain_step ^^ n) c c' \<longrightarrow> n \<le> work c)
    \<and> (\<forall>c'. drain_step\<^sup>*\<^sup>* c c' \<longrightarrow> (\<exists>c''. drain_step c' c'') \<or> delivered es c')"
proof -
  have ok: "channel_ok es c"
    using channel_ok_steps channel_ok_new assms(1) unfolding reachable_def by blast
  then have "es = ch_received c @ ch_buffer c @ ch_unsent c" "length (ch_buffer c) \<le> capacity"
    by (simp_all add: channel_ok_def)
  moreover have "\<forall>n c'. (drain_step ^^ n) c c' \<longrightarrow> n \<le> work c" using drain.run_bound by fastforce
  moreover have "\<forall>c'. drain_step\<^sup>*\<^sup>* c c' \<longrightarrow> (\<exists>c''. drain_step c' c'') \<or> delivered es c'"
    using drain.stuck_at_goal ok assms(2) by blast
  ultimately show ?thesis by (metis append_eq_conv_conj)
qed

theorem channel_delivers_witness:
  "(\<exists>c'. drain_step\<^sup>*\<^sup>* (new_channel demo_events) c' \<and> delivered demo_events c')
    \<and> \<not> (\<exists>c'. (drain_step ^^ Suc (work (new_channel demo_events))) (new_channel demo_events) c')"
proof -
  have start: "channel_ok demo_events (new_channel demo_events) \<and> ch_reading (new_channel demo_events)"
    using channel_ok_new by (simp add: new_channel_def)
  have "reachable demo_events (new_channel demo_events)" by (simp add: reachable_def)
  from channel_delivers [OF this] start drain.reaches_goal [OF start] show ?thesis
    by (meson Suc_n_not_le_n)
qed

text \<open>
  C38. When the reader leaves while more than 32 events are still to come, the goroutine of
  the turn blocks for good in a send: no continuation closes the channel or sends the rest.
\<close>

theorem abandoned_turn_leaks:
  assumes "reachable es c" and "\<not> ch_reading c" and "capacity < length (ch_buffer c) + length (ch_unsent c)"
    and "step\<^sup>*\<^sup>* c c'"
  shows "\<not> ch_closed c' \<and> ch_unsent c' \<noteq> []"
proof -
  have ok: "channel_ok es c"
    using channel_ok_steps channel_ok_new assms(1) unfolding reachable_def by blast
  have "ch_unsent c \<noteq> []" using ok assms(3) by (auto simp: channel_ok_def)
  then have "\<not> ch_closed c" using ok by (auto simp: channel_ok_def)
  then have "stranded c" using ok assms(2,3) by (simp add: stranded_def channel_ok_def)
  then have "stranded c'" using stranded_steps assms(4) by blast
  then show ?thesis by (auto simp: stranded_def)
qed

theorem abandoned_turn_leaks_witness:
  "\<not> ch_closed ((new_channel (replicate 33 (text_event ''x'')))\<lparr>ch_reading := False\<rparr>)"
proof -
  let ?es = "replicate 33 (text_event ''x'')"
  let ?c = "(new_channel ?es)\<lparr>ch_reading := False\<rparr>"
  have "step (new_channel ?es) ?c" by (rule leave) (simp add: new_channel_def)
  then have r: "reachable ?es ?c" unfolding reachable_def by (rule r_into_rtranclp)
  show ?thesis using abandoned_turn_leaks [OF r, of ?c] by (simp add: new_channel_def capacity_def)
qed

end
