(* ===== verification/Go_Float.thy ===== *)
theory Go_Float
  imports Go_Json Complex_Main
begin

text \<open>
  Arithmetic on \<open>float64\<close>. A finite double is the rational it denotes; an operation computes
  exactly and rounds once, to nearest with ties to even. The numbers the plugin computes with
  are far below the range where a double overflows, so rounding never gives an infinity here.
  Negative zero is not kept apart from zero.
\<close>

section \<open>Rounding\<close>

definition pow2 :: "int \<Rightarrow> rat" where
  "pow2 e = (if 0 \<le> e then 2 ^ nat e else 1 / 2 ^ nat (- e))"

definition pow10 :: "int \<Rightarrow> rat" where
  "pow10 e = (if 0 \<le> e then 10 ^ nat e else 1 / 10 ^ nat (- e))"

definition double_value :: "nat \<times> int \<Rightarrow> rat" where
  "double_value me = of_nat (fst me) * pow2 (snd me)"

definition round_double :: "rat \<Rightarrow> rat" where
  "round_double r =
     (case quotient_of r of (n, d) \<Rightarrow>
        if n = 0 then 0
        else (if n < 0 then - 1 else 1) * double_value (nearest_double (nat \<bar>n\<bar>) (nat d)))"

datatype double = DNaN | DInf bool | DFin rat

fun to_double :: "float64 \<Rightarrow> double" where
  "to_double FNaN = DNaN"
| "to_double (FInf neg) = DInf neg"
| "to_double (FDec neg d e) = DFin (round_double ((if neg then - 1 else 1) * of_nat d * pow10 e))"

text \<open>The shortest decimal of a double, and its JSON.\<close>

definition of_double :: "double \<Rightarrow> float64" where
  "of_double x =
     (case x of
        DNaN \<Rightarrow> FNaN
      | DInf neg \<Rightarrow> FInf neg
      | DFin r \<Rightarrow>
          (case quotient_of r of (n, d) \<Rightarrow>
             if n = 0 then FDec False 0 0
             else (case nearest_double (nat \<bar>n\<bar>) (nat d) of (m, e) \<Rightarrow>
               (case shortest_from [1..<18] m e (if 0 \<le> e then m * 2 ^ nat e else m) (if 0 \<le> e then 1 else 2 ^ nat (- e)) of
                  (c, y) \<Rightarrow> FDec (n < 0) c y))))"

definition double_json :: "double \<Rightarrow> string option" where
  "double_json x = float_json (of_double x)"

section \<open>math.Min and math.Max\<close>

text \<open>\<open>DInf True\<close> is the negative infinity.\<close>

definition math_min :: "double \<Rightarrow> double \<Rightarrow> double" where
  "math_min x y =
     (if x = DInf True \<or> y = DInf True then DInf True
      else case (x, y) of
        (DNaN, _) \<Rightarrow> DNaN | (_, DNaN) \<Rightarrow> DNaN
      | (DInf _, _) \<Rightarrow> y | (_, DInf _) \<Rightarrow> x
      | (DFin a, DFin b) \<Rightarrow> DFin (min a b))"

definition math_max :: "double \<Rightarrow> double \<Rightarrow> double" where
  "math_max x y =
     (if x = DInf False \<or> y = DInf False then DInf False
      else case (x, y) of
        (DNaN, _) \<Rightarrow> DNaN | (_, DNaN) \<Rightarrow> DNaN
      | (DInf _, _) \<Rightarrow> y | (_, DInf _) \<Rightarrow> x
      | (DFin a, DFin b) \<Rightarrow> DFin (max a b))"

section \<open>Durations in seconds\<close>

text \<open>\<open>Duration.Seconds\<close>: whole seconds and the rest are converted and added as doubles.\<close>

definition seconds_float :: "duration \<Rightarrow> rat" where
  "seconds_float d =
     (let a = \<bar>d\<bar>;
          s = round_double (of_int (a div second) + round_double (of_int (a mod second) / of_int second))
      in if d < 0 then - s else s)"

text \<open>\<open>int64(x)\<close> of a finite double truncates.\<close>

definition trunc :: "rat \<Rightarrow> int" where
  "trunc r = (if r < 0 then - \<lfloor>- r\<rfloor> else \<lfloor>r\<rfloor>)"

section \<open>Bounds\<close>

lemma bit_length_le: "bit_length n \<le> k \<longleftrightarrow> n < 2 ^ k"
proof (induction n arbitrary: k rule: bit_length.induct)
  case (1 n)
  show ?case
  proof (cases "n = 0")
    case True
    then show ?thesis by (simp add: bit_length.simps)
  next
    case False
    show ?thesis
    proof (cases k)
      case 0
      then show ?thesis using False by (simp add: bit_length.simps [of n])
    next
      case (Suc j)
      have "n div 2 < 2 ^ j \<longleftrightarrow> n < 2 ^ Suc j" by (simp add: div_less_iff_less_mult mult.commute)
      then show ?thesis using False 1 Suc by (simp add: bit_length.simps [of n])
    qed
  qed
qed

lemma round_div_le:
  assumes "num \<le> k * den" "0 < den"
  shows "round_div num den \<le> k"
proof (cases "num mod den = 0")
  case True
  then have "num div den \<le> k" using assms by (metis div_le_mono nonzero_mult_div_cancel_right not_less0)
  then show ?thesis using True assms(2) by (simp add: round_div_def Let_def)
next
  case False
  have "num div den < k"
  proof -
    have "num div den * den < num" using False div_mult_mod_eq [of num den] by linarith
    then have "num div den * den < k * den" using assms(1) by linarith
    then show ?thesis by simp
  qed
  then show ?thesis by (auto simp: round_div_def Let_def)
qed

lemma pow2_pos [simp]: "0 < pow2 e"
  by (simp add: pow2_def)

lemma double_value_nonneg [simp]: "0 \<le> double_value me"
  using less_imp_le [OF pow2_pos] by (simp add: double_value_def)

lemma pow2_Suc: "pow2 (e + 1) = 2 * pow2 e"
proof (cases "0 \<le> e")
  case True
  then have "nat (e + 1) = Suc (nat e)" by simp
  then show ?thesis using True by (simp add: pow2_def)
next
  case False
  then obtain n where e: "e = - int (Suc n)" by (metis negD not_le)
  have "nat (- e) = Suc n" "nat (- (e + 1)) = n" "e + 1 \<le> 0" using e by simp_all
  then show ?thesis using False by (cases "e + 1 = 0") (simp_all add: pow2_def)
qed

lemma nearest_double_le:
  assumes "0 < den" "num \<le> k * den" "k < 2 ^ 50"
  shows "double_value (nearest_double num den) \<le> of_nat k"
proof -
  define e0 where "e0 = int (bit_length num) - int (bit_length den) - 53"
  define e where "e = max (if (if 0 \<le> e0 then den * 2 ^ (53 + nat e0) \<le> num else den * 2 ^ 53 \<le> num * 2 ^ nat (- e0)) then e0 + 1 else e0) (- 1074)"
  have "num < 2 ^ (50 + bit_length den)"
  proof -
    have "den < 2 ^ bit_length den" using bit_length_le by blast
    then have "k * den < 2 ^ 50 * 2 ^ bit_length den"
      using assms(1,3) by (intro mult_strict_mono) auto
    then show ?thesis using assms(2) by (simp add: power_add)
  qed
  then have "bit_length num \<le> 50 + bit_length den" using bit_length_le by blast
  then have "e \<le> 0" by (auto simp: e_def e0_def)
  define n where "n = nat (- e)"
  have p: "pow2 e = 1 / 2 ^ n" using \<open>e \<le> 0\<close> by (cases "e = 0") (simp_all add: pow2_def n_def)
  have s: "scale_div num den e = round_div (num * 2 ^ n) den"
    using \<open>e \<le> 0\<close> by (cases "e = 0") (simp_all add: scale_div_def n_def)
  have "num * 2 ^ n \<le> (k * 2 ^ n) * den" using assms(2) by (simp add: mult.assoc mult.left_commute [of den])
  then have "round_div (num * 2 ^ n) den \<le> k * 2 ^ n" using assms(1) round_div_le by blast
  then have "(of_nat (scale_div num den e) :: rat) \<le> of_nat (k * 2 ^ n)"
    unfolding s of_nat_le_iff by simp
  then have v: "of_nat (scale_div num den e) * pow2 e \<le> (of_nat k :: rat)"
    by (simp add: p field_simps)
  have "nearest_double num den = (if scale_div num den e = 2 ^ 53 then (2 ^ 52, e + 1) else (scale_div num den e, e))"
    by (simp add: nearest_double_def Let_def e_def e0_def)
  moreover have "double_value (2 ^ 52, e + 1) = double_value (2 ^ 53, e)"
    by (simp add: double_value_def pow2_Suc)
  ultimately show ?thesis using v by (auto simp: double_value_def)
qed

lemma round_double_nonneg: "0 \<le> r \<Longrightarrow> 0 \<le> round_double r"
proof -
  assume "0 \<le> r"
  obtain n d where q: "quotient_of r = (n, d)" by (metis prod.collapse)
  have "0 < d" "r = of_int n / of_int d" using q quotient_of_denom_pos quotient_of_div by blast+
  with \<open>0 \<le> r\<close> have "0 \<le> n" by (simp add: zero_le_divide_iff)
  then show ?thesis using q by (simp add: round_double_def)
qed

lemma round_double_le:
  assumes "0 \<le> r" "r \<le> of_nat k" "k < 2 ^ 50"
  shows "round_double r \<le> of_nat k"
proof -
  obtain n d where q: "quotient_of r = (n, d)" by (metis prod.collapse)
  have d: "0 < d" and r: "r = of_int n / of_int d" using q quotient_of_denom_pos quotient_of_div by blast+
  have n: "0 \<le> n" using assms(1) r d by (simp add: zero_le_divide_iff)
  have "(of_int n :: rat) \<le> of_int (int k * d)" using assms(2) r d by (simp add: divide_le_eq)
  then have "n \<le> int k * d" by (simp only: of_int_le_iff)
  then have "nat n \<le> k * nat d" using n d by (metis nat_mono nat_mult_distrib nat_int of_nat_0_le_iff)
  then show ?thesis
    using q n d nearest_double_le [of "nat d" "nat n" k] assms(3) by (auto simp: round_double_def)
qed

lemma double_json_None: "double_json x = None \<longleftrightarrow> x = DNaN \<or> (\<exists>neg. x = DInf neg)"
  by (cases x) (auto simp: double_json_def of_double_def split: prod.split)

lemma seconds_float_nonneg: "0 \<le> d \<Longrightarrow> 0 \<le> seconds_float d"
  by (auto simp: seconds_float_def Let_def second_def intro!: round_double_nonneg add_nonneg_nonneg)

lemma trunc_nonneg: "0 \<le> r \<Longrightarrow> 0 \<le> trunc r"
  by (simp add: trunc_def)

end
