(* ===== verification/Auth.thy ===== *)
theory Auth
  imports Http_Client Cursor_Errors Go_Float
begin

text \<open>
  auth.go: the stored account, its encoding, its identity, and the times at which its token
  is refreshed. Times are nanoseconds since 1970; \<open>zero_time\<close> is Go's zero \<open>time.Time\<close>.
\<close>

section \<open>Times\<close>

definition zero_time :: time where
  "zero_time = - 62135596800 * second"

text \<open>
  \<open>time.Unix\<close> counts from the year 1 in \<open>int64\<close>: a number of seconds near the largest one
  wraps to a time in the past.
\<close>

definition unix :: "int \<Rightarrow> time" where
  "unix seconds = (wrap64 (seconds + 62135596800) - 62135596800) * second"

lemma unix_range: "int64 (seconds + 62135596800) \<Longrightarrow> unix seconds = seconds * second"
  by (simp add: unix_def)

lemma unix_wraps: "unix MaxInt64 < zero_time"
  by (simp add: unix_def zero_time_def wrap64_def MaxInt64_def second_def)

text \<open>The civil date of a day counted from 1970-01-01.\<close>

definition civil_from_days :: "int \<Rightarrow> int \<times> int \<times> int" where
  "civil_from_days z0 =
     (let z = z0 + 719468; era = z div 146097; doe = z mod 146097;
          yoe = (doe - doe div 1460 + doe div 36524 - doe div 146096) div 365;
          doy = doe - (365 * yoe + yoe div 4 - yoe div 100);
          mp = (5 * doy + 2) div 153;
          d = doy - (153 * mp + 2) div 5 + 1;
          m = (if mp < 10 then mp + 3 else mp - 9);
          y = yoe + era * 400 + (if m \<le> 2 then 1 else 0)
      in (y, m, d))"

definition pad :: "nat \<Rightarrow> int \<Rightarrow> string" where
  "pad n i = (let ds = nat_digits (nat \<bar>i\<bar>)
              in (if i < 0 then ''-'' else []) @ replicate (n - length ds) (CHR ''0'') @ ds)"

text \<open>\<open>t.UTC().Format(time.RFC3339)\<close>.\<close>

definition format_rfc3339 :: "time \<Rightarrow> string" where
  "format_rfc3339 t =
     (let secs = t div second; s = secs mod 86400
      in case civil_from_days (secs div 86400) of (y, m, d) \<Rightarrow>
         pad 4 y @ ''-'' @ pad 2 m @ ''-'' @ pad 2 d @ ''T'' @ pad 2 (s div 3600) @ '':'' @ pad 2 (s div 60 mod 60)
           @ '':'' @ pad 2 (s mod 60) @ ''Z'')"

section \<open>Numbers in claims\<close>

text \<open>
  \<open>strconv.ParseInt\<close> when its error is ignored: 0 on a syntax error, the nearest bound on an
  overflow.
\<close>

definition parse_int_value :: "string \<Rightarrow> int" where
  "parse_int_value s =
     (let neg = (case s of c # _ \<Rightarrow> c = CHR ''-'' | [] \<Rightarrow> False);
          ds = (case s of c # r \<Rightarrow> if c = CHR ''-'' \<or> c = CHR ''+'' then r else s | [] \<Rightarrow> [])
      in if ds = [] then 0
         else (case parse_digits 0 ds of None \<Rightarrow> 0
               | Some n \<Rightarrow> let v = (if neg then - int n else int n)
                           in max (- (2 ^ 63)) (min (2 ^ 63 - 1) v)))"

text \<open>
  \<open>int64(f)\<close> truncates; for a value that does not fit the language leaves the result to the
  implementation.
\<close>

definition unspecified_conversion :: "float64 \<Rightarrow> int" where
  "unspecified_conversion = undefined"

definition float_to_int :: "float64 \<Rightarrow> int" where
  "float_to_int f =
     (case to_double f of
        DFin r \<Rightarrow> if - (2 ^ 63) \<le> trunc r \<and> trunc r < 2 ^ 63 then trunc r else unspecified_conversion f
      | _ \<Rightarrow> unspecified_conversion f)"

section \<open>Token claims\<close>

text \<open>A \<open>nil\<close> payload reads like an empty one.\<close>

definition jwtPayload :: "string \<Rightarrow> object" where
  "jwtPayload token =
     (let parts = Split (CHR ''.'') token in
      if length parts < 2 then []
      else (case RawURLDecode (parts ! 1) of
              None \<Rightarrow> []
            | Some raw \<Rightarrow> (case decode_object raw of None \<Rightarrow> [] | Some payload \<Rightarrow> payload)))"

definition jwtStringClaim :: "string \<Rightarrow> string \<Rightarrow> string" where
  "jwtStringClaim token key = TrimSpace (string_or_empty (field (jwtPayload token) key))"

definition jwtExpiry :: "string \<Rightarrow> time" where
  "jwtExpiry token =
     (case field (jwtPayload token) ''exp'' of
        GFloat value \<Rightarrow> unix (float_to_int value)
      | GNumber value \<Rightarrow> unix (parse_int_value value)
      | _ \<Rightarrow> zero_time)"

definition emailFromJWT :: "string \<Rightarrow> string" where
  "emailFromJWT token =
     (if Contains (jwtStringClaim token ''email'') ''@'' then jwtStringClaim token ''email''
      else if Contains (jwtStringClaim token ''user_email'') ''@'' then jwtStringClaim token ''user_email''
      else [])"

definition stableAuthID :: "(string \<Rightarrow> string) \<Rightarrow> string \<Rightarrow> string \<Rightarrow> string" where
  "stableAuthID sha256 label token =
     (let claim = jwtStringClaim token ''sub'';
          subject = (if claim = [] then ToLower (TrimSpace label) else claim)
      in ''cursor-'' @ hex_encode (take 8 (sha256 subject)))"

section \<open>The stored account\<close>

record AuthStorage =
  as_Type :: string
  as_ID :: string
  as_Label :: string
  as_AccessToken :: string
  as_RefreshToken :: string
  as_ExpiresAt :: string
  as_Prefix :: string
  as_Priority :: int
  as_AllowedModels :: "string list"
  as_DeniedModels :: "string list"
  as_Disabled :: bool

definition zero_storage :: AuthStorage where
  "zero_storage = \<lparr>as_Type = [], as_ID = [], as_Label = [], as_AccessToken = [], as_RefreshToken = [],
     as_ExpiresAt = [], as_Prefix = [], as_Priority = 0, as_AllowedModels = [], as_DeniedModels = [],
     as_Disabled = False\<rparr>"

definition decode_strings :: "(string list \<Rightarrow> 'r \<Rightarrow> 'r) \<Rightarrow> 'r field_decoder" where
  "decode_strings put = decode_list (decode_string (\<lambda>s _. s)) [] put"

definition decode_storage :: "AuthStorage field_decoder" where
  "decode_storage = decode_struct
     [(''type'', decode_string (\<lambda>s r. r\<lparr>as_Type := s\<rparr>)),
      (''id'', decode_string (\<lambda>s r. r\<lparr>as_ID := s\<rparr>)),
      (''label'', decode_string (\<lambda>s r. r\<lparr>as_Label := s\<rparr>)),
      (''access_token'', decode_string (\<lambda>s r. r\<lparr>as_AccessToken := s\<rparr>)),
      (''refresh_token'', decode_string (\<lambda>s r. r\<lparr>as_RefreshToken := s\<rparr>)),
      (''expires_at'', decode_string (\<lambda>s r. r\<lparr>as_ExpiresAt := s\<rparr>)),
      (''prefix'', decode_string (\<lambda>s r. r\<lparr>as_Prefix := s\<rparr>)),
      (''priority'', decode_int (\<lambda>i r. r\<lparr>as_Priority := i\<rparr>)),
      (''allowed_models'', decode_strings (\<lambda>l r. r\<lparr>as_AllowedModels := l\<rparr>)),
      (''denied_models'', decode_strings (\<lambda>l r. r\<lparr>as_DeniedModels := l\<rparr>)),
      (''disabled'', decode_bool (\<lambda>b r. r\<lparr>as_Disabled := b\<rparr>))]"

text \<open>\<open>json.Marshal\<close> of the struct: the fields in their order, those marked \<open>omitempty\<close> only if set.\<close>

definition json_string_list :: "string list \<Rightarrow> string" where
  "json_string_list ss = ''['' @ Join '','' (map quote ss) @ '']''"

definition storage_members :: "AuthStorage \<Rightarrow> (string \<times> string) list" where
  "storage_members a =
     [(''type'', quote (as_Type a))]
     @ (if as_ID a \<noteq> [] then [(''id'', quote (as_ID a))] else [])
     @ [(''label'', quote (as_Label a)), (''access_token'', quote (as_AccessToken a))]
     @ (if as_RefreshToken a \<noteq> [] then [(''refresh_token'', quote (as_RefreshToken a))] else [])
     @ (if as_ExpiresAt a \<noteq> [] then [(''expires_at'', quote (as_ExpiresAt a))] else [])
     @ (if as_Prefix a \<noteq> [] then [(''prefix'', quote (as_Prefix a))] else [])
     @ (if as_Priority a \<noteq> 0 then [(''priority'', Itoa (as_Priority a))] else [])
     @ (if as_AllowedModels a \<noteq> [] then [(''allowed_models'', json_string_list (as_AllowedModels a))] else [])
     @ (if as_DeniedModels a \<noteq> [] then [(''denied_models'', json_string_list (as_DeniedModels a))] else [])
     @ (if as_Disabled a then [(''disabled'', ''true'')] else [])"

definition storage_json :: "AuthStorage \<Rightarrow> string" where
  "storage_json a = struct_json (storage_members a)"

definition decodeAuth :: "string \<Rightarrow> goerr + AuthStorage" where
  "decodeAuth raw =
     (case unmarshal_strict decode_storage zero_storage raw of
        None \<Rightarrow> Inl (WrapErr ''decode Cursor auth storage'' (JsonErr (json_error_text raw)))
      | Some storage \<Rightarrow>
          if \<not> EqualFold (TrimSpace (as_Type storage)) ProviderID \<or> TrimSpace (as_AccessToken storage) = []
          then Inl (PlainErr ''invalid Cursor auth storage'') else Inr storage)"

section \<open>Refreshing\<close>

definition refreshAfter :: "time \<Rightarrow> AuthStorage \<Rightarrow> time" where
  "refreshAfter now storage =
     (let expiry = jwtExpiry (as_AccessToken storage) in
      if expiry = zero_time then now + 30 * minute
      else let refreshAt = expiry - 30 * minute in
        if refreshAt < now + minute then now + minute else refreshAt)"

definition shouldRefresh :: "time \<Rightarrow> AuthStorage \<Rightarrow> bool" where
  "shouldRefresh now storage \<longleftrightarrow>
     (let expiry = jwtExpiry (as_AccessToken storage) in expiry \<noteq> zero_time \<and> expiry - now \<le> 30 * minute)"

section \<open>The account for the host\<close>

record AuthData =
  ad_Provider :: string
  ad_ID :: string
  ad_FileName :: string
  ad_Label :: string
  ad_Prefix :: string
  ad_Disabled :: bool
  ad_StorageJSON :: string
  ad_Metadata :: object
  ad_Attributes :: "(string, string) gomap"
  ad_NextRefreshAfter :: time

text \<open>The normalisation at the beginning of \<open>authData\<close>; \<open>None\<close> if there is no token.\<close>

definition normalize_storage :: "(string \<Rightarrow> string) \<Rightarrow> AuthStorage \<Rightarrow> goerr + AuthStorage" where
  "normalize_storage sha256 s0 =
     (let s = s0\<lparr>as_Type := ProviderID, as_Label := TrimSpace (as_Label s0),
                 as_AccessToken := TrimSpace (as_AccessToken s0),
                 as_RefreshToken := TrimSpace (as_RefreshToken s0), as_Prefix := TrimSpace (as_Prefix s0)\<rparr> in
      if as_AccessToken s = [] then Inl (PlainErr ''Cursor access token is required'')
      else let s = (if as_Label s = [] then s\<lparr>as_Label := emailFromJWT (as_AccessToken s)\<rparr> else s);
               s = (if as_Label s = [] then s\<lparr>as_Label := ''Cursor account''\<rparr> else s);
               s = (if as_ID s = [] then s\<lparr>as_ID := stableAuthID sha256 (as_Label s) (as_AccessToken s)\<rparr> else s);
               s = (if as_ExpiresAt s = [] \<and> jwtExpiry (as_AccessToken s) \<noteq> zero_time
                    then s\<lparr>as_ExpiresAt := format_rfc3339 (jwtExpiry (as_AccessToken s))\<rparr> else s)
           in Inr s)"

definition auth_metadata :: "AuthStorage \<Rightarrow> object" where
  "auth_metadata s =
     (let email = emailFromJWT (as_AccessToken s) in
      [(''type'', GStr ProviderID), (''auth_kind'', GStr ''oauth''), (''priority'', GInt (as_Priority s)),
       (''plan'', GStr ''unknown''), (''expires_at'', GStr (as_ExpiresAt s))]
      @ (if email \<noteq> [] then [(''email'', GStr email), (''account'', GStr email)] else []))"

definition authData :: "(string \<Rightarrow> string) \<Rightarrow> time \<Rightarrow> AuthStorage \<Rightarrow> string \<Rightarrow> goerr + AuthData" where
  "authData sha256 now storage fileName =
     rbind (normalize_storage sha256 storage) (\<lambda>s.
       Inr \<lparr>ad_Provider = ProviderID, ad_ID = as_ID s, ad_FileName = TrimSpace fileName, ad_Label = as_Label s,
            ad_Prefix = as_Prefix s, ad_Disabled = as_Disabled s, ad_StorageJSON = storage_json s,
            ad_Metadata = auth_metadata s,
            ad_Attributes = [(''auth_kind'', ''oauth''), (''priority'', Itoa (as_Priority s)),
                             (''boundary'', ''cursor-connect-rpc'')],
            ad_NextRefreshAfter = refreshAfter now s\<rparr>)"

record AuthParseRequest =
  ap_Provider :: string
  ap_RawJSON :: string
  ap_FileName :: string

text \<open>\<open>None\<close>: not handled.\<close>

definition ParseAuth :: "(string \<Rightarrow> string) \<Rightarrow> time \<Rightarrow> AuthParseRequest \<Rightarrow> goerr + AuthData option" where
  "ParseAuth sha256 now req =
     (if ap_Provider req \<noteq> [] \<and> \<not> EqualFold (TrimSpace (ap_Provider req)) ProviderID then Inr None
      else (case unmarshal_strict decode_storage zero_storage (ap_RawJSON req) of
              None \<Rightarrow> if ap_Provider req = [] then Inr None
                      else Inl (WrapErr ''decode Cursor auth'' (JsonErr (json_error_text (ap_RawJSON req))))
            | Some storage \<Rightarrow>
                if \<not> EqualFold (TrimSpace (as_Type storage)) ProviderID then Inr None
                else rbind (authData sha256 now storage (ap_FileName req)) (\<lambda>auth. Inr (Some auth))))"

definition refreshed_storage :: "refreshResponse \<Rightarrow> AuthStorage \<Rightarrow> AuthStorage" where
  "refreshed_storage r s0 =
     (let s = s0\<lparr>as_AccessToken := rf_AccessToken r\<rparr>;
          s = (if rf_RefreshToken r \<noteq> [] then s\<lparr>as_RefreshToken := rf_RefreshToken r\<rparr> else s)
      in if jwtExpiry (as_AccessToken s) \<noteq> zero_time
         then s\<lparr>as_ExpiresAt := format_rfc3339 (jwtExpiry (as_AccessToken s))\<rparr> else s)"

definition RefreshAuth :: "(string \<Rightarrow> string) \<Rightarrow> 'w http_client \<Rightarrow> Config \<Rightarrow> time \<Rightarrow> string \<Rightarrow> string \<Rightarrow> 'w \<Rightarrow>
    'w \<times> (goerr + AuthData \<times> time)" where
  "RefreshAuth sha256 hc cfg now authID storageJSON w =
     (case decodeAuth storageJSON of
        Inl err \<Rightarrow> (w, Inl err)
      | Inr storage \<Rightarrow>
          (case (if shouldRefresh now storage \<and> as_RefreshToken storage \<noteq> []
                 then (case exchangeRefreshToken hc (as_RefreshToken storage) cfg w of
                         (w', r) \<Rightarrow> (w', map_sum id (\<lambda>r. refreshed_storage r storage) r))
                 else (w, Inr storage)) of
             (w', Inl err) \<Rightarrow> (w', Inl err)
           | (w', Inr s) \<Rightarrow>
               (w', rbind (authData sha256 now s []) (\<lambda>auth.
                  let auth = auth\<lparr>ad_ID := authID, ad_FileName := []\<rparr> in Inr (auth, ad_NextRefreshAfter auth)))))"

section \<open>Lemmas\<close>

lemma second_pos [simp]: "0 < second" "0 < minute" "minute = 60 * second"
  by (simp_all add: second_def minute_def)

lemma format_nonempty: "format_rfc3339 t \<noteq> []"
  by (simp add: format_rfc3339_def Let_def split: prod.split)

lemma normalize_storage_ok:
  assumes "normalize_storage sha256 s0 = Inr s"
  shows "as_Type s = ProviderID" "as_AccessToken s = TrimSpace (as_AccessToken s0)" "as_AccessToken s \<noteq> []"
    "as_Label s \<noteq> []" "as_ID s \<noteq> []"
  using assms by (auto simp: normalize_storage_def Let_def stableAuthID_def split: if_splits)

lemma authData_error: "(\<exists>e. authData sha256 now s f = Inl e) \<longleftrightarrow> TrimSpace (as_AccessToken s) = []"
  by (auto simp: authData_def normalize_storage_def Let_def res_simps)

lemma refreshAfter_future: "now + minute \<le> refreshAfter now s"
  by (auto simp: refreshAfter_def Let_def)

lemma refreshed_token: "as_AccessToken (refreshed_storage r s) = rf_AccessToken r"
  by (simp add: refreshed_storage_def Let_def)

text \<open>
  A refresh is asked for neither too early nor in a tight loop: never within the next minute,
  and with a token that is not about to expire, so that no exchange is needed before then.
\<close>

lemma refresh_schedule:
  assumes "t < refreshAfter now s" "jwtExpiry (as_AccessToken s) \<noteq> zero_time" "now + 31 * minute \<le> jwtExpiry (as_AccessToken s)"
  shows "\<not> shouldRefresh t s"
  using assms by (auto simp: refreshAfter_def shouldRefresh_def Let_def split: if_splits)

end
