(* ===== verification/Go_Path.thy ===== *)
theory Go_Path
  imports Go_Value
begin

text \<open>
  \<open>path.Match\<close> of the standard library, which matches the account's model rules: the
  pattern is cut into chunks, each optionally led by stars; a chunk is matched at the first
  place where it fits, without going back to an earlier star. \<open>None\<close> stands for no match
  and for a malformed pattern alike: the plugin treats both in the same way.
\<close>

text \<open>The first character of a string: its code point and its number of bytes.\<close>

definition decode_rune :: "string \<Rightarrow> nat \<times> nat" where
  "decode_rune s =
     (let n = rune_len s; b = (\<lambda>i. byte (s ! i)) in
      if n = 1 then (b 0, 1)
      else if n = 2 then ((b 0 - 192) * 64 + (b 1 - 128), 2)
      else if n = 3 then (((b 0 - 224) * 64 + (b 1 - 128)) * 64 + (b 2 - 128), 3)
      else if n = 4 then ((((b 0 - 240) * 64 + (b 1 - 128)) * 64 + (b 2 - 128)) * 64 + (b 3 - 128), 4)
      else (65533, 1))"

text \<open>\<open>scanChunk\<close>: the chunk up to the next star outside brackets.\<close>

fun chunk_end :: "bool \<Rightarrow> string \<Rightarrow> string \<times> string" where
  "chunk_end inrange [] = ([], [])"
| "chunk_end inrange (c # s) =
     (if c = backslash then
        (case s of [] \<Rightarrow> ([c], []) | d # s' \<Rightarrow> (case chunk_end inrange s' of (k, r) \<Rightarrow> (c # d # k, r)))
      else if c = CHR ''*'' \<and> \<not> inrange then ([], c # s)
      else (case chunk_end (if c = CHR ''['' then True else if c = CHR '']'' then False else inrange) s of
              (k, r) \<Rightarrow> (c # k, r)))"

definition scanChunk :: "string \<Rightarrow> bool \<times> string \<times> string" where
  "scanChunk pattern =
     (let p = dropWhile (\<lambda>c. c = CHR ''*'') pattern
      in (p \<noteq> pattern, chunk_end False p))"

text \<open>\<open>getEsc\<close>: a possibly escaped character in a class; something has to follow it.\<close>

definition getEsc :: "string \<Rightarrow> (nat \<times> string) option" where
  "getEsc chunk =
     (case chunk of [] \<Rightarrow> None
      | c # r \<Rightarrow>
        if c = CHR ''-'' \<or> c = CHR '']'' then None
        else let chunk = (if c = backslash then r else chunk) in
          if chunk = [] then None
          else (case decode_rune chunk of (u, n) \<Rightarrow>
            if u = 65533 \<and> n = 1 then None
            else if drop n chunk = [] then None else Some (u, drop n chunk)))"

lemma decode_rune_pos: "0 < snd (decode_rune s)"
  by (simp add: decode_rune_def Let_def)

lemma getEsc_shorter: "getEsc chunk = Some (u, rest) \<Longrightarrow> length rest < length chunk"
  using decode_rune_pos [of chunk] decode_rune_pos [of "tl chunk"]
  by (cases chunk) (auto simp: getEsc_def Let_def split: if_splits prod.splits)

text \<open>The ranges of a class up to its closing bracket: is \<open>r\<close> in one of them, and the rest.\<close>

function class_ranges :: "nat \<Rightarrow> bool \<Rightarrow> bool \<Rightarrow> string \<Rightarrow> (bool \<times> string) option" where
  "class_ranges r first found chunk =
     (if \<not> first \<and> (case chunk of c # _ \<Rightarrow> c = CHR '']'' | [] \<Rightarrow> False) then Some (found, tl chunk)
      else (case getEsc chunk of
              None \<Rightarrow> None
            | Some (lo, rest) \<Rightarrow>
                if hd rest = CHR ''-'' then
                  (case getEsc (tl rest) of
                     None \<Rightarrow> None
                   | Some (hi, rest') \<Rightarrow> class_ranges r False (found \<or> lo \<le> r \<and> r \<le> hi) rest')
                else class_ranges r False (found \<or> lo \<le> r \<and> r \<le> lo) rest))"
  by pat_completeness auto
termination
proof (relation "measure (\<lambda>(r, first, found, chunk). length chunk)")
  fix chunk rest rest' :: string and lo hi :: nat and r :: nat and first found :: bool
  show "wf (measure (\<lambda>(r :: nat, first :: bool, found :: bool, chunk :: string). length chunk))" by simp
next
  fix r :: nat and first found :: bool and chunk rest rest' :: string and x2 x2a :: "nat \<times> string" and lo hi :: nat
  assume "getEsc chunk = Some x2" "(lo, rest) = x2" "getEsc (tl rest) = Some x2a" "(hi, rest') = x2a"
  then have "getEsc chunk = Some (lo, rest)" "getEsc (tl rest) = Some (hi, rest')" by simp_all
  then have "length rest < length chunk" "length rest' < length (tl rest)"
    using getEsc_shorter by blast+
  then show "((r, False, found \<or> lo \<le> r \<and> r \<le> hi, rest'), r, first, found, chunk)
      \<in> measure (\<lambda>(r, first, found, chunk). length chunk)"
    by simp
next
  fix r :: nat and first found :: bool and chunk rest :: string and x2 :: "nat \<times> string" and lo :: nat
  assume "getEsc chunk = Some x2" "(lo, rest) = x2"
  then show "((r, False, found \<or> lo \<le> r \<and> r \<le> lo, rest), r, first, found, chunk)
      \<in> measure (\<lambda>(r, first, found, chunk). length chunk)"
    using getEsc_shorter by auto
qed

declare class_ranges.simps [simp del]

text \<open>A class after its opening bracket.\<close>

definition match_class :: "nat \<Rightarrow> string \<Rightarrow> (bool \<times> string) option" where
  "match_class r chunk =
     (let negated = (case chunk of c # _ \<Rightarrow> c = CHR ''^'' | [] \<Rightarrow> False)
      in map_option (\<lambda>(found, rest). (found \<noteq> negated, rest)) (class_ranges r True False (if negated then tl chunk else chunk)))"

text \<open>\<open>matchChunk\<close>: what is left of the string behind the chunk. The fuel is the length of the chunk.\<close>

fun match_chunk :: "nat \<Rightarrow> string \<Rightarrow> string \<Rightarrow> string option" where
  "match_chunk fuel [] s = Some s"
| "match_chunk 0 (c # chunk) s = None"
| "match_chunk (Suc fuel) (c # chunk) s =
     (if s = [] then None
      else if c = CHR ''['' then
        (case decode_rune s of (r, n) \<Rightarrow>
          (case match_class r chunk of
             Some (True, rest) \<Rightarrow> match_chunk fuel rest (drop n s)
           | _ \<Rightarrow> None))
      else if c = CHR ''?'' then
        (if hd s = CHR ''/'' then None else match_chunk fuel chunk (drop (snd (decode_rune s)) s))
      else if c = backslash then
        (case chunk of [] \<Rightarrow> None
         | d # chunk' \<Rightarrow> if d = hd s then match_chunk fuel chunk' (tl s) else None)
      else if c = hd s then match_chunk fuel chunk (tl s) else None)"

definition matchChunk :: "string \<Rightarrow> string \<Rightarrow> string option" where
  "matchChunk chunk s = match_chunk (length chunk) chunk s"

text \<open>The places a star can move the chunk to; at the end of the pattern the rest has to be empty.\<close>

fun star_places :: "string \<Rightarrow> bool \<Rightarrow> string \<Rightarrow> string option" where
  "star_places chunk final [] = None"
| "star_places chunk final (c # name) =
     (if c = CHR ''/'' then None
      else (case matchChunk chunk name of
              Some t \<Rightarrow> if final \<and> t \<noteq> [] then star_places chunk final name else Some t
            | None \<Rightarrow> star_places chunk final name))"

text \<open>\<open>Match\<close>, with the length of the pattern as fuel: every round takes a chunk from it.\<close>

fun match_loop :: "nat \<Rightarrow> string \<Rightarrow> string \<Rightarrow> bool" where
  "match_loop 0 pattern name = (pattern = [] \<and> name = [])"
| "match_loop (Suc fuel) pattern name =
     (if pattern = [] then name = []
      else (case scanChunk pattern of (star, chunk, rest) \<Rightarrow>
        if star \<and> chunk = [] then CHR ''/'' \<notin> set name
        else (case (case matchChunk chunk name of
                      Some t \<Rightarrow> if t = [] \<or> rest \<noteq> [] then Some t else None | None \<Rightarrow> None) of
                Some t \<Rightarrow> match_loop fuel rest t
              | None \<Rightarrow>
                  if star then
                    (case star_places chunk (rest = []) name of
                       Some t \<Rightarrow> match_loop fuel rest t | None \<Rightarrow> False)
                  else False)))"

definition path_match :: "string \<Rightarrow> string \<Rightarrow> bool" where
  "path_match pattern name = match_loop (length pattern) pattern name"

section \<open>Plain patterns\<close>

text \<open>A pattern without special characters matches itself and nothing else.\<close>

definition plain_char :: "char \<Rightarrow> bool" where
  "plain_char c \<longleftrightarrow> c \<notin> set ''*?['' \<and> c \<noteq> backslash"

lemma match_chunk_plain:
  "list_all plain_char chunk \<Longrightarrow> length chunk \<le> fuel \<Longrightarrow>
   match_chunk fuel chunk s = (if HasPrefix s chunk then Some (drop (length chunk) s) else None)"
proof (induction chunk arbitrary: fuel s)
  case (Cons c chunk)
  then obtain n where "fuel = Suc n" by (cases fuel) auto
  with Cons show ?case by (cases s) (auto simp: plain_char_def HasPrefix_def)
qed (simp add: HasPrefix_def)

lemma chunk_end_plain: "list_all plain_char p \<Longrightarrow> chunk_end r p = (p, [])"
  by (induction p arbitrary: r) (auto simp: plain_char_def)

lemma match_loop_Nil [simp]: "match_loop n [] name \<longleftrightarrow> name = []"
  by (cases n) simp_all

lemma match_chunk_whole: "list_all plain_char p \<Longrightarrow>
    matchChunk p name = (if HasPrefix name p then Some (drop (length p) name) else None)"
  by (simp add: matchChunk_def match_chunk_plain)

lemma path_match_plain:
  assumes "list_all plain_char p"
  shows "path_match p name \<longleftrightarrow> name = p"
proof (cases p)
  case Nil
  then show ?thesis by (simp add: path_match_def)
next
  case (Cons c q)
  then have "dropWhile (\<lambda>c. c = CHR ''*'') p = p" using assms by (simp add: plain_char_def)
  then have "scanChunk p = (False, p, [])" using assms by (simp add: scanChunk_def chunk_end_plain)
  obtain n where n: "length p = Suc n" using Cons by simp
  have "path_match p name \<longleftrightarrow> matchChunk p name = Some []"
    using \<open>scanChunk p = (False, p, [])\<close> Cons by (auto simp: path_match_def n split: option.split)
  also have "\<dots> \<longleftrightarrow> name = p"
    using match_chunk_whole [OF assms, of name] by (auto simp: HasPrefix_iff)
  finally show ?thesis .
qed

text \<open>A prefix followed by a star: everything with that prefix and no slash behind it.\<close>

lemma path_match_prefix_star:
  assumes "list_all plain_char p" "p \<noteq> []"
  shows "path_match (p @ ''*'') name \<longleftrightarrow> (\<exists>t. name = p @ t \<and> CHR ''/'' \<notin> set t)"
proof -
  have "hd p \<noteq> CHR ''*''" using assms by (cases p) (simp_all add: plain_char_def)
  then have d: "dropWhile (\<lambda>c. c = CHR ''*'') (p @ ''*'') = p @ ''*''" using assms(2) by (cases p) simp_all
  have "chunk_end False (p @ ''*'') = (p, ''*'')"
    using assms(1) by (induction p) (auto simp: plain_char_def backslash_def)
  then have c: "scanChunk (p @ ''*'') = (False, p, ''*'')" using d by (simp add: scanChunk_def)
  have s: "scanChunk ''*'' = (True, [], [])" by (simp add: scanChunk_def)
  obtain n where n: "length p = Suc n" using assms(2) by (cases p) auto
  have one: "match_loop (Suc n) ''*'' t \<longleftrightarrow> CHR ''/'' \<notin> set t" for n t by (simp add: s)
  have "path_match (p @ ''*'') name \<longleftrightarrow> (case matchChunk p name of Some t \<Rightarrow> match_loop (Suc n) ''*'' t | None \<Rightarrow> False)"
    using assms(2) by (simp add: path_match_def c n del: match_loop.simps(2) split: option.split)
      (simp add: c split: option.split)
  also have "\<dots> \<longleftrightarrow> (\<exists>t. name = p @ t \<and> CHR ''/'' \<notin> set t)"
    unfolding one using match_chunk_whole [OF assms(1), of name] by (auto simp: HasPrefix_iff)
  finally show ?thesis .
qed

end
