(* ===== verification/Models.thy ===== *)
theory Models
  imports Auth Wire_Messages Go_Path
begin

text \<open>
  model\_catalog.go and models.go: the account's catalog of models, the allow and deny rules,
  the families of reasoning variants, the models shown to the host and the model a request
  resolves to. service.go: the state these operations share.
\<close>

section \<open>The catalog\<close>

record modelParameter =
  mpar_ID :: string
  mpar_Value :: string

record modelVariant =
  mv_LegacySlug :: string
  mv_DisplayName :: string
  mv_IsMaxMode :: bool
  mv_IsDefaultNonMaxConfig :: bool
  mv_ParameterValues :: "modelParameter list"

record availableModel =
  am_Name :: string
  am_ClientDisplayName :: string
  am_SupportsAgent :: "bool option"
  am_IsHidden :: bool
  am_Variants :: "modelVariant list"

record availableModelsResponse =
  ar_Models :: "availableModel list"
  ar_UseModelParameters :: bool

definition zero_variant :: modelVariant where
  "zero_variant = \<lparr>mv_LegacySlug = [], mv_DisplayName = [], mv_IsMaxMode = False,
     mv_IsDefaultNonMaxConfig = False, mv_ParameterValues = []\<rparr>"

definition decode_parameter :: "modelParameter field_decoder" where
  "decode_parameter = decode_struct
     [(''id'', decode_string (\<lambda>s r. r\<lparr>mpar_ID := s\<rparr>)), (''value'', decode_string (\<lambda>s r. r\<lparr>mpar_Value := s\<rparr>))]"

definition decode_variant :: "modelVariant field_decoder" where
  "decode_variant = decode_struct
     [(''legacySlug'', decode_string (\<lambda>s r. r\<lparr>mv_LegacySlug := s\<rparr>)),
      (''displayName'', decode_string (\<lambda>s r. r\<lparr>mv_DisplayName := s\<rparr>)),
      (''isMaxMode'', decode_bool (\<lambda>b r. r\<lparr>mv_IsMaxMode := b\<rparr>)),
      (''isDefaultNonMaxConfig'', decode_bool (\<lambda>b r. r\<lparr>mv_IsDefaultNonMaxConfig := b\<rparr>)),
      (''parameterValues'', decode_list decode_parameter \<lparr>mpar_ID = [], mpar_Value = []\<rparr>
         (\<lambda>l r. r\<lparr>mv_ParameterValues := l\<rparr>))]"

definition decode_model :: "availableModel field_decoder" where
  "decode_model = decode_struct
     [(''name'', decode_string (\<lambda>s r. r\<lparr>am_Name := s\<rparr>)),
      (''clientDisplayName'', decode_string (\<lambda>s r. r\<lparr>am_ClientDisplayName := s\<rparr>)),
      (''supportsAgent'', decode_bool_ptr (\<lambda>b r. r\<lparr>am_SupportsAgent := b\<rparr>)),
      (''isHidden'', decode_bool (\<lambda>b r. r\<lparr>am_IsHidden := b\<rparr>)),
      (''variants'', decode_list decode_variant zero_variant (\<lambda>l r. r\<lparr>am_Variants := l\<rparr>))]"

definition decode_models_response :: "availableModelsResponse field_decoder" where
  "decode_models_response = decode_struct
     [(''models'', decode_list decode_model
         \<lparr>am_Name = [], am_ClientDisplayName = [], am_SupportsAgent = None, am_IsHidden = False, am_Variants = []\<rparr>
         (\<lambda>l r. r\<lparr>ar_Models := l\<rparr>)),
      (''useModelParameters'', decode_bool (\<lambda>b r. r\<lparr>ar_UseModelParameters := b\<rparr>))]"

record CursorModel =
  cm_ID :: string
  cm_DisplayName :: string
  cm_Selection :: RequestedModel

text \<open>The models found so far, with the index of each lower-case id.\<close>

type_synonym catalog = "CursorModel list \<times> (string, nat) gomap"

definition catalog_item :: "availableModel \<Rightarrow> string \<Rightarrow> modelVariant \<Rightarrow> CursorModel" where
  "catalog_item model name variant =
     \<lparr>cm_ID = firstNonEmpty [mv_LegacySlug variant, name],
      cm_DisplayName = firstNonEmpty [mv_DisplayName variant, am_ClientDisplayName model, name],
      cm_Selection = \<lparr>rm_ModelId = name,
        rm_Parameters = map (\<lambda>p. \<lparr>mp_Id = mpar_ID p, mp_Value = mpar_Value p\<rparr>) (mv_ParameterValues variant)\<rparr>\<rparr>"

definition add_variant :: "availableModel \<Rightarrow> string \<Rightarrow> modelVariant \<Rightarrow> catalog \<Rightarrow> catalog" where
  "add_variant model name variant st =
     (if mv_IsMaxMode variant then st
      else let item = catalog_item model name variant; key = ToLower (cm_ID item) in
        (case gm_get (snd st) key of
           Some index \<Rightarrow> if mv_IsDefaultNonMaxConfig variant then ((fst st)[index := item], snd st) else st
         | None \<Rightarrow> (fst st @ [item], gm_set key (length (fst st)) (snd st))))"

definition add_model :: "availableModel \<Rightarrow> catalog \<Rightarrow> catalog" where
  "add_model model st =
     (let name = TrimSpace (am_Name model) in
      if name = [] \<or> am_IsHidden model \<or> am_SupportsAgent model = Some False then st
      else let variants = (if am_Variants model = [] then [zero_variant\<lparr>mv_LegacySlug := name\<rparr>] else am_Variants model)
           in fold (add_variant model name) variants st)"

definition parameterizedModels :: "availableModelsResponse \<Rightarrow> CursorModel list" where
  "parameterizedModels response = fst (fold add_model (ar_Models response) ([], []))"

definition catalog_headers :: "string \<Rightarrow> Config \<Rightarrow> http_header" where
  "catalog_headers token cfg =
     [(''Content-Type'', [''application/json'']), (''Connect-Protocol-Version'', [''1'']),
      (''Authorization'', [''Bearer '' @ token]), (''X-Ghost-Mode'', [''true'']),
      (''X-Cursor-Client-Version'', [cfg_ClientVersion cfg]), (''X-Cursor-Client-Type'', [''cli''])]"

definition catalog_request :: string where
  "catalog_request = [CHR 0x7B, dquote] @ ''useModelParameters'' @ [dquote] @ '':true,'' @ [dquote] @ ''doNotUseMarkdown''
     @ [dquote] @ '':true}''"

definition fetchAvailableModels :: "'w http_client \<Rightarrow> time \<Rightarrow> string \<Rightarrow> Config \<Rightarrow> 'w \<Rightarrow> 'w \<times> (goerr + CursorModel list)" where
  "fetchAvailableModels hc now token cfg w =
     (let zero = \<lparr>ar_Models = [], ar_UseModelParameters = False\<rparr> in
      case doJSON hc ''POST'' (TrimRightSlash (cfg_CursorBaseURL cfg) @ ''/aiserver.v1.AiService/AvailableModels'')
          (catalog_headers token cfg) catalog_request (30 * second) (unmarshal_strict decode_models_response zero) zero w of
        (w', _, _, Inl err) \<Rightarrow>
          (w', Inl (case as_upstream err of
                      Some upstream \<Rightarrow> StatusErr (cursorStatusError now (ue_Body upstream) (ue_Status upstream))
                    | None \<Rightarrow> err))
      | (w', _, _, Inr response) \<Rightarrow>
          (w', if \<not> ar_UseModelParameters response
               then Inl (PlainErr ''Cursor did not return a parameterized model catalog'')
               else Inr (parameterizedModels response)))"

section \<open>Account rules\<close>

fun matchesAny :: "string \<Rightarrow> string list \<Rightarrow> bool" where
  "matchesAny value [] = False"
| "matchesAny value (pattern # patterns) =
     (if pattern = [] then matchesAny value patterns
      else if path_match pattern value \<or> pattern = value then True
      else matchesAny value patterns)"

definition rules :: "string list \<Rightarrow> string list" where
  "rules ids = map (\<lambda>i. ToLower (TrimSpace i)) ids"

definition permitted :: "AuthStorage \<Rightarrow> CursorModel \<Rightarrow> bool" where
  "permitted storage model =
     (let key = ToLower (cm_ID model); allowed = rules (as_AllowedModels storage) in
      if 0 < length allowed \<and> \<not> matchesAny key allowed then False
      else if matchesAny key (rules (as_DeniedModels storage)) then False
      else True)"

definition filterModels :: "CursorModel list \<Rightarrow> AuthStorage \<Rightarrow> CursorModel list" where
  "filterModels models storage = filter (permitted storage) models"

section \<open>Reasoning variants\<close>

definition reasoningLevels :: "string list" where
  "reasoningLevels = [''none'', ''minimal'', ''low'', ''medium'', ''high'', ''xhigh'', ''max'']"

text \<open>The loop from the last part backwards: the parts before it reversed, those behind it in order.\<close>

fun effort_scan :: "string list \<Rightarrow> string list \<Rightarrow> (string list \<times> string) option" where
  "effort_scan [] after = None"
| "effort_scan (part # before) after =
     (let candidate = ToLower part in
      if contains reasoningLevels candidate then Some (rev before @ after, candidate)
      else if candidate \<noteq> ''thinking'' \<and> candidate \<noteq> ''fast'' then None
      else effort_scan before (part # after))"

definition splitEffort :: "string \<Rightarrow> (string \<times> string) option" where
  "splitEffort i =
     map_option (\<lambda>(parts, effort). (Join ''-'' parts, effort)) (effort_scan (rev (Split (CHR ''-'') i)) [])"

definition stripEffortDisplay :: "string \<Rightarrow> string \<Rightarrow> string" where
  "stripEffortDisplay display effort = TrimSpace (ReplaceAll ('' '' @ effort) [] display)"

text \<open>A family without variants has a \<open>nil\<close> map of them, which reads like the empty one.\<close>

record normalizedFamily =
  nf_ID :: string
  nf_DisplayName :: string
  nf_Variants :: "(string, string) gomap"
  nf_DefaultEffort :: string

definition new_family :: "string \<Rightarrow> string \<Rightarrow> normalizedFamily" where
  "new_family i display = \<lparr>nf_ID = i, nf_DisplayName = display, nf_Variants = [], nf_DefaultEffort = []\<rparr>"

definition add_to_family :: "CursorModel \<Rightarrow> (string, normalizedFamily) gomap \<Rightarrow> (string, normalizedFamily) gomap" where
  "add_to_family model families =
     (case splitEffort (cm_ID model) of
        None \<Rightarrow>
          (case gm_get families (cm_ID model) of
             Some _ \<Rightarrow> families
           | None \<Rightarrow> gm_set (cm_ID model) (new_family (cm_ID model) (cm_DisplayName model)) families)
      | Some (base, effort) \<Rightarrow>
          (let family = (case gm_get families base of
                 Some f \<Rightarrow> f | None \<Rightarrow> new_family base (stripEffortDisplay (cm_DisplayName model) effort))
           in gm_set base (family\<lparr>nf_Variants := gm_set effort (cm_ID model) (nf_Variants family)\<rparr>) families))"

fun first_effort :: "string list \<Rightarrow> (string, string) gomap \<Rightarrow> string" where
  "first_effort [] variants = []"
| "first_effort (effort # efforts) variants =
     (if gm_get variants effort \<noteq> None then effort else first_effort efforts variants)"

definition default_order :: "string list" where
  "default_order = [''high'', ''medium'', ''low'', ''xhigh'', ''max'', ''minimal'', ''none'']"

definition set_default :: "string \<Rightarrow> normalizedFamily \<Rightarrow> normalizedFamily" where
  "set_default preferred family =
     (if nf_Variants family = [] then family
      else family\<lparr>nf_DefaultEffort := (if gm_get (nf_Variants family) preferred \<noteq> None then preferred
                                       else first_effort default_order (nf_Variants family))\<rparr>)"

definition normalizedFamilies :: "CursorModel list \<Rightarrow> string \<Rightarrow> (string, normalizedFamily) gomap" where
  "normalizedFamilies models preferred =
     map (map_prod id (set_default preferred)) (fold add_to_family models [])"

section \<open>Models for the host\<close>

record ModelInfo =
  mi_ID :: string
  mi_Object :: string
  mi_Created :: int
  mi_OwnedBy :: string
  mi_Type :: string
  mi_DisplayName :: string
  mi_Name :: string
  mi_Description :: string
  mi_SupportedGenerationMethods :: "string list"
  mi_SupportedParameters :: "string list"
  mi_SupportedInputModalities :: "string list"
  mi_SupportedOutputModalities :: "string list"
  mi_ThinkingLevels :: "string list option"

definition pluginModelInfo :: "string \<Rightarrow> string \<Rightarrow> string \<Rightarrow> normalizedFamily option \<Rightarrow> int \<Rightarrow> ModelInfo" where
  "pluginModelInfo i nativeID display family created =
     (let variants = (case family of Some f \<Rightarrow> nf_Variants f | None \<Rightarrow> []);
          thinking = (0 < length variants)
      in \<lparr>mi_ID = i, mi_Object = ''model'', mi_Created = created, mi_OwnedBy = ''cursor'', mi_Type = ''chat'',
          mi_DisplayName = display, mi_Name = nativeID,
          mi_Description = ''Cursor subscription model through direct Connect-RPC'',
          mi_SupportedGenerationMethods = [''openai-response'', ''openai-chat'', ''claude''],
          mi_SupportedParameters = [''stream'', ''tools''] @ (if thinking then [''reasoning_effort''] else []),
          mi_SupportedInputModalities = [''TEXT''], mi_SupportedOutputModalities = [''TEXT''],
          mi_ThinkingLevels = (if thinking then Some (filter (\<lambda>level. gm_get variants level \<noteq> None) reasoningLevels) else None)\<rparr>)"

definition modelInfos :: "Config \<Rightarrow> int \<Rightarrow> CursorModel list \<Rightarrow> ModelInfo list" where
  "modelInfos cfg created models =
     (if cfg_ModelMode cfg = ''raw'' \<or> cfg_ModelMode cfg = ''both'' then
        map (\<lambda>m. pluginModelInfo (cfg_ModelPrefix cfg @ cm_ID m) (cm_ID m)
               (ModelDisplayName cfg (cm_ID m) (cm_DisplayName m)) None created) models
      else [])
     @ (if cfg_ModelMode cfg = ''normalized'' \<or> cfg_ModelMode cfg = ''both'' then
          (let families = normalizedFamilies models (cfg_DefaultReasoningEffort cfg) in
           map (\<lambda>(key, f). pluginModelInfo (cfg_ModelPrefix cfg @ nf_ID f) (nf_ID f)
                  (ModelDisplayName cfg (nf_ID f) (nf_DisplayName f)) (Some f) created)
             (sort_key fst families))
        else [])"

section \<open>The service\<close>

record cachedModels =
  ca_models :: "CursorModel list"
  ca_expiresAt :: time

record loginSession =
  lo_Verifier :: string
  lo_ExpiresAt :: time
  lo_Label :: string
  lo_Prefix :: string
  lo_Priority :: int

record Service =
  sv_config :: Config
  sv_logins :: "(string, loginSession) gomap"
  sv_modelCache :: "(string, cachedModels) gomap"

definition cache_key :: "(string \<Rightarrow> string) \<Rightarrow> AuthStorage \<Rightarrow> string" where
  "cache_key sha256 storage =
     (if as_ID storage = [] then stableAuthID sha256 (as_Label storage) (as_AccessToken storage) else as_ID storage)"

definition models_empty_error :: goerr where
  "models_empty_error = StatusErr (status_error ''models_empty'' ''Cursor account returned no permitted models'' 502)"

definition discoverModels :: "(string \<Rightarrow> string) \<Rightarrow> 'w http_client \<Rightarrow> time \<Rightarrow> AuthStorage \<Rightarrow> Service \<Rightarrow> 'w \<Rightarrow>
    Service \<times> 'w \<times> (goerr + CursorModel list)" where
  "discoverModels sha256 hc now storage s w =
     (let key = cache_key sha256 storage;
          hit = (case gm_get (sv_modelCache s) key of
                   Some cached \<Rightarrow> if now < ca_expiresAt cached then Some (ca_models cached) else None
                 | None \<Rightarrow> None)
      in case hit of
           Some models \<Rightarrow> (s, w, Inr models)
         | None \<Rightarrow>
             (case fetchAvailableModels hc now (as_AccessToken storage) (sv_config s) w of
                (w', Inl err) \<Rightarrow> (s, w', Inl (WrapErr ''discover Cursor models'' err))
              | (w', Inr fetched) \<Rightarrow>
                  (let models = filterModels fetched storage in
                   if length models = 0 then (s, w', Inl models_empty_error)
                   else let models = sort_key (\<lambda>m. ToLower (cm_ID m)) models in
                     (s\<lparr>sv_modelCache := gm_set key \<lparr>ca_models = models,
                          ca_expiresAt = now + ModelCacheTTL (sv_config s)\<rparr> (sv_modelCache s)\<rparr>, w', Inr models))))"

definition ModelsForAuth :: "(string \<Rightarrow> string) \<Rightarrow> 'w http_client \<Rightarrow> time \<Rightarrow> string \<Rightarrow> Service \<Rightarrow> 'w \<Rightarrow>
    Service \<times> 'w \<times> (goerr + string \<times> ModelInfo list)" where
  "ModelsForAuth sha256 hc now storageJSON s w =
     (case decodeAuth storageJSON of
        Inl err \<Rightarrow> (s, w, Inl err)
      | Inr storage \<Rightarrow>
          (case discoverModels sha256 hc now storage s w of
             (s', w', Inl err) \<Rightarrow> (s', w', Inl err)
           | (s', w', Inr models) \<Rightarrow>
               (s', w', Inr (ProviderID, modelInfos (sv_config s') (now div second) models))))"

definition StaticModels :: "string \<times> ModelInfo list" where
  "StaticModels = (ProviderID, [])"

fun find_model :: "(CursorModel \<Rightarrow> bool) \<Rightarrow> CursorModel list \<Rightarrow> CursorModel option" where
  "find_model P [] = None"
| "find_model P (m # ms) = (if P m then Some m else find_model P ms)"

definition disabled_error :: goerr where
  "disabled_error = StatusErr (status_error ''raw_effort_model_disabled'' ''raw effort-suffixed Cursor model is disabled'' 400)"

definition not_found_error :: goerr where
  "not_found_error = StatusErr (status_error ''model_not_found'' ''Cursor model is not available for this account'' 404)"

definition effort_error :: goerr where
  "effort_error = StatusErr (status_error ''unsupported_reasoning_effort''
     ''reasoning effort is not supported by this Cursor model'' 400)"

text \<open>\<open>resolveModel\<close> once the models are known.\<close>

definition choose_model :: "Config \<Rightarrow> CursorModel list \<Rightarrow> string \<Rightarrow> string \<Rightarrow> goerr + RequestedModel" where
  "choose_model cfg models requested0 effort0 =
     (let requested = TrimPrefix (TrimSpace requested0) (cfg_ModelPrefix cfg);
          families = normalizedFamilies models (cfg_DefaultReasoningEffort cfg)
      in case find_model (\<lambda>m. EqualFold (cm_ID m) requested) models of
           Some m \<Rightarrow>
             if cfg_ModelMode cfg = ''normalized'' \<and> splitEffort (cm_ID m) \<noteq> None then Inl disabled_error
             else Inr (cm_Selection m)
         | None \<Rightarrow>
             (case gm_get families requested of
                None \<Rightarrow> Inl not_found_error
              | Some family \<Rightarrow>
                  if length (nf_Variants family) = 0 then Inl not_found_error
                  else let effort = (if effort0 = [] then nf_DefaultEffort family else effort0) in
                    (case gm_get (nf_Variants family) (ToLower effort) of
                       None \<Rightarrow> Inl effort_error
                     | Some upstreamID \<Rightarrow>
                         (case find_model (\<lambda>m. cm_ID m = upstreamID) models of
                            Some m \<Rightarrow> Inr (cm_Selection m)
                          | None \<Rightarrow> Inl (PlainErr (''Cursor model variant '' @ go_quote upstreamID
                                       @ '' is missing from the catalog''))))))"

definition resolveModel :: "(string \<Rightarrow> string) \<Rightarrow> 'w http_client \<Rightarrow> time \<Rightarrow> AuthStorage \<Rightarrow> string \<Rightarrow> string \<Rightarrow> Service \<Rightarrow> 'w \<Rightarrow>
    Service \<times> 'w \<times> (goerr + RequestedModel)" where
  "resolveModel sha256 hc now storage requested effort s w =
     (case discoverModels sha256 hc now storage s w of
        (s', w', Inl err) \<Rightarrow> (s', w', Inl err)
      | (s', w', Inr models) \<Rightarrow> (s', w', choose_model (sv_config s') models requested effort))"

end
