(* ===== verification/Login.thy ===== *)
theory Login
  imports Models
begin

text \<open>
  login.go and the operations of service.go: the browser login (start, poll, expiry), and the
  creation, configuration and shutdown of the service. The random source, the clock and the
  HTTP client are parameters.
\<close>

section \<open>The service\<close>

text \<open>\<open>New\<close>, \<open>Configure\<close> and \<open>Shutdown\<close>; \<open>yaml\<close> is the decoder of the configuration.\<close>

definition New :: Service where
  "New = \<lparr>sv_config = DefaultConfig, sv_logins = [], sv_modelCache = []\<rparr>"

definition Configure :: "(string \<Rightarrow> Config \<Rightarrow> goerr + Config) \<Rightarrow> string \<Rightarrow> Service \<Rightarrow> Service \<times> goerr option" where
  "Configure yaml raw s =
     (case ParseConfig yaml raw of
        Inl err \<Rightarrow> (s, Some err)
      | Inr cfg \<Rightarrow> (s\<lparr>sv_config := cfg, sv_modelCache := []\<rparr>, None))"

definition Shutdown :: "Service \<Rightarrow> Service" where
  "Shutdown s = s\<lparr>sv_logins := [], sv_modelCache := []\<rparr>"

section \<open>Metadata\<close>

definition metadataString :: "object \<Rightarrow> string \<Rightarrow> string" where
  "metadataString metadata key = TrimSpace (string_or_empty (field metadata key))"

definition metadataInt :: "object \<Rightarrow> string \<Rightarrow> int" where
  "metadataInt metadata key =
     (case field metadata key of
        GInt value \<Rightarrow> value
      | GFloat value \<Rightarrow> float_to_int value
      | GNumber value \<Rightarrow> parse_int_value value
      | GStr value \<Rightarrow> parse_int_value (TrimSpace value)
      | _ \<Rightarrow> 0)"

section \<open>Starting a login\<close>

record AuthLoginStartResponse =
  ls_Provider :: string
  ls_URL :: string
  ls_State :: string
  ls_ExpiresAt :: time
  ls_Metadata :: object

text \<open>The time a login is open.\<close>

definition login_ttl :: duration where
  "login_ttl = 5 * minute"

text \<open>\<open>rnd1\<close> and \<open>rnd2\<close> are what the two reads of the random source deliver.\<close>

definition StartLogin :: "(string \<Rightarrow> string) \<Rightarrow> goerr + string \<Rightarrow> goerr + string \<Rightarrow> time \<Rightarrow> object \<Rightarrow> Service \<Rightarrow>
    Service \<times> (goerr + AuthLoginStartResponse)" where
  "StartLogin sha256 rnd1 rnd2 now metadata s =
     (case randomBase64URL rnd1 of
        Inl err \<Rightarrow> (s, Inl (WrapErr ''create Cursor login verifier'' err))
      | Inr verifier \<Rightarrow>
          (case randomUUID rnd2 of
             Inl err \<Rightarrow> (s, Inl (WrapErr ''create Cursor login id'' err))
           | Inr i \<Rightarrow>
               (let session = \<lparr>lo_Verifier = verifier, lo_ExpiresAt = now + login_ttl,
                      lo_Label = metadataString metadata ''label'', lo_Prefix = metadataString metadata ''prefix'',
                      lo_Priority = metadataInt metadata ''priority''\<rparr>
                in (s\<lparr>sv_logins := gm_set i session (sv_logins s)\<rparr>,
                    Inr \<lparr>ls_Provider = ProviderID, ls_URL = loginURL sha256 i verifier, ls_State = i,
                         ls_ExpiresAt = now + login_ttl,
                         ls_Metadata = [(''message'',
                           GStr ''Approve the Cursor browser login, then wait for CLIProxyAPI to finish polling.'')]\<rparr>))))"

section \<open>Polling\<close>

record pollResponse =
  po_AccessToken :: string
  po_APIKey :: string
  po_RefreshToken :: string
  po_AuthID :: string

definition zero_poll :: pollResponse where
  "zero_poll = \<lparr>po_AccessToken = [], po_APIKey = [], po_RefreshToken = [], po_AuthID = []\<rparr>"

definition decode_poll :: "pollResponse field_decoder" where
  "decode_poll = decode_struct
     [(''accessToken'', decode_string (\<lambda>s r. r\<lparr>po_AccessToken := s\<rparr>)),
      (''apiKey'', decode_string (\<lambda>s r. r\<lparr>po_APIKey := s\<rparr>)),
      (''refreshToken'', decode_string (\<lambda>s r. r\<lparr>po_RefreshToken := s\<rparr>)),
      (''authId'', decode_string (\<lambda>s r. r\<lparr>po_AuthID := s\<rparr>))]"

datatype login_status = StatusPending | StatusError | StatusSuccess

text \<open>\<open>lp_Auth\<close> stands for both \<open>Auth\<close> and the one entry of \<open>Auths\<close>; \<open>None\<close> is the zero value.\<close>

record AuthLoginPollResponse =
  lp_Status :: login_status
  lp_Message :: string
  lp_Auth :: "AuthData option"

definition poll_result :: "login_status \<Rightarrow> string \<Rightarrow> AuthLoginPollResponse" where
  "poll_result status message = \<lparr>lp_Status = status, lp_Message = message, lp_Auth = None\<rparr>"

definition pending_result :: AuthLoginPollResponse where
  "pending_result = poll_result StatusPending ''waiting for Cursor login approval''"

definition poll_url :: "Config \<Rightarrow> string \<Rightarrow> string \<Rightarrow> string" where
  "poll_url cfg state verifier =
     TrimRightSlash (cfg_CursorBaseURL cfg) @ ''/auth/poll?'' @ encode_values [(''uuid'', state), (''verifier'', verifier)]"

definition poll_request :: "'w http_client \<Rightarrow> Config \<Rightarrow> string \<Rightarrow> loginSession \<Rightarrow> 'w \<Rightarrow> 'w \<times> (goerr + pollResponse)" where
  "poll_request hc cfg state session w =
     (case doJSON hc ''GET'' (poll_url cfg state (lo_Verifier session)) [(''Accept'', [''application/json''])] []
         (15 * second) (unmarshal_strict decode_poll zero_poll) zero_poll w of
        (w', _, _, r) \<Rightarrow> (w', r))"

definition polled_token :: "pollResponse \<Rightarrow> string" where
  "polled_token polled =
     (if TrimSpace (po_AccessToken polled) = [] then TrimSpace (po_APIKey polled) else TrimSpace (po_AccessToken polled))"

text \<open>The account made from an approved login.\<close>

definition login_storage :: "loginSession \<Rightarrow> pollResponse \<Rightarrow> AuthStorage" where
  "login_storage session polled =
     (let accessToken = polled_token polled;
          label = TrimSpace (lo_Label session);
          label = (if label = [] then emailFromJWT accessToken else label);
          label = (if label = [] then ''Cursor account'' else label)
      in zero_storage\<lparr>as_Type := ProviderID, as_Label := label, as_AccessToken := accessToken,
           as_RefreshToken := TrimSpace (po_RefreshToken polled), as_Prefix := TrimSpace (lo_Prefix session),
           as_Priority := lo_Priority session\<rparr>)"

text \<open>\<open>PollLogin\<close> from the answer of the server on.\<close>

definition poll_answer :: "(string \<Rightarrow> string) \<Rightarrow> time \<Rightarrow> string \<Rightarrow> loginSession \<Rightarrow> goerr + pollResponse \<Rightarrow> Service \<Rightarrow>
    Service \<times> (goerr + AuthLoginPollResponse)" where
  "poll_answer sha256 now state session answer s =
     (case answer of
        Inl err \<Rightarrow>
          (s, Inr (case err of
                     UpstreamErr upstream \<Rightarrow>
                       if ue_Status upstream = 404 \<or> ue_Status upstream = 202 then pending_result
                       else poll_result StatusError ''Cursor login poll failed''
                   | _ \<Rightarrow> poll_result StatusError ''Cursor login poll failed''))
      | Inr polled \<Rightarrow>
          if polled_token polled = [] then (s, Inr pending_result)
          else (case authData sha256 now (login_storage session polled) [] of
                  Inl err \<Rightarrow> (s, Inl err)
                | Inr auth \<Rightarrow>
                    (let auth = auth\<lparr>ad_FileName := ad_ID auth @ ''.json''\<rparr>
                     in (s\<lparr>sv_logins := gm_del state (sv_logins s)\<rparr>,
                         Inr \<lparr>lp_Status = StatusSuccess, lp_Message = ''Cursor login complete'', lp_Auth = Some auth\<rparr>))))"

definition PollLogin :: "(string \<Rightarrow> string) \<Rightarrow> 'w http_client \<Rightarrow> time \<Rightarrow> string \<Rightarrow> Service \<Rightarrow> 'w \<Rightarrow>
    Service \<times> 'w \<times> (goerr + AuthLoginPollResponse)" where
  "PollLogin sha256 hc now reqState s w =
     (let state = TrimSpace reqState in
      case gm_get (sv_logins s) state of
        None \<Rightarrow> (s, w, Inr (poll_result StatusError ''unknown Cursor login state''))
      | Some session \<Rightarrow>
          if \<not> now < lo_ExpiresAt session then
            (s\<lparr>sv_logins := gm_del state (sv_logins s)\<rparr>, w, Inr (poll_result StatusError ''Cursor login expired''))
          else (case poll_request hc (sv_config s) state session w of
                  (w', answer) \<Rightarrow>
                    (case poll_answer sha256 now state session answer s of (s', r) \<Rightarrow> (s', w', r))))"

section \<open>Lemmas\<close>

lemma poll_answer_frame:
  assumes "poll_answer sha256 now state session answer s = (s', r)"
  shows "sv_config s' = sv_config s \<and> sv_modelCache s' = sv_modelCache s
    \<and> (sv_logins s' = sv_logins s \<or> sv_logins s' = gm_del state (sv_logins s))"
  using assms by (auto simp: poll_answer_def Let_def split: sum.splits if_splits)

lemma PollLogin_frame:
  assumes "PollLogin sha256 hc now reqState s w = (s', w', r)"
  shows "sv_config s' = sv_config s \<and> sv_modelCache s' = sv_modelCache s
    \<and> (sv_logins s' = sv_logins s \<or> sv_logins s' = gm_del (TrimSpace reqState) (sv_logins s))"
  using assms by (auto simp: PollLogin_def Let_def dest: poll_answer_frame split: option.splits if_splits prod.splits)

lemma polled_token_trimmed [simp]: "TrimSpace (polled_token p) = polled_token p"
  by (simp add: polled_token_def)

lemma login_storage_fields [simp]:
  "as_AccessToken (login_storage session polled) = polled_token polled"
  "as_RefreshToken (login_storage session polled) = TrimSpace (po_RefreshToken polled)"
  "as_Prefix (login_storage session polled) = TrimSpace (lo_Prefix session)"
  "as_Priority (login_storage session polled) = lo_Priority session"
  by (simp_all add: login_storage_def Let_def)

text \<open>A login with a token never fails to become an account.\<close>

lemma login_accepted:
  assumes "polled_token polled \<noteq> []"
  shows "\<exists>auth. authData sha256 now (login_storage session polled) f = Inr auth"
proof (cases "authData sha256 now (login_storage session polled) f")
  case (Inl e)
  then have "TrimSpace (as_AccessToken (login_storage session polled)) = []"
    using authData_error by blast
  then show ?thesis using assms by simp
qed blast

lemma poll_answer_total: "\<exists>s' r. poll_answer sha256 now state session answer s = (s', Inr r)"
proof (cases answer)
  case (Inr polled)
  then show ?thesis
    using login_accepted [of polled sha256 now session "[]"]
    by (cases "polled_token polled = []") (auto simp: poll_answer_def Let_def)
qed (simp add: poll_answer_def)

text \<open>
  The status 202 is a success for \<open>doJSON\<close>, so the test for it in the error branch is never
  true: a 202 whose body is no JSON is a failed poll, not a pending one.
\<close>

lemma poll_202_dead:
  assumes "poll_request hc cfg state session w = (w', Inl (UpstreamErr u))"
  shows "ue_Status u < 200 \<or> 300 \<le> ue_Status u"
proof -
  obtain st hs where "doJSON hc ''GET'' (poll_url cfg state (lo_Verifier session)) [(''Accept'', [''application/json''])] []
      (15 * second) (unmarshal_strict decode_poll zero_poll) zero_poll w = (w', st, hs, Inl (UpstreamErr u))"
    using assms by (auto simp: poll_request_def split: prod.splits)
  from doJSON_upstream [OF this] show ?thesis by auto
qed

section \<open>Properties\<close>

text \<open>What a poll may do, by its outcome.\<close>

definition poll_outcome_ok :: "'w http_client \<Rightarrow> time \<Rightarrow> string \<Rightarrow> Service \<Rightarrow> 'w \<Rightarrow> Service \<Rightarrow> 'w \<Rightarrow> AuthLoginPollResponse \<Rightarrow> bool" where
  "poll_outcome_ok hc now state s w s' w' resp \<longleftrightarrow>
     (case gm_get (sv_logins s) state of
        None \<Rightarrow> lp_Status resp = StatusError \<and> lp_Auth resp = None \<and> s' = s \<and> w' = w
      | Some session \<Rightarrow>
          if lo_ExpiresAt session \<le> now then
            lp_Status resp = StatusError \<and> lp_Auth resp = None \<and> gm_get (sv_logins s') state = None \<and> w' = w
          else w' = fst (poll_request hc (sv_config s) state session w)
            \<and> (case lp_Status resp of
                 StatusSuccess \<Rightarrow>
                   gm_get (sv_logins s') state = None
                   \<and> (case snd (poll_request hc (sv_config s) state session w) of
                        Inl _ \<Rightarrow> False | Inr polled \<Rightarrow> polled_token polled \<noteq> [])
                   \<and> (case lp_Auth resp of
                        None \<Rightarrow> False
                      | Some auth \<Rightarrow> ad_Provider auth = ProviderID \<and> ad_ID auth \<noteq> [] \<and> ad_FileName auth = ad_ID auth @ ''.json'')
               | _ \<Rightarrow> s' = s \<and> lp_Auth resp = None))"

lemma authData_fields:
  assumes "authData sha256 now storage f = Inr auth"
  shows "ad_Provider auth = ProviderID" "ad_ID auth \<noteq> []"
  using assms by (auto simp: authData_def res_simps dest: normalize_storage_ok)

lemma poll_answer_outcome:
  assumes "poll_answer sha256 now state session answer s = (s', r)"
  shows "\<exists>resp. r = Inr resp \<and>
    (case lp_Status resp of
       StatusSuccess \<Rightarrow>
         gm_get (sv_logins s') state = None
         \<and> (case answer of Inl _ \<Rightarrow> False | Inr polled \<Rightarrow> polled_token polled \<noteq> [])
         \<and> (case lp_Auth resp of
              None \<Rightarrow> False
            | Some auth \<Rightarrow> ad_Provider auth = ProviderID \<and> ad_ID auth \<noteq> [] \<and> ad_FileName auth = ad_ID auth @ ''.json'')
     | _ \<Rightarrow> s' = s \<and> lp_Auth resp = None)"
proof (cases answer)
  case (Inl err)
  then show ?thesis
    using assms by (cases err) (auto simp: poll_answer_def pending_result_def poll_result_def)
next
  case (Inr polled)
  show ?thesis
  proof (cases "polled_token polled = []")
    case True
    then show ?thesis using assms Inr by (auto simp: poll_answer_def pending_result_def poll_result_def)
  next
    case False
    obtain auth where a: "authData sha256 now (login_storage session polled) [] = Inr auth"
      using login_accepted [OF False] by blast
    show ?thesis
      using assms Inr False a authData_fields [OF a] by (auto simp: poll_answer_def Let_def)
  qed
qed

text \<open>
  C21. The life of a login: an unknown or expired state is refused without a request to the
  server, an expired one is forgotten; while the approval is pending, or the poll fails,
  nothing changes, so the host can poll again; a login succeeds only before its expiry and
  with a token from the server, gives a complete account and is forgotten, so that its state
  cannot be used again. No poll is an internal error.
\<close>

theorem login_outcomes:
  assumes "PollLogin sha256 hc now reqState s w = (s', w', r)"
  shows "\<exists>resp. r = Inr resp \<and> poll_outcome_ok hc now (TrimSpace reqState) s w s' w' resp"
proof (cases "gm_get (sv_logins s) (TrimSpace reqState)")
  case None
  then show ?thesis using assms by (auto simp: PollLogin_def Let_def poll_outcome_ok_def poll_result_def)
next
  case (Some session)
  show ?thesis
  proof (cases "now < lo_ExpiresAt session")
    case False
    then show ?thesis
      using assms Some by (auto simp: PollLogin_def Let_def poll_outcome_ok_def poll_result_def)
  next
    case True
    obtain w1 answer where q: "poll_request hc (sv_config s) (TrimSpace reqState) session w = (w1, answer)" by fastforce
    then have "poll_answer sha256 now (TrimSpace reqState) session answer s = (s', r)" "w' = w1"
      using assms Some True by (auto simp: PollLogin_def Let_def split: prod.splits)
    from poll_answer_outcome [OF this(1)] this(2) True show ?thesis
      unfolding poll_outcome_ok_def Some option.case q fst_conv snd_conv by simp
  qed
qed

text \<open>An approved login, and the same state polled once more.\<close>

definition approval :: string where
  "approval = concat (map (\<lambda>c. if c = CHR ''@'' then [dquote] else [c]) ''{@accessToken@:@t@}'')"

definition open_login :: Service where
  "open_login = New\<lparr>sv_logins := [(''u'', \<lparr>lo_Verifier = ''v'', lo_ExpiresAt = 10, lo_Label = ''me'', lo_Prefix = [], lo_Priority = 0\<rparr>)]\<rparr>"

lemma approval_decode:
  "unmarshal_strict decode_poll zero_poll approval = Some (zero_poll\<lparr>po_AccessToken := ''t''\<rparr>)"
  "length approval \<le> 1000" "TrimSpace approval \<noteq> []"
  "polled_token (zero_poll\<lparr>po_AccessToken := ''t''\<rparr>) = ''t''"
  by code_simp+

lemma approved_poll:
  "poll_request (demo_http approval) cfg state session () = ((), Inr (zero_poll\<lparr>po_AccessToken := ''t''\<rparr>))"
  using doJSON_demo [of approval "unmarshal_strict decode_poll zero_poll", OF approval_decode(2,3,1)]
  by (simp add: poll_request_def)

theorem login_outcomes_witness:
  "\<exists>s1 w1 resp. PollLogin (\<lambda>_. []) (demo_http approval) 3 ''u'' open_login () = (s1, w1, Inr resp)
     \<and> lp_Status resp = StatusSuccess \<and> gm_get (sv_logins s1) ''u'' = None
     \<and> poll_outcome_ok (demo_http approval) 3 ''u'' open_login () s1 w1 resp"
proof -
  have u: "TrimSpace ''u'' = ''u''" by (rule TrimSpace_ends) (simp_all add: ascii_space_def)
  obtain s1 w1 r where p: "PollLogin (\<lambda>_. []) (demo_http approval) 3 ''u'' open_login () = (s1, w1, r)" by (metis prod.collapse)
  then obtain resp where r: "r = Inr resp" "poll_outcome_ok (demo_http approval) 3 ''u'' open_login () s1 w1 resp"
    using login_outcomes u by fastforce
  obtain auth where "authData (\<lambda>_. []) 3 (login_storage \<lparr>lo_Verifier = ''v'', lo_ExpiresAt = 10, lo_Label = ''me'', lo_Prefix = [],
      lo_Priority = 0\<rparr> (zero_poll\<lparr>po_AccessToken := ''t''\<rparr>)) [] = Inr auth"
    using login_accepted approval_decode(4) by (metis list.distinct(1))
  then have "lp_Status resp = StatusSuccess"
    using p r(1) approval_decode(4)
    by (auto simp: PollLogin_def u open_login_def approved_poll poll_answer_def Let_def)
  with r(2) have "gm_get (sv_logins s1) ''u'' = None"
    by (simp add: poll_outcome_ok_def open_login_def)
  then show ?thesis using p r \<open>lp_Status resp = StatusSuccess\<close> by blast
qed

end
