(* ===== verification/Models_Correct.thy ===== *)
theory Models_Correct
  imports Models
begin

text \<open>
  What the model catalog promises: its ids are distinct, only usable models are listed, the
  account's rules hold for every model a request resolves to, and every model shown to the
  host resolves. Then what the cache of the catalogs does to the rules.
\<close>

section \<open>The catalog\<close>

text \<open>An item of the catalog is a variant, not of the max mode, of a visible model for agents.\<close>

definition usable :: "availableModelsResponse \<Rightarrow> CursorModel \<Rightarrow> bool" where
  "usable response item \<longleftrightarrow>
     (\<exists>model \<in> set (ar_Models response). \<exists>variant.
        \<not> am_IsHidden model \<and> am_SupportsAgent model \<noteq> Some False
        \<and> (am_Variants model = [] \<and> cm_ID item = TrimSpace (am_Name model) \<or> variant \<in> set (am_Variants model))
        \<and> \<not> mv_IsMaxMode variant
        \<and> item = catalog_item model (TrimSpace (am_Name model)) variant \<and> cm_ID item \<noteq> [])"

definition catalog_ok :: "availableModelsResponse \<Rightarrow> catalog \<Rightarrow> bool" where
  "catalog_ok response st \<longleftrightarrow>
     list_all (usable response) (fst st)
     \<and> (\<forall>key i. gm_get (snd st) key = Some i \<longleftrightarrow> i < length (fst st) \<and> ToLower (cm_ID (fst st ! i)) = key)"

lemma catalog_ok_empty: "catalog_ok response ([], [])"
  by (simp add: catalog_ok_def)

lemma catalog_ok_distinct: "catalog_ok response st \<Longrightarrow> distinct (map (ToLower \<circ> cm_ID) (fst st))"
  unfolding catalog_ok_def distinct_conv_nth by (auto, metis option.inject)

lemma catalog_item_usable:
  assumes "model \<in> set (ar_Models response)" "\<not> am_IsHidden model" "am_SupportsAgent model \<noteq> Some False"
    and "am_Variants model = [] \<and> mv_LegacySlug variant = TrimSpace (am_Name model) \<or> variant \<in> set (am_Variants model)"
    and "TrimSpace (am_Name model) \<noteq> []" "\<not> mv_IsMaxMode variant"
  shows "usable response (catalog_item model (TrimSpace (am_Name model)) variant)"
proof -
  have "firstNonEmpty [mv_LegacySlug variant, TrimSpace (am_Name model)] \<noteq> []"
    using assms(5) unfolding firstNonEmpty_Nil_iff by simp
  then show ?thesis
    unfolding usable_def catalog_item_def using assms
    by (intro bexI [OF _ assms(1)] exI [of _ variant]) (auto simp: Let_def)
qed

lemma add_variant_ok:
  assumes "catalog_ok response st"
    and "\<not> mv_IsMaxMode variant \<Longrightarrow> usable response (catalog_item model name variant)"
  shows "catalog_ok response (add_variant model name variant st)"
proof -
  obtain ms seen where st: "st = (ms, seen)" by (cases st)
  define item where "item = catalog_item model name variant"
  have inv: "list_all (usable response) ms"
    and seen: "\<And>key i. gm_get seen key = Some i \<longleftrightarrow> i < length ms \<and> ToLower (cm_ID (ms ! i)) = key"
    using assms(1) by (simp_all add: catalog_ok_def st)
  consider (max) "mv_IsMaxMode variant" | (fresh) "\<not> mv_IsMaxMode variant" "gm_get seen (ToLower (cm_ID item)) = None"
    | (known) i where "\<not> mv_IsMaxMode variant" "gm_get seen (ToLower (cm_ID item)) = Some i"
    by fastforce
  then show ?thesis
  proof cases
    case max
    then show ?thesis using assms(1) by (simp add: add_variant_def)
  next
    case fresh
    have "i < length ms \<Longrightarrow> ToLower (cm_ID (ms ! i)) \<noteq> ToLower (cm_ID item)" for i
      using seen [of "ToLower (cm_ID item)" i] fresh(2) by simp
    then have "catalog_ok response (ms @ [item], gm_set (ToLower (cm_ID item)) (length ms) seen)"
      using inv seen assms(2) [OF fresh(1)]
      by (auto simp: catalog_ok_def nth_append item_def less_Suc_eq split: if_splits)
    then show ?thesis
      unfolding add_variant_def st Let_def item_def [symmetric] using fresh by simp
  next
    case known
    then have i: "i < length ms" "ToLower (cm_ID (ms ! i)) = ToLower (cm_ID item)"
      using seen by simp_all
    have "list_all (usable response) (ms[i := item])"
      using assms(2) [OF known(1)] inv set_update_subset_insert [of ms i item]
      by (auto simp: list_all_iff item_def)
    then have "catalog_ok response (ms[i := item], seen)"
      using seen i by (auto simp: catalog_ok_def nth_list_update)
    then show ?thesis
      unfolding add_variant_def st Let_def item_def [symmetric] using known assms(1) by (simp add: st)
  qed
qed

lemma add_model_ok:
  assumes "catalog_ok response st" "model \<in> set (ar_Models response)"
  shows "catalog_ok response (add_model model st)"
proof -
  let ?name = "TrimSpace (am_Name model)"
  let ?vs = "if am_Variants model = [] then [zero_variant\<lparr>mv_LegacySlug := ?name\<rparr>] else am_Variants model"
  have "catalog_ok response (fold (add_variant model ?name) ?vs st)"
    if "?name \<noteq> []" "\<not> am_IsHidden model" "am_SupportsAgent model \<noteq> Some False"
  proof (rule fold_invariant [where Q = "\<lambda>v. v \<in> set ?vs"])
    show "catalog_ok response (add_variant model ?name v s)" if "v \<in> set ?vs" "catalog_ok response s" for v s
      using that \<open>?name \<noteq> []\<close> \<open>\<not> am_IsHidden model\<close> \<open>am_SupportsAgent model \<noteq> Some False\<close> assms(2)
      by (intro add_variant_ok catalog_item_usable) (auto split: if_splits)
  qed (simp_all add: assms)
  then show ?thesis using assms(1) by (simp add: add_model_def Let_def)
qed

lemma parameterizedModels_ok: "\<exists>seen. catalog_ok response (parameterizedModels response, seen)"
proof -
  have "catalog_ok response (fold add_model (ar_Models response) ([], []))"
    by (rule fold_invariant [where Q = "\<lambda>m. m \<in> set (ar_Models response)"])
      (auto intro: add_model_ok catalog_ok_empty)
  then show ?thesis
    unfolding parameterizedModels_def by (metis prod.collapse)
qed

section \<open>Resolving a model\<close>

lemma find_model_Some: "find_model P ms = Some m \<Longrightarrow> m \<in> set ms \<and> P m"
  by (induction ms) (auto split: if_splits)

lemma find_model_None: "find_model P ms = None \<longleftrightarrow> list_all (\<lambda>m. \<not> P m) ms"
  by (induction ms) auto

lemma choose_model_in:
  assumes "choose_model cfg models requested effort = Inr sel"
  shows "\<exists>m \<in> set models. cm_Selection m = sel"
  using assms by (auto simp: choose_model_def Let_def split: option.splits if_splits dest!: find_model_Some)

lemma filterModels_set: "set (filterModels models storage) = {m \<in> set models. permitted storage m}"
  by (auto simp: filterModels_def)

section \<open>Effort suffixes\<close>

lemma levels_lower: "e \<in> set reasoningLevels \<Longrightarrow> ToLower e = e"
  by (auto simp: reasoningLevels_def ToLower_def is_ascii_def lower_char_def is_upper_def)

lemma effort_scan_level: "effort_scan ps after = Some (qs, e) \<Longrightarrow> e \<in> set reasoningLevels"
  by (induction ps after rule: effort_scan.induct) (auto simp: Let_def split: if_splits)

lemma splitEffort_level: "splitEffort i = Some (b, e) \<Longrightarrow> e \<in> set reasoningLevels \<and> ToLower e = e"
  by (auto simp: splitEffort_def dest!: effort_scan_level intro: levels_lower)

text \<open>Whether an id has a suffix does not depend on its case.\<close>

lemma lower_dash: "lower_char c = CHR ''-'' \<longleftrightarrow> c = CHR ''-''"
proof
  assume e: "lower_char c = CHR ''-''"
  have "\<not> is_upper c"
  proof
    assume u: "is_upper c"
    then have "byte (lower_char c) = byte c + 32" by (simp add: lower_char_def is_upper_def)
    then show False using u e by (simp add: is_upper_def)
  qed
  then show "c = CHR ''-''" using e by (simp add: lower_char_def)
qed (simp add: lower_char_def is_upper_def)

lemma Split_lower: "Split (CHR ''-'') (map lower_char s) = map (map lower_char) (Split (CHR ''-'') s)"
  by (induction s) (auto simp: lower_dash split: list.splits)

lemma Split_ascii: "is_ascii s \<Longrightarrow> p \<in> set (Split c s) \<Longrightarrow> is_ascii p"
proof (induction s arbitrary: p)
  case (Cons a s)
  then have "is_ascii s" "byte a < 128" by (simp_all add: is_ascii_def)
  with Cons show ?case
    by (cases "Split c s") (auto simp: is_ascii_def split: if_splits)
qed (simp add: is_ascii_def)

lemma map_lower_ToLower: "is_ascii s \<Longrightarrow> ToLower (map lower_char s) = ToLower s"
  using ToLower_idem [of s] by (simp add: ToLower_def split: if_splits)

lemma effort_scan_lower:
  "list_all is_ascii ps \<Longrightarrow> effort_scan (map (map lower_char) ps) after = None \<longleftrightarrow> effort_scan ps after' = None"
  by (induction ps arbitrary: after after') (auto simp: map_lower_ToLower Let_def)

lemma splitEffort_fold:
  assumes "is_ascii i" "is_ascii j" "EqualFold i j"
  shows "splitEffort i = None \<longleftrightarrow> splitEffort j = None"
proof -
  have "splitEffort k = None \<longleftrightarrow> effort_scan (map (map lower_char) (rev (Split (CHR ''-'') k))) [] = None" if "is_ascii k" for k
    using effort_scan_lower [of "rev (Split (CHR ''-'') k)" "[]" "[]"] Split_ascii [OF that]
    by (auto simp: splitEffort_def list_all_iff)
  moreover have "map (map lower_char) (rev (Split (CHR ''-'') i)) = map (map lower_char) (rev (Split (CHR ''-'') j))"
    using assms by (simp add: EqualFold_def rev_map [symmetric] Split_lower [symmetric])
  ultimately show ?thesis using assms by simp
qed

section \<open>Families\<close>

definition family_ok :: "CursorModel list \<Rightarrow> string \<Rightarrow> normalizedFamily \<Rightarrow> bool" where
  "family_ok models k f \<longleftrightarrow>
     nf_ID f = k
     \<and> (\<forall>e i. gm_get (nf_Variants f) e = Some i \<longrightarrow> (\<exists>m \<in> set models. cm_ID m = i \<and> splitEffort i = Some (k, e)))
     \<and> (nf_Variants f = [] \<longrightarrow> (\<exists>m \<in> set models. cm_ID m = k \<and> splitEffort k = None))"

definition families_ok :: "CursorModel list \<Rightarrow> (string, normalizedFamily) gomap \<Rightarrow> bool" where
  "families_ok models fs \<longleftrightarrow> (\<forall>k f. gm_get fs k = Some f \<longrightarrow> family_ok models k f)"

lemma gm_set_not_Nil [simp]: "gm_set k v m \<noteq> []"
  by (cases m) auto

lemma family_ok_bare: "m \<in> set models \<Longrightarrow> splitEffort (cm_ID m) = None \<Longrightarrow> family_ok models (cm_ID m) (new_family (cm_ID m) d)"
  by (auto simp: family_ok_def new_family_def)

lemma family_ok_variant:
  assumes "nf_ID f = b" "\<And>e i. gm_get (nf_Variants f) e = Some i \<Longrightarrow> \<exists>m \<in> set models. cm_ID m = i \<and> splitEffort i = Some (b, e)"
    and "m \<in> set models" "splitEffort (cm_ID m) = Some (b, e)"
  shows "family_ok models b (f\<lparr>nf_Variants := gm_set e (cm_ID m) (nf_Variants f)\<rparr>)"
  using assms by (auto simp: family_ok_def)

lemma add_to_family_ok:
  assumes "families_ok models fs" "m \<in> set models"
  shows "families_ok models (add_to_family m fs)"
proof (cases "splitEffort (cm_ID m)")
  case None
  then show ?thesis
    using assms family_ok_bare [OF assms(2) None] by (auto simp: add_to_family_def families_ok_def split: option.split)
next
  case (Some be)
  then obtain b e where be: "splitEffort (cm_ID m) = Some (b, e)" by (cases be) auto
  define f where "f = (case gm_get fs b of Some f \<Rightarrow> f | None \<Rightarrow> new_family b (stripEffortDisplay (cm_DisplayName m) e))"
  have "nf_ID f = b" "\<And>e i. gm_get (nf_Variants f) e = Some i \<Longrightarrow> \<exists>m \<in> set models. cm_ID m = i \<and> splitEffort i = Some (b, e)"
    using assms(1) by (auto simp: f_def families_ok_def family_ok_def new_family_def split: option.splits)
  from family_ok_variant [OF this assms(2) be] show ?thesis
    using assms(1) be by (simp add: add_to_family_def families_ok_def f_def [symmetric] Let_def)
qed

lemma set_default_fields [simp]:
  "nf_ID (set_default p f) = nf_ID f" "nf_Variants (set_default p f) = nf_Variants f"
  by (simp_all add: set_default_def)

lemma gm_get_normalized:
  "gm_get (map (map_prod id (set_default p)) fs) k = map_option (set_default p) (gm_get fs k)"
  by (induction fs) auto

lemma normalizedFamilies_ok: "families_ok models (normalizedFamilies models p)"
proof -
  have "families_ok models (fold add_to_family models [])"
  proof (rule fold_invariant [where Q = "\<lambda>m. m \<in> set models"])
    show "families_ok models []" by (simp add: families_ok_def)
  qed (auto intro: add_to_family_ok)
  then show ?thesis
    by (auto simp: normalizedFamilies_def families_ok_def family_ok_def gm_get_normalized)
qed

lemma first_effort_in: "\<exists>e \<in> set es. gm_get vs e \<noteq> None \<Longrightarrow> gm_get vs (first_effort es vs) \<noteq> None"
  by (induction es) auto

text \<open>A family with variants has a default among them.\<close>

lemma default_in_variants:
  assumes "gm_get (normalizedFamilies models p) k = Some f" "nf_Variants f \<noteq> []"
  shows "gm_get (nf_Variants f) (nf_DefaultEffort f) \<noteq> None"
proof -
  obtain f0 where f0: "f = set_default p f0"
    using assms(1) by (auto simp: normalizedFamilies_def gm_get_normalized)
  obtain e i where "(e, i) \<in> set (nf_Variants f)"
    using assms(2) by (metis list.set_sel(1) surj_pair)
  then have e: "gm_get (nf_Variants f) e \<noteq> None" by (metis map_of_eq_None_iff fst_conv image_eqI)
  then have "e \<in> set reasoningLevels"
    using normalizedFamilies_ok [of models p] assms(1) splitEffort_level unfolding families_ok_def family_ok_def by blast
  then have "e \<in> set default_order" by (auto simp: reasoningLevels_def default_order_def)
  with e have "gm_get (nf_Variants f) (first_effort default_order (nf_Variants f)) \<noteq> None"
    by (intro first_effort_in) auto
  moreover have "nf_Variants f = nf_Variants f0" using f0 by simp
  ultimately show ?thesis
    using assms(2) by (simp add: f0 set_default_def)
qed

lemma normalizedFamilies_keys: "distinct (gm_keys (normalizedFamilies models p))"
proof -
  have "distinct (gm_keys (fold add_to_family models []))"
    by (rule fold_invariant [where Q = "\<lambda>_. True"])
      (auto simp: add_to_family_def Let_def gm_distinct_set split: option.splits prod.splits)
  moreover have "gm_keys (map (map_prod id (set_default p)) fs) = gm_keys fs" for fs
    by (induction fs) auto
  ultimately show ?thesis by (simp add: normalizedFamilies_def)
qed

section \<open>Every model shown resolves\<close>

text \<open>The ids of a catalog: no two of them equal up to case, and all ASCII.\<close>

definition plain_catalog :: "CursorModel list \<Rightarrow> bool" where
  "plain_catalog models \<longleftrightarrow>
     distinct (map (ToLower \<circ> cm_ID) models) \<and> list_all (\<lambda>m. is_ascii (cm_ID m)) models"

definition thinking_levels :: "ModelInfo \<Rightarrow> string list" where
  "thinking_levels info = (case mi_ThinkingLevels info of Some ls \<Rightarrow> ls | None \<Rightarrow> [])"

lemma EqualFold_ascii: "is_ascii a \<Longrightarrow> is_ascii b \<Longrightarrow> EqualFold a b \<longleftrightarrow> ToLower a = ToLower b"
  by (simp add: EqualFold_def ToLower_def)

lemma find_model_self:
  assumes "plain_catalog models" "m \<in> set models"
  shows "find_model (\<lambda>x. EqualFold (cm_ID x) (cm_ID m)) models = Some m"
proof (cases "find_model (\<lambda>x. EqualFold (cm_ID x) (cm_ID m)) models")
  case None
  then have "\<not> EqualFold (cm_ID m) (cm_ID m)" "is_ascii (cm_ID m)"
    using assms by (auto simp: find_model_None list_all_iff plain_catalog_def)
  then show ?thesis by (simp add: EqualFold_ascii)
next
  case (Some x)
  then have x: "x \<in> set models" "EqualFold (cm_ID x) (cm_ID m)" by (auto dest: find_model_Some)
  moreover have "is_ascii (cm_ID x)" "is_ascii (cm_ID m)"
    using assms x(1) by (simp_all add: plain_catalog_def list_all_iff)
  ultimately have "ToLower (cm_ID x) = ToLower (cm_ID m)" by (simp add: EqualFold_ascii)
  then have "x = m"
    using assms x(1) by (auto simp: plain_catalog_def distinct_map inj_on_def)
  then show ?thesis using Some by simp
qed

lemma Join_ascii: "list_all is_ascii ps \<Longrightarrow> is_ascii sep \<Longrightarrow> is_ascii (Join sep ps)"
  by (induction sep ps rule: Join.induct) (auto simp: is_ascii_def)

lemma effort_scan_parts: "effort_scan ps after = Some (qs, e) \<Longrightarrow> set qs \<subseteq> set ps \<union> set after"
  by (induction ps after rule: effort_scan.induct) (auto simp: Let_def split: if_splits)

lemma splitEffort_ascii:
  assumes "splitEffort i = Some (b, e)" "is_ascii i"
  shows "is_ascii b"
proof -
  obtain qs where qs: "effort_scan (rev (Split (CHR ''-'') i)) [] = Some (qs, e)" "b = Join ''-'' qs"
    using assms(1) by (auto simp: splitEffort_def)
  have "list_all is_ascii qs"
    using effort_scan_parts [OF qs(1)] Split_ascii [OF assms(2)] by (auto simp: list_all_iff)
  moreover have "is_ascii ''-''" by (simp add: is_ascii_def)
  ultimately show ?thesis using qs(2) Join_ascii by simp
qed

lemma family_variant_in:
  assumes "gm_get (normalizedFamilies models p) k = Some f" "gm_get (nf_Variants f) e = Some i"
  obtains m where "m \<in> set models" "cm_ID m = i" "splitEffort (cm_ID m) = Some (k, e)"
  using normalizedFamilies_ok [of models p] assms unfolding families_ok_def family_ok_def by blast

lemma family_bare:
  assumes "gm_get (normalizedFamilies models p) k = Some f" "nf_Variants f = []"
  obtains m where "m \<in> set models" "cm_ID m = k" "splitEffort k = None"
  using normalizedFamilies_ok [of models p] assms unfolding families_ok_def family_ok_def by blast

lemma family_key:
  assumes "plain_catalog models" "gm_get (normalizedFamilies models p) k = Some f"
  shows "is_ascii k"
proof (cases "nf_Variants f = []")
  case True
  obtain m where "m \<in> set models" "cm_ID m = k" by (rule family_bare [OF assms(2) True]) blast
  then show ?thesis using assms(1) by (auto simp: plain_catalog_def list_all_iff)
next
  case False
  then obtain e i where "gm_get (nf_Variants f) e = Some i"
    using default_in_variants [OF assms(2)] by blast
  then obtain m where m: "m \<in> set models" "splitEffort (cm_ID m) = Some (k, e)"
    by (rule family_variant_in [OF assms(2)]) blast
  then have "is_ascii (cm_ID m)" using assms(1) by (simp add: plain_catalog_def list_all_iff)
  with m splitEffort_ascii show ?thesis by blast
qed

text \<open>The efforts of a family are those of the models of its name, and none is lost.\<close>

definition has_variant :: "CursorModel list \<Rightarrow> string \<Rightarrow> string \<Rightarrow> bool" where
  "has_variant models k e \<longleftrightarrow> list_ex (\<lambda>m. splitEffort (cm_ID m) = Some (k, e)) models"

definition families_full :: "CursorModel list \<Rightarrow> (string, normalizedFamily) gomap \<Rightarrow> bool" where
  "families_full models fs \<longleftrightarrow>
     (\<forall>k e. has_variant models k e \<longrightarrow> (\<exists>f. gm_get fs k = Some f \<and> gm_get (nf_Variants f) e \<noteq> None))"

lemma add_to_family_full: "families_full models fs \<Longrightarrow> families_full (models @ [m]) (add_to_family m fs)"
  unfolding families_full_def has_variant_def
  by (cases "splitEffort (cm_ID m)") (fastforce simp: add_to_family_def Let_def split: option.split)+

lemma normalizedFamilies_full: "families_full models (normalizedFamilies models p)"
proof -
  have "families_full models (fold add_to_family models [])"
  proof (induction models rule: rev_induct)
    case (snoc m models)
    then show ?case using add_to_family_full by simp
  qed (simp add: families_full_def has_variant_def)
  then show ?thesis
    unfolding families_full_def normalizedFamilies_def gm_get_normalized by fastforce
qed

lemma family_variants:
  assumes "gm_get (normalizedFamilies models p) k = Some f"
  shows "gm_get (nf_Variants f) e \<noteq> None \<longleftrightarrow> has_variant models k e"
proof
  assume "gm_get (nf_Variants f) e \<noteq> None"
  then obtain i where "gm_get (nf_Variants f) e = Some i" by blast
  then obtain m where "m \<in> set models" "splitEffort (cm_ID m) = Some (k, e)" by (rule family_variant_in [OF assms]) blast
  then show "has_variant models k e" by (auto simp: has_variant_def list_ex_iff)
next
  assume "has_variant models k e"
  then show "gm_get (nf_Variants f) e \<noteq> None"
    using normalizedFamilies_full [of models p] assms unfolding families_full_def by fastforce
qed

text \<open>The effort that is meant: the requested one, else the preferred one if there is a model for it, else the first of the fixed order.\<close>

definition expected_effort :: "string \<Rightarrow> CursorModel list \<Rightarrow> string \<Rightarrow> string \<Rightarrow> string" where
  "expected_effort preferred models k effort =
     (if effort = [] then hd (filter (has_variant models k) (preferred # default_order)) else effort)"

lemma first_effort_hd: "\<exists>e \<in> set es. gm_get vs e \<noteq> None \<Longrightarrow> first_effort es vs = hd (filter (\<lambda>e. gm_get vs e \<noteq> None) es)"
  by (induction es) auto

lemma default_expected:
  assumes "gm_get (normalizedFamilies models p) k = Some f" "nf_Variants f \<noteq> []"
  shows "nf_DefaultEffort f = expected_effort p models k []"
proof -
  obtain f0 where f0: "f = set_default p f0"
    using assms(1) by (auto simp: normalizedFamilies_def gm_get_normalized)
  have n0: "nf_DefaultEffort f = (if gm_get (nf_Variants f) p \<noteq> None then p else first_effort default_order (nf_Variants f))"
    using assms(2) unfolding f0 by (cases "nf_Variants f0 = []") (simp_all add: set_default_def)
  have d: "gm_get (nf_Variants f) (nf_DefaultEffort f) \<noteq> None" by (rule default_in_variants [OF assms])
  have eq: "(\<lambda>e. gm_get (nf_Variants f) e \<noteq> None) = has_variant models k"
    using family_variants [OF assms(1)] by (intro ext)
  show ?thesis
  proof (cases "gm_get (nf_Variants f) p \<noteq> None")
    case True
    then have "nf_DefaultEffort f = p" unfolding n0 by (rule if_P)
    moreover have "has_variant models k p" using True family_variants [OF assms(1)] by blast
    ultimately show ?thesis by (simp add: expected_effort_def)
  next
    case False
    then have n: "nf_DefaultEffort f = first_effort default_order (nf_Variants f)"
      unfolding n0 by (rule if_not_P)
    have "\<exists>e \<in> set default_order. gm_get (nf_Variants f) e \<noteq> None"
    proof -
      obtain i where "gm_get (nf_Variants f) (nf_DefaultEffort f) = Some i" using d by blast
      then obtain m where "m \<in> set models" "splitEffort (cm_ID m) = Some (k, nf_DefaultEffort f)" by (rule family_variant_in [OF assms(1)]) blast
      then have "nf_DefaultEffort f \<in> set default_order"
        using splitEffort_level by (fastforce simp: reasoningLevels_def default_order_def)
      with d show ?thesis by blast
    qed
    then have "nf_DefaultEffort f = hd (filter (has_variant models k) default_order)"
      unfolding n using first_effort_hd [of default_order "nf_Variants f"] by (simp only: eq)
    moreover have "\<not> has_variant models k p" using False family_variants [OF assms(1)] by blast
    ultimately show ?thesis by (simp add: expected_effort_def)
  qed
qed

text \<open>
  A family is found by its name unless a model of the catalog has that name; then this model
  is found, or refused if only families may be named and it is a variant of another family.
\<close>

definition shadowed :: "Config \<Rightarrow> CursorModel list \<Rightarrow> string \<Rightarrow> bool" where
  "shadowed cfg models name \<longleftrightarrow>
     cfg_ModelMode cfg = ''normalized'' \<and> list_ex (\<lambda>m. EqualFold (cm_ID m) name \<and> splitEffort (cm_ID m) \<noteq> None) models"

definition stands_for :: "string \<Rightarrow> CursorModel list \<Rightarrow> string \<Rightarrow> string \<Rightarrow> CursorModel \<Rightarrow> bool" where
  "stands_for preferred models name effort m \<longleftrightarrow>
     (if list_ex (\<lambda>x. EqualFold (cm_ID x) name) models then EqualFold (cm_ID m) name
      else splitEffort (cm_ID m) = Some (name, expected_effort preferred models name effort))"

lemma choose_family:
  assumes "find_model (\<lambda>m. EqualFold (cm_ID m) k) models = None" "is_ascii k"
    and "gm_get (normalizedFamilies models (cfg_DefaultReasoningEffort cfg)) k = Some f"
    and "TrimSpace (cfg_ModelPrefix cfg @ k) = cfg_ModelPrefix cfg @ k"
    and "effort = [] \<or> gm_get (nf_Variants f) effort \<noteq> None"
  shows "\<exists>m \<in> set models. splitEffort (cm_ID m) = Some (k, expected_effort (cfg_DefaultReasoningEffort cfg) models k effort)
    \<and> choose_model cfg models (cfg_ModelPrefix cfg @ k) effort = Inr (cm_Selection m)"
proof -
  have v: "nf_Variants f \<noteq> []"
  proof
    assume e: "nf_Variants f = []"
    obtain m where m: "m \<in> set models" "cm_ID m = k" by (rule family_bare [OF assms(3) e]) blast
    with assms(1) have "\<not> EqualFold k k" by (auto simp: find_model_None list_all_iff)
    then show False using assms(2) by (simp add: EqualFold_ascii)
  qed
  define e where "e = expected_effort (cfg_DefaultReasoningEffort cfg) models k effort"
  have e: "e = (if effort = [] then nf_DefaultEffort f else effort)"
    using default_expected [OF assms(3) v] by (auto simp: e_def expected_effort_def)
  obtain i where i: "gm_get (nf_Variants f) e = Some i"
    using default_in_variants [OF assms(3) v] assms(5) unfolding e by (cases "effort = []") fastforce+
  obtain m where m: "m \<in> set models" "cm_ID m = i" "splitEffort (cm_ID m) = Some (k, e)"
    by (rule family_variant_in [OF assms(3) i])
  then have "ToLower e = e" using splitEffort_level by blast
  moreover obtain m' where m': "m' \<in> set models" "cm_ID m' = i" "find_model (\<lambda>x. cm_ID x = i) models = Some m'"
  proof (cases "find_model (\<lambda>x. cm_ID x = i) models")
    case None
    then show ?thesis using m by (simp add: find_model_None list_all_iff)
  qed (blast dest: find_model_Some intro: that)
  ultimately have "choose_model cfg models (cfg_ModelPrefix cfg @ k) effort = Inr (cm_Selection m')"
    using assms(1,3,4) v i by (auto simp: choose_model_def Let_def TrimPrefix_def e [symmetric])
  then show ?thesis using m' m(2,3) unfolding e_def by metis
qed

text \<open>What a request for a name of the list gets when a model of the catalog has that name.\<close>

lemma choose_named:
  assumes "find_model (\<lambda>m. EqualFold (cm_ID m) k) models = Some m"
    and "TrimSpace (cfg_ModelPrefix cfg @ k) = cfg_ModelPrefix cfg @ k"
  shows "choose_model cfg models (cfg_ModelPrefix cfg @ k) effort =
    (if cfg_ModelMode cfg = ''normalized'' \<and> splitEffort (cm_ID m) \<noteq> None then Inl disabled_error else Inr (cm_Selection m))"
  using assms by (simp add: choose_model_def Let_def TrimPrefix_def)

lemma find_model_fold:
  assumes "plain_catalog models" "is_ascii k" "m \<in> set models" "EqualFold (cm_ID m) k"
  shows "find_model (\<lambda>x. EqualFold (cm_ID x) k) models = Some m"
proof -
  have "is_ascii (cm_ID x)" if "x \<in> set models" for x using assms(1) that by (simp add: plain_catalog_def list_all_iff)
  then have "EqualFold (cm_ID x) k \<longleftrightarrow> EqualFold (cm_ID x) (cm_ID m)" if "x \<in> set models" for x
    using assms(2-4) that by (simp add: EqualFold_ascii)
  then have "find_model (\<lambda>x. EqualFold (cm_ID x) k) xs = find_model (\<lambda>x. EqualFold (cm_ID x) (cm_ID m)) xs"
    if "set xs \<subseteq> set models" for xs
    using that by (induction xs) auto
  then show ?thesis using find_model_self [OF assms(1,3)] by simp
qed

lemma not_shadowed_choice:
  assumes "\<not> shadowed cfg models k" "TrimSpace (cfg_ModelPrefix cfg @ k) = cfg_ModelPrefix cfg @ k"
    and "find_model (\<lambda>m. EqualFold (cm_ID m) k) models = Some m"
  shows "m \<in> set models \<and> stands_for preferred models k effort m
    \<and> choose_model cfg models (cfg_ModelPrefix cfg @ k) effort = Inr (cm_Selection m)"
proof -
  have m: "m \<in> set models" "EqualFold (cm_ID m) k" using assms(3) by (auto dest: find_model_Some)
  then have "list_ex (\<lambda>x. EqualFold (cm_ID x) k) models" by (auto simp: list_ex_iff)
  with m assms(1) choose_named [OF assms(3,2)] show ?thesis
    by (auto simp: shadowed_def stands_for_def list_ex_iff)
qed

lemma shadowed_choice:
  assumes "plain_catalog models" "shadowed cfg models k" "TrimSpace (cfg_ModelPrefix cfg @ k) = cfg_ModelPrefix cfg @ k"
    and "gm_get (normalizedFamilies models (cfg_DefaultReasoningEffort cfg)) k = Some f"
  shows "choose_model cfg models (cfg_ModelPrefix cfg @ k) effort = Inl disabled_error"
    "\<exists>m \<in> set models. \<exists>b e. splitEffort (cm_ID m) = Some (b, e) \<and> splitEffort b \<noteq> None"
proof -
  note k = family_key [OF assms(1,4)]
  obtain m where m: "m \<in> set models" "EqualFold (cm_ID m) k" "splitEffort (cm_ID m) \<noteq> None"
    and mode: "cfg_ModelMode cfg = ''normalized''"
    using assms(2) by (auto simp: shadowed_def list_ex_iff)
  show "choose_model cfg models (cfg_ModelPrefix cfg @ k) effort = Inl disabled_error"
    using choose_named [OF find_model_fold [OF assms(1) k m(1,2)] assms(3)] m(3) mode by simp
  have "is_ascii (cm_ID m)" using assms(1) m(1) by (simp add: plain_catalog_def list_all_iff)
  then have s: "splitEffort k \<noteq> None" using splitEffort_fold [OF _ k m(2)] m(3) by blast
  have "nf_Variants f \<noteq> []"
  proof
    assume "nf_Variants f = []"
    then have "splitEffort k = None" by (rule family_bare [OF assms(4)])
    with s show False by simp
  qed
  then obtain e i where "gm_get (nf_Variants f) e = Some i" using default_in_variants [OF assms(4)] by blast
  then obtain m' where "m' \<in> set models" "splitEffort (cm_ID m') = Some (k, e)" by (rule family_variant_in [OF assms(4)]) blast
  with s show "\<exists>m \<in> set models. \<exists>b e. splitEffort (cm_ID m) = Some (b, e) \<and> splitEffort b \<noteq> None" by blast
qed

text \<open>What a request resolves to has the requested name, or is a variant of the family of this name.\<close>

lemma choose_model_named:
  assumes "choose_model cfg models requested effort = Inr sel"
  shows "\<exists>m \<in> set models. cm_Selection m = sel
    \<and> (EqualFold (cm_ID m) (TrimPrefix (TrimSpace requested) (cfg_ModelPrefix cfg))
       \<or> (\<exists>e. splitEffort (cm_ID m) = Some (TrimPrefix (TrimSpace requested) (cfg_ModelPrefix cfg), e)))"
proof (cases "find_model (\<lambda>m. EqualFold (cm_ID m) (TrimPrefix (TrimSpace requested) (cfg_ModelPrefix cfg))) models")
  case (Some m)
  then show ?thesis
    using assms by (auto simp: choose_model_def Let_def split: if_splits dest!: find_model_Some)
next
  case None
  let ?name = "TrimPrefix (TrimSpace requested) (cfg_ModelPrefix cfg)"
  obtain f e i m where f: "gm_get (normalizedFamilies models (cfg_DefaultReasoningEffort cfg)) ?name = Some f"
    "gm_get (nf_Variants f) e = Some i" and m: "find_model (\<lambda>m. cm_ID m = i) models = Some m" "cm_Selection m = sel"
    using assms None by (auto simp: choose_model_def Let_def split: option.splits if_splits)
  obtain m' where "m' \<in> set models" "cm_ID m' = i" "splitEffort (cm_ID m') = Some (?name, e)"
    by (rule family_variant_in [OF f])
  moreover have "m \<in> set models \<and> cm_ID m = i" by (rule find_model_Some [OF m(1)])
  ultimately show ?thesis using m(2) by metis
qed

lemma pluginModelInfo_fields [simp]:
  "mi_ID (pluginModelInfo i n d fo c) = i"
  "mi_Name (pluginModelInfo i n d fo c) = n"
  "thinking_levels (pluginModelInfo i n d None c) = []"
  "thinking_levels (pluginModelInfo i n d (Some f) c)
     = (if nf_Variants f = [] then [] else filter (\<lambda>l. gm_get (nf_Variants f) l \<noteq> None) reasoningLevels)"
  by (simp_all add: pluginModelInfo_def thinking_levels_def Let_def)

lemma in_optional_lists:
  "x \<in> set ((if P then xs else []) @ (if Q then ys else [])) \<Longrightarrow> P \<and> x \<in> set xs \<or> x \<in> set ys"
  by (auto split: if_splits)

lemma modelInfos_cases:
  assumes "info \<in> set (modelInfos cfg created models)"
  obtains (raw) m where "m \<in> set models" "cfg_ModelMode cfg \<noteq> ''normalized''"
      "mi_ID info = cfg_ModelPrefix cfg @ cm_ID m" "mi_Name info = cm_ID m"
    | (family) k f where "gm_get (normalizedFamilies models (cfg_DefaultReasoningEffort cfg)) k = Some f"
      "mi_ID info = cfg_ModelPrefix cfg @ k" "mi_Name info = k"
      "list_all (\<lambda>e. gm_get (nf_Variants f) e \<noteq> None) (thinking_levels info)"
proof -
  let ?fs = "normalizedFamilies models (cfg_DefaultReasoningEffort cfg)"
  let ?raws = "map (\<lambda>m. pluginModelInfo (cfg_ModelPrefix cfg @ cm_ID m) (cm_ID m)
               (ModelDisplayName cfg (cm_ID m) (cm_DisplayName m)) None created) models"
  let ?fams = "map (\<lambda>(key, f). pluginModelInfo (cfg_ModelPrefix cfg @ nf_ID f) (nf_ID f)
                  (ModelDisplayName cfg (nf_ID f) (nf_DisplayName f)) (Some f) created) (sort_key fst ?fs)"
  have raw: "\<exists>m \<in> set models. mi_ID info = cfg_ModelPrefix cfg @ cm_ID m \<and> mi_Name info = cm_ID m"
    if "info \<in> set ?raws"
    using that by auto
  have fam: "\<exists>k f. gm_get ?fs k = Some f \<and> mi_ID info = cfg_ModelPrefix cfg @ k \<and> mi_Name info = k
      \<and> list_all (\<lambda>e. gm_get (nf_Variants f) e \<noteq> None) (thinking_levels info)"
    if member: "info \<in> set ?fams"
  proof -
    obtain k f where kf: "(k, f) \<in> set ?fs"
      and info: "info = pluginModelInfo (cfg_ModelPrefix cfg @ nf_ID f) (nf_ID f)
                  (ModelDisplayName cfg (nf_ID f) (nf_DisplayName f)) (Some f) created"
      using member by auto
    have get: "gm_get ?fs k = Some f" using kf normalizedFamilies_keys by simp
    then have "nf_ID f = k"
      using normalizedFamilies_ok [of models] unfolding families_ok_def family_ok_def by blast
    then show ?thesis
      using get by (intro exI [of _ k] exI [of _ f]) (simp add: info list_all_iff)
  qed
  have "cfg_ModelMode cfg \<noteq> ''normalized'' \<and> info \<in> set ?raws \<or> info \<in> set ?fams"
  proof -
    have "modelInfos cfg created models =
        (if cfg_ModelMode cfg = ''raw'' \<or> cfg_ModelMode cfg = ''both'' then ?raws else [])
        @ (if cfg_ModelMode cfg = ''normalized'' \<or> cfg_ModelMode cfg = ''both'' then ?fams else [])"
      by (simp only: modelInfos_def Let_def)
    from in_optional_lists [OF assms [unfolded this]] show ?thesis by auto
  qed
  then show ?thesis using raw fam that by blast
qed

section \<open>The cache\<close>

lemma sort_key_Nil_iff [simp]: "sort_key f xs = [] \<longleftrightarrow> xs = []"
  by (metis length_0_conv length_sort)

lemma discoverModels_hit:
  assumes "gm_get (sv_modelCache s) (cache_key sha256 storage) = Some c" "now < ca_expiresAt c"
  shows "discoverModels sha256 hc now storage s w = (s, w, Inr (ca_models c))"
  using assms by (simp add: discoverModels_def)

lemma discoverModels_miss:
  assumes "\<And>c. gm_get (sv_modelCache s) (cache_key sha256 storage) = Some c \<Longrightarrow> \<not> now < ca_expiresAt c"
    and "discoverModels sha256 hc now storage s w = (s', w', Inr ms)"
  shows "\<exists>fetched. fetchAvailableModels hc now (as_AccessToken storage) (sv_config s) w = (w', Inr fetched)
          \<and> ms = sort_key (\<lambda>m. ToLower (cm_ID m)) (filterModels fetched storage) \<and> ms \<noteq> []
          \<and> s' = s\<lparr>sv_modelCache := gm_set (cache_key sha256 storage)
                    \<lparr>ca_models = ms, ca_expiresAt = now + ModelCacheTTL (sv_config s)\<rparr> (sv_modelCache s)\<rparr>"
proof -
  obtain w1 r where f: "fetchAvailableModels hc now (as_AccessToken storage) (sv_config s) w = (w1, r)" by fastforce
  have "(case gm_get (sv_modelCache s) (cache_key sha256 storage) of
      Some cached \<Rightarrow> if now < ca_expiresAt cached then Some (ca_models cached) else None | None \<Rightarrow> None) = None"
    using assms(1) by (simp split: option.split)
  with assms(2) f show ?thesis
    by (cases r) (auto simp add: discoverModels_def Let_def split: if_splits)
qed

lemma discoverModels_error:
  assumes "discoverModels sha256 hc now storage s w = (s', w', Inl err)"
  shows "s' = s"
proof (cases "case gm_get (sv_modelCache s) (cache_key sha256 storage) of
    Some cached \<Rightarrow> if now < ca_expiresAt cached then Some (ca_models cached) else None | None \<Rightarrow> None")
  case None
  obtain w1 r where f: "fetchAvailableModels hc now (as_AccessToken storage) (sv_config s) w = (w1, r)" by fastforce
  with None assms show ?thesis
    by (cases r) (auto simp: discoverModels_def Let_def split: if_splits)
qed (use assms in \<open>simp add: discoverModels_def Let_def\<close>)

section \<open>Properties\<close>

text \<open>
  The catalog has one model per id, whatever the case, and every one of them is a
  variant, not of the max mode, of a model that is visible and not declared unfit for
  agents; duplicates, hidden models and max variants the server reports never get in.
\<close>

theorem catalog_unique:
  "distinct (map (ToLower \<circ> cm_ID) (parameterizedModels response))
     \<and> list_all (usable response) (parameterizedModels response)"
proof -
  obtain seen where "catalog_ok response (parameterizedModels response, seen)"
    using parameterizedModels_ok by blast
  from catalog_ok_distinct [OF this] this show ?thesis by (simp add: catalog_ok_def)
qed


text \<open>
  While a catalog is cached the account's own rules are not looked at: within the time
  to live any request under the same account id gets the list as it was filtered for the
  first request, without a call to the server, even if the account's allow and deny rules
  were changed in between.
\<close>

theorem cached_rules_persist:
  assumes "discoverModels sha256 hc now storage s w = (s1, w1, Inr ms)"
    and "gm_get (sv_modelCache s) (cache_key sha256 storage) = None"
    and "cache_key sha256 storage' = cache_key sha256 storage"
    and "now' < now + ModelCacheTTL (sv_config s)"
  shows "discoverModels sha256 hc' now' storage' s1 w' = (s1, w', Inr ms)"
proof -
  have "gm_get (sv_modelCache s1) (cache_key sha256 storage) = Some \<lparr>ca_models = ms, ca_expiresAt = now + ModelCacheTTL (sv_config s)\<rparr>"
    using discoverModels_miss [OF _ assms(1)] assms(2) by auto
  then show ?thesis
    using assms(3,4) by (simp add: discoverModels_hit)
qed

section \<open>Witnesses\<close>

definition demo_item :: "string \<Rightarrow> CursorModel" where
  "demo_item i = \<lparr>cm_ID = i, cm_DisplayName = i, cm_Selection = \<lparr>rm_ModelId = i, rm_Parameters = []\<rparr>\<rparr>"

definition demo_catalog :: "CursorModel list" where
  "demo_catalog = map demo_item [''Auto'', ''gpt-high'', ''gpt-low-fast'', ''gpt-low'']"

lemma demo_catalog_plain: "plain_catalog demo_catalog"
  by code_simp

lemma demo_info: "\<exists>info \<in> set (modelInfos DefaultConfig 0 demo_catalog). mi_ID info = ''gpt''
    \<and> mi_Name info = ''gpt'' \<and> thinking_levels info = [''low'', ''high'']"
  by code_simp

text \<open>Two models that take the entry of a family out of use.\<close>

definition double_catalog :: "CursorModel list" where
  "double_catalog = map demo_item [''x-max'', ''x-max-high'']"

lemma double_catalog_facts:
  "plain_catalog double_catalog" "shadowed DefaultConfig double_catalog ''x-max''"
  "\<not> shadowed DefaultConfig demo_catalog ''gpt''"
  "TrimSpace ''x-max'' = ''x-max''" "TrimSpace ''gpt'' = ''gpt''"
  by code_simp+

lemma double_info: "\<exists>info \<in> set (modelInfos DefaultConfig 0 double_catalog). mi_ID info = ''x-max'' \<and> mi_Name info = ''x-max''"
  by code_simp


text \<open>The catalog of a server with one model, and one account before and after a deny rule.\<close>

definition demo_answer :: string where
  "demo_answer = concat (map (\<lambda>c. if c = CHR ''@'' then [dquote] else [c])
     ''{@useModelParameters@:true,@models@:[{@name@:@gpt@}]}'')"

definition demo_account :: "string list \<Rightarrow> AuthStorage" where
  "demo_account denied = zero_storage\<lparr>as_ID := ''a'', as_AccessToken := ''t'', as_DeniedModels := denied\<rparr>"

definition demo_service :: Service where
  "demo_service = \<lparr>sv_config = DefaultConfig, sv_logins = [], sv_modelCache = []\<rparr>"

lemma demo_decode:
  "map_option parameterizedModels (unmarshal_strict decode_models_response \<lparr>ar_Models = [], ar_UseModelParameters = False\<rparr> demo_answer)
     = Some [demo_item ''gpt'']"
  "map_option ar_UseModelParameters
     (unmarshal_strict decode_models_response \<lparr>ar_Models = [], ar_UseModelParameters = False\<rparr> demo_answer) = Some True"
  "length demo_answer \<le> 1000" "TrimSpace demo_answer \<noteq> []"
  by code_simp+

lemma demo_filter: "sort_key (\<lambda>m. ToLower (cm_ID m)) (filterModels [demo_item ''gpt''] (demo_account [])) = [demo_item ''gpt'']"
  by code_simp

lemma demo_fetch: "fetchAvailableModels (demo_http demo_answer) now token cfg () = ((), Inr [demo_item ''gpt''])"
proof -
  obtain r where r: "unmarshal_strict decode_models_response \<lparr>ar_Models = [], ar_UseModelParameters = False\<rparr> demo_answer = Some r"
    "parameterizedModels r = [demo_item ''gpt'']" "ar_UseModelParameters r"
    using demo_decode(1,2) by auto
  note j = doJSON_demo [of demo_answer "unmarshal_strict decode_models_response \<lparr>ar_Models = [], ar_UseModelParameters = False\<rparr>" r,
      OF demo_decode(3,4) r(1)]
  show ?thesis using r(2,3) by (simp add: fetchAvailableModels_def Let_def j)
qed

lemma demo_discover:
  "snd (discoverModels (\<lambda>_. []) (demo_http demo_answer) 0 (demo_account []) demo_service ()) = ((), Inr [demo_item ''gpt''])"
proof -
  have "length (filterModels [demo_item ''gpt''] (demo_account [])) \<noteq> 0"
    using demo_filter by (metis length_0_conv length_sort list.distinct(1))
  then show ?thesis
    by (simp add: discoverModels_def demo_fetch demo_filter demo_service_def Let_def)
qed

lemma demo_denied: "permitted (demo_account [''*'']) (demo_item ''gpt'') = False"
  by code_simp

theorem cached_rules_persist_witness:
  "\<exists>s1. snd (discoverModels (\<lambda>_. []) (demo_http []) 1 (demo_account [''*'']) s1 ()) = ((), Inr [demo_item ''gpt''])
     \<and> \<not> permitted (demo_account [''*'']) (demo_item ''gpt'')"
proof -
  obtain s1 where s1: "discoverModels (\<lambda>_. []) (demo_http demo_answer) 0 (demo_account []) demo_service ()
      = (s1, (), Inr [demo_item ''gpt''])"
    using demo_discover by (metis prod.collapse)
  have "discoverModels (\<lambda>_. []) (demo_http []) 1 (demo_account [''*'']) s1 () = (s1, (), Inr [demo_item ''gpt''])"
    by (rule cached_rules_persist [OF s1])
      (simp_all add: demo_service_def demo_account_def cache_key_def DefaultConfig_def ModelCacheTTL_def second_def)
  then show ?thesis using demo_denied by (intro exI [of _ s1]) simp
qed

end
