(* ===== verification/Retry.thy ===== *)
theory Retry
  imports Cursor_Errors Plugin_Config
begin

text \<open>
  executor.go: \<open>retryTransient\<close> and \<open>isTransientCursorError\<close>. The operation acts on a
  world \<open>'w\<close> that also holds the clock and the request context; \<open>ctx_err\<close> is
  \<open>ctx.Err()\<close>, and \<open>wait\<close> is the select between the context and a timer: it returns the
  context's error if that came first.
\<close>

section \<open>The code\<close>

definition isTransientCursorError :: "goerr option \<Rightarrow> goerr option \<Rightarrow> bool" where
  "isTransientCursorError ctx_error err =
     (case err of None \<Rightarrow> False
      | Some e \<Rightarrow>
        if ctx_error \<noteq> None \<or> errors_is e ErrCanceled \<or> errors_is e ErrDeadlineExceeded then False
        else (case as_status e of
                Some statusErr \<Rightarrow> se_Retryable statusErr \<and> isTransientHTTPStatus (se_HTTPStatus statusErr)
              | None \<Rightarrow> if errors_is e ErrEOF \<or> errors_is e ErrUnexpectedEOF then True else as_net e))"

text \<open>
  One turn of the loop is written as a function of the number of the attempt; the recursion
  ends because the number of attempts is limited by the configuration.
\<close>

function retry_from ::
  "('w \<Rightarrow> goerr option) \<Rightarrow> ('w \<Rightarrow> duration \<Rightarrow> 'w \<times> goerr option) \<Rightarrow> Config \<Rightarrow>
   ('w \<Rightarrow> 'w \<times> (goerr + 'a)) \<Rightarrow> int \<Rightarrow> 'w \<Rightarrow> 'w \<times> (goerr + 'a)" where
  "retry_from ctx_err wait cfg operation attempt w =
     (case operation w of
        (w1, Inr result) \<Rightarrow> (w1, Inr result)
      | (w1, Inl err) \<Rightarrow>
          if cfg_TransientRetryCount cfg \<le> attempt \<or> \<not> isTransientCursorError (ctx_err w1) (Some err)
          then (w1, Inl err)
          else (let delay = TransientRetryDelay cfg * 2 ^ nat attempt in
            if delay \<le> 0 then retry_from ctx_err wait cfg operation (attempt + 1) w1
            else (case wait w1 delay of
                    (w2, Some ctx_error) \<Rightarrow> (w2, Inl ctx_error)
                  | (w2, None) \<Rightarrow> retry_from ctx_err wait cfg operation (attempt + 1) w2)))"
  by pat_completeness auto
termination
  by (relation "measure (\<lambda>(c, wt, cfg, f, attempt, w). nat (cfg_TransientRetryCount cfg - attempt))") auto

declare retry_from.simps [simp del]

definition retryTransient ::
  "('w \<Rightarrow> goerr option) \<Rightarrow> ('w \<Rightarrow> duration \<Rightarrow> 'w \<times> goerr option) \<Rightarrow> Config \<Rightarrow>
   ('w \<Rightarrow> 'w \<times> (goerr + 'a)) \<Rightarrow> 'w \<Rightarrow> 'w \<times> (goerr + 'a)" where
  "retryTransient ctx_err wait cfg operation w = retry_from ctx_err wait cfg operation 0 w"

section \<open>Observing the loop\<close>

text \<open>
  To count the calls of the operation and the time spent waiting, the world is paired with
  the two counters.
\<close>

definition counted :: "('w \<Rightarrow> 'w \<times> (goerr + 'a)) \<Rightarrow> (nat \<times> duration \<times> 'w) \<Rightarrow> (nat \<times> duration \<times> 'w) \<times> (goerr + 'a)" where
  "counted f s = (case s of (n, t, w) \<Rightarrow> (case f w of (w', r) \<Rightarrow> ((Suc n, t, w'), r)))"

definition timed :: "('w \<Rightarrow> duration \<Rightarrow> 'w \<times> goerr option) \<Rightarrow> (nat \<times> duration \<times> 'w) \<Rightarrow> duration \<Rightarrow> (nat \<times> duration \<times> 'w) \<times> goerr option" where
  "timed wt s d = (case s of (n, t, w) \<Rightarrow> (case wt w d of (w', r) \<Rightarrow> ((n, t + d, w'), r)))"

definition world :: "nat \<times> duration \<times> 'w \<Rightarrow> 'w" where
  "world s = snd (snd s)"

definition observed ::
  "('w \<Rightarrow> goerr option) \<Rightarrow> ('w \<Rightarrow> duration \<Rightarrow> 'w \<times> goerr option) \<Rightarrow> Config \<Rightarrow>
   ('w \<Rightarrow> 'w \<times> (goerr + 'a)) \<Rightarrow> int \<Rightarrow> nat \<times> duration \<times> 'w \<Rightarrow> (nat \<times> duration \<times> 'w) \<times> (goerr + 'a)" where
  "observed ctx_err wait cfg f attempt s = retry_from (ctx_err \<circ> world) (timed wait) cfg (counted f) attempt s"

definition calls :: "(nat \<times> duration \<times> 'w) \<times> 'r \<Rightarrow> nat" where
  "calls r = fst (fst r)"

definition waited :: "(nat \<times> duration \<times> 'w) \<times> 'r \<Rightarrow> duration" where
  "waited r = fst (snd (fst r))"

lemma observed_step:
  "observed ctx_err wait cfg f attempt (n, t, w) =
     (case f w of
        (w1, Inr result) \<Rightarrow> ((Suc n, t, w1), Inr result)
      | (w1, Inl err) \<Rightarrow>
          if cfg_TransientRetryCount cfg \<le> attempt \<or> \<not> isTransientCursorError (ctx_err w1) (Some err)
          then ((Suc n, t, w1), Inl err)
          else (let delay = TransientRetryDelay cfg * 2 ^ nat attempt in
            if delay \<le> 0 then observed ctx_err wait cfg f (attempt + 1) (Suc n, t, w1)
            else (case wait w1 delay of
                    (w2, Some e) \<Rightarrow> ((Suc n, t + delay, w2), Inl e)
                  | (w2, None) \<Rightarrow> observed ctx_err wait cfg f (attempt + 1) (Suc n, t + delay, w2))))"
  by (simp add: observed_def retry_from.simps [of _ _ _ _ attempt] counted_def timed_def world_def Let_def
      split: prod.split sum.split option.split)

text \<open>Observation does not change the outcome.\<close>

lemma observed_outcome:
  "map_prod world id (observed ctx_err wait cfg f attempt s) = retry_from ctx_err wait cfg f attempt (world s)"
proof (induction "nat (cfg_TransientRetryCount cfg - attempt)" arbitrary: attempt s rule: less_induct)
  case less
  obtain n t w where s: "s = (n, t, w)" by (cases s) auto
  have w: "world (n, t, w) = w" for n t and w :: 'a by (simp add: world_def)
  have IH: "map_prod world id (observed ctx_err wait cfg f (attempt + 1) s') = retry_from ctx_err wait cfg f (attempt + 1) (world s')"
    if "\<not> cfg_TransientRetryCount cfg \<le> attempt" for s'
    using less [of "attempt + 1" s'] that by simp
  show ?case
    unfolding s observed_step [of ctx_err wait cfg f attempt] retry_from.simps [of ctx_err wait cfg f attempt] w
    by (auto simp: IH w Let_def split: prod.split sum.split option.split)
qed

lemma observed_calls:
  "0 \<le> attempt \<Longrightarrow> calls (observed ctx_err wait cfg f attempt (n, t, w)) \<le> n + Suc (nat (cfg_TransientRetryCount cfg - attempt))"
proof (induction "nat (cfg_TransientRetryCount cfg - attempt)" arbitrary: attempt n t w rule: less_induct)
  case less
  obtain B where B: "B = n + Suc (nat (cfg_TransientRetryCount cfg - attempt))" by simp
  have IH: "calls (observed ctx_err wait cfg f (attempt + 1) (Suc n, t', w')) \<le> B"
    if "\<not> cfg_TransientRetryCount cfg \<le> attempt" for t' w'
  proof -
    have "Suc n + Suc (nat (cfg_TransientRetryCount cfg - (attempt + 1))) = B"
      using that by (auto simp: B)
    then show ?thesis using less(1) [of "attempt + 1" "Suc n" t' w'] less(2) that by simp
  qed
  have one: "calls ((Suc n, t', w'), r) \<le> B" for t' and w' :: 'a and r :: "goerr + 'b"
    by (simp add: calls_def B)
  show ?case
    unfolding B [symmetric]
    by (auto simp: observed_step [of ctx_err wait cfg f attempt] IH one Let_def
        split: prod.split sum.split option.split)
qed

lemma observed_waited:
  assumes "0 \<le> cfg_TransientRetryDelayMS cfg"
  shows "0 \<le> attempt \<Longrightarrow>
    waited (observed ctx_err wait cfg f attempt (n, t, w)) - t
      \<le> TransientRetryDelay cfg * (2 ^ nat (max attempt (cfg_TransientRetryCount cfg)) - 2 ^ nat attempt)"
proof (induction "nat (cfg_TransientRetryCount cfg - attempt)" arbitrary: attempt n t w rule: less_induct)
  case less
  let ?D = "TransientRetryDelay cfg" and ?c = "cfg_TransientRetryCount cfg"
  have D: "0 \<le> ?D" using assms by (simp add: TransientRetryDelay_def millisecond_def)
  have mono: "2 ^ nat attempt \<le> (2::int) ^ nat (max attempt ?c)"
    by (rule power_increasing) auto
  have zero: "0 \<le> ?D * (2 ^ nat (max attempt ?c) - 2 ^ nat attempt)"
    using D mono by simp
  have IH: "waited (observed ctx_err wait cfg f (attempt + 1) (n', t', w')) - t'
      \<le> ?D * (2 ^ nat (max attempt ?c) - 2 * 2 ^ nat attempt)" if "\<not> ?c \<le> attempt" for n' t' w'
    using less(1) [of "attempt + 1" n' t' w'] less(2) that by (simp add: nat_add_distrib max_def)
  have step: "?D * 2 ^ nat attempt + ?D * (2 ^ nat (max attempt ?c) - 2 * 2 ^ nat attempt)
      = ?D * (2 ^ nat (max attempt ?c) - 2 ^ nat attempt)"
    by (simp add: algebra_simps)
  obtain B where B: "B = ?D * (2 ^ nat (max attempt ?c) - 2 ^ nat attempt)" by simp
  have one: "waited ((n', t, w'), r) - t \<le> B" for n' and w' :: 'a and r :: "goerr + 'b"
    using zero by (simp add: waited_def B)
  have cut: "waited ((n', t + ?D * 2 ^ nat attempt, w'), r) - t \<le> B"
    if "\<not> ?c \<le> attempt" for n' and w' :: 'a and r :: "goerr + 'b"
  proof -
    have "(2::int) ^ Suc (nat attempt) \<le> 2 ^ nat (max attempt ?c)"
      using that less(2) by (intro power_increasing) auto
    then have "0 \<le> ?D * (2 ^ nat (max attempt ?c) - 2 * 2 ^ nat attempt)" using D by simp
    then show ?thesis using step unfolding B by (simp add: waited_def)
  qed
  have rec: "waited (observed ctx_err wait cfg f (attempt + 1) (n', t + ?D * 2 ^ nat attempt, w')) - t \<le> B"
    if "\<not> ?c \<le> attempt" for n' w'
    using IH [OF that, of n' "t + ?D * 2 ^ nat attempt" w'] step unfolding B by linarith
  have rec0: "waited (observed ctx_err wait cfg f (attempt + 1) (n', t, w')) - t \<le> B"
    if "\<not> ?c \<le> attempt" for n' w'
  proof -
    have "0 \<le> ?D * 2 ^ nat attempt" using D by simp
    with IH [OF that, of n' t w'] step show ?thesis unfolding B by linarith
  qed
  show ?case
    unfolding B [symmetric]
    by (auto simp: observed_step [of ctx_err wait cfg f attempt] Let_def one cut rec rec0
        split: prod.split sum.split option.split)
qed

text \<open>The error at the bottom of a chain, and whether the HTTP client was passed on the way to it.\<close>

fun cause :: "goerr \<Rightarrow> goerr" where
  "cause (UrlErr p e) = cause e"
| "cause (WrapErr p e) = cause e"
| "cause e = e"

fun through_url :: "goerr \<Rightarrow> bool" where
  "through_url (UrlErr p e) = True"
| "through_url (WrapErr p e) = through_url e"
| "through_url e = False"

definition rejected :: "goerr option \<Rightarrow> goerr \<Rightarrow> bool" where
  "rejected ctx_error err \<longleftrightarrow>
     ctx_error \<noteq> None
     \<or> (case cause err of
          StatusErr s \<Rightarrow> \<not> (se_Retryable s \<and> se_HTTPStatus s \<in> {408, 500, 502, 503, 504})
        | ErrCanceled \<Rightarrow> True
        | ErrDeadlineExceeded \<Rightarrow> True
        | ErrEOF \<Rightarrow> False
        | ErrUnexpectedEOF \<Rightarrow> False
        | NetErr _ \<Rightarrow> False
        | _ \<Rightarrow> \<not> through_url err)"

lemma errors_is_cause:
  "errors_is e ErrCanceled \<longleftrightarrow> cause e = ErrCanceled"
  "errors_is e ErrDeadlineExceeded \<longleftrightarrow> cause e = ErrDeadlineExceeded"
  "errors_is e ErrEOF \<longleftrightarrow> cause e = ErrEOF"
  "errors_is e ErrUnexpectedEOF \<longleftrightarrow> cause e = ErrUnexpectedEOF"
  by (induction e) (auto simp: errors_is_def)

lemma as_status_cause: "as_status e = (case cause e of StatusErr s \<Rightarrow> Some s | _ \<Rightarrow> None)"
  by (induction e) (auto simp: as_status_def)

lemma as_net_cause: "as_net e \<longleftrightarrow> through_url e \<or> is_net_err (cause e)"
  by (induction e) (auto simp: as_net_def)

lemma cause_unwrapped: "cause e \<noteq> UrlErr p e'" "cause e \<noteq> WrapErr p e'"
  by (induction e) auto

lemma transient_iff: "isTransientCursorError ctx_error (Some err) \<longleftrightarrow> \<not> rejected ctx_error err"
  by (cases "cause err")
    (simp_all add: cause_unwrapped isTransientCursorError_def rejected_def errors_is_cause as_status_cause as_net_cause
      isTransientHTTPStatus_def)

lemma observed_calls_ge: "0 \<le> attempt \<Longrightarrow> Suc n \<le> calls (observed ctx_err wait cfg f attempt (n, t, w))"
proof (induction "nat (cfg_TransientRetryCount cfg - attempt)" arbitrary: attempt n t w rule: less_induct)
  case less
  have IH: "Suc n \<le> calls (observed ctx_err wait cfg f (attempt + 1) (Suc n, t', w'))"
    if "\<not> cfg_TransientRetryCount cfg \<le> attempt" for t' w'
    using less(1) [of "attempt + 1" "Suc n" t' w'] less(2) that by simp
  have one: "Suc n \<le> calls ((Suc n, t', w'), r)" for t' and w' :: 'a and r :: "goerr + 'b"
    by (simp add: calls_def)
  show ?case
    by (auto simp: observed_step [of ctx_err wait cfg f attempt] IH one Let_def
        split: prod.split sum.split option.split)
qed

lemma observed_again:
  assumes "f w = (w1, Inl err)" "isTransientCursorError (ctx_err w1) (Some err)" "\<forall>d. snd (wait w1 d) = None"
    "0 \<le> attempt" "attempt < cfg_TransientRetryCount cfg"
  shows "Suc (Suc n) \<le> calls (observed ctx_err wait cfg f attempt (n, t, w))"
proof -
  have "Suc (Suc n) \<le> calls (observed ctx_err wait cfg f (attempt + 1) (Suc n, t', w'))" for t' w'
    using assms(4) by (intro observed_calls_ge) simp
  moreover obtain w2 where "wait w1 (TransientRetryDelay cfg * 2 ^ nat attempt) = (w2, None)"
    using assms(3) by (metis prod.collapse)
  ultimately show ?thesis
    using assms by (simp add: observed_step [of ctx_err wait cfg f attempt n t w] Let_def)
qed

text \<open>A service that is always unavailable, and a wait that always elapses.\<close>

definition unavailable :: "unit \<Rightarrow> unit \<times> (goerr + nat)" where
  "unavailable w = (w, Inl (StatusErr \<lparr>se_Code = [], se_Message = [], se_HTTPStatus = 503,
                             se_Retryable = True, se_RetryAfter = 0\<rparr>))"

definition elapse :: "unit \<Rightarrow> duration \<Rightarrow> unit \<times> goerr option" where
  "elapse w d = (w, None)"

lemma default_config_ok: "config_ok DefaultConfig"
proof -
  have "TrimSpace ''https://api2.cursor.sh'' = ''https://api2.cursor.sh''"
    by (rule TrimSpace_ends) (simp_all add: ascii_space_def)
  then show ?thesis by (simp add: config_ok_def DefaultConfig_def display_names_ok_def)
qed

definition over_quota :: "unit \<Rightarrow> unit \<times> (goerr + nat)" where
  "over_quota w = (w, Inl (WrapErr ''run turn'' (StatusErr \<lparr>se_Code = ''resource_exhausted'',
     se_Message = [], se_HTTPStatus = 429, se_Retryable = True, se_RetryAfter = 0\<rparr>)))"

definition cancelled :: "unit \<Rightarrow> unit \<times> (goerr + nat)" where
  "cancelled w = (w, Inl (UrlErr ''Post'' ErrCanceled))"

section \<open>Properties\<close>

text \<open>
  C25. The operation is called at most once more than the configured number of retries, so
  with an accepted configuration at most four times.
\<close>

theorem retry_call_bound:
  assumes "config_ok cfg"
  shows "calls (observed ctx_err wait cfg f 0 (0, 0, w)) \<le> Suc (nat (cfg_TransientRetryCount cfg))
         \<and> calls (observed ctx_err wait cfg f 0 (0, 0, w)) \<le> 4
         \<and> snd (observed ctx_err wait cfg f 0 (0, 0, w)) = snd (retryTransient ctx_err wait cfg f w)"
proof -
  have "calls (observed ctx_err wait cfg f 0 (0, 0, w)) \<le> Suc (nat (cfg_TransientRetryCount cfg))"
    using observed_calls [of 0 ctx_err wait cfg f 0 0 w] by simp
  moreover have "nat (cfg_TransientRetryCount cfg) \<le> 3"
    using assms by (auto simp: config_ok_def)
  moreover have "snd (observed ctx_err wait cfg f 0 (0, 0, w)) = snd (retryTransient ctx_err wait cfg f w)"
    using arg_cong [where f = snd, OF observed_outcome [of ctx_err wait cfg f 0 "(0, 0, w)"]]
    by (simp add: retryTransient_def world_def)
  ultimately show ?thesis by linarith
qed


theorem retry_call_bound_witness:
  "calls (observed (\<lambda>w. None) elapse DefaultConfig unavailable 0 (0, 0, ())) \<le> 4"
  using retry_call_bound [OF default_config_ok, of "\<lambda>w. None" elapse unavailable "()"] by simp

text \<open>
  Waiting is bounded: the delays double from the configured one, so together they stay
  below the configured delay times \<open>2^retries - 1\<close>, at most 35 seconds for any accepted
  configuration.
\<close>

theorem retry_wait_bound:
  assumes "config_ok cfg"
  shows "waited (observed ctx_err wait cfg f 0 (0, 0, w))
           \<le> TransientRetryDelay cfg * (2 ^ nat (cfg_TransientRetryCount cfg) - 1)
         \<and> waited (observed ctx_err wait cfg f 0 (0, 0, w)) \<le> 35 * second"
proof -
  let ?k = "nat (cfg_TransientRetryCount cfg)"
  have k: "max 0 (cfg_TransientRetryCount cfg) = cfg_TransientRetryCount cfg" "?k \<le> 3"
    using assms by (auto simp: config_ok_def)
  have bound: "waited (observed ctx_err wait cfg f 0 (0, 0, w)) \<le> TransientRetryDelay cfg * (2 ^ ?k - 1)"
    using observed_waited [of cfg 0 ctx_err wait f 0 0 w] assms k by (simp add: config_ok_def)
  have "(2::int) ^ ?k - 1 \<le> 7" using power_increasing [of ?k 3 "2::int"] k by simp
  moreover have "0 \<le> TransientRetryDelay cfg" "TransientRetryDelay cfg \<le> 5 * second"
    using assms by (auto simp: config_ok_def TransientRetryDelay_def second_def millisecond_def)
  ultimately have "TransientRetryDelay cfg * (2 ^ ?k - 1) \<le> (5 * second) * 7"
    by (intro mult_mono) auto
  with bound show ?thesis by linarith
qed

theorem retry_wait_bound_witness:
  "waited (observed (\<lambda>w. None) elapse DefaultConfig unavailable 0 (0, 0, ())) \<le> 35 * second"
  using retry_wait_bound [OF default_config_ok, of "\<lambda>w. None" elapse unavailable "()"] by simp

text \<open>
  C26. Which failures reach the host after a single call, so that it can fail over, and which are
  tried again, is decided by what lies at the bottom of the error. Nothing is retried once the
  request is cancelled or the error is a cancellation or a deadline; an error with a status is
  retried only if it is marked retryable and the status is 408, 500, 502, 503 or 504, so
  quota, authentication, permission and model errors never are; of the others only a connection
  that broke off and network errors are retried. Every other failure is returned as it is after one
  call and without waiting; a failure that is not of this kind is followed by another call, if
  the configuration allows a retry and the wait is not cut short.
\<close>

theorem no_retry_of_rejections:
  assumes "f w = (w1, Inl err)"
  shows "(rejected (ctx_err w1) err \<longrightarrow> observed ctx_err wait cfg f 0 (0, 0, w) = ((1, 0, w1), Inl err))
    \<and> (\<not> rejected (ctx_err w1) err \<and> 0 < cfg_TransientRetryCount cfg \<and> (\<forall>d. snd (wait w1 d) = None)
        \<longrightarrow> 2 \<le> calls (observed ctx_err wait cfg f 0 (0, 0, w)))"
  using assms observed_again [of f w w1 err ctx_err wait 0 cfg 0 0]
  by (auto simp: transient_iff observed_step [of ctx_err wait cfg f 0 0 0 w])

theorem no_retry_of_rejections_witness:
  "fst (observed (\<lambda>w. None) elapse DefaultConfig over_quota 0 (0, 0, ())) = (1, 0, ())
   \<and> fst (observed (\<lambda>w. None) elapse DefaultConfig cancelled 0 (0, 0, ())) = (1, 0, ())
   \<and> 2 \<le> calls (observed (\<lambda>w. None) elapse DefaultConfig unavailable 0 (0, 0, ()))"
  using no_retry_of_rejections [of over_quota "()" "()" _ "\<lambda>w. None" elapse DefaultConfig]
    no_retry_of_rejections [of cancelled "()" "()" _ "\<lambda>w. None" elapse DefaultConfig]
    no_retry_of_rejections [of unavailable "()" "()" _ "\<lambda>w. None" elapse DefaultConfig]
  by (simp add: over_quota_def cancelled_def unavailable_def rejected_def elapse_def DefaultConfig_def)

end
