(* ===== verification/Service_System.thy ===== *)
theory Service_System
  imports Login Models_Correct Retry
begin

text \<open>
  The operations of the service together. The host calls them concurrently; each holds a lock
  only while it reads or writes one of the shared fields. So a poll of a login is two steps with the
  exchange with the server between them, a request for the catalog three (the cache, the configuration, the
  cache again), and a new configuration and a shutdown are two, of which the second clears the cache. The
  steps are a relation; what the server answers is not restricted.
\<close>

section \<open>Operations in two halves\<close>

text \<open>\<open>discoverModels\<close>: the cache is read, the catalog fetched and filtered, the cache written.\<close>

definition cache_lookup :: "(string \<Rightarrow> string) \<Rightarrow> time \<Rightarrow> AuthStorage \<Rightarrow> Service \<Rightarrow> CursorModel list option" where
  "cache_lookup sha256 now storage s =
     (case gm_get (sv_modelCache s) (cache_key sha256 storage) of
        Some cached \<Rightarrow> if now < ca_expiresAt cached then Some (ca_models cached) else None
      | None \<Rightarrow> None)"

definition store_models :: "(string \<Rightarrow> string) \<Rightarrow> time \<Rightarrow> AuthStorage \<Rightarrow> CursorModel list \<Rightarrow> Service \<Rightarrow>
    Service \<times> (goerr + CursorModel list)" where
  "store_models sha256 now storage fetched s =
     (let models = filterModels fetched storage in
      if length models = 0 then (s, Inl models_empty_error)
      else let models = sort_key (\<lambda>m. ToLower (cm_ID m)) models in
        (s\<lparr>sv_modelCache := gm_set (cache_key sha256 storage)
             \<lparr>ca_models = models, ca_expiresAt = now + ModelCacheTTL (sv_config s)\<rparr> (sv_modelCache s)\<rparr>, Inr models))"

lemma discoverModels_halves:
  "discoverModels sha256 hc now storage s w =
     (case cache_lookup sha256 now storage s of
        Some models \<Rightarrow> (s, w, Inr models)
      | None \<Rightarrow>
          (case fetchAvailableModels hc now (as_AccessToken storage) (sv_config s) w of
             (w', Inl err) \<Rightarrow> (s, w', Inl (WrapErr ''discover Cursor models'' err))
           | (w', Inr fetched) \<Rightarrow> (case store_models sha256 now storage fetched s of (s', r) \<Rightarrow> (s', w', r))))"
  unfolding discoverModels_def cache_lookup_def store_models_def Let_def
  by (cases "fetchAvailableModels hc now (as_AccessToken storage) (sv_config s) w")
    (auto split: option.split sum.split)

text \<open>\<open>Configure\<close> and \<open>Shutdown\<close>: a field is set, then the cache is cleared under its own lock.\<close>

definition clear_cache :: "Service \<Rightarrow> Service" where
  "clear_cache s = s\<lparr>sv_modelCache := []\<rparr>"

lemma Configure_halves:
  "Configure yaml raw s =
     (case ParseConfig yaml raw of Inl err \<Rightarrow> (s, Some err) | Inr cfg \<Rightarrow> (clear_cache (s\<lparr>sv_config := cfg\<rparr>), None))"
  by (simp add: Configure_def clear_cache_def split: sum.split)

lemma Shutdown_halves: "Shutdown s = clear_cache (s\<lparr>sv_logins := []\<rparr>)"
  by (simp add: Shutdown_def clear_cache_def)

section \<open>The steps\<close>

text \<open>
  Requests in flight: a catalog being fetched (for an account, under a configuration once it was
  read, since a time), a poll waiting for its answer, and the clearings of the cache still to come.
  \<open>sy_source\<close> is a ghost: the configuration the cached catalog of a key was fetched with.
\<close>

record system =
  sy_service :: Service
  sy_fetches :: "(AuthStorage \<times> Config option \<times> time) list"
  sy_polls :: "(string \<times> loginSession) list"
  sy_clears :: nat
  sy_source :: "(string, Config) gomap"

definition initial :: system where
  "initial = \<lparr>sy_service = New, sy_fetches = [], sy_polls = [], sy_clears = 0, sy_source = []\<rparr>"

text \<open>\<open>accounts\<close> are the accounts the host uses; \<open>yaml\<close> and \<open>sha256\<close> are the environment.\<close>

inductive service_step ::
  "(string \<Rightarrow> string) \<Rightarrow> (string \<Rightarrow> Config \<Rightarrow> goerr + Config) \<Rightarrow> (AuthStorage \<Rightarrow> bool) \<Rightarrow> system \<Rightarrow> system \<Rightarrow> bool"
  for sha256 yaml accounts where
  configure: "ParseConfig yaml raw = Inr cfg \<Longrightarrow>
     service_step sha256 yaml accounts y
       (y\<lparr>sy_service := (sy_service y)\<lparr>sv_config := cfg\<rparr>, sy_clears := Suc (sy_clears y)\<rparr>)"
| shutdown: "service_step sha256 yaml accounts y
     (y\<lparr>sy_service := (sy_service y)\<lparr>sv_logins := []\<rparr>, sy_clears := Suc (sy_clears y)\<rparr>)"
| clear: "sy_clears y = Suc n \<Longrightarrow>
     service_step sha256 yaml accounts y (y\<lparr>sy_service := clear_cache (sy_service y), sy_clears := n\<rparr>)"
| start_login: "service_step sha256 yaml accounts y
     (y\<lparr>sy_service := fst (StartLogin sha256 rnd1 rnd2 now metadata (sy_service y))\<rparr>)"
| poll_begin: "gm_get (sv_logins (sy_service y)) state = Some session \<Longrightarrow> now < lo_ExpiresAt session \<Longrightarrow>
     service_step sha256 yaml accounts y (y\<lparr>sy_polls := (state, session) # sy_polls y\<rparr>)"
| poll_expired: "gm_get (sv_logins (sy_service y)) state = Some session \<Longrightarrow> \<not> now < lo_ExpiresAt session \<Longrightarrow>
     service_step sha256 yaml accounts y
       (y\<lparr>sy_service := (sy_service y)\<lparr>sv_logins := gm_del state (sv_logins (sy_service y))\<rparr>\<rparr>)"
| poll_end: "sy_polls y = ps @ (state, session) # qs \<Longrightarrow>
     service_step sha256 yaml accounts y
       (y\<lparr>sy_polls := ps @ qs, sy_service := fst (poll_answer sha256 now state session answer (sy_service y))\<rparr>)"
| cache_miss: "accounts storage \<Longrightarrow> cache_lookup sha256 now storage (sy_service y) = None \<Longrightarrow>
     service_step sha256 yaml accounts y (y\<lparr>sy_fetches := (storage, None, now) # sy_fetches y\<rparr>)"
| fetch_begin: "sy_fetches y = fs @ (storage, None, now) # gs \<Longrightarrow>
     service_step sha256 yaml accounts y
       (y\<lparr>sy_fetches := fs @ (storage, Some (sv_config (sy_service y)), now) # gs\<rparr>)"
| fetch_end: "sy_fetches y = fs @ (storage, Some cfg, now) # gs \<Longrightarrow>
     store_models sha256 now storage (parameterizedModels response) (sy_service y) = (s', r) \<Longrightarrow>
     service_step sha256 yaml accounts y
       (y\<lparr>sy_fetches := fs @ gs, sy_service := s',
          sy_source := (case r of Inr _ \<Rightarrow> gm_set (cache_key sha256 storage) cfg (sy_source y) | Inl _ \<Rightarrow> sy_source y)\<rparr>)"
| fetch_failed: "sy_fetches y = fs @ f # gs \<Longrightarrow> service_step sha256 yaml accounts y (y\<lparr>sy_fetches := fs @ gs\<rparr>)"

definition reaches ::
  "(string \<Rightarrow> string) \<Rightarrow> (string \<Rightarrow> Config \<Rightarrow> goerr + Config) \<Rightarrow> (AuthStorage \<Rightarrow> bool) \<Rightarrow> system \<Rightarrow> bool" where
  "reaches sha256 yaml accounts y \<longleftrightarrow> (service_step sha256 yaml accounts)\<^sup>*\<^sup>* initial y"

section \<open>The invariant\<close>

text \<open>
  A cached catalog is not empty, has one model per id, and was filtered by the rules of an
  account with its key; a login in progress has a verifier that was drawn for it.
\<close>

definition cached_ok :: "(string \<Rightarrow> string) \<Rightarrow> (AuthStorage \<Rightarrow> bool) \<Rightarrow> string \<Rightarrow> CursorModel list \<Rightarrow> bool" where
  "cached_ok sha256 accounts key models \<longleftrightarrow>
     models \<noteq> [] \<and> distinct (map (ToLower \<circ> cm_ID) models)
     \<and> (\<exists>storage. accounts storage \<and> cache_key sha256 storage = key \<and> list_all (permitted storage) models)"

definition login_ok :: "loginSession \<Rightarrow> bool" where
  "login_ok session \<longleftrightarrow>
     TrimSpace (lo_Label session) = lo_Label session \<and> TrimSpace (lo_Prefix session) = lo_Prefix session
     \<and> list_all url_safe (lo_Verifier session)"

definition service_ok :: "(string \<Rightarrow> string) \<Rightarrow> (AuthStorage \<Rightarrow> bool) \<Rightarrow> Service \<Rightarrow> bool" where
  "service_ok sha256 accounts s \<longleftrightarrow>
     config_ok (sv_config s)
     \<and> (\<forall>key c. gm_get (sv_modelCache s) key = Some c \<longrightarrow> cached_ok sha256 accounts key (ca_models c))
     \<and> (\<forall>state session. gm_get (sv_logins s) state = Some session \<longrightarrow> login_ok session)"

definition system_ok :: "(string \<Rightarrow> string) \<Rightarrow> (AuthStorage \<Rightarrow> bool) \<Rightarrow> system \<Rightarrow> bool" where
  "system_ok sha256 accounts y \<longleftrightarrow>
     service_ok sha256 accounts (sy_service y)
     \<and> list_all (\<lambda>(storage, cfg, now). accounts storage \<and> pred_option config_ok cfg) (sy_fetches y)
     \<and> list_all (\<lambda>(state, session). login_ok session) (sy_polls y)"

lemma service_ok_New: "service_ok sha256 accounts New"
  by (simp add: service_ok_def New_def default_config_ok)

lemma service_ok_config: "service_ok sha256 accounts s \<Longrightarrow> config_ok cfg \<Longrightarrow> service_ok sha256 accounts (s\<lparr>sv_config := cfg\<rparr>)"
  by (simp add: service_ok_def)

lemma service_ok_clear: "service_ok sha256 accounts s \<Longrightarrow> service_ok sha256 accounts (clear_cache s)"
  by (simp add: service_ok_def clear_cache_def)

lemma service_ok_no_logins: "service_ok sha256 accounts s \<Longrightarrow> service_ok sha256 accounts (s\<lparr>sv_logins := []\<rparr>)"
  by (simp add: service_ok_def)

lemma service_ok_StartLogin:
  assumes "service_ok sha256 accounts s"
  shows "service_ok sha256 accounts (fst (StartLogin sha256 rnd1 rnd2 now metadata s))"
proof -
  have "login_ok \<lparr>lo_Verifier = RawURLEncode r, lo_ExpiresAt = t, lo_Label = metadataString metadata ''label'',
      lo_Prefix = metadataString metadata ''prefix'', lo_Priority = p\<rparr>" for r t p
    by (simp add: login_ok_def metadataString_def RawURLEncode_safe)
  then show ?thesis
    using assms by (auto simp: service_ok_def StartLogin_def randomBase64URL_def Let_def split: sum.split)
qed

lemma service_ok_logins:
  assumes "service_ok sha256 accounts s" "sv_config s' = sv_config s" "sv_modelCache s' = sv_modelCache s"
    and "sv_logins s' = sv_logins s \<or> sv_logins s' = gm_del state (sv_logins s)"
  shows "service_ok sha256 accounts s'"
  using assms by (auto simp: service_ok_def split: if_splits)

lemma service_ok_poll_answer:
  assumes "service_ok sha256 accounts s"
  shows "service_ok sha256 accounts (fst (poll_answer sha256 now state session answer s))"
  using poll_answer_frame [of sha256 now state session answer s, OF prod.collapse [symmetric]]
  by (intro service_ok_logins [OF assms]) auto

lemma distinct_sort_filter:
  assumes "distinct (map f ms)"
  shows "distinct (map f (sort_key g (filter P ms)))"
proof -
  have "distinct (map f (filter P ms))" using assms by (rule distinct_map_filter)
  then show ?thesis by (simp add: distinct_map)
qed

lemma store_models_ok:
  assumes "service_ok sha256 accounts s" "accounts storage"
    and "store_models sha256 now storage (parameterizedModels response) s = (s', r)"
  shows "service_ok sha256 accounts s'"
proof -
  define ms where "ms = sort_key (\<lambda>m. ToLower (cm_ID m)) (filterModels (parameterizedModels response) storage)"
  have "cached_ok sha256 accounts (cache_key sha256 storage) ms" if "filterModels (parameterizedModels response) storage \<noteq> []"
  proof -
    obtain seen where "catalog_ok response (parameterizedModels response, seen)"
      using parameterizedModels_ok by blast
    then have "distinct (map (ToLower \<circ> cm_ID) ms)"
      using catalog_ok_distinct by (fastforce simp: ms_def filterModels_def intro: distinct_sort_filter)
    moreover have "list_all (permitted storage) ms"
      by (simp add: ms_def list_all_iff filterModels_def)
    ultimately show ?thesis
      using that assms(2) by (auto simp: cached_ok_def ms_def)
  qed
  then show ?thesis
    using assms(1,3) by (auto simp: store_models_def Let_def service_ok_def ms_def [symmetric] split: if_splits)
qed

lemma system_ok_step:
  assumes "service_step sha256 yaml accounts y y'" "system_ok sha256 accounts y"
  shows "system_ok sha256 accounts y'"
  using assms
proof (induction rule: service_step.induct)
  case (configure raw cfg y)
  then show ?case using ParseConfig_in_bounds [OF configure(1)] by (simp add: system_ok_def service_ok_config)
next
  case (poll_begin y state session now)
  then show ?case by (auto simp: system_ok_def service_ok_def)
next
  case (poll_expired y state session now)
  then show ?case
    using service_ok_logins [of sha256 accounts "sy_service y" "(sy_service y)\<lparr>sv_logins := gm_del state (sv_logins (sy_service y))\<rparr>" state]
    by (simp add: system_ok_def)
next
  case (fetch_begin y fs storage now gs)
  then show ?case by (simp add: system_ok_def service_ok_def)
next
  case (fetch_end y fs storage cfg now gs response s' r)
  then show ?case using store_models_ok [of sha256 accounts "sy_service y" storage] by (simp add: system_ok_def)
qed (auto simp: system_ok_def service_ok_clear service_ok_no_logins service_ok_StartLogin service_ok_poll_answer)

lemma system_ok_initial: "system_ok sha256 accounts initial"
  by (simp add: system_ok_def initial_def service_ok_New)

interpretation service: invariant_machine "service_step sha256 yaml accounts" initial "system_ok sha256 accounts"
  for sha256 yaml accounts
  by unfold_locales (rule system_ok_initial, rule system_ok_step)

lemma reaches_ok: "reaches sha256 yaml accounts y \<Longrightarrow> system_ok sha256 accounts y"
  unfolding reaches_def by (rule service.inv_reached)

text \<open>The rules a catalog was filtered with: those of the account itself, or of the account that filled the cache.\<close>

lemma discovered_permitted:
  assumes "service_ok sha256 accounts s" "discoverModels sha256 hc now storage s w = (s', w', Inr ms)"
  shows "case cache_lookup sha256 now storage s of
      None \<Rightarrow> list_all (permitted storage) ms
    | Some cached \<Rightarrow> ms = cached
        \<and> (\<exists>other. accounts other \<and> cache_key sha256 other = cache_key sha256 storage \<and> list_all (permitted other) ms)"
proof (cases "cache_lookup sha256 now storage s")
  case (Some cached)
  then obtain c where c: "gm_get (sv_modelCache s) (cache_key sha256 storage) = Some c" "ms = ca_models c" "cached = ms"
    using assms(2) by (auto simp: discoverModels_halves cache_lookup_def split: option.splits if_splits)
  then have "\<exists>other. accounts other \<and> cache_key sha256 other = cache_key sha256 storage \<and> list_all (permitted other) ms"
    using assms(1) unfolding service_ok_def cached_ok_def by blast
  with Some c(3) show ?thesis by simp
next
  case None
  obtain w1 f where f: "fetchAvailableModels hc now (as_AccessToken storage) (sv_config s) w = (w1, f)" by fastforce
  with None assms(2) show ?thesis
    by (cases f) (auto simp: discoverModels_halves store_models_def Let_def list_all_iff filterModels_def split: if_splits)
qed

section \<open>Properties\<close>

text \<open>
  C20. However the host interleaves the calls of the service, and whatever Cursor answers:
  the configuration in use is within its bounds; every cached catalog is non-empty, lists each
  id once and holds only models the rules of an account with its key admit; every login in
  progress has clean metadata and a verifier that needs no escaping.
\<close>

theorem service_invariant:
  assumes "reaches sha256 yaml accounts y"
  shows "service_ok sha256 accounts (sy_service y)"
  using reaches_ok [OF assms] by (simp add: system_ok_def)

text \<open>
  C19. A request reaches only models that the rules admit under which the account's catalog was made, in any
  state the service can get into. The model it resolves to is one of the catalog the call
  has found, and has the requested name or belongs to the requested family. If the
  catalog is fetched for the call, the account's own rules admit all of it; if it is cached, the rules
  of an account with the same key do, as they were when it was fetched: they need not be the
  rules the account has now. If all accounts with that key have the same rules as this one, its own rules hold
  in both cases.
\<close>

theorem resolved_model_permitted:
  assumes "reaches sha256 yaml accounts y"
    and "resolveModel sha256 hc now storage requested effort (sy_service y) w = (s', w', Inr sel)"
  shows "\<exists>ms m. discoverModels sha256 hc now storage (sy_service y) w = (s', w', Inr ms)
    \<and> m \<in> set ms \<and> cm_Selection m = sel
    \<and> (EqualFold (cm_ID m) (TrimPrefix (TrimSpace requested) (cfg_ModelPrefix (sv_config s')))
       \<or> (\<exists>e. splitEffort (cm_ID m) = Some (TrimPrefix (TrimSpace requested) (cfg_ModelPrefix (sv_config s')), e)))
    \<and> (case cache_lookup sha256 now storage (sy_service y) of
         None \<Rightarrow> list_all (permitted storage) ms
       | Some cached \<Rightarrow> ms = cached
           \<and> (\<exists>other. accounts other \<and> cache_key sha256 other = cache_key sha256 storage \<and> list_all (permitted other) ms))
    \<and> ((\<forall>other. accounts other \<and> cache_key sha256 other = cache_key sha256 storage \<longrightarrow>
          as_AllowedModels other = as_AllowedModels storage \<and> as_DeniedModels other = as_DeniedModels storage)
        \<longrightarrow> list_all (permitted storage) ms)"
proof -
  obtain ms where d: "discoverModels sha256 hc now storage (sy_service y) w = (s', w', Inr ms)"
    and c: "choose_model (sv_config s') ms requested effort = Inr sel"
    using assms(2) by (auto simp: resolveModel_def split: prod.splits sum.splits)
  have "service_ok sha256 accounts (sy_service y)"
    using reaches_ok [OF assms(1)] by (simp add: system_ok_def)
  note p = discovered_permitted [OF this d]
  have "list_all (permitted storage) ms"
    if "\<forall>other. accounts other \<and> cache_key sha256 other = cache_key sha256 storage \<longrightarrow>
          as_AllowedModels other = as_AllowedModels storage \<and> as_DeniedModels other = as_DeniedModels storage"
  proof (cases "cache_lookup sha256 now storage (sy_service y)")
    case (Some cached)
    then obtain other where o: "accounts other" "cache_key sha256 other = cache_key sha256 storage" "list_all (permitted other) ms"
      using p by auto
    then have "permitted other = permitted storage" using that by (simp add: fun_eq_iff permitted_def)
    with o(3) show ?thesis by simp
  qed (use p in simp)
  then show ?thesis using d p choose_model_named [OF c] by blast
qed

text \<open>
  Reconfiguring empties the cache so that catalogs of the old server are not used; but a
  catalog that is being fetched at that moment is stored afterwards: the service then serves
  models of the old configuration for the whole time to live of the new one.
\<close>

theorem reconfigure_race:
  assumes "accounts storage" "ParseConfig yaml raw = Inr cfg"
    and "filterModels (parameterizedModels response) storage \<noteq> []"
  shows "\<exists>y c. reaches sha256 yaml accounts y \<and> sv_config (sy_service y) = cfg
    \<and> gm_get (sv_modelCache (sy_service y)) (cache_key sha256 storage) = Some c
    \<and> gm_get (sy_source y) (cache_key sha256 storage) = Some DefaultConfig
    \<and> ca_expiresAt c = now + ModelCacheTTL cfg"
proof -
  let ?step = "service_step sha256 yaml accounts"
  define y1 where "y1 = initial\<lparr>sy_fetches := [(storage, None, now)]\<rparr>"
  define y2 where "y2 = y1\<lparr>sy_fetches := [] @ [(storage, Some (sv_config (sy_service y1)), now)]\<rparr>"
  define y3 where "y3 = y2\<lparr>sy_service := (sy_service y2)\<lparr>sv_config := cfg\<rparr>, sy_clears := Suc (sy_clears y2)\<rparr>"
  define y4 where "y4 = y3\<lparr>sy_service := clear_cache (sy_service y3), sy_clears := 0\<rparr>"
  obtain s5 ms where s5: "store_models sha256 now storage (parameterizedModels response) (sy_service y4) = (s5, Inr ms)"
    using assms(3) by (simp add: store_models_def Let_def)
  define y5 where "y5 = y4\<lparr>sy_fetches := [] @ [], sy_service := s5,
      sy_source := (case Inr ms :: goerr + CursorModel list of
        Inr _ \<Rightarrow> gm_set (cache_key sha256 storage) DefaultConfig (sy_source y4) | Inl _ \<Rightarrow> sy_source y4)\<rparr>"
  have "?step initial y1"
    using cache_miss [of accounts storage sha256 now initial yaml, OF assms(1)] by (simp add: y1_def initial_def New_def cache_lookup_def)
  moreover have "?step y1 y2" unfolding y2_def by (rule fetch_begin) (simp add: y1_def)
  moreover have "?step y2 y3" unfolding y3_def by (rule configure [OF assms(2)])
  moreover have "?step y3 y4" unfolding y4_def by (rule clear) (simp add: y3_def y2_def y1_def initial_def)
  moreover have "?step y4 y5"
    unfolding y5_def by (rule fetch_end [OF _ s5]) (simp add: y4_def y3_def y2_def y1_def initial_def New_def)
  ultimately have "reaches sha256 yaml accounts y5" unfolding reaches_def by (meson rtranclp.intros)
  moreover have "sy_service y4 = New\<lparr>sv_config := cfg, sv_modelCache := []\<rparr>"
    by (simp add: y4_def y3_def y2_def y1_def initial_def clear_cache_def)
  ultimately show ?thesis
    using s5 assms(3) by (intro exI [of _ y5]) (auto simp: y5_def store_models_def Let_def)
qed

section \<open>Witnesses\<close>

theorem service_invariant_witness: "service_ok (\<lambda>_. []) (\<lambda>_. True) (sy_service initial)"
  by (rule service_invariant [where yaml = "\<lambda>_ c. Inr c"]) (simp add: reaches_def)

lemma demo_choice: "choose_model DefaultConfig [demo_item ''gpt''] ''gpt'' [] = Inr \<lparr>rm_ModelId = ''gpt'', rm_Parameters = []\<rparr>"
  by code_simp

theorem resolved_model_permitted_witness:
  "\<exists>ms m. m \<in> set ms \<and> cm_Selection m = \<lparr>rm_ModelId = ''gpt'', rm_Parameters = []\<rparr> \<and> list_all (permitted (demo_account [])) ms"
proof -
  obtain s1 where s1: "discoverModels (\<lambda>_. []) (demo_http demo_answer) 0 (demo_account []) demo_service ()
      = (s1, (), Inr [demo_item ''gpt''])"
    using demo_discover by (metis prod.collapse)
  have "sv_config s1 = DefaultConfig"
    using s1 demo_filter by (auto simp: discoverModels_def demo_fetch demo_service_def Let_def split: if_splits)
  then have r: "resolveModel (\<lambda>_. []) (demo_http demo_answer) 0 (demo_account []) ''gpt'' [] (sy_service initial) ()
      = (s1, (), Inr \<lparr>rm_ModelId = ''gpt'', rm_Parameters = []\<rparr>)"
    using s1 demo_choice by (simp add: resolveModel_def initial_def New_def demo_service_def)
  have "cache_lookup (\<lambda>_. []) 0 (demo_account []) (sy_service initial) = None"
    by (simp add: cache_lookup_def initial_def New_def)
  moreover have "reaches (\<lambda>_. []) (\<lambda>_ c. Inr c) (\<lambda>a. a = demo_account []) initial" by (simp add: reaches_def)
  from resolved_model_permitted [OF this r] obtain ms m where "m \<in> set ms"
    "cm_Selection m = \<lparr>rm_ModelId = ''gpt'', rm_Parameters = []\<rparr>"
    "case cache_lookup (\<lambda>_. []) 0 (demo_account []) (sy_service initial) of
       None \<Rightarrow> list_all (permitted (demo_account [])) ms
     | Some cached \<Rightarrow> ms = cached \<and> (\<exists>other. other = demo_account [] \<and> cache_key (\<lambda>_. []) other = cache_key (\<lambda>_. []) (demo_account [])
         \<and> list_all (permitted other) ms)"
    by blast
  ultimately show ?thesis by auto
qed

text \<open>A reconfiguration to another server.\<close>

definition other_config :: Config where
  "other_config = DefaultConfig\<lparr>cfg_CursorBaseURL := ''https://b''\<rparr>"

lemma other_config_parsed: "ParseConfig (\<lambda>_ _. Inr other_config) ''x'' = Inr other_config"
proof -
  have trims: "TrimSpace ''cursor'' = ''cursor''" "TrimSpace ''normalized'' = ''normalized''"
    "TrimSpace ''https://b'' = ''https://b''"
    by (rule TrimSpace_ends; simp add: ascii_space_def)+
  have low: "ToLower ''normalized'' = ''normalized''"
    by (rule ToLower_const) (simp_all add: is_ascii_def is_upper_def)
  show ?thesis
    by (simp add: ParseConfig_def validateConfig_def config_field_defs other_config_def DefaultConfig_def
      ProviderID_def trims low)
qed

definition demo_response :: availableModelsResponse where
  "demo_response = \<lparr>ar_Models = [\<lparr>am_Name = ''gpt'', am_ClientDisplayName = [], am_SupportsAgent = None,
     am_IsHidden = False, am_Variants = []\<rparr>], ar_UseModelParameters = True\<rparr>"

lemma demo_response_models: "filterModels (parameterizedModels demo_response) (demo_account []) \<noteq> []"
  by code_simp

theorem reconfigure_race_witness:
  "\<exists>y. reaches (\<lambda>_. []) (\<lambda>_ _. Inr other_config) (\<lambda>_. True) y \<and> sv_config (sy_service y) = other_config
    \<and> gm_get (sy_source y) (cache_key (\<lambda>_. []) (demo_account [])) = Some DefaultConfig \<and> other_config \<noteq> DefaultConfig"
proof -
  have "other_config \<noteq> DefaultConfig" by (simp add: other_config_def DefaultConfig_def)
  then show ?thesis
    using reconfigure_race [of "\<lambda>_. True", OF _ other_config_parsed demo_response_models] by blast
qed

end
