(* ===== verification/Translate.thy ===== *)
theory Translate
  imports Tools Tool_Call_Id Go_Json Plugin_Config
begin

text \<open>
  translate.go: an OpenAI Chat, OpenAI Responses or Anthropic request becomes the input of a
  Cursor turn: the conversation as history records, the text of the user's turn and the
  tools.
\<close>

section \<open>Texts\<close>

definition normalizeFormat :: "string \<Rightarrow> string" where
  "normalizeFormat value =
     (let v = ToLower (TrimSpace value) in
      if v \<in> {''openai'', ''openai-chat'', ''chat'', ''chat-completions''} then ''openai-chat''
      else if v \<in> {''responses'', ''openai-response'', ''openai-responses''} then ''openai-response''
      else if v \<in> {''claude'', ''anthropic'', ''anthropic-messages''} then ''claude''
      else [])"

definition reasoningEffort :: "object \<Rightarrow> string" where
  "reasoningEffort root =
     (let value = stringValue (field root ''reasoning_effort'') in
      if value \<noteq> [] then ToLower value
      else (case as_map (field root ''reasoning'') of
              None \<Rightarrow> []
            | Some reasoning \<Rightarrow>
                (let value = stringValue (field reasoning ''effort'') in
                 if value \<noteq> [] then ToLower value else [])))"

definition map_text :: "object \<Rightarrow> string" where
  "map_text part = firstNonEmpty [stringValue (field part ''text''), stringValue (field part ''content'')]"

definition item_texts :: "goval \<Rightarrow> string list" where
  "item_texts item =
     (case item of
        GStr part \<Rightarrow> [part]
      | GMap part \<Rightarrow> (let text0 = map_text part in if text0 \<noteq> [] then [text0] else [])
      | _ \<Rightarrow> [])"

definition contentText :: "goval \<Rightarrow> string" where
  "contentText value =
     (case value of
        GStr content \<Rightarrow> content
      | GList content \<Rightarrow> Join [CHR 0x0A] (concat (map item_texts content))
      | GMap content \<Rightarrow> map_text content
      | _ \<Rightarrow> [])"

definition parseArgumentValue :: "goval \<Rightarrow> goval" where
  "parseArgumentValue value =
     (if as_string value = None \<or> TrimSpace (string_or_empty value) = [] then
        (if value = GNil then GMap [] else value)
      else (case unmarshal_any (string_or_empty value) of
              None \<Rightarrow> GMap [(''_raw'', GStr (string_or_empty value))]
            | Some parsed \<Rightarrow> parsed))"

definition ensureModel :: "string \<Rightarrow> goerr option" where
  "ensureModel model = (if TrimSpace model = [] then Some (PlainErr ''model is required'') else None)"

section \<open>Agent messages\<close>

text \<open>
  \<open>unicode.IsPrint\<close> and \<open>unicode.IsSpace\<close> of one character, given by its UTF-8 bytes. The
  table of printable characters beyond ASCII is left unspecified.
\<close>

definition unicode_is_print :: "string \<Rightarrow> bool" where
  "unicode_is_print = undefined"

definition IsPrint :: "string \<Rightarrow> bool" where
  "IsPrint r = (case r of [c] \<Rightarrow> 32 \<le> byte c \<and> byte c \<le> 126 | _ \<Rightarrow> unicode_is_print r)"

definition IsSpace :: "string \<Rightarrow> bool" where
  "IsSpace r \<longleftrightarrow> r \<noteq> [] \<and> space_prefix r = length r"

definition base64_rune :: "string \<Rightarrow> bool" where
  "base64_rune r =
     (case r of [c] \<Rightarrow> is_lower c \<or> is_upper c \<or> is_digit c \<or> c \<in> set ''+/-_=''
      | _ \<Rightarrow> False)"

definition looksLikePlaintextTask :: "string \<Rightarrow> bool" where
  "looksLikePlaintextTask value =
     (if \<not> ValidString value \<or> TrimSpace value = [] then False
      else let rs = map snd (runes value) in
        if list_ex (\<lambda>r. \<not> IsPrint r \<and> \<not> IsSpace r) rs then False
        else let hasSpace = list_ex IsSpace rs; base64Like = list_all base64_rune rs in
          if \<not> hasSpace \<and> base64Like \<and> (HasSuffix value ''='' \<or> 48 \<le> length value) then False
          else True)"

text \<open>One item of the content: the texts it adds and whether it is opaque.\<close>

definition agent_part :: "goval \<Rightarrow> string list \<times> bool" where
  "agent_part item =
     (case as_map item of
        None \<Rightarrow> ([], False)
      | Some part \<Rightarrow>
          if ToLower (stringValue (field part ''type'')) = ''encrypted_content'' then
            (let payload = stringValue (field part ''encrypted_content'') in
             if payload = [] then ([], False)
             else if \<not> looksLikePlaintextTask payload then ([], True)
             else ([payload], False))
          else (let text0 = map_text part in if text0 \<noteq> [] then ([text0], False) else ([], False)))"

definition agentMessageText :: "goval \<Rightarrow> string \<times> bool" where
  "agentMessageText value =
     (let parts = map agent_part (list_or_nil value)
      in (Join [CHR 0x0A] (concat (map fst parts)), list_ex snd parts))"

section \<open>History records\<close>

definition systemLeadIn :: string where
  "systemLeadIn = ''Configuration for this session, set by the operator of this API gateway:''"

definition systemAck :: string where
  "systemAck = ''Understood. I will follow that configuration for the rest of this conversation.''"

definition text_part :: "string \<Rightarrow> goval" where
  "text_part t = GMap [(''type'', GStr ''text''), (''text'', GStr t)]"

definition role_record :: "string \<Rightarrow> goval list \<Rightarrow> goval" where
  "role_record role parts = GMap [(''role'', GStr role), (''content'', GList parts)]"

definition call_part :: "string \<Rightarrow> string \<Rightarrow> goval \<Rightarrow> goval" where
  "call_part callID name args =
     GMap [(''type'', GStr ''tool-call''), (''toolCallId'', GStr callID), (''toolName'', GStr name), (''args'', args)]"

definition result_record :: "string \<Rightarrow> string \<Rightarrow> string \<Rightarrow> goval" where
  "result_record callID name result =
     GMap [(''role'', GStr ''tool''), (''id'', GStr callID),
       (''content'', GList [GMap [(''type'', GStr ''tool-result''), (''toolCallId'', GStr callID),
          (''toolName'', GStr name), (''result'', GStr result)]])]"

text \<open>The records written so far, and the name of the tool by call id.\<close>

type_synonym history = "goval list \<times> (string, string) gomap"

definition call_name :: "(string, string) gomap \<Rightarrow> string \<Rightarrow> string" where
  "call_name names callID = (case gm_get names callID of Some n \<Rightarrow> n | None \<Rightarrow> [])"

text \<open>
  The three cases on the item's type. \<open>uuid\<close> is the id drawn for a call without one (it is
  drawn for every call: Go evaluates all arguments of \<open>firstNonEmpty\<close>).
\<close>

definition history_agent :: "object \<Rightarrow> history \<Rightarrow> history" where
  "history_agent message st =
     (case agentMessageText (field message ''content'') of (text0, opaque) \<Rightarrow>
        if text0 \<noteq> [] \<and> \<not> opaque then (fst st @ [role_record ''user'' [text_part text0]], snd st) else st)"

definition history_call :: "string \<Rightarrow> string \<Rightarrow> object \<Rightarrow> history \<Rightarrow> history" where
  "history_call uuid itemType message st =
     (let callID = restoreToolCallID (firstNonEmpty [stringValue (field message ''call_id''),
            stringValue (field message ''id''), normalizeToolCallID uuid []]);
          name = historyToolName message;
          args = (if itemType = ''custom_tool_call'' then GMap [(''input'', GStr (stringValue (field message ''input'')))]
                  else parseArgumentValue (field message ''arguments''))
      in (fst st @ [role_record ''assistant'' [call_part callID name args]], gm_set callID name (snd st)))"

definition history_output :: "object \<Rightarrow> history \<Rightarrow> history" where
  "history_output message st =
     (let callID = restoreToolCallID (firstNonEmpty [stringValue (field message ''call_id''), stringValue (field message ''id'')])
      in (fst st @ [result_record callID (call_name (snd st) callID) (contentText (field message ''output''))], snd st))"

text \<open>The cases on the role.\<close>

definition history_system :: "object \<Rightarrow> history \<Rightarrow> history" where
  "history_system message st =
     (let text0 = contentText (field message ''content'') in
      if text0 \<noteq> [] then
        (fst st @ [role_record ''user'' [text_part (systemLeadIn @ [CHR 0x0A, CHR 0x0A] @ text0)],
                   role_record ''assistant'' [text_part systemAck]], snd st)
      else st)"

definition history_user :: "object \<Rightarrow> history \<Rightarrow> history" where
  "history_user message st =
     (let text0 = contentText (field message ''content'') in
      if text0 \<noteq> [] then (fst st @ [role_record ''user'' [text_part text0]], snd st) else st)"

definition assistant_call :: "goval \<Rightarrow> history \<Rightarrow> history" where
  "assistant_call rawCall st =
     (let call = map_or_nil rawCall; function = map_or_nil (field call ''function'');
          callID = restoreToolCallID (stringValue (field call ''id''));
          name = stringValue (field function ''name'')
      in (fst st @ [call_part callID name (parseArgumentValue (field function ''arguments''))],
          gm_set callID name (snd st)))"

definition history_assistant :: "object \<Rightarrow> history \<Rightarrow> history" where
  "history_assistant message st =
     (let text0 = contentText (field message ''content'');
          parts = (if text0 \<noteq> [] then [text_part text0] else []);
          (parts, names) = fold assistant_call (list_or_nil (field message ''tool_calls'')) (parts, snd st)
      in if 0 < length parts then (fst st @ [role_record ''assistant'' parts], names) else (fst st, names))"

definition history_tool :: "object \<Rightarrow> history \<Rightarrow> history" where
  "history_tool message st =
     (let callID = restoreToolCallID (firstNonEmpty [stringValue (field message ''tool_call_id''), stringValue (field message ''id'')])
      in (fst st @ [result_record callID (firstNonEmpty [stringValue (field message ''name''), call_name (snd st) callID])
            (contentText (field message ''content''))], snd st))"

definition history_item :: "string \<Rightarrow> goval \<Rightarrow> history \<Rightarrow> history" where
  "history_item uuid item st =
     (case as_map item of
        None \<Rightarrow> st
      | Some message \<Rightarrow>
          let itemType = ToLower (stringValue (field message ''type''));
              role = ToLower (stringValue (field message ''role''))
          in if itemType = ''agent_message'' then history_agent message st
             else if itemType = ''function_call'' \<or> itemType = ''custom_tool_call'' then history_call uuid itemType message st
             else if itemType = ''function_call_output'' \<or> itemType = ''custom_tool_call_output'' then history_output message st
             else if role = ''system'' \<or> role = ''developer'' then history_system message st
             else if role = ''user'' then history_user message st
             else if role = ''assistant'' then history_assistant message st
             else if role = ''tool'' then history_tool message st
             else st)"

text \<open>\<open>uuid n\<close> is the id drawn at the \<open>n\<close>-th message of the conversation.\<close>

fun history_loop :: "(nat \<Rightarrow> string) \<Rightarrow> nat \<Rightarrow> goval list \<Rightarrow> history \<Rightarrow> history" where
  "history_loop uuid n [] st = st"
| "history_loop uuid n (item # items) st = history_loop uuid (Suc n) items (history_item (uuid n) item st)"

text \<open>Merging. The assertions on the contents panic on anything but a list: \<open>None\<close>.\<close>

definition joins :: "object list \<Rightarrow> object \<Rightarrow> bool" where
  "joins merged message \<longleftrightarrow>
     (let role = stringValue (field message ''role'') in
      merged \<noteq> [] \<and> (role = ''assistant'' \<or> role = ''tool'')
      \<and> stringValue (field (last merged) ''role'') = role)"

fun merge_into :: "object list \<Rightarrow> goval list \<Rightarrow> object list option" where
  "merge_into merged [] = Some merged"
| "merge_into merged (item # items) =
     (case as_map item of
        None \<Rightarrow> None
      | Some message \<Rightarrow>
          if joins merged message then
            (case (as_list (field (last merged) ''content''), as_list (field message ''content'')) of
               (Some a, Some b) \<Rightarrow>
                 merge_into (butlast merged @ [gm_del ''id'' (gm_set ''content'' (GList (a @ b)) (last merged))]) items
             | _ \<Rightarrow> None)
          else merge_into (merged @ [message]) items)"

definition mergeHistoryMessages :: "goval list \<Rightarrow> goval list option" where
  "mergeHistoryMessages messages = map_option (map GMap) (merge_into [] messages)"

definition normalizeHistoryMessages :: "(nat \<Rightarrow> string) \<Rightarrow> goval list \<Rightarrow> goval list option" where
  "normalizeHistoryMessages uuid messages =
     mergeHistoryMessages (fst (history_loop uuid 0 messages ([], [])))"

section \<open>The input of a turn\<close>

definition opaque_error :: goerr where
  "opaque_error = StatusErr (status_error ''unsupported_encrypted_agent_message''
     ''Codex agent task content is encrypted and cannot be forwarded to Cursor'' 422)"

text \<open>
  The search for the message to answer, from the last one backwards; the argument is the
  reversed conversation, so the index of an element is the number of those behind it.
\<close>

fun active_message :: "goval list \<Rightarrow> goerr + (nat \<times> string) option" where
  "active_message [] = Inr None"
| "active_message (item # earlier) =
     (case as_map item of
        None \<Rightarrow> active_message earlier
      | Some message \<Rightarrow>
          if EqualFold (stringValue (field message ''type'')) ''agent_message'' then
            (case agentMessageText (field message ''content'') of (userText, opaque) \<Rightarrow>
               if opaque then Inl opaque_error else Inr (Some (length earlier, userText)))
          else if EqualFold (stringValue (field message ''role'')) ''user'' then
            Inr (Some (length earlier, contentText (field message ''content'')))
          else active_message earlier)"

definition request_messages :: "string \<Rightarrow> object \<Rightarrow> goval list" where
  "request_messages format root =
     (let system = field root ''system'';
          messages = (if system \<noteq> GNil then [GMap [(''role'', GStr ''system''), (''content'', system)]] else [])
      in if format = ''openai-chat'' \<or> format = ''claude'' then messages @ list_or_nil (field root ''messages'')
         else if format = ''openai-response'' then
           (case field root ''input'' of
              GStr input \<Rightarrow> messages @ [GMap [(''role'', GStr ''user''), (''content'', GStr input)]]
            | GList input \<Rightarrow> messages @ input
            | _ \<Rightarrow> messages)
         else messages)"

fun encode_messages :: "Config \<Rightarrow> goval list \<Rightarrow> goerr + string list" where
  "encode_messages cfg [] = Inr []"
| "encode_messages cfg (message # messages) =
     (case json_marshal message of
        None \<Rightarrow> Inl (StatusErr (status_error ''invalid_message'' ''message could not be encoded'' 400))
      | Some raw \<Rightarrow>
          if cfg_MaxHistoryMessageBytes cfg < int (length raw) then
            Inl (StatusErr (status_error ''message_too_large'' ''one history message is too large'' 413))
          else rbind (encode_messages cfg messages) (\<lambda>raws. Inr (raw # raws)))"

text \<open>Which messages are history and what the user's turn says.\<close>

definition split_turn :: "Config \<Rightarrow> goval list \<Rightarrow> (nat \<times> string) option \<Rightarrow> goval list \<times> string" where
  "split_turn cfg messages active =
     (case active of
        Some (activeIndex, userText) \<Rightarrow>
          if activeIndex + 1 = length messages \<and> TrimSpace userText \<noteq> []
          then (take activeIndex messages, userText)
          else (messages, cfg_ContinuationPrompt cfg)
      | None \<Rightarrow> (messages, cfg_ContinuationPrompt cfg))"

text \<open>\<open>None\<close> is a panic.\<close>

definition turnInput :: "(nat \<Rightarrow> string) \<Rightarrow> string \<Rightarrow> object \<Rightarrow> Config \<Rightarrow> (goerr + TurnInput) option" where
  "turnInput uuid format root cfg =
     (let messages = request_messages format root in
      case parseTools (field root ''tools'') of
        Inl err \<Rightarrow> Some (Inl err)
      | Inr (tools, identities) \<Rightarrow>
          (case active_message (rev messages) of
             Inl err \<Rightarrow> Some (Inl err)
           | Inr active \<Rightarrow>
               (case split_turn cfg messages active of (history, userText) \<Rightarrow>
                  map_option (\<lambda>records. rbind (encode_messages cfg records) (\<lambda>raws.
                      Inr \<lparr>in_RootMessages = raws, in_UserText = userText, in_Tools = tools,
                           in_ToolIdentities = identities\<rparr>))
                    (Option.bind (normalizeHistoryMessages uuid history) cursorToolHistory))))"

text \<open>The fields of the host's request that the plugin reads.\<close>

record ExecutorRequest =
  er_StorageJSON :: string
  er_OriginalRequest :: string
  er_Payload :: string
  er_SourceFormat :: string
  er_Format :: string
  er_Model :: string
  er_Stream :: bool

record parsedRequest =
  pr_Model :: string
  pr_Effort :: string
  pr_Stream :: bool
  pr_Input :: TurnInput
  pr_ResponseFormat :: string

definition request_body :: "ExecutorRequest \<Rightarrow> string" where
  "request_body req = (if er_OriginalRequest req = [] then er_Payload req else er_OriginalRequest req)"

definition parseExecutorRequest :: "(nat \<Rightarrow> string) \<Rightarrow> ExecutorRequest \<Rightarrow> Config \<Rightarrow> (goerr + parsedRequest) option" where
  "parseExecutorRequest uuid req cfg =
     (let raw = request_body req in
      if raw = [] \<or> cfg_MaxRequestBytes cfg < int (length raw) then
        Some (Inl (StatusErr (status_error ''invalid_request'' ''request body is empty or too large'' 400)))
      else (case decode_object raw of
              None \<Rightarrow> Some (Inl (StatusErr (status_error ''invalid_json'' ''request body is not valid JSON'' 400)))
            | Some root \<Rightarrow>
                let format = normalizeFormat (firstNonEmpty [er_SourceFormat req, er_Format req]) in
                if format = [] then
                  Some (Inl (StatusErr (status_error ''unsupported_format'' ''unsupported request format'' 422)))
                else let response0 = normalizeFormat (firstNonEmpty [er_Format req, er_SourceFormat req]);
                         response = (if response0 = [] then format else response0)
                     in map_option (\<lambda>r. rbind r (\<lambda>input.
                          Inr \<lparr>pr_Model = firstNonEmpty [er_Model req, stringValue (field root ''model'')],
                               pr_Effort = reasoningEffort root,
                               pr_Stream = er_Stream req \<or> boolValue (field root ''stream''),
                               pr_Input = input, pr_ResponseFormat = response\<rparr>))
                        (turnInput uuid format root cfg)))"

section \<open>History records are well formed\<close>

text \<open>A record has a role and a list of parts, each part being a map.\<close>

definition record_ok :: "object \<Rightarrow> bool" where
  "record_ok m \<longleftrightarrow>
     field m ''role'' \<in> {GStr ''user'', GStr ''assistant'', GStr ''tool''}
     \<and> (\<exists>ps. field m ''content'' = GList (map GMap ps))"

definition records_ok :: "goval list \<Rightarrow> bool" where
  "records_ok ms \<longleftrightarrow> (\<exists>rs. ms = map GMap rs \<and> list_all record_ok rs)"

lemma records_ok_Nil [simp]: "records_ok []"
  by (simp add: records_ok_def)

lemma records_ok_append [simp]: "records_ok (a @ b) \<longleftrightarrow> records_ok a \<and> records_ok b"
proof
  assume "records_ok (a @ b)"
  then obtain rs where "a @ b = map GMap rs" "list_all record_ok rs" by (auto simp: records_ok_def)
  then show "records_ok a \<and> records_ok b"
    by (auto simp: records_ok_def append_eq_map_conv)
next
  assume "records_ok a \<and> records_ok b"
  then obtain xs ys where "a = map GMap xs" "b = map GMap ys" "list_all record_ok xs" "list_all record_ok ys"
    by (auto simp: records_ok_def)
  then show "records_ok (a @ b)"
    unfolding records_ok_def by (intro exI [of _ "xs @ ys"]) simp
qed

lemma records_ok_Cons: "records_ok (m # ms) \<longleftrightarrow> (\<exists>r. m = GMap r \<and> record_ok r) \<and> records_ok ms"
proof -
  have "records_ok [m] \<longleftrightarrow> (\<exists>r. m = GMap r \<and> record_ok r)"
    by (auto simp: records_ok_def Cons_eq_map_conv)
  then show ?thesis using records_ok_append [of "[m]" ms] by simp
qed

definition part_ok :: "goval \<Rightarrow> bool" where
  "part_ok p \<longleftrightarrow> as_map p \<noteq> None"

lemma role_record_ok:
  assumes "role \<in> {''user'', ''assistant'', ''tool''}" "list_all part_ok ps"
  shows "\<exists>r. role_record role ps = GMap r \<and> record_ok r"
proof -
  have "\<exists>qs. ps = map GMap qs"
    using assms(2)
  proof (induction ps)
    case (Cons p ps)
    then obtain qs where "ps = map GMap qs" by auto
    moreover obtain q where "p = GMap q" using Cons.prems by (cases p) (auto simp: part_ok_def)
    ultimately have "p # ps = map GMap (q # qs)" by simp
    then show ?case by (rule exI [of _ "q # qs"])
  qed simp
  with assms(1) show ?thesis by (auto simp: role_record_def record_ok_def)
qed

lemma parts_ok [simp]: "part_ok (text_part t)" "part_ok (call_part i n a)"
  by (simp_all add: part_ok_def text_part_def call_part_def)

lemma result_record_ok: "\<exists>r. result_record i n t = GMap r \<and> record_ok r"
proof -
  have "\<exists>ps. [GMap q] = map GMap ps" for q by (rule exI [of _ "[q]"]) simp
  then show ?thesis by (simp add: result_record_def record_ok_def)
qed

lemma fold_assistant_call_ok:
  "list_all part_ok (fst st) \<Longrightarrow> list_all part_ok (fst (fold assistant_call calls st))"
  by (induction calls arbitrary: st) (simp_all add: assistant_call_def Let_def)

lemma history_assistant_ok: "records_ok (fst st) \<Longrightarrow> records_ok (fst (history_assistant message st))"
proof -
  assume ok: "records_ok (fst st)"
  let ?t = "contentText (field message ''content'')"
  obtain parts names where f: "fold assistant_call (list_or_nil (field message ''tool_calls''))
      (if ?t \<noteq> [] then [text_part ?t] else [], snd st) = (parts, names)" by fastforce
  have "list_all part_ok parts"
    using fold_assistant_call_ok [of "(if ?t \<noteq> [] then [text_part ?t] else [], snd st)"
        "list_or_nil (field message ''tool_calls'')"] f by (simp split: if_splits)
  then have "\<exists>r. role_record ''assistant'' parts = GMap r \<and> record_ok r"
    by (intro role_record_ok) simp_all
  with ok f show ?thesis by (simp add: history_assistant_def Let_def records_ok_Cons)
qed

lemma history_item_ok: "records_ok (fst st) \<Longrightarrow> records_ok (fst (history_item uuid item st))"
  by (auto simp: history_item_def history_assistant_ok history_agent_def history_call_def history_output_def
      history_system_def history_user_def history_tool_def Let_def records_ok_Cons role_record_ok result_record_ok
      split: option.split prod.split)

lemma history_loop_ok: "records_ok (fst st) \<Longrightarrow> records_ok (fst (history_loop uuid n items st))"
  by (induction uuid n items st rule: history_loop.induct) (simp_all add: history_item_ok)

section \<open>Merging\<close>

definition record_parts :: "object \<Rightarrow> goval list" where
  "record_parts m = list_or_nil (field m ''content'')"

text \<open>The parts with the role under which they are said.\<close>

definition said_parts :: "object \<Rightarrow> (goval \<times> goval) list" where
  "said_parts m = map (Pair (field m ''role'')) (record_parts m)"

text \<open>Two records in this order are not to be merged.\<close>

definition apart :: "object \<Rightarrow> object \<Rightarrow> bool" where
  "apart a b \<longleftrightarrow> field b ''role'' = GStr ''user'' \<or> field a ''role'' \<noteq> field b ''role''"

lemma role_trims: "TrimSpace ''user'' = ''user''" "TrimSpace ''assistant'' = ''assistant''" "TrimSpace ''tool'' = ''tool''"
  by (rule TrimSpace_ends; simp add: ascii_space_def)+

lemma joins_iff:
  assumes "record_ok m" "merged \<noteq> [] \<Longrightarrow> record_ok (last merged)"
  shows "joins merged m \<longleftrightarrow> merged \<noteq> [] \<and> \<not> apart (last merged) m"
  using assms by (auto simp: joins_def apart_def record_ok_def role_trims Let_def)

lemma record_okD: "record_ok m \<Longrightarrow> \<exists>ps. field m ''content'' = GList (map GMap ps)"
  by (simp add: record_ok_def)

definition merged_pair :: "object \<Rightarrow> object \<Rightarrow> object" where
  "merged_pair a b = gm_del ''id'' (gm_set ''content'' (GList (record_parts a @ record_parts b)) a)"

lemma field_del [simp]: "field (gm_del k m) k' = (if k' = k then GNil else field m k')"
  by (simp add: field_def)

lemma merged_pair_ok:
  assumes "record_ok a" "record_ok b"
  shows "record_ok (merged_pair a b)" "record_parts (merged_pair a b) = record_parts a @ record_parts b"
    "field (merged_pair a b) ''role'' = field a ''role''"
proof -
  from assms obtain ps qs where c: "field a ''content'' = GList (map GMap ps)" "field b ''content'' = GList (map GMap qs)"
    by (auto simp: record_ok_def)
  have "record_parts a @ record_parts b = map GMap (ps @ qs)" using c by (simp add: record_parts_def list_or_nil_def)
  then have "\<exists>rs. field (merged_pair a b) ''content'' = GList (map GMap rs)"
    by (intro exI [of _ "ps @ qs"]) (simp add: merged_pair_def)
  then show "record_ok (merged_pair a b)" using assms(1) by (auto simp: record_ok_def merged_pair_def)
  show "record_parts (merged_pair a b) = record_parts a @ record_parts b"
    by (simp add: merged_pair_def record_parts_def [of "gm_del _ _"] list_or_nil_def)
  show "field (merged_pair a b) ''role'' = field a ''role''" by (simp add: merged_pair_def)
qed

lemma merge_into_step:
  assumes "record_ok m" "list_all record_ok merged"
  shows "merge_into merged (GMap m # items) =
     (if merged \<noteq> [] \<and> \<not> apart (last merged) m then merge_into (butlast merged @ [merged_pair (last merged) m]) items
      else merge_into (merged @ [m]) items)"
proof -
  have l: "record_ok (last merged)" if "merged \<noteq> []"
    using assms(2) that by (simp add: list_all_iff)
  have j: "joins merged m \<longleftrightarrow> merged \<noteq> [] \<and> \<not> apart (last merged) m"
    using joins_iff [OF assms(1) l] .
  show ?thesis
  proof (cases "merged \<noteq> [] \<and> \<not> apart (last merged) m")
    case True
    then obtain ps qs where "field (last merged) ''content'' = GList ps" "field m ''content'' = GList qs"
      using record_okD [OF assms(1)] record_okD [OF l] by blast
    with True show ?thesis
      by (simp add: j merged_pair_def record_parts_def list_or_nil_def)
  next
    case False
    then have "\<not> joins merged m" using j by simp
    with False show ?thesis by (simp only: merge_into.simps as_map.simps option.case if_False)
  qed
qed

lemma apart_role: "field a' ''role'' = field a ''role'' \<Longrightarrow> apart a' b = apart a b"
  "field b' ''role'' = field b ''role'' \<Longrightarrow> apart a b' = apart a b"
  by (simp_all add: apart_def)

lemma merge_into_ok:
  "list_all record_ok rs \<Longrightarrow> list_all record_ok merged \<Longrightarrow> successively apart merged \<Longrightarrow>
   \<exists>hs. merge_into merged (map GMap rs) = Some hs \<and> list_all record_ok hs \<and> successively apart hs
     \<and> concat (map said_parts hs) = concat (map said_parts merged) @ concat (map said_parts rs)"
proof (induction rs arbitrary: merged)
  case Nil
  then show ?case by simp
next
  case (Cons m rs)
  have m: "record_ok m" and rs: "list_all record_ok rs" using Cons.prems(1) by simp_all
  show ?case
  proof (cases "merged \<noteq> [] \<and> \<not> apart (last merged) m")
    case True
    then obtain ms l where ml: "merged = ms @ [l]" by (cases merged rule: rev_cases) auto
    have l: "record_ok l" using Cons.prems(2) ml by simp
    note p = merged_pair_ok [OF l m]
    have "field l ''role'' = field m ''role''" using True by (simp add: ml apart_def)
    then have said: "said_parts (merged_pair l m) = said_parts l @ said_parts m"
      by (simp add: said_parts_def p(2,3))
    have "list_all record_ok (ms @ [merged_pair l m])" using Cons.prems(2) ml p(1) by simp
    moreover have "successively apart (ms @ [merged_pair l m])"
      using Cons.prems(3) apart_role(2) [OF p(3)] by (simp add: ml successively_append_iff)
    ultimately obtain hs where "merge_into (ms @ [merged_pair l m]) (map GMap rs) = Some hs"
      "list_all record_ok hs" "successively apart hs"
      "concat (map said_parts hs) = concat (map said_parts (ms @ [merged_pair l m])) @ concat (map said_parts rs)"
      using Cons.IH [OF rs] by blast
    then show ?thesis
      using True merge_into_step [OF m Cons.prems(2), of "map GMap rs"] by (simp add: ml said)
  next
    case False
    have "list_all record_ok (merged @ [m])" using Cons.prems(2) m by simp
    moreover have "successively apart (merged @ [m])"
      using Cons.prems(3) False by (auto simp: successively_append_iff)
    ultimately obtain hs where "merge_into (merged @ [m]) (map GMap rs) = Some hs"
      "list_all record_ok hs" "successively apart hs"
      "concat (map said_parts hs) = concat (map said_parts (merged @ [m])) @ concat (map said_parts rs)"
      using Cons.IH [OF rs] by blast
    then show ?thesis
      using False merge_into_step [OF m Cons.prems(2), of "map GMap rs"] by auto
  qed
qed

text \<open>The history before merging.\<close>

definition history_records :: "(nat \<Rightarrow> string) \<Rightarrow> goval list \<Rightarrow> object list" where
  "history_records uuid messages = map map_or_nil (fst (history_loop uuid 0 messages ([], [])))"

lemma map_or_nil_GMap [simp]: "map_or_nil (GMap m) = m"
  by (simp add: map_or_nil_def)

lemma map_or_nil_maps: "map map_or_nil (map GMap rs) = rs"
  by (induction rs) simp_all

lemma history_records_GMap:
  "fst (history_loop uuid 0 messages ([], [])) = map GMap (history_records uuid messages)"
  "list_all record_ok (history_records uuid messages)"
proof -
  have "records_ok (fst (history_loop uuid 0 messages ([], [])))" by (rule history_loop_ok) simp
  then obtain rs where rs: "fst (history_loop uuid 0 messages ([], [])) = map GMap rs" and ok: "list_all record_ok rs"
    by (auto simp: records_ok_def)
  have "history_records uuid messages = rs" unfolding history_records_def rs by (rule map_or_nil_maps)
  with rs ok show "fst (history_loop uuid 0 messages ([], [])) = map GMap (history_records uuid messages)"
    "list_all record_ok (history_records uuid messages)" by simp_all
qed

lemma normalizeHistory_ok:
  "\<exists>hs. normalizeHistoryMessages uuid messages = Some (map GMap hs) \<and> list_all record_ok hs
     \<and> successively apart hs
     \<and> concat (map said_parts hs) = concat (map said_parts (history_records uuid messages))"
proof -
  obtain hs where "merge_into [] (map GMap (history_records uuid messages)) = Some hs" "list_all record_ok hs"
    "successively apart hs" "concat (map said_parts hs) = concat (map said_parts (history_records uuid messages))"
    using merge_into_ok [OF history_records_GMap(2), of "[]" uuid messages] by auto
  then show ?thesis
    by (intro exI [of _ hs]) (simp add: normalizeHistoryMessages_def mergeHistoryMessages_def history_records_GMap(1))
qed

lemma those_Some_map: "those (map Some xs) = Some xs"
  by (induction xs) simp_all

lemma wrap_message_ok: "record_ok m \<Longrightarrow> \<exists>m'. wrap_message m = Some m'"
proof -
  assume "record_ok m"
  then obtain ps where "field m ''content'' = GList (map GMap ps)" by (auto simp: record_ok_def)
  then show ?thesis by (simp add: wrap_message_def comp_def those_Some_map)
qed

lemma cursorToolHistory_ok: "list_all record_ok hs \<Longrightarrow> \<exists>ms. cursorToolHistory (map GMap hs) = Some ms"
proof (induction hs)
  case (Cons h hs)
  then obtain m' ms where "wrap_message h = Some m'" "cursorToolHistory (map GMap hs) = Some ms"
    using wrap_message_ok by fastforce
  then show ?case by (simp add: cursorToolHistory_def)
qed (simp add: cursorToolHistory_def)

section \<open>Ids in the history\<close>

lemma url_safe_trim: "list_all url_safe s \<Longrightarrow> TrimSpace s = s"
proof (cases "s = []")
  case False
  assume "list_all url_safe s"
  then have "url_safe (hd s)" "url_safe (last s)" using False by (simp_all add: list_all_iff)
  moreover have "\<not> ascii_space c \<and> byte c < 128" if "url_safe c" for c
    using that by (auto simp: url_safe_def is_upper_def is_lower_def is_digit_def ascii_space_def)
  ultimately show ?thesis using TrimSpace_ends [of s] by blast
qed simp

lemma safe_trim: "safeToolCallID s \<Longrightarrow> TrimSpace s = s \<and> s \<noteq> []"
  by (simp add: safeToolCallID_def url_safe_trim)

lemma caller_id:
  assumes "TrimSpace v \<noteq> []"
  shows "safeToolCallID (normalizeToolCallID u v)" "restoreToolCallID (normalizeToolCallID u v) = v"
proof -
  show "restoreToolCallID (normalizeToolCallID u v) = v"
    using assms ids.unescape_escape [OF not_blank_neq_Nil [OF assms]]
    by (simp add: restoreToolCallID_unescape normalizeToolCallID_escape)
  have "ids.escape v \<noteq> []"
    using assms unfolding ids.escape_def by (auto simp: encodedToolCallIDPrefix_def)
  then show "safeToolCallID (normalizeToolCallID u v)"
    using assms ids.escape_alphabet [of v] by (simp add: normalizeToolCallID_escape safeToolCallID_def)
qed

lemma firstNonEmpty_safe: "safeToolCallID s \<Longrightarrow> firstNonEmpty (s # vs) = s"
  by (simp add: safe_trim)

lemma encode_messages_bound:
  "encode_messages cfg ms = Inr raws \<Longrightarrow> length raws = length ms
     \<and> list_all (\<lambda>raw. int (length raw) \<le> cfg_MaxHistoryMessageBytes cfg) raws"
  by (induction cfg ms arbitrary: raws rule: encode_messages.induct)
    (auto simp: res_simps split: option.splits if_splits)

lemma lower_const: "ToLower ''function_call'' = ''function_call''"
  "ToLower ''function_call_output'' = ''function_call_output''"
  "TrimSpace ''function_call'' = ''function_call''"
  "TrimSpace ''function_call_output'' = ''function_call_output''"
proof -
  show "TrimSpace ''function_call'' = ''function_call''"
    "TrimSpace ''function_call_output'' = ''function_call_output''"
    by (rule TrimSpace_ends; simp add: ascii_space_def)+
  show "ToLower ''function_call'' = ''function_call''"
    "ToLower ''function_call_output'' = ''function_call_output''"
    by (simp_all add: ToLower_def is_ascii_def lower_char_def is_upper_def)
qed

lemma encode_messages_texts: "encode_messages cfg ms = Inr raws \<Longrightarrow> map json_marshal ms = map Some raws"
  by (induction cfg ms arbitrary: raws rule: encode_messages.induct)
    (auto simp: res_simps split: option.splits if_splits)

lemma active_message_index: "active_message rs = Inr (Some (n, t)) \<Longrightarrow> n < length rs"
  by (induction rs) (auto split: option.splits if_splits prod.splits)

text \<open>
  What the last message of a conversation says to the model: the text of an agent message that is
  not encrypted, or of a message of the user, unless it is blank.
\<close>

definition spoken :: "goval \<Rightarrow> string option" where
  "spoken item =
     (case as_map item of
        None \<Rightarrow> None
      | Some message \<Rightarrow>
          let content = field message ''content'';
              said = (if EqualFold (stringValue (field message ''type'')) ''agent_message'' then
                        (if snd (agentMessageText content) then [] else fst (agentMessageText content))
                      else if EqualFold (stringValue (field message ''role'')) ''user'' then contentText content
                      else [])
          in if TrimSpace said = [] then None else Some said)"

definition last_spoken :: "goval list \<Rightarrow> string option" where
  "last_spoken messages = (if messages = [] then None else spoken (last messages))"

lemma split_turn_spoken:
  assumes "active_message (rev ms) = Inr active"
  shows "split_turn cfg ms active = (case last_spoken ms of
      Some said \<Rightarrow> (butlast ms, said) | None \<Rightarrow> (ms, cfg_ContinuationPrompt cfg))"
proof (cases ms rule: rev_exhaust)
  case Nil
  then show ?thesis using assms by (simp add: split_turn_def last_spoken_def)
next
  case (snoc earlier l)
  have old: "split_turn cfg ms active = (ms, cfg_ContinuationPrompt cfg)" if "active_message (rev earlier) = Inr active"
    using active_message_index [of "rev earlier"] that
    by (auto simp: split_turn_def snoc split: option.split)
  show ?thesis
  proof (cases "as_map l")
    case None
    then show ?thesis using assms old by (simp add: snoc last_spoken_def spoken_def)
  next
    case (Some m)
    then show ?thesis
      using assms old TrimSpace_Nil
      by (auto simp: snoc last_spoken_def spoken_def Let_def split_turn_def split: prod.splits if_splits)
  qed
qed

lemma turnInput_total: "turnInput uuid format root cfg \<noteq> None"
proof -
  have "Option.bind (normalizeHistoryMessages uuid ms) cursorToolHistory \<noteq> None" for ms
    using normalizeHistory_ok [of uuid ms] cursorToolHistory_ok by fastforce
  then show ?thesis
    by (auto simp: turnInput_def Let_def split: sum.split prod.split)
qed

lemma parseExecutorRequest_total: "parseExecutorRequest uuid req cfg \<noteq> None"
  using turnInput_total by (simp add: parseExecutorRequest_def Let_def split: option.split)

section \<open>Properties\<close>

text \<open>
  C14. No request body can make the translation panic: every type assertion on the history
  records succeeds, whatever the shape of the messages and tools the caller sent.
\<close>

theorem translation_never_panics: "turnInput uuid format root cfg \<noteq> None"
  by (rule turnInput_total)

text \<open>
  C15. Merging the history loses, adds and reorders nothing: the parts of the merged records
  are, in order and under the same roles, the parts of the records written for the messages; and afterwards no two
  neighbouring records are both of the assistant or both tool results.
\<close>

theorem history_merge:
  "\<exists>hs. normalizeHistoryMessages uuid messages = Some (map GMap hs)
     \<and> concat (map said_parts hs) = concat (map said_parts (history_records uuid messages))
     \<and> successively apart hs"
  using normalizeHistory_ok [of uuid messages] by blast

text \<open>
  C16. A call and its result meet again: when a caller replays a Responses function call and
  its output under the id it was shown for Cursor's id \<open>v\<close>, the history carries the original
  \<open>v\<close> in both, and the result is labelled with the name of the called tool.
\<close>

theorem responses_call_pairing:
  assumes "TrimSpace v \<noteq> []"
    and "field c ''type'' = GStr ''function_call''" "field c ''call_id'' = GStr (normalizeToolCallID u v)"
    and "field r ''type'' = GStr ''function_call_output''" "field r ''call_id'' = GStr (normalizeToolCallID u v)"
  shows "history_item u2 (GMap r) (history_item u1 (GMap c) st) =
    (fst st @ [role_record ''assistant'' [call_part v (historyToolName c) (parseArgumentValue (field c ''arguments''))],
               result_record v (historyToolName c) (contentText (field r ''output''))],
     gm_set v (historyToolName c) (snd st))"
proof -
  note i = caller_id [OF assms(1), of u]
  have f: "firstNonEmpty (normalizeToolCallID u v # vs) = normalizeToolCallID u v" for vs
    using safe_trim [OF i(1)] by simp
  have ids: "stringValue (field c ''call_id'') = normalizeToolCallID u v" "stringValue (field r ''call_id'') = normalizeToolCallID u v"
    using safe_trim [OF i(1)] assms(3,5) by simp_all
  have types: "ToLower (stringValue (field c ''type'')) = ''function_call''"
    "ToLower (stringValue (field r ''type'')) = ''function_call_output''"
    using assms(2,4) by (simp_all add: lower_const)
  have "history_item u1 (GMap c) st = history_call u1 ''function_call'' c st"
    by (simp only: history_item_def as_map.simps option.case Let_def types) simp
  moreover have "history_item u2 (GMap r) st' = history_output r st'" for st'
    by (simp only: history_item_def as_map.simps option.case Let_def types) simp
  moreover have "history_call u1 ''function_call'' c st =
    (fst st @ [role_record ''assistant'' [call_part v (historyToolName c) (parseArgumentValue (field c ''arguments''))]],
     gm_set v (historyToolName c) (snd st))"
    unfolding history_call_def Let_def ids f i(2) by simp
  moreover have "history_output r (x, gm_set v n y) = (x @ [result_record v n (contentText (field r ''output''))], gm_set v n y)" for x n y
    unfolding history_output_def Let_def ids f i(2) by (simp add: call_name_def)
  ultimately show ?thesis by simp
qed

theorem responses_call_pairing_witness:
  "history_item [] (GMap [(''type'', GStr ''function_call_output''), (''call_id'', GStr (normalizeToolCallID [] ''a/1'')),
        (''output'', GStr ''done'')])
     (history_item [] (GMap [(''type'', GStr ''function_call''), (''call_id'', GStr (normalizeToolCallID [] ''a/1'')),
        (''name'', GStr ''read'')]) ([], [])) =
   ([role_record ''assistant'' [call_part ''a/1'' ''read'' (GMap [])], result_record ''a/1'' ''read'' ''done''], [(''a/1'', ''read'')])"
proof -
  have t: "TrimSpace ''a/1'' = ''a/1''" "TrimSpace ''read'' = ''read''"
    by (rule TrimSpace_ends; simp add: ascii_space_def)+
  then have ne: "TrimSpace ''a/1'' \<noteq> []" by simp
  let ?c = "[(''type'', GStr ''function_call''), (''call_id'', GStr (normalizeToolCallID [] ''a/1'')), (''name'', GStr ''read'')]"
  let ?r = "[(''type'', GStr ''function_call_output''), (''call_id'', GStr (normalizeToolCallID [] ''a/1'')), (''output'', GStr ''done'')]"
  have "historyToolName ?c = ''read''" by (simp add: historyToolName_def callerToolName_def t(2))
  then show ?thesis
    using responses_call_pairing [OF ne, of ?c "[]" ?r "[]" "[]" "([], [])"]
    by (simp add: parseArgumentValue_def contentText_def)
qed

text \<open>
  C17. A turn loses no message. If the conversation ends with an agent message or a message of the
  user that is not blank, the text of this message is the user's turn and the history is everything
  before it; otherwise the whole conversation is history and Cursor is told
  to continue with the configured prompt. What is stored is the JSON of the history records, each within the
  configured limit.
\<close>

theorem turn_split:
  assumes "turnInput uuid format root cfg = Some (Inr input)"
  shows "\<exists>history records.
    (case last_spoken (request_messages format root) of
       Some said \<Rightarrow> history @ [last (request_messages format root)] = request_messages format root \<and> in_UserText input = said
     | None \<Rightarrow> history = request_messages format root \<and> in_UserText input = cfg_ContinuationPrompt cfg)
    \<and> Option.bind (normalizeHistoryMessages uuid history) cursorToolHistory = Some records
    \<and> map json_marshal records = map Some (in_RootMessages input)
    \<and> list_all (\<lambda>raw. int (length raw) \<le> cfg_MaxHistoryMessageBytes cfg) (in_RootMessages input)"
proof -
  let ?ms = "request_messages format root"
  obtain active history userText records raws where
    a: "active_message (rev ?ms) = Inr active" "split_turn cfg ?ms active = (history, userText)"
    and r: "Option.bind (normalizeHistoryMessages uuid history) cursorToolHistory = Some records"
    "encode_messages cfg records = Inr raws" "in_RootMessages input = raws" "in_UserText input = userText"
    using assms by (auto simp: turnInput_def Let_def res_simps split: sum.splits prod.splits)
  have "case last_spoken ?ms of
       Some said \<Rightarrow> history @ [last ?ms] = ?ms \<and> userText = said
     | None \<Rightarrow> history = ?ms \<and> userText = cfg_ContinuationPrompt cfg"
    using split_turn_spoken [OF a(1), of cfg] a(2) by (auto simp: last_spoken_def split: option.splits if_splits)
  then show ?thesis
    using r encode_messages_bound [OF r(2)] encode_messages_texts [OF r(2)] by blast
qed

definition hello :: object where
  "hello = [(''messages'', GList [GMap [(''role'', GStr ''user''), (''content'', GStr ''hi'')]])]"

lemma hello_input:
  "turnInput (\<lambda>_. []) ''openai-chat'' hello DefaultConfig =
     Some (Inr \<lparr>in_RootMessages = [], in_UserText = ''hi'', in_Tools = [], in_ToolIdentities = []\<rparr>)"
  by code_simp

theorem turn_split_witness:
  "last_spoken (request_messages ''openai-chat'' hello) = Some ''hi'' \<and>
   (\<exists>records. Option.bind (normalizeHistoryMessages (\<lambda>_. []) []) cursorToolHistory = Some records
     \<and> map json_marshal records = [])"
proof -
  have s: "last_spoken (request_messages ''openai-chat'' hello) = Some ''hi''" by code_simp
  have m: "request_messages ''openai-chat'' hello = [GMap [(''role'', GStr ''user''), (''content'', GStr ''hi'')]]" by code_simp
  show ?thesis using s turn_split [OF hello_input] by (auto simp: m s)
qed

end
