(* ===== verification/Executor.thy ===== *)
theory Executor
  imports Service_System Stream_Correct Translate
begin

text \<open>
  executor.go: the operations of the executor as a whole, from the host's request to its
  response. They compose the stored account, the translation, the catalog, the retries, the
  turn and the rendering, in the order of the code. What they use of the outside is one
  record: the HTTP client, the transport and the connection of a turn, the request context,
  the clock and the random ids.
\<close>

section \<open>The environment\<close>

record 'w environment =
  en_Sha256 :: "string \<Rightarrow> string"
  en_HTTP :: "'w http_client"
  en_Transport :: "'w transport"
  en_Connection :: "'w connection"
  en_CtxErr :: "'w \<Rightarrow> goerr option"
  en_Wait :: "'w \<Rightarrow> duration \<Rightarrow> 'w \<times> goerr option"
  en_Now :: "'w \<Rightarrow> time"
  en_Uuid :: "'w \<Rightarrow> nat \<Rightarrow> string"

record ExecutorResponse =
  rp_Payload :: string
  rp_Headers :: http_header
  rp_Metadata :: object

section \<open>The operations\<close>

text \<open>
  The operation that is retried: a turn, and what is made of its events. A turn that does not
  end is passed through the retries as the result \<open>None\<close>.
\<close>

definition turn_operation ::
  "'w environment \<Rightarrow> Config \<Rightarrow> string \<Rightarrow> RequestedModel \<Rightarrow> TurnInput \<Rightarrow> ('w \<Rightarrow> TurnEvent list \<Rightarrow> goerr + 'a) \<Rightarrow>
   'w \<Rightarrow> 'w \<times> (goerr + 'a option)" where
  "turn_operation env cfg token model input finish w =
     (case runTurn cfg (en_Transport env) (en_Connection env) (en_Uuid env w) token model input w of
        None \<Rightarrow> (w, Inr None)
      | Some (w', Inl runErr) \<Rightarrow> (w', Inl runErr)
      | Some (w', Inr events) \<Rightarrow> (w', map_sum id Some (finish w' events)))"

definition retried_turn ::
  "'w environment \<Rightarrow> Config \<Rightarrow> string \<Rightarrow> RequestedModel \<Rightarrow> TurnInput \<Rightarrow> ('w \<Rightarrow> TurnEvent list \<Rightarrow> goerr + 'a) \<Rightarrow>
   'w \<Rightarrow> 'w \<times> (goerr + 'a option)" where
  "retried_turn env cfg token model input finish w =
     retryTransient (en_CtxErr env) (en_Wait env) cfg (turn_operation env cfg token model input finish) w"

definition invalid_model_error :: "goerr \<Rightarrow> goerr" where
  "invalid_model_error err = StatusErr (status_error ''invalid_model'' (err_text err) 400)"

text \<open>\<open>None\<close>: the translation panicked or a turn did not end.\<close>

definition Execute :: "'w environment \<Rightarrow> ExecutorRequest \<Rightarrow> Service \<Rightarrow> 'w \<Rightarrow>
    (Service \<times> 'w \<times> (goerr + ExecutorResponse)) option" where
  "Execute env req s w =
     (case decodeAuth (er_StorageJSON req) of
        Inl err \<Rightarrow> Some (s, w, Inl err)
      | Inr storage \<Rightarrow>
        (case parseExecutorRequest (en_Uuid env w) req (sv_config s) of
           None \<Rightarrow> None
         | Some (Inl err) \<Rightarrow> Some (s, w, Inl err)
         | Some (Inr parsed) \<Rightarrow>
           (case ensureModel (pr_Model parsed) of
              Some err \<Rightarrow> Some (s, w, Inl (invalid_model_error err))
            | None \<Rightarrow>
              (case resolveModel (en_Sha256 env) (en_HTTP env) (en_Now env w) storage (pr_Model parsed) (pr_Effort parsed) s w of
                 (s1, w1, Inl err) \<Rightarrow> Some (s1, w1, Inl err)
               | (s1, w1, Inr model) \<Rightarrow>
                 (case retried_turn env (sv_config s1) (as_AccessToken storage) model (pr_Input parsed) (\<lambda>_. collectTurn) w1 of
                    (w2, Inl err) \<Rightarrow> Some (s1, w2, Inl err)
                  | (w2, Inr None) \<Rightarrow> None
                  | (w2, Inr (Some result)) \<Rightarrow>
                    (case nonStreamingPayload (en_Uuid env w2) (pr_ResponseFormat parsed) (pr_Model parsed) result (en_Now env w2 div second) of
                       Inl err \<Rightarrow> Some (s1, w2, Inl err)
                     | Inr payload \<Rightarrow>
                         Some (s1, w2, Inr \<lparr>rp_Payload = payload, rp_Headers = jsonHeaders,
                           rp_Metadata = [(''cursor_model'', GStr (rm_ModelId model)),
                                          (''reasoning_effort'', GStr (pr_Effort parsed))]\<rparr>)))))))"

definition PrepareStream :: "'w environment \<Rightarrow> ExecutorRequest \<Rightarrow> Service \<Rightarrow> 'w \<Rightarrow>
    (Service \<times> 'w \<times> (goerr + PreparedStream)) option" where
  "PrepareStream env req s w =
     (case decodeAuth (er_StorageJSON req) of
        Inl err \<Rightarrow> Some (s, w, Inl err)
      | Inr storage \<Rightarrow>
        (case parseExecutorRequest (en_Uuid env w) req (sv_config s) of
           None \<Rightarrow> None
         | Some (Inl err) \<Rightarrow> Some (s, w, Inl err)
         | Some (Inr parsed) \<Rightarrow>
           (case resolveModel (en_Sha256 env) (en_HTTP env) (en_Now env w) storage (pr_Model parsed) (pr_Effort parsed) s w of
              (s1, w1, Inl err) \<Rightarrow> Some (s1, w1, Inl err)
            | (s1, w1, Inr model) \<Rightarrow>
              (case retried_turn env (sv_config s1) (as_AccessToken storage) model (pr_Input parsed)
                   (\<lambda>w' events. prepareEventStream (en_Uuid env w') (pr_ResponseFormat parsed) (pr_Model parsed)
                      (en_Now env w' div second) events) w1 of
                 (w2, Inl err) \<Rightarrow> Some (s1, w2, Inl err)
               | (w2, Inr None) \<Rightarrow> None
               | (w2, Inr (Some prepared)) \<Rightarrow> Some (s1, w2, Inr prepared)))))"

definition ExecuteStream :: "'w environment \<Rightarrow> ExecutorRequest \<Rightarrow> 'w emit \<Rightarrow> Service \<Rightarrow> 'w \<Rightarrow>
    (Service \<times> 'w \<times> (goerr + http_header)) option" where
  "ExecuteStream env req emit s w =
     (case PrepareStream env req s w of
        None \<Rightarrow> None
      | Some (s1, w1, Inl err) \<Rightarrow> Some (s1, w1, Inl err)
      | Some (s1, w1, Inr prepared) \<Rightarrow>
          (case Pump (Some prepared) (Some emit) w1 of
             (p, w2, Some err) \<Rightarrow> Some (s1, w2, Inl err)
           | (p, w2, None) \<Rightarrow> Some (s1, w2, Inr (Headers p))))"

text \<open>The estimate of the tokens of a request: a quarter of its bytes, rounded up.\<close>

definition CountTokens :: "ExecutorRequest \<Rightarrow> ExecutorResponse" where
  "CountTokens req =
     (let tokens = (length (request_body req) + 3) div 4
      in \<lparr>rp_Payload = marshal_or_nil (GMap [(''total_tokens'', GInt (int tokens))]), rp_Headers = jsonHeaders, rp_Metadata = []\<rparr>)"

definition HttpRequest :: "goerr + 'a" where
  "HttpRequest = Inl (StatusErr (status_error ''unsupported_http'' ''Cursor plugin does not proxy arbitrary HTTP requests'' 403))"

section \<open>Lemmas\<close>

lemma turn_operation_total:
  assumes "codec_ok (en_Transport env)" "protowire_ok (tp_Wire (en_Transport env))"
  shows "snd (turn_operation env cfg token model input finish w) \<noteq> Inr None"
proof -
  obtain w' r where r: "runTurn cfg (en_Transport env) (en_Connection env) (en_Uuid env w) token model input w = Some (w', r)"
    using runTurn_total [OF assms] by blast
  show ?thesis
  proof (cases r)
    case (Inr events)
    then show ?thesis
      using r by (cases "finish w' events") (simp_all add: turn_operation_def)
  qed (simp add: turn_operation_def r)
qed

text \<open>What every call of the operation ensures, the retries ensure.\<close>

lemma retry_from_result:
  assumes "\<And>w. snd (f w) \<noteq> Inr x"
  shows "snd (retry_from ctx_err wait cfg f attempt w) \<noteq> Inr x"
proof (induction "nat (cfg_TransientRetryCount cfg - attempt)" arbitrary: attempt w rule: less_induct)
  case less
  have IH: "snd (retry_from ctx_err wait cfg f (attempt + 1) w') \<noteq> Inr x" if "\<not> cfg_TransientRetryCount cfg \<le> attempt" for w'
    using less [of "attempt + 1"] that by simp
  show ?case
    using assms [of w] unfolding retry_from.simps [of ctx_err wait cfg f attempt w]
    by (auto simp: Let_def IH split: prod.split sum.split option.split)
qed

lemma retried_turn_total:
  assumes "codec_ok (en_Transport env)" "protowire_ok (tp_Wire (en_Transport env))"
  shows "snd (retried_turn env cfg token model input finish w) \<noteq> Inr None"
  unfolding retried_turn_def retryTransient_def by (rule retry_from_result) (rule turn_operation_total [OF assms])

lemma PrepareStream_total:
  assumes "codec_ok (en_Transport env)" "protowire_ok (tp_Wire (en_Transport env))"
  shows "PrepareStream env req s w \<noteq> None"
proof -
  have t: "retried_turn env cfg token model input finish w1 = (w2, Inr p) \<Longrightarrow> p \<noteq> None" for cfg token model input w1 w2 p
    and finish :: "'a \<Rightarrow> TurnEvent list \<Rightarrow> goerr + PreparedStream"
    using retried_turn_total [OF assms] by (metis snd_conv)
  show ?thesis
    using parseExecutorRequest_total [of "en_Uuid env w" req "sv_config s"]
    unfolding PrepareStream_def by (auto split: option.split sum.split prod.split dest: t)
qed

lemma Execute_total:
  assumes "codec_ok (en_Transport env)" "protowire_ok (tp_Wire (en_Transport env))"
  shows "Execute env req s w \<noteq> None"
proof -
  have t: "retried_turn env cfg token model input finish w1 = (w2, Inr p) \<Longrightarrow> p \<noteq> None" for cfg token model input w1 w2 p
    and finish :: "'a \<Rightarrow> TurnEvent list \<Rightarrow> goerr + collectedTurn"
    using retried_turn_total [OF assms] by (metis snd_conv)
  show ?thesis
    using parseExecutorRequest_total [of "en_Uuid env w" req "sv_config s"]
    unfolding Execute_def by (auto split: option.split sum.split prod.split dest: t)
qed

text \<open>A request without a model: where the two operations part.\<close>

lemma blank_model_Execute:
  assumes "decodeAuth (er_StorageJSON req) = Inr storage"
    and "parseExecutorRequest (en_Uuid env w) req (sv_config s) = Some (Inr parsed)" "TrimSpace (pr_Model parsed) = []"
  shows "Execute env req s w = Some (s, w, Inl (invalid_model_error (PlainErr ''model is required'')))"
  using assms by (simp add: Execute_def ensureModel_def)

definition named :: "CursorModel list \<Rightarrow> bool" where
  "named ms \<longleftrightarrow> list_all (\<lambda>m. cm_ID m \<noteq> [] \<and> is_ascii (cm_ID m)
     \<and> (case splitEffort (cm_ID m) of Some (b, e) \<Rightarrow> b \<noteq> [] | None \<Rightarrow> True)) ms"

lemma choose_blank:
  assumes "named ms" "TrimSpace requested = []"
  shows "choose_model cfg ms requested effort = Inl not_found_error"
proof -
  have r: "TrimPrefix (TrimSpace requested) (cfg_ModelPrefix cfg) = []"
    using assms(2) by (simp add: TrimPrefix_def)
  have "find_model (\<lambda>m. EqualFold (cm_ID m) []) ms = None"
    using assms(1) by (auto simp: named_def find_model_None list_all_iff EqualFold_def is_ascii_def)
  moreover have "gm_get (normalizedFamilies ms (cfg_DefaultReasoningEffort cfg)) [] = None"
  proof (rule ccontr)
    assume "gm_get (normalizedFamilies ms (cfg_DefaultReasoningEffort cfg)) [] \<noteq> None"
    then obtain f where f: "gm_get (normalizedFamilies ms (cfg_DefaultReasoningEffort cfg)) [] = Some f" by blast
    then have ok: "family_ok ms [] f" using normalizedFamilies_ok unfolding families_ok_def by blast
    show False
    proof (cases "nf_Variants f = []")
      case True
      then show False using ok assms(1) by (auto simp: family_ok_def named_def list_all_iff)
    next
      case False
      then obtain e i where "gm_get (nf_Variants f) e = Some i" using default_in_variants [OF f] by blast
      then obtain m where "m \<in> set ms" "splitEffort (cm_ID m) = Some ([], e)"
        using ok unfolding family_ok_def by blast
      then show False using assms(1) by (force simp: named_def list_all_iff)
    qed
  qed
  ultimately show ?thesis by (simp add: choose_model_def r Let_def)
qed

theorem blank_model_diverges:
  assumes "decodeAuth (er_StorageJSON req) = Inr storage"
    and "parseExecutorRequest (en_Uuid env w) req (sv_config s) = Some (Inr parsed)" "TrimSpace (pr_Model parsed) = []"
    and "discoverModels (en_Sha256 env) (en_HTTP env) (en_Now env w) storage s w = (s1, w1, Inr ms)" "named ms"
  shows "Execute env req s w = Some (s, w, Inl (invalid_model_error (PlainErr ''model is required'')))
    \<and> PrepareStream env req s w = Some (s1, w1, Inl not_found_error)"
  using blank_model_Execute [OF assms(1-3)] assms choose_blank
  by (simp add: PrepareStream_def resolveModel_def)

section \<open>Properties\<close>

text \<open>
  The executor always answers: no request makes it panic or hang, however the servers
  behave, in any of the three operations. The message codecs are assumed to be faithful.
\<close>

theorem executor_returns:
  assumes "codec_ok (en_Transport env)" and "protowire_ok (tp_Wire (en_Transport env))"
  shows "Execute env req s w \<noteq> None \<and> PrepareStream env req s w \<noteq> None \<and> ExecuteStream env req emit s w \<noteq> None"
proof -
  have "ExecuteStream env req emit s w \<noteq> None"
    using PrepareStream_total [OF assms, of req s w]
    by (auto simp: ExecuteStream_def split: option.split sum.split prod.split)
  then show ?thesis using Execute_total [OF assms] PrepareStream_total [OF assms] by blast
qed

text \<open>
  C22. A request that is refused for its own fault (a broken account, a body that is no
  supported request, no model) costs nothing: no server is contacted, and the service is
  unchanged; and streaming refuses a broken account or body with the same error.
\<close>

theorem refused_without_traffic:
  assumes "Execute env req s w = Some (s', w', r)"
    and "(\<exists>e. decodeAuth (er_StorageJSON req) = Inl e)
      \<or> (\<exists>e. parseExecutorRequest (en_Uuid env w) req (sv_config s) = Some (Inl e))
      \<or> (\<exists>p. parseExecutorRequest (en_Uuid env w) req (sv_config s) = Some (Inr p) \<and> TrimSpace (pr_Model p) = [])"
  shows "s' = s \<and> w' = w \<and> (\<exists>e. r = Inl e
    \<and> ((\<exists>p. parseExecutorRequest (en_Uuid env w) req (sv_config s) = Some (Inr p)) \<and> (\<exists>a. decodeAuth (er_StorageJSON req) = Inr a)
       \<or> PrepareStream env req s w = Some (s, w, Inl e)))"
proof (cases "decodeAuth (er_StorageJSON req)")
  case (Inl e)
  then show ?thesis using assms(1) by (simp add: Execute_def PrepareStream_def)
next
  case (Inr storage)
  show ?thesis
  proof (cases "parseExecutorRequest (en_Uuid env w) req (sv_config s)")
    case None
    then show ?thesis using assms(1) Inr by (simp add: Execute_def)
  next
    case (Some p)
    then show ?thesis
      using assms Inr by (cases p) (auto simp: Execute_def PrepareStream_def ensureModel_def)
  qed
qed

section \<open>Witnesses\<close>

definition demo_env_on :: "(string \<Rightarrow> 'w \<Rightarrow> 'w) \<Rightarrow> 'w environment" where
  "demo_env_on put = \<lparr>en_Sha256 = (\<lambda>s. s), en_HTTP = \<lparr>hc_NewRequest = (\<lambda>_. None), hc_Do = (\<lambda>_ _ w. (w, Inl ErrEOF))\<rparr>,
     en_Transport = demo_transport_on put, en_Connection = demo_connection [], en_CtxErr = (\<lambda>_. None),
     en_Wait = (\<lambda>w _. (w, None)), en_Now = (\<lambda>_. 0), en_Uuid = (\<lambda>_ _. [])\<rparr>"

abbreviation demo_env :: "string environment" where
  "demo_env \<equiv> demo_env_on (\<lambda>s w. w @ s)"

definition broken_request :: ExecutorRequest where
  "broken_request = \<lparr>er_StorageJSON = ''x'', er_OriginalRequest = [], er_Payload = [], er_SourceFormat = [],
     er_Format = [], er_Model = [], er_Stream = False\<rparr>"

theorem executor_returns_witness: "Execute demo_env broken_request New [] \<noteq> None"
  using executor_returns [of demo_env broken_request New "[]" "\<lambda>_ w. (w, None)"]
  by (simp add: demo_env_on_def demo_codec_ok demo_wire_ok)

lemma broken_storage: "\<exists>e. decodeAuth (er_StorageJSON broken_request) = Inl e"
proof -
  have "unmarshal_strict decode_storage zero_storage ''x'' = None" by code_simp
  then show ?thesis by (simp add: decodeAuth_def broken_request_def)
qed

theorem refused_without_traffic_witness:
  "\<exists>e. Execute demo_env broken_request New [] = Some (New, [], Inl e)"
proof -
  obtain e where "Execute demo_env broken_request New [] = Some (New, [], Inl e)"
    using broken_storage by (auto simp: Execute_def)
  then show ?thesis using refused_without_traffic [of demo_env broken_request New "[]"] broken_storage by blast
qed

end
