(* ===== verification/Execute_Correct.thy ===== *)
theory Execute_Correct
  imports Executor
begin

text \<open>
  What a successful call of the executor means: which account, model and turn its answer comes
  from, and that the collected turn is a plain function of the events.
\<close>

section \<open>Collecting a turn\<close>

text \<open>The specification of \<open>collectTurn\<close>: every field from the events of its kind.\<close>

definition of_type :: "string \<Rightarrow> TurnEvent list \<Rightarrow> TurnEvent list" where
  "of_type t es = filter (\<lambda>e. te_Type e = t) es"

definition turn_summary :: "TurnEvent list \<Rightarrow> collectedTurn" where
  "turn_summary es =
     \<lparr>ct_Text = concat (map te_Text (of_type ''text'' es)),
      ct_Thinking = concat (map te_Text (of_type ''thinking'' es)),
      ct_ToolCalls = map toolCallFromEvent (of_type ''tool_call'' es),
      ct_Usage = foldl observe_event zero_usage (of_type ''usage'' es),
      ct_DoneReason = last (''stop'' # map te_DoneReason (of_type ''done'' es))\<rparr>"

definition failure :: "TurnEvent \<Rightarrow> bool" where
  "failure e \<longleftrightarrow> te_Type e = ''done'' \<and> te_Err e \<noteq> None"

text \<open>The same with what was collected before.\<close>

definition added :: "collectedTurn \<Rightarrow> TurnEvent list \<Rightarrow> collectedTurn" where
  "added r es =
     \<lparr>ct_Text = ct_Text r @ concat (map te_Text (of_type ''text'' es)),
      ct_Thinking = ct_Thinking r @ concat (map te_Text (of_type ''thinking'' es)),
      ct_ToolCalls = ct_ToolCalls r @ map toolCallFromEvent (of_type ''tool_call'' es),
      ct_Usage = foldl observe_event (ct_Usage r) (of_type ''usage'' es),
      ct_DoneReason = last (ct_DoneReason r # map te_DoneReason (of_type ''done'' es))\<rparr>"

lemma collect_loop_added:
  "collect_loop es r = (case find failure es of Some e \<Rightarrow> Inl (the (te_Err e)) | None \<Rightarrow> Inr (added r es))"
proof (induction es r rule: collect_loop.induct)
  case (2 e es r)
  show ?case
  proof (cases "failure e")
    case True
    then show ?thesis by (auto simp: failure_def)
  next
    case False
    then have "te_Type e = ''done'' \<Longrightarrow> te_Err e = None" by (simp add: failure_def)
    then show ?thesis using 2 False by (auto simp: added_def of_type_def split: option.splits)
  qed
qed (simp add: added_def of_type_def)

lemma collectTurn_summary:
  "collectTurn es = (case find failure es of Some e \<Rightarrow> Inl (the (te_Err e)) | None \<Rightarrow> Inr (turn_summary es))"
proof -
  have "added new_collected es = turn_summary es" by (simp add: added_def turn_summary_def new_collected_def)
  then show ?thesis unfolding collectTurn_def collect_loop_added by (simp only:)
qed

section \<open>The last attempt\<close>

lemma retry_from_success:
  "retry_from ctx_err wait cfg f attempt w = (w', Inr x) \<Longrightarrow> \<exists>wi. f wi = (w', Inr x)"
proof (induction "nat (cfg_TransientRetryCount cfg - attempt)" arbitrary: attempt w rule: less_induct)
  case less
  have IH: "\<exists>wi. f wi = (w', Inr x)" if "\<not> cfg_TransientRetryCount cfg \<le> attempt"
      "retry_from ctx_err wait cfg f (attempt + 1) w1 = (w', Inr x)" for w1
    using less.hyps [of "attempt + 1" w1] that by simp
  from less.prems show ?case
    unfolding retry_from.simps [of ctx_err wait cfg f attempt w]
    by (auto simp: Let_def split: prod.splits sum.splits option.splits if_splits intro: IH)
qed

lemma retried_turn_success:
  assumes "retried_turn env cfg token model input finish w = (w', Inr (Some x))"
  shows "\<exists>wi es. runTurn cfg (en_Transport env) (en_Connection env) (en_Uuid env wi) token model input wi = Some (w', Inr es)
    \<and> finish w' es = Inr x"
proof -
  obtain wi where "turn_operation env cfg token model input finish wi = (w', Inr (Some x))"
    using retry_from_success assms unfolding retried_turn_def retryTransient_def by fast
  then obtain es where "runTurn cfg (en_Transport env) (en_Connection env) (en_Uuid env wi) token model input wi = Some (w', Inr es)"
    "map_sum id Some (finish w' es) = Inr (Some x)"
    by (auto simp: turn_operation_def split: option.splits sum.splits)
  then show ?thesis by (cases "finish w' es") auto
qed

lemma runTurn_shape: "runTurn cfg t c uuid token model input w = Some (w', Inr es) \<Longrightarrow> turn_shape es"
  by (auto simp: runTurn_def split: option.splits prod.splits sum.splits if_splits dest: turn_loop_shape)

text \<open>A turn that was collected without an error has no event with one.\<close>

lemma collected_without_errors:
  assumes "turn_shape es" "collectTurn es = Inr r"
  shows "list_all (\<lambda>e. te_Err e = None) es \<and> r = turn_summary es"
proof -
  have f: "find failure es = None" "r = turn_summary es"
    using assms(2) by (auto simp: collectTurn_summary split: option.splits)
  obtain qs fs where es: "es = qs @ fs" "list_all quiet qs" "turn_end fs" using assms(1) by (auto simp: turn_shape_def)
  have "list_all (\<lambda>e. te_Err e = None) qs" using es(2) by (auto simp: quiet_def list_all_iff)
  moreover have "list_all (\<lambda>e. \<not> failure e) fs" using f(1) es(1) by (auto simp: find_None_iff list_all_iff)
  then have "list_all (\<lambda>e. te_Err e = None) fs"
    using es(3) by (auto simp: turn_end_def proper_call_def failure_def event_defs)
  ultimately show ?thesis using f(2) es(1) by simp
qed

text \<open>
  Such a turn has reached its end, which comes last and once, or it was cut off: the server closed
  the connection before it had ended the turn.
\<close>

definition ended :: "TurnEvent list \<Rightarrow> bool" where
  "ended es \<longleftrightarrow> (\<exists>qs reason. es = qs @ [done_event reason] \<and> list_all (\<lambda>e. te_Type e \<noteq> ''done'') qs)"

definition cut_off :: "TurnEvent list \<Rightarrow> bool" where
  "cut_off es \<longleftrightarrow> list_all (\<lambda>e. te_Type e \<in> {''text'', ''thinking'', ''usage''}) es"

lemma ended_or_cut_off:
  assumes "turn_shape es" "list_all (\<lambda>e. te_Err e = None) es"
  shows "ended es \<or> cut_off es"
proof -
  obtain qs fs where es: "es = qs @ fs" "list_all quiet qs" "turn_end fs" using assms(1) by (auto simp: turn_shape_def)
  have q: "list_all (\<lambda>e. te_Type e \<noteq> ''done'') qs" "cut_off qs"
    using es(2) by (auto simp: quiet_def cut_off_def list_all_iff)
  have "\<not> (\<exists>e. fs = [error_event e])" using assms(2) es(1) by (auto simp: event_defs)
  with es(3) consider "fs = []" | "fs = [done_event ''stop'']"
    | c where "fs = [c, done_event ''tool_calls'']" "te_Type c \<noteq> ''done''"
    by (auto simp: turn_end_def proper_call_def)
  then show ?thesis
  proof cases
    case 1
    then show ?thesis using q(2) es(1) by simp
  next
    case 2
    then show ?thesis using q(1) es(1) unfolding ended_def by blast
  next
    case (3 c)
    then have "es = (qs @ [c]) @ [done_event ''tool_calls'']" "list_all (\<lambda>e. te_Type e \<noteq> ''done'') (qs @ [c])"
      using q(1) es(1) by simp_all
    then show ?thesis unfolding ended_def by blast
  qed
qed

lemma cut_off_summary: "cut_off es \<Longrightarrow> ct_ToolCalls (turn_summary es) = [] \<and> ct_DoneReason (turn_summary es) = ''stop''"
proof -
  assume "cut_off es"
  then have "of_type ''tool_call'' es = []" "of_type ''done'' es = []"
    by (auto simp: cut_off_def of_type_def filter_empty_conv list_all_iff)
  then show ?thesis by (simp add: turn_summary_def)
qed

section \<open>Streaming\<close>

text \<open>A request that was accepted has one of the three formats.\<close>

lemma normalizeFormat_formats: "normalizeFormat v \<noteq> [] \<Longrightarrow> normalizeFormat v \<in> set formats"
  by (simp add: normalizeFormat_def Let_def formats_def split: if_splits)

lemma parsed_format: "parseExecutorRequest uuid req cfg = Some (Inr parsed) \<Longrightarrow> pr_ResponseFormat parsed \<in> set formats"
  by (auto simp: parseExecutorRequest_def Let_def rbind_def normalizeFormat_formats split: option.splits if_splits sum.splits)

lemma prepared_headers: "prepareEventStream uuid f m c es = Inr ps \<Longrightarrow> ps_headers ps = streamHeaders"
proof -
  have "prepare_loop uuid f m c pending es = Inr ps \<Longrightarrow> ps_headers ps = streamHeaders" for pending
    by (induction es arbitrary: pending) (auto simp: Let_def split: if_splits)
  then show "prepareEventStream uuid f m c es = Inr ps \<Longrightarrow> ps_headers ps = streamHeaders"
    by (simp add: prepareEventStream_def)
qed

lemma Pump_headers: "Headers (fst (Pump p emit w)) = Headers p"
  by (auto simp: Pump_def Headers_def split: option.split prod.split)

text \<open>Where a prepared stream comes from, and what executing it amounts to.\<close>

lemma prepared_stream_source:
  assumes "PrepareStream env req s w = Some (s', w', Inr ps)"
  obtains storage parsed model w1 wi es where "decodeAuth (er_StorageJSON req) = Inr storage"
    "parseExecutorRequest (en_Uuid env w) req (sv_config s) = Some (Inr parsed)"
    "resolveModel (en_Sha256 env) (en_HTTP env) (en_Now env w) storage (pr_Model parsed) (pr_Effort parsed) s w = (s', w1, Inr model)"
    "runTurn (sv_config s') (en_Transport env) (en_Connection env) (en_Uuid env wi) (as_AccessToken storage) model
        (pr_Input parsed) wi = Some (w', Inr es)"
    "pr_ResponseFormat parsed \<in> set formats"
    "prepareEventStream (en_Uuid env w') (pr_ResponseFormat parsed) (pr_Model parsed) (en_Now env w' div second) es = Inr ps"
proof -
  obtain storage parsed where a: "decodeAuth (er_StorageJSON req) = Inr storage"
    "parseExecutorRequest (en_Uuid env w) req (sv_config s) = Some (Inr parsed)"
    using assms by (auto simp: PrepareStream_def split: sum.splits option.splits)
  let ?finish = "\<lambda>w' events. prepareEventStream (en_Uuid env w') (pr_ResponseFormat parsed) (pr_Model parsed)
      (en_Now env w' div second) events"
  obtain w1 model where m: "resolveModel (en_Sha256 env) (en_HTTP env) (en_Now env w) storage (pr_Model parsed) (pr_Effort parsed) s w
      = (s', w1, Inr model)"
    and t: "retried_turn env (sv_config s') (as_AccessToken storage) model (pr_Input parsed) ?finish w1 = (w', Inr (Some ps))"
    using assms a by (auto simp: PrepareStream_def split: sum.splits option.splits prod.splits)
  obtain wi es where "runTurn (sv_config s') (en_Transport env) (en_Connection env) (en_Uuid env wi) (as_AccessToken storage) model
      (pr_Input parsed) wi = Some (w', Inr es)" "?finish w' es = Inr ps"
    using retried_turn_success [OF t] by blast
  then show thesis using that [OF a m _ parsed_format [OF a(2)]] by blast
qed

lemma prepared_execution:
  assumes "PrepareStream env req s w = Some (s', w', Inr ps)" "f \<in> set formats" "prepareEventStream uuid f m c es = Inr ps"
  shows "ExecuteStream env req emit s w = Some (
      case delivered emit (stream_spec (newStreamState uuid f m c) es) w' of
        (w2, Some err) \<Rightarrow> (s', w2, Inl err)
      | (w2, None) \<Rightarrow> (s', w2, Inr streamHeaders))"
proof -
  obtain p w2 result where pump: "Pump (Some ps) (Some emit) w' = (p, w2, result)" using prod_cases3 by blast
  have "Headers p = streamHeaders"
    using Pump_headers [of "Some ps" "Some emit" w'] pump prepared_headers [OF assms(3)] by (simp add: Headers_def)
  moreover have "delivered emit (stream_spec (newStreamState uuid f m c) es) w' = (w2, result)"
    using prepared_delivers [OF assms(2,3), of emit w'] pump by simp
  ultimately show ?thesis by (simp add: ExecuteStream_def assms(1) pump split: option.split)
qed

section \<open>Properties\<close>

text \<open>
  C3. A successful answer is explained by one turn: the stored account and the request were
  valid, the model was resolved for them, and the last attempt was a turn with that
  model, the account's token and the translated conversation, whose events carry no error;
  the payload renders, in the format of the request, the texts, tool calls and usage of exactly these
  events. Nothing of a failed attempt gets into it. The turn either reached its end, which is its
  last event and the only one, or was cut off by the server among its texts; a turn that was cut off
  is answered as well, with the texts it had delivered and the reason \<open>stop\<close>.
\<close>

theorem answered_by_one_turn:
  assumes "Execute env req s w = Some (s', w', Inr response)"
  shows "\<exists>storage parsed model w1 wi es.
    decodeAuth (er_StorageJSON req) = Inr storage
    \<and> parseExecutorRequest (en_Uuid env w) req (sv_config s) = Some (Inr parsed)
    \<and> resolveModel (en_Sha256 env) (en_HTTP env) (en_Now env w) storage (pr_Model parsed) (pr_Effort parsed) s w = (s', w1, Inr model)
    \<and> runTurn (sv_config s') (en_Transport env) (en_Connection env) (en_Uuid env wi) (as_AccessToken storage) model
        (pr_Input parsed) wi = Some (w', Inr es)
    \<and> turn_shape es \<and> list_all (\<lambda>e. te_Err e = None) es
    \<and> (ended es \<or> cut_off es \<and> ct_ToolCalls (turn_summary es) = [] \<and> ct_DoneReason (turn_summary es) = ''stop'')
    \<and> nonStreamingPayload (en_Uuid env w') (pr_ResponseFormat parsed) (pr_Model parsed) (turn_summary es) (en_Now env w' div second)
        = Inr (rp_Payload response)"
proof -
  obtain storage parsed where a: "decodeAuth (er_StorageJSON req) = Inr storage"
    "parseExecutorRequest (en_Uuid env w) req (sv_config s) = Some (Inr parsed)"
    using assms by (auto simp: Execute_def split: sum.splits option.splits)
  obtain s1 w1 model where m: "resolveModel (en_Sha256 env) (en_HTTP env) (en_Now env w) storage (pr_Model parsed) (pr_Effort parsed) s w
      = (s1, w1, Inr model)"
    using assms a by (auto simp: Execute_def split: sum.splits option.splits prod.splits)
  obtain w2 result where t: "retried_turn env (sv_config s1) (as_AccessToken storage) model (pr_Input parsed) (\<lambda>_. collectTurn) w1
      = (w2, Inr (Some result))"
    and p: "nonStreamingPayload (en_Uuid env w2) (pr_ResponseFormat parsed) (pr_Model parsed) result (en_Now env w2 div second)
      = Inr (rp_Payload response)" "s' = s1" "w' = w2"
    using assms a m by (auto simp: Execute_def split: sum.splits option.splits prod.splits)
  obtain wi es where r: "runTurn (sv_config s1) (en_Transport env) (en_Connection env) (en_Uuid env wi) (as_AccessToken storage) model
      (pr_Input parsed) wi = Some (w2, Inr es)" "collectTurn es = Inr result"
    using retried_turn_success [OF t] by blast
  note shape = runTurn_shape [OF r(1)]
  note clean = collected_without_errors [OF shape r(2)]
  have "ended es \<or> cut_off es \<and> ct_ToolCalls (turn_summary es) = [] \<and> ct_DoneReason (turn_summary es) = ''stop''"
    using ended_or_cut_off [OF shape] clean cut_off_summary by blast
  then show ?thesis using a m p r shape clean by blast
qed

text \<open>
  C4. A stream is explained by one turn as well: a prepared stream comes from one turn
  for the stored account, the request and the resolved model, and what the caller's emitter then gets are
  exactly the chunks of its events, in order and each once, up to the first failure of the
  emitter or the end of the turn, whose error is the result. Attempts that failed have emitted nothing.
\<close>

theorem streamed_by_one_turn:
  assumes "PrepareStream env req s w = Some (s', w', Inr ps)"
  shows "\<exists>storage parsed model w1 wi es.
    decodeAuth (er_StorageJSON req) = Inr storage
    \<and> parseExecutorRequest (en_Uuid env w) req (sv_config s) = Some (Inr parsed)
    \<and> resolveModel (en_Sha256 env) (en_HTTP env) (en_Now env w) storage (pr_Model parsed) (pr_Effort parsed) s w = (s', w1, Inr model)
    \<and> runTurn (sv_config s') (en_Transport env) (en_Connection env) (en_Uuid env wi) (as_AccessToken storage) model
        (pr_Input parsed) wi = Some (w', Inr es)
    \<and> turn_shape es \<and> \<not> list_all is_usage (rendered es)
    \<and> (\<forall>emit. ExecuteStream env req emit s w = Some (
        case delivered emit (stream_spec (newStreamState (en_Uuid env w') (pr_ResponseFormat parsed) (pr_Model parsed)
               (en_Now env w' div second)) es) w' of
          (w2, Some err) \<Rightarrow> (s', w2, Inl err)
        | (w2, None) \<Rightarrow> (s', w2, Inr streamHeaders)))"
proof -
  obtain storage parsed model w1 wi es where p: "decodeAuth (er_StorageJSON req) = Inr storage"
    "parseExecutorRequest (en_Uuid env w) req (sv_config s) = Some (Inr parsed)"
    "resolveModel (en_Sha256 env) (en_HTTP env) (en_Now env w) storage (pr_Model parsed) (pr_Effort parsed) s w = (s', w1, Inr model)"
    "runTurn (sv_config s') (en_Transport env) (en_Connection env) (en_Uuid env wi) (as_AccessToken storage) model
        (pr_Input parsed) wi = Some (w', Inr es)"
    and f: "pr_ResponseFormat parsed \<in> set formats"
    and e: "prepareEventStream (en_Uuid env w') (pr_ResponseFormat parsed) (pr_Model parsed) (en_Now env w' div second) es = Inr ps"
    by (rule prepared_stream_source [OF assms])
  have "ExecuteStream env req emit s w = Some (
        case delivered emit (stream_spec (newStreamState (en_Uuid env w') (pr_ResponseFormat parsed) (pr_Model parsed)
               (en_Now env w' div second)) es) w' of
          (w2, Some err) \<Rightarrow> (s', w2, Inl err)
        | (w2, None) \<Rightarrow> (s', w2, Inr streamHeaders))" for emit
    by (rule prepared_execution [OF assms f e])
  moreover have "\<not> list_all is_usage (rendered es)"
    using e prepare_loop_commits unfolding prepareEventStream_def by blast
  ultimately show ?thesis using p runTurn_shape [OF p(4)] by blast
qed

text \<open>A request that is answered: the account, one message, a cached catalog with one model.\<close>

definition with_quotes :: "string \<Rightarrow> string" where
  "with_quotes s = map (\<lambda>c. if c = CHR ''@'' then dquote else c) s"

definition hello_request :: ExecutorRequest where
  "hello_request = \<lparr>er_StorageJSON = with_quotes ''{@type@:@cursor@,@id@:@a@,@access_token@:@t@}'',
     er_OriginalRequest = with_quotes ''{@model@:@gpt@,@messages@:[{@role@:@user@,@content@:@hi@}]}'',
     er_Payload = [], er_SourceFormat = ''openai'', er_Format = [], er_Model = [], er_Stream = False\<rparr>"

definition cached_service :: Service where
  "cached_service = New\<lparr>sv_modelCache := [(''a'', \<lparr>ca_models = [demo_item ''gpt''], ca_expiresAt = 1\<rparr>)]\<rparr>"

definition hello_env_on :: "(string \<Rightarrow> 'w \<Rightarrow> 'w) \<Rightarrow> 'w environment" where
  "hello_env_on put = (demo_env_on put)\<lparr>en_Connection := demo_connection demo_body\<rparr>"

abbreviation hello_env :: "string environment" where
  "hello_env \<equiv> hello_env_on (\<lambda>s w. w @ s)"

lemma hello_parts:
  "decodeAuth (er_StorageJSON hello_request) = Inr (zero_storage\<lparr>as_Type := ''cursor'', as_ID := ''a'', as_AccessToken := ''t''\<rparr>)"
  "parseExecutorRequest (\<lambda>_. []) hello_request DefaultConfig = Some (Inr
     \<lparr>pr_Model = ''gpt'', pr_Effort = [], pr_Stream = False,
      pr_Input = \<lparr>in_RootMessages = [], in_UserText = ''hi'', in_Tools = [], in_ToolIdentities = []\<rparr>,
      pr_ResponseFormat = ''openai-chat''\<rparr>)"
  by code_simp+

lemma hello_model:
  "resolveModel sha256 hc 0 (zero_storage\<lparr>as_Type := ''cursor'', as_ID := ''a'', as_AccessToken := ''t''\<rparr>) ''gpt'' [] cached_service w
     = (cached_service, w, Inr \<lparr>rm_ModelId = ''gpt'', rm_Parameters = []\<rparr>)"
  by (simp add: resolveModel_def discoverModels_def cache_key_def cached_service_def New_def demo_choice)

lemma hello_collected:
  "collectTurn [text_event ''hi'', usage_event zero_usage, done_event ''stop'']
     = Inr (turn_summary [text_event ''hi'', usage_event zero_usage, done_event ''stop''])"
  unfolding collectTurn_summary by (simp add: failure_def event_defs)

lemma hello_payload:
  "marshalable (chat_payload (\<lambda>_. []) ''gpt'' (turn_summary [text_event ''hi'', usage_event zero_usage, done_event ''stop'']) 0)"
  by code_simp

lemma hello_answered: "\<exists>w' response. Execute hello_env hello_request cached_service [] = Some (cached_service, w', Inr response)"
proof -
  let ?input = "\<lparr>in_RootMessages = [], in_UserText = ''hi'', in_Tools = [], in_ToolIdentities = []\<rparr>"
  have turn: "retried_turn hello_env cfg token model ?input (\<lambda>_. collectTurn) []
      = (send_frame ''R'' @ send_frame ''E'', Inr (Some (turn_summary [text_event ''hi'', usage_event zero_usage, done_event ''stop''])))"
    for cfg token model
    using demo_turn_any [of ?input cfg "\<lambda>s w. w @ s" "\<lambda>_. []" token model "[]"] hello_collected
    by (simp add: retried_turn_def retryTransient_def retry_from.simps turn_operation_def hello_env_on_def demo_env_on_def)
  obtain payload where "nonStreamingPayload (\<lambda>_. []) ''openai-chat'' ''gpt''
      (turn_summary [text_event ''hi'', usage_event zero_usage, done_event ''stop'']) 0 = Inr payload"
    using hello_payload by (auto simp: nonStreamingPayload_def marshal_result_def json_marshal_total)
  moreover have "TrimSpace ''gpt'' \<noteq> []" by code_simp
  moreover have "sv_config cached_service = DefaultConfig" by (simp add: cached_service_def New_def)
  ultimately show ?thesis
    using hello_parts turn
    by (simp add: Execute_def hello_env_on_def demo_env_on_def hello_model ensureModel_def)
qed

theorem answered_by_one_turn_witness:
  "\<exists>w' response. Execute hello_env hello_request cached_service [] = Some (cached_service, w', Inr response)
    \<and> nonStreamingPayload (\<lambda>_. []) ''openai-chat'' ''gpt''
        (turn_summary [text_event ''hi'', usage_event zero_usage, done_event ''stop'']) 0 = Inr (rp_Payload response)"
proof -
  obtain w' response where e: "Execute hello_env hello_request cached_service [] = Some (cached_service, w', Inr response)"
    using hello_answered by blast
  have cfg: "sv_config cached_service = DefaultConfig" by (simp add: cached_service_def New_def)
  from answered_by_one_turn [OF e] obtain model w1 wi es where
    "runTurn DefaultConfig demo_transport (demo_connection demo_body) (\<lambda>_. []) ''t'' model
        \<lparr>in_RootMessages = [], in_UserText = ''hi'', in_Tools = [], in_ToolIdentities = []\<rparr> wi = Some (w', Inr es)"
    "nonStreamingPayload (\<lambda>_. []) ''openai-chat'' ''gpt'' (turn_summary es) 0 = Inr (rp_Payload response)"
    using hello_parts cfg by (auto simp: hello_env_on_def demo_env_on_def)
  moreover from this(1) have "es = [text_event ''hi'', usage_event zero_usage, done_event ''stop'']"
    by (simp add: demo_turn_any)
  ultimately show ?thesis using e by blast
qed

text \<open>The same request streamed.\<close>

lemma hello_prepared: "\<exists>w' ps. PrepareStream (hello_env_on put) hello_request cached_service w = Some (cached_service, w', Inr ps)"
proof -
  let ?env = "hello_env_on put"
  let ?input = "\<lparr>in_RootMessages = [], in_UserText = ''hi'', in_Tools = [], in_ToolIdentities = []\<rparr>"
  let ?finish = "\<lambda>w' events. prepareEventStream (en_Uuid ?env w') ''openai-chat'' ''gpt'' (en_Now ?env w' div second) events"
  have turn: "\<exists>w' ps. retried_turn ?env cfg token model ?input ?finish w = (w', Inr (Some ps))" for cfg token model
    using demo_turn_any [of ?input cfg put "\<lambda>_. []" token model w]
    by (simp add: retried_turn_def retryTransient_def retry_from.simps turn_operation_def hello_env_on_def demo_env_on_def
        prepareEventStream_def event_defs streamEventCommits_def)
  have "sv_config cached_service = DefaultConfig" by (simp add: cached_service_def New_def)
  then show ?thesis
    using hello_parts turn [of DefaultConfig "''t''" "\<lparr>rm_ModelId = ''gpt'', rm_Parameters = []\<rparr>"]
    by (auto simp: PrepareStream_def hello_env_on_def demo_env_on_def hello_model)
qed

theorem streamed_by_one_turn_witness:
  "\<exists>w'. \<forall>emit. ExecuteStream hello_env hello_request emit cached_service [] = Some (
     case delivered emit (stream_spec (newStreamState (\<lambda>_. []) ''openai-chat'' ''gpt'' 0)
            [text_event ''hi'', usage_event zero_usage, done_event ''stop'']) w' of
       (w2, Some err) \<Rightarrow> (cached_service, w2, Inl err)
     | (w2, None) \<Rightarrow> (cached_service, w2, Inr streamHeaders))"
proof -
  obtain w' ps where p: "PrepareStream hello_env hello_request cached_service [] = Some (cached_service, w', Inr ps)"
    using hello_prepared [of "\<lambda>s w. w @ s" "[]"] by blast
  have cfg: "sv_config cached_service = DefaultConfig" by (simp add: cached_service_def New_def)
  from streamed_by_one_turn [OF p] obtain model wi es where
    "runTurn DefaultConfig demo_transport (demo_connection demo_body) (\<lambda>_. []) ''t'' model
        \<lparr>in_RootMessages = [], in_UserText = ''hi'', in_Tools = [], in_ToolIdentities = []\<rparr> wi = Some (w', Inr es)"
    "\<forall>emit. ExecuteStream hello_env hello_request emit cached_service [] = Some (
        case delivered emit (stream_spec (newStreamState (\<lambda>_. []) ''openai-chat'' ''gpt'' 0) es) w' of
          (w2, Some err) \<Rightarrow> (cached_service, w2, Inl err)
        | (w2, None) \<Rightarrow> (cached_service, w2, Inr streamHeaders))"
    using hello_parts cfg by (auto simp: hello_env_on_def demo_env_on_def)
  moreover from this(1) have "es = [text_event ''hi'', usage_event zero_usage, done_event ''stop'']"
    by (simp add: demo_turn_any)
  ultimately show ?thesis by blast
qed

end
