(* ===== verification/Go_Time.thy ===== *)
theory Go_Time
  imports Cursor_Errors
begin

text \<open>
  \<open>time.Parse\<close> with the layout \<open>time.RFC3339\<close>. As in the library, the hour may have one
  digit, the seconds may have a fraction (behind a point or a comma) although the layout has
  none, digits behind the ninth are dropped, and an offset may name 24 hours or 60 minutes.
\<close>

definition digit_value :: "char \<Rightarrow> nat" where
  "digit_value c = byte c - 48"

definition two_digits :: "string \<Rightarrow> (nat \<times> string) option" where
  "two_digits s =
     (case s of a # b # r \<Rightarrow>
        if is_digit a \<and> is_digit b then Some (10 * digit_value a + digit_value b, r) else None
      | _ \<Rightarrow> None)"

definition one_or_two_digits :: "string \<Rightarrow> (nat \<times> string) option" where
  "one_or_two_digits s =
     (case two_digits s of Some x \<Rightarrow> Some x
      | None \<Rightarrow> (case s of a # r \<Rightarrow> if is_digit a then Some (digit_value a, r) else None | [] \<Rightarrow> None))"

definition literal :: "char \<Rightarrow> string \<Rightarrow> string option" where
  "literal c s = (case s of x # r \<Rightarrow> if x = c then Some r else None | [] \<Rightarrow> None)"

definition year_digits :: "string \<Rightarrow> (nat \<times> string) option" where
  "year_digits s =
     Option.bind (two_digits s) (\<lambda>(a, r). map_option (\<lambda>(b, r'). (100 * a + b, r')) (two_digits r))"

text \<open>Nanoseconds of a fraction; without one, zero.\<close>

definition fraction :: "string \<Rightarrow> nat \<times> string" where
  "fraction s =
     (case s of c # d # r \<Rightarrow>
        if (c = CHR ''.'' \<or> c = CHR '','') \<and> is_digit d then
          (let ds = takeWhile is_digit (d # r); used = take 9 ds
           in (case parse_digits 0 used of Some n \<Rightarrow> n * 10 ^ (9 - length used) | None \<Rightarrow> 0, dropWhile is_digit (d # r)))
        else (0, s)
      | _ \<Rightarrow> (0, s))"

text \<open>The offset in seconds.\<close>

definition zone :: "string \<Rightarrow> (int \<times> string) option" where
  "zone s =
     (case s of [] \<Rightarrow> None
      | c # r \<Rightarrow>
        if c = CHR ''Z'' then Some (0, r)
        else if c = CHR ''+'' \<or> c = CHR ''-'' then
          Option.bind (two_digits r) (\<lambda>(h, r1).
          Option.bind (literal (CHR '':'') r1) (\<lambda>r2.
          Option.bind (two_digits r2) (\<lambda>(m, r3).
            if 24 < h \<or> 60 < m then None
            else Some ((if c = CHR ''-'' then - 1 else 1) * int (h * 3600 + m * 60), r3))))
        else None)"

definition parse_rfc3339 :: "string \<Rightarrow> time option" where
  "parse_rfc3339 s =
     Option.bind (year_digits s) (\<lambda>(y, s).
     Option.bind (literal (CHR ''-'') s) (\<lambda>s.
     Option.bind (two_digits s) (\<lambda>(mo, s).
     Option.bind (literal (CHR ''-'') s) (\<lambda>s.
     Option.bind (two_digits s) (\<lambda>(d, s).
     Option.bind (literal (CHR ''T'') s) (\<lambda>s.
     Option.bind (one_or_two_digits s) (\<lambda>(h, s).
     Option.bind (literal (CHR '':'') s) (\<lambda>s.
     Option.bind (two_digits s) (\<lambda>(mi, s).
     Option.bind (literal (CHR '':'') s) (\<lambda>s.
     Option.bind (two_digits s) (\<lambda>(sec, s).
       case fraction s of (nanos, s) \<Rightarrow>
     Option.bind (zone s) (\<lambda>(offset, s).
       if s = [] \<and> valid_date y mo d \<and> h < 24 \<and> mi < 60 \<and> sec < 60
       then Some (date_time y mo d + (int (h * 3600 + mi * 60 + sec) - offset) * second + int nanos)
       else None))))))))))))"

end
