(* ===== verification/Quota.thy ===== *)
theory Quota
  imports Auth Go_Time
begin

text \<open>
  provider/quota.go: the usage of an account, read from two servers and rendered as rows. What
  the servers report is untyped; numbers are doubles. A decoder that meets a value it cannot
  store still fills the rest of the map, which the code then uses.
\<close>

section \<open>The response\<close>

record SubscriptionInfo =
  si_Provider :: string
  si_Plan :: string

text \<open>A \<open>nil\<close> pointer is \<open>None\<close>; the window holds its seconds.\<close>

type_synonym QuotaWindow = int

record QuotaRow =
  qr_Key :: string
  qr_Label :: string
  qr_Scope :: string
  qr_Metric :: string
  qr_GroupKey :: string
  qr_GroupLabel :: string
  qr_UsedPercent :: "double option"
  qr_RemainingFraction :: "double option"
  qr_Allowed :: "bool option"
  qr_LimitReached :: "bool option"
  qr_Window :: "QuotaWindow option"
  qr_ResetAt :: string
  qr_ResetAfterSeconds :: "int option"

record QuotaResponse =
  qu_ID :: string
  qu_Quota :: "QuotaRow list"
  qu_Subscription :: "SubscriptionInfo option"
  qu_Source :: string

section \<open>Untyped values\<close>

definition nestedMap :: "object \<Rightarrow> string \<Rightarrow> object" where
  "nestedMap source key = map_or_nil (field source key)"

text \<open>
  \<open>json.Unmarshal\<close> into a map: the map and whether everything could be stored. A number out
  of the range of a double is stored as \<open>nil\<close>.
\<close>

definition lax_fields :: "(string \<times> goval \<times> bool) list \<Rightarrow> object \<times> bool" where
  "lax_fields kvs = (fold (\<lambda>(k, v, _). gm_set k v) kvs [], list_all (\<lambda>(_, _, ok). ok) kvs)"

primrec to_any_lax :: "jsonv \<Rightarrow> goval \<times> bool" where
  "to_any_lax JNull = (GNil, True)"
| "to_any_lax (JBool b) = (GBool b, True)"
| "to_any_lax (JNum t) = (case parse_float t of Some f \<Rightarrow> (GFloat f, True) | None \<Rightarrow> (GNil, False))"
| "to_any_lax (JStr s) = (GStr s, True)"
| "to_any_lax (JArr vs) = (GList (map fst (map to_any_lax vs)), list_all snd (map to_any_lax vs))"
| "to_any_lax (JObj kvs) = map_prod GMap id (lax_fields (map (map_prod id to_any_lax) kvs))"

definition unmarshal_map :: "string \<Rightarrow> object \<times> bool" where
  "unmarshal_map raw =
     (case json_whole raw of
        None \<Rightarrow> ([], False)
      | Some v \<Rightarrow> (case v of
            JObj _ \<Rightarrow> map_prod map_or_nil id (to_any_lax v)
          | JNull \<Rightarrow> ([], True)
          | _ \<Rightarrow> ([], False)))"

section \<open>Percentages in messages\<close>

text \<open>
  \<open>usedPercentPattern\<close>: the word \<open>used\<close> in any case (where U+017F is an \<open>s\<close>), white space, a
  number and a percent sign. The parts of the pattern never compete for a character.
\<close>

definition regex_space :: "char \<Rightarrow> bool" where
  "regex_space c \<longleftrightarrow> byte c = 9 \<or> byte c = 10 \<or> byte c = 12 \<or> byte c = 13 \<or> byte c = 32"

definition letter :: "char \<Rightarrow> string \<Rightarrow> string option" where
  "letter c s = (case s of d # r \<Rightarrow> if lower_char d = c then Some r else None | [] \<Rightarrow> None)"

definition letter_s :: "string \<Rightarrow> string option" where
  "letter_s s =
     (case letter (CHR ''s'') s of Some r \<Rightarrow> Some r
      | None \<Rightarrow> (case s of a # b # r \<Rightarrow> if byte a = 197 \<and> byte b = 191 then Some r else None | _ \<Rightarrow> None))"

definition percent_at :: "string \<Rightarrow> string option" where
  "percent_at s =
     Option.bind (letter (CHR ''u'') s) (\<lambda>s.
     Option.bind (letter_s s) (\<lambda>s.
     Option.bind (letter (CHR ''e'') s) (\<lambda>s.
     Option.bind (letter (CHR ''d'') s) (\<lambda>s.
       if takeWhile regex_space s = [] then None
       else case scan_digits (dropWhile regex_space s) of (i, r) \<Rightarrow>
         if i = [] then None
         else case scan_frac r of
             Some (f, c # _) \<Rightarrow> if c = CHR ''%'' then Some (i @ f) else None
           | _ \<Rightarrow> None))))"

fun find_percent :: "bool \<Rightarrow> string \<Rightarrow> string option" where
  "find_percent after_word [] = None"
| "find_percent after_word (c # s) =
     (case (if after_word then None else percent_at (c # s)) of
        Some d \<Rightarrow> Some d
      | None \<Rightarrow> find_percent (is_word c) s)"

definition percentFromMessage :: "goval \<Rightarrow> goval" where
  "percentFromMessage v =
     (case find_percent False (string_or_empty v) of None \<Rightarrow> GNil | Some t \<Rightarrow> GStr t)"

section \<open>Numbers in strings\<close>

text \<open>\<open>fmt.Sscanf(s, "%f", &x)\<close>: the scanner collects a token, \<open>(token, rest)\<close>, as its \<open>floatToken\<close> does.\<close>

type_synonym scan = "string \<times> string"

definition accept :: "string \<Rightarrow> scan \<Rightarrow> scan option" where
  "accept cs st = (case snd st of c # r \<Rightarrow> if c \<in> set cs then Some (fst st @ [c], r) else None | [] \<Rightarrow> None)"

definition maybe :: "string \<Rightarrow> scan \<Rightarrow> scan" where
  "maybe cs st = (case accept cs st of None \<Rightarrow> st | Some st' \<Rightarrow> st')"

definition accept_all :: "string \<Rightarrow> scan \<Rightarrow> scan" where
  "accept_all cs st = (fst st @ takeWhile (\<lambda>c. c \<in> set cs) (snd st), dropWhile (\<lambda>c. c \<in> set cs) (snd st))"

fun accept_seq :: "string list \<Rightarrow> scan \<Rightarrow> bool \<times> scan" where
  "accept_seq [] st = (True, st)"
| "accept_seq (cs # css) st = (case accept cs st of None \<Rightarrow> (False, st) | Some st' \<Rightarrow> accept_seq css st')"

definition number_token :: "scan \<Rightarrow> string" where
  "number_token st =
     (case accept_seq [''0'', ''xX''] st of
        (hex, st) \<Rightarrow>
          let digits = (if hex then ''0123456789aAbBcCdDeEfF_'' else ''0123456789_'');
              st = accept_all digits st;
              st = (case accept ''.'' st of None \<Rightarrow> st | Some st' \<Rightarrow> accept_all digits st')
          in (case accept (if hex then ''pP'' else ''eEpP'') st of
                None \<Rightarrow> fst st
              | Some st' \<Rightarrow> fst (accept_all ''0123456789_'' (maybe ''+-'' st'))))"

definition float_token :: "string \<Rightarrow> string" where
  "float_token s =
     (case accept_seq [''nN'', ''aA'', ''nN''] ([], s) of
        (True, st) \<Rightarrow> fst st
      | (False, st) \<Rightarrow>
          (case accept_seq [''iI'', ''nN'', ''fF''] (maybe ''+-'' st) of
             (True, st) \<Rightarrow> fst st
           | (False, st) \<Rightarrow> number_token st))"

text \<open>The value of a token with an underscore, a hexadecimal digit prefix or a binary exponent is left open.\<close>

definition unusual_token :: "string \<Rightarrow> float64 option" where
  "unusual_token = undefined"

definition decimal_token :: "string \<Rightarrow> bool" where
  "decimal_token u \<longleftrightarrow>
     (let i = takeWhile is_digit u; r = dropWhile is_digit u;
          f = (case r of c # q \<Rightarrow> if c = CHR ''.'' then takeWhile is_digit q else [] | [] \<Rightarrow> []);
          r' = (case r of c # q \<Rightarrow> if c = CHR ''.'' then dropWhile is_digit q else r | [] \<Rightarrow> [])
      in (i \<noteq> [] \<or> f \<noteq> []) \<and> (r' = [] \<or> (case scan_exp r' of Some (_ # _, []) \<Rightarrow> True | _ \<Rightarrow> False)))"

text \<open>\<open>strconv.ParseFloat\<close> of a token.\<close>

definition token_value :: "string \<Rightarrow> float64 option" where
  "token_value t =
     (let neg = HasPrefix t ''-'';
          u = (if neg \<or> HasPrefix t ''+'' then drop 1 t else t); l = map lower_char u
      in if list_ex (\<lambda>c. c \<in> set ''_xXpP'') t then unusual_token t
         else if l = ''nan'' \<and> u = t then Some FNaN
         else if l = ''inf'' then Some (FInf neg)
         else if decimal_token u then parse_float (if neg then ''-'' @ u else u)
         else None)"

definition scan_float :: "string \<Rightarrow> float64 option" where
  "scan_float s = (if s = [] then None else token_value (float_token s))"

definition number_of :: "goval \<Rightarrow> double option" where
  "number_of v =
     (case v of
        GFloat number \<Rightarrow> Some (to_double number)
      | GInt number \<Rightarrow> Some (DFin (round_double (of_int number)))
      | GStr number \<Rightarrow> map_option to_double (scan_float (TrimSpace number))
      | _ \<Rightarrow> None)"

fun firstNumber :: "goval list \<Rightarrow> double option" where
  "firstNumber [] = None"
| "firstNumber (v # vs) = (case number_of v of Some x \<Rightarrow> Some x | None \<Rightarrow> firstNumber vs)"

section \<open>Times\<close>

fun firstTime :: "goval list \<Rightarrow> time" where
  "firstTime [] = zero_time"
| "firstTime (v # vs) =
     (case v of
        GStr raw \<Rightarrow> (case parse_rfc3339 raw of Some t \<Rightarrow> t | None \<Rightarrow> firstTime vs)
      | GFloat raw \<Rightarrow>
          (let milliseconds = float_to_int raw
           in if milliseconds < 10000000000 then unix milliseconds else milliseconds * millisecond)
      | _ \<Rightarrow> firstTime vs)"

section \<open>Rows\<close>

definition clamp :: "double \<Rightarrow> double" where
  "clamp used = math_max (DFin 0) (math_min (DFin 100) used)"

text \<open>\<open>(100 - clamped) / 100\<close> and \<open>clamped < 100\<close>, for a clamped value.\<close>

definition remaining_of :: "double \<Rightarrow> double" where
  "remaining_of clamped =
     (case clamped of DFin p \<Rightarrow> DFin (round_double (round_double (100 - p) / 100)) | _ \<Rightarrow> DNaN)"

definition below_limit :: "double \<Rightarrow> bool" where
  "below_limit clamped = (case clamped of DFin p \<Rightarrow> p < 100 | _ \<Rightarrow> False)"

definition reset_after :: "time \<Rightarrow> time \<Rightarrow> int" where
  "reset_after now stop =
     (let seconds = \<lceil>seconds_float (time_sub stop now)\<rceil> in if seconds < 0 then 0 else seconds)"

definition quotaRow :: "time \<Rightarrow> string \<Rightarrow> double option \<Rightarrow> time \<Rightarrow> time \<Rightarrow> QuotaRow" where
  "quotaRow now key used start stop =
     \<lparr>qr_Key = key, qr_Label = key, qr_Scope = ''quota_group'', qr_Metric = key, qr_GroupKey = key, qr_GroupLabel = key,
      qr_UsedPercent = map_option clamp used,
      qr_RemainingFraction = map_option (remaining_of \<circ> clamp) used,
      qr_Allowed = map_option (below_limit \<circ> clamp) used,
      qr_LimitReached = map_option (\<lambda>u. \<not> below_limit (clamp u)) used,
      qr_Window = (if start \<noteq> zero_time \<and> stop \<noteq> zero_time \<and> start < stop
                   then Some (trunc (seconds_float (time_sub stop start))) else None),
      qr_ResetAt = (if stop \<noteq> zero_time then format_rfc3339 stop else []),
      qr_ResetAfterSeconds = (if stop \<noteq> zero_time then Some (reset_after now stop) else None)\<rparr>"

section \<open>The two requests\<close>

text \<open>The map and whether the request failed.\<close>

definition fetch_map :: "'w http_client \<Rightarrow> string \<Rightarrow> string \<Rightarrow> http_header \<Rightarrow> string \<Rightarrow> 'w \<Rightarrow> 'w \<times> object \<times> bool" where
  "fetch_map hc method url headers reqBody w =
     (case doJSON hc method url headers reqBody (30 * second) (\<lambda>raw. Some (unmarshal_map raw)) ([], True) w of
        (w', _, _, Inl _) \<Rightarrow> (w', [], True)
      | (w', _, _, Inr (m, ok)) \<Rightarrow> (w', m, \<not> ok))"

definition after_last_bar :: "string \<Rightarrow> string" where
  "after_last_bar s = last (Split (CHR ''|'') s)"

definition fetch_dashboard :: "'w http_client \<Rightarrow> Config \<Rightarrow> string \<Rightarrow> 'w \<Rightarrow> 'w \<times> object \<times> bool" where
  "fetch_dashboard hc cfg token w =
     fetch_map hc ''POST'' (TrimRightSlash (cfg_CursorBaseURL cfg) @ ''/aiserver.v1.DashboardService/GetCurrentPeriodUsage'')
       [(''Authorization'', [''Bearer '' @ token]), (''Content-Type'', [''application/json'']),
        (''Accept'', [''application/json''])] ''{}'' w"

definition fetch_summary :: "'w http_client \<Rightarrow> string \<Rightarrow> 'w \<Rightarrow> 'w \<times> object \<times> bool" where
  "fetch_summary hc token w =
     (let subject = after_last_bar (jwtStringClaim token ''sub'') in
      if subject \<noteq> [] then
        fetch_map hc ''GET'' ''https://cursor.com/api/usage-summary''
          [(''Accept'', [''application/json'']),
           (''Cookie'', [''WorkosCursorSessionToken='' @ QueryEscape (subject @ ''::'' @ token)])] [] w
      else (w, [], False))"

text \<open>What the two maps and failures make of the response.\<close>

definition quota_error :: goerr where
  "quota_error = PlainErr ''Cursor quota endpoints are unavailable''"

definition web_plan :: "object \<Rightarrow> object" where
  "web_plan summary =
     (let plan = nestedMap (nestedMap summary ''individualUsage'') ''plan''
      in if length plan = 0 then nestedMap (nestedMap summary ''teamUsage'') ''plan'' else plan)"

definition quota_response :: "time \<Rightarrow> AuthStorage \<Rightarrow> object \<times> bool \<Rightarrow> object \<times> bool \<Rightarrow> goerr + QuotaResponse" where
  "quota_response now storage dash summ =
     (case (dash, summ) of ((dashboard, dashboardErr), (summary, summaryErr)) \<Rightarrow>
        if dashboardErr \<and> (summaryErr \<or> length summary = 0) then Inl quota_error
        else
          (let planUsage = nestedMap dashboard ''planUsage''; webPlan = web_plan summary;
               cursorNative = firstNumber [field planUsage ''autoPercentUsed'', field webPlan ''autoPercentUsed'',
                 percentFromMessage (field summary ''autoModelSelectedDisplayMessage'')];
               otherModels = firstNumber [field planUsage ''apiPercentUsed'', field webPlan ''apiPercentUsed'',
                 percentFromMessage (field summary ''namedModelSelectedDisplayMessage'')];
               start = firstTime [field summary ''billingCycleStart'', field dashboard ''billingCycleStart''];
               stop = firstTime [field summary ''billingCycleEnd'', field dashboard ''billingCycleEnd''];
               plan = firstNonEmpty [stringValue (field summary ''membershipType''), ''unknown''];
               source = (if dashboardErr then ''usage-summary''
                         else if summaryErr \<or> length summary = 0 then ''dashboard''
                         else ''dashboard+usage-summary'')
           in Inr \<lparr>qu_ID = as_ID storage,
                qu_Quota = [quotaRow now ''cursor-native'' cursorNative start stop,
                            quotaRow now ''other-models'' otherModels start stop],
                qu_Subscription = Some \<lparr>si_Provider = ''cursor'', si_Plan = plan\<rparr>, qu_Source = source\<rparr>))"

text \<open>\<open>Quota\<close>; \<open>now\<close> is the clock after the requests.\<close>

definition Quota :: "'w http_client \<Rightarrow> Config \<Rightarrow> ('w \<Rightarrow> time) \<Rightarrow> AuthStorage \<Rightarrow> 'w \<Rightarrow> 'w \<times> (goerr + QuotaResponse)" where
  "Quota hc cfg now storage w =
     (case fetch_dashboard hc cfg (as_AccessToken storage) w of
        (w1, dash) \<Rightarrow>
          (case fetch_summary hc (as_AccessToken storage) w1 of
             (w2, summ) \<Rightarrow> (w2, quota_response (now w2) storage dash summ)))"

section \<open>The response as JSON\<close>

definition opt_member :: "string \<Rightarrow> ('a \<Rightarrow> string option) \<Rightarrow> 'a option \<Rightarrow> (string \<times> string option) list" where
  "opt_member k enc v = (case v of None \<Rightarrow> [] | Some x \<Rightarrow> [(k, enc x)])"

definition bool_json :: "bool \<Rightarrow> string" where
  "bool_json b = (if b then ''true'' else ''false'')"

definition text_members :: "(string \<times> string) list \<Rightarrow> (string \<times> string option) list" where
  "text_members kvs = map (\<lambda>(k, v). (k, Some (quote v))) kvs"

definition row_members :: "QuotaRow \<Rightarrow> (string \<times> string option) list" where
  "row_members r =
     text_members [(''key'', qr_Key r), (''label'', qr_Label r), (''scope'', qr_Scope r), (''metric'', qr_Metric r),
       (''groupKey'', qr_GroupKey r), (''groupLabel'', qr_GroupLabel r)]
     @ opt_member ''usedPercent'' double_json (qr_UsedPercent r)
     @ opt_member ''remainingFraction'' double_json (qr_RemainingFraction r)
     @ opt_member ''allowed'' (Some \<circ> bool_json) (qr_Allowed r)
     @ opt_member ''limitReached'' (Some \<circ> bool_json) (qr_LimitReached r)
     @ opt_member ''window'' (\<lambda>n. Some (struct_json [(''seconds'', Itoa n)])) (qr_Window r)
     @ (if qr_ResetAt r \<noteq> [] then text_members [(''resetAt'', qr_ResetAt r)] else [])
     @ opt_member ''resetAfterSeconds'' (Some \<circ> Itoa) (qr_ResetAfterSeconds r)"

definition quota_json :: "QuotaResponse \<Rightarrow> string option" where
  "quota_json q = marshal_struct
     (text_members [(''id'', qu_ID q)]
      @ [(''quota'', marshal_list (map (marshal_struct \<circ> row_members) (qu_Quota q)))]
      @ opt_member ''subscription''
          (\<lambda>i. marshal_struct (text_members [(''provider'', si_Provider i), (''plan'', si_Plan i)])) (qu_Subscription q)
      @ text_members [(''source'', qu_Source q)])"

section \<open>Lemmas\<close>

lemma clamp_cases: "clamp used = DNaN \<and> used = DNaN \<or> (\<exists>p. clamp used = DFin p \<and> 0 \<le> p \<and> p \<le> 100)"
proof (cases used)
  case (DInf b)
  then show ?thesis by (cases b) (simp_all add: clamp_def math_min_def math_max_def)
qed (simp_all add: clamp_def math_min_def math_max_def)

definition percent_ok :: "double \<Rightarrow> bool" where
  "percent_ok x = (case x of DNaN \<Rightarrow> True | DInf _ \<Rightarrow> False | DFin p \<Rightarrow> 0 \<le> p \<and> p \<le> 100)"

definition fraction_ok :: "double \<Rightarrow> bool" where
  "fraction_ok x = (case x of DNaN \<Rightarrow> True | DInf _ \<Rightarrow> False | DFin p \<Rightarrow> 0 \<le> p \<and> p \<le> 1)"

lemma clamp_ok: "percent_ok (clamp used)"
  using clamp_cases [of used] by (auto simp: percent_ok_def)

lemma remaining_ok: "percent_ok p \<Longrightarrow> fraction_ok (remaining_of p)"
proof (cases p)
  case (DFin r)
  assume "percent_ok p"
  then have r: "0 \<le> r" "r \<le> 100" using DFin by (simp_all add: percent_ok_def)
  then have "0 \<le> round_double (100 - r)" "round_double (100 - r) \<le> 100"
    using round_double_nonneg [of "100 - r"] round_double_le [of "100 - r" 100] by simp_all
  then have "0 \<le> round_double (round_double (100 - r) / 100)" "round_double (round_double (100 - r) / 100) \<le> 1"
    using round_double_nonneg [of "round_double (100 - r) / 100"] round_double_le [of "round_double (100 - r) / 100" 1]
    by simp_all
  then show ?thesis using DFin by (simp add: remaining_of_def fraction_ok_def)
qed (simp_all add: remaining_of_def fraction_ok_def)

text \<open>What a consumer of a row relies on.\<close>

definition row_ok :: "QuotaRow \<Rightarrow> bool" where
  "row_ok r \<longleftrightarrow>
     (case qr_UsedPercent r of
        None \<Rightarrow> qr_RemainingFraction r = None \<and> qr_Allowed r = None \<and> qr_LimitReached r = None
      | Some used \<Rightarrow> percent_ok used \<and> qr_RemainingFraction r = Some (remaining_of used)
          \<and> fraction_ok (remaining_of used)
          \<and> qr_Allowed r = Some (below_limit used) \<and> qr_LimitReached r = Some (\<not> below_limit used))
     \<and> (case qr_Window r of None \<Rightarrow> True | Some n \<Rightarrow> 0 \<le> n)
     \<and> (case qr_ResetAfterSeconds r of None \<Rightarrow> qr_ResetAt r = [] | Some n \<Rightarrow> 0 \<le> n \<and> qr_ResetAt r \<noteq> [])"

lemma quotaRow_key [simp]: "qr_Key (quotaRow now key used start stop) = key"
  "qr_UsedPercent (quotaRow now key used start stop) = map_option clamp used"
  by (simp_all add: quotaRow_def)

lemma quotaRow_label [simp]: "qr_GroupLabel (quotaRow now key used start stop) = key"
  by (simp add: quotaRow_def)

lemma reset_after_nonneg: "0 \<le> reset_after now t"
  by (simp add: reset_after_def Let_def)

lemma quotaRow_ok: "row_ok (quotaRow now key used start stop)"
proof -
  have w: "0 \<le> trunc (seconds_float (time_sub stop start))" if "start < stop"
    using that by (intro trunc_nonneg seconds_float_nonneg) (simp add: time_sub_def)
  show ?thesis
    using clamp_ok remaining_ok [OF clamp_ok] w format_nonempty reset_after_nonneg
    by (auto simp: row_ok_def quotaRow_def split: option.split)
qed

text \<open>A value that is not a string is never read as NaN.\<close>

lemma to_double_NaN: "to_double f = DNaN \<longleftrightarrow> f = FNaN"
  by (cases f) simp_all

text \<open>The rows can be written as JSON unless a usage is NaN.\<close>

definition usage_nan :: "QuotaRow \<Rightarrow> bool" where
  "usage_nan r \<longleftrightarrow> qr_UsedPercent r = Some DNaN"

lemma text_members_some: "list_all (\<lambda>m. snd m \<noteq> None) (text_members kvs)"
  by (auto simp: text_members_def list_all_iff)

lemma marshal_struct_text: "marshal_struct (text_members kvs) \<noteq> None"
  using text_members_some marshal_struct_Some by blast

lemma list_all_opt_member: "list_all P (opt_member k enc v) \<longleftrightarrow> (case v of None \<Rightarrow> True | Some x \<Rightarrow> P (k, enc x))"
  by (cases v) (simp_all add: opt_member_def)

lemma row_json_iff:
  assumes "row_ok r"
  shows "(\<exists>t. marshal_struct (row_members r) = Some t) \<longleftrightarrow> \<not> usage_nan r"
proof (cases "qr_UsedPercent r")
  case None
  then show ?thesis
    using assms text_members_some
    by (auto simp: marshal_struct_Some row_members_def row_ok_def usage_nan_def list_all_opt_member split: option.split)
next
  case (Some u)
  then have u: "qr_RemainingFraction r = Some (remaining_of u)" "qr_Allowed r = Some (below_limit u)"
    "qr_LimitReached r = Some (\<not> below_limit u)" "percent_ok u"
    using assms by (simp_all add: row_ok_def)
  have "(\<exists>t. marshal_struct (row_members r) = Some t) \<longleftrightarrow> double_json u \<noteq> None \<and> double_json (remaining_of u) \<noteq> None"
    using Some u text_members_some
    by (auto simp: marshal_struct_Some row_members_def list_all_opt_member split: option.split)
  then show ?thesis
    using Some u(4) by (cases u) (auto simp: double_json_None usage_nan_def percent_ok_def remaining_of_def)
qed

lemma quota_json_iff:
  assumes "list_all row_ok (qu_Quota q)"
  shows "(\<exists>t. quota_json q = Some t) \<longleftrightarrow> list_all (\<lambda>r. \<not> usage_nan r) (qu_Quota q)"
proof -
  have "(\<exists>t. marshal_list (map (marshal_struct \<circ> row_members) (qu_Quota q)) = Some t) \<longleftrightarrow> list_all (\<lambda>r. \<not> usage_nan r) (qu_Quota q)"
    using assms row_json_iff unfolding marshal_list_Some by (auto simp: list_all_iff)
  moreover have "(\<exists>t. quota_json q = Some t) \<longleftrightarrow> (\<exists>t. marshal_list (map (marshal_struct \<circ> row_members) (qu_Quota q)) = Some t)"
    using text_members_some marshal_struct_text
    by (auto simp: quota_json_def marshal_struct_Some list_all_opt_member split: option.split)
  ultimately show ?thesis by simp
qed

lemma quota_response_cases:
  "quota_response now storage (d, de) (s, se) =
     (if de \<and> (se \<or> s = []) then Inl quota_error
      else Inr \<lparr>qu_ID = as_ID storage,
        qu_Quota = [quotaRow now ''cursor-native''
             (firstNumber [field (nestedMap d ''planUsage'') ''autoPercentUsed'', field (web_plan s) ''autoPercentUsed'',
               percentFromMessage (field s ''autoModelSelectedDisplayMessage'')])
             (firstTime [field s ''billingCycleStart'', field d ''billingCycleStart''])
             (firstTime [field s ''billingCycleEnd'', field d ''billingCycleEnd'']),
           quotaRow now ''other-models''
             (firstNumber [field (nestedMap d ''planUsage'') ''apiPercentUsed'', field (web_plan s) ''apiPercentUsed'',
               percentFromMessage (field s ''namedModelSelectedDisplayMessage'')])
             (firstTime [field s ''billingCycleStart'', field d ''billingCycleStart''])
             (firstTime [field s ''billingCycleEnd'', field d ''billingCycleEnd''])],
        qu_Subscription = Some \<lparr>si_Provider = ''cursor'',
          si_Plan = firstNonEmpty [stringValue (field s ''membershipType''), ''unknown'']\<rparr>,
        qu_Source = (if de then ''usage-summary'' else if se \<or> s = [] then ''dashboard'' else ''dashboard+usage-summary'')\<rparr>)"
  by (simp add: quota_response_def Let_def)

lemma quota_response_rows:
  assumes "quota_response now storage dash summ = Inr q"
  shows "list_all row_ok (qu_Quota q)" "map qr_Key (qu_Quota q) = [''cursor-native'', ''other-models'']"
    "map qr_GroupLabel (qu_Quota q) = map qr_Key (qu_Quota q)"
proof -
  obtain d de s se where "dash = (d, de)" "summ = (s, se)" by (metis prod.collapse)
  then show "list_all row_ok (qu_Quota q)" "map qr_Key (qu_Quota q) = [''cursor-native'', ''other-models'']"
    "map qr_GroupLabel (qu_Quota q) = map qr_Key (qu_Quota q)"
    using assms by (auto simp: quota_response_cases quotaRow_ok split: if_splits)
qed

lemma Quota_ok:
  assumes "Quota hc cfg now storage w = (w', Inr q)"
  shows "list_all row_ok (qu_Quota q)" "map qr_Key (qu_Quota q) = [''cursor-native'', ''other-models'']"
  using assms quota_response_rows by (auto simp: Quota_def split: prod.splits)

lemma Quota_labels:
  assumes "Quota hc cfg now storage w = (w', Inr q)"
  shows "map qr_GroupLabel (qu_Quota q) = map qr_Key (qu_Quota q)"
  using assms quota_response_rows(3) by (auto simp: Quota_def split: prod.splits)

text \<open>A usage reported as the string \<open>NaN\<close> is accepted, and makes the response unmarshalable.\<close>

definition nan_dashboard :: object where
  "nan_dashboard = [(''planUsage'', GMap [(''autoPercentUsed'', GStr ''NaN'')])]"

theorem nan_usage_unmarshalable:
  "\<exists>q. quota_response 0 zero_storage (nan_dashboard, False) ([], False) = Inr q \<and> quota_json q = None"
proof -
  have "number_of (GStr ''NaN'') = Some DNaN" by code_simp
  then have r: "quota_response 0 zero_storage (nan_dashboard, False) ([], False) = Inr q \<Longrightarrow> quota_json q = None" for q
    using quota_response_rows(1) [of 0 zero_storage "(nan_dashboard, False)" "([], False)" q] quota_json_iff [of q]
    by (auto simp: quota_response_cases usage_nan_def nan_dashboard_def nestedMap_def map_or_nil_def
      clamp_def math_min_def math_max_def)
  then show ?thesis by (simp add: quota_response_cases)
qed

section \<open>Properties\<close>

text \<open>Neither server told anything about the account.\<close>

definition no_source :: "'w http_client \<Rightarrow> Config \<Rightarrow> string \<Rightarrow> 'w \<Rightarrow> bool" where
  "no_source hc cfg token w \<longleftrightarrow>
     (case fetch_dashboard hc cfg token w of
        (w1, _, dashboard_failed) \<Rightarrow> dashboard_failed \<and>
          (case fetch_summary hc token w1 of (_, summary, summary_failed) \<Rightarrow> summary_failed \<or> summary = []))"

text \<open>
  C27. Whatever the servers report, the two rows of a quota are sane: a known usage lies between 0
  and 100 and the remaining fraction between 0 and 1 (or both are NaN), the row is allowed
  exactly when it is not at its limit, an unknown usage leaves all of them unset, and the
  window and the time to the reset are not negative. A quota fails exactly when the dashboard
  failed and the summary failed or was empty, and then with the error that says so.
\<close>

theorem quota_rows_sound:
  "case snd (Quota hc cfg now storage w) of
     Inr q \<Rightarrow> \<not> no_source hc cfg (as_AccessToken storage) w
       \<and> list_all row_ok (qu_Quota q) \<and> map qr_Key (qu_Quota q) = [''cursor-native'', ''other-models'']
   | Inl e \<Rightarrow> no_source hc cfg (as_AccessToken storage) w \<and> e = quota_error"
proof -
  obtain w1 d de where 1: "fetch_dashboard hc cfg (as_AccessToken storage) w = (w1, d, de)" by (metis prod_cases3)
  obtain w2 s se where 2: "fetch_summary hc (as_AccessToken storage) w1 = (w2, s, se)" by (metis prod_cases3)
  have "snd (Quota hc cfg now storage w) = quota_response (now w2) storage (d, de) (s, se)"
    by (simp add: Quota_def 1 2)
  moreover have "no_source hc cfg (as_AccessToken storage) w \<longleftrightarrow> de \<and> (se \<or> s = [])"
    by (simp add: no_source_def 1 2)
  ultimately show ?thesis
    using quota_response_rows [of "now w2" storage "(d, de)" "(s, se)"]
    by (auto simp: quota_response_cases split: sum.split if_splits)
qed

end
