(* ===== verification/Base64_Std.thy ===== *)
theory Base64_Std
  imports Base64 Go_Json
begin

text \<open>
  \<open>base64.StdEncoding\<close> (with padding), in which JSON carries a \<open>[]byte\<close>, and the decoding of
  such a field. As in the library, line breaks are skipped, the last bits are not checked and
  the padding is required.
\<close>

definition std_char :: "nat \<Rightarrow> char" where
  "std_char n = (if n = 62 then CHR ''+'' else if n = 63 then CHR ''/'' else b64_char n)"

definition std_value :: "char \<Rightarrow> nat option" where
  "std_value c = (if c = CHR ''+'' then Some 62 else if c = CHR ''/'' then Some 63
                  else if c = CHR ''-'' \<or> c = CHR ''_'' then None else b64_value c)"

definition std_alphabet :: "char \<Rightarrow> bool" where
  "std_alphabet c \<longleftrightarrow> is_upper c \<or> is_lower c \<or> is_digit c \<or> c \<in> set ''+/=''"

definition padding :: "nat \<Rightarrow> string" where
  "padding n = replicate ((4 - n mod 4) mod 4) (CHR ''='')"

definition StdEncode :: "string \<Rightarrow> string" where
  "StdEncode s = map std_char (sextets s) @ padding (length (sextets s))"

definition StdDecode :: "string \<Rightarrow> string option" where
  "StdDecode s =
     (let t = filter (\<lambda>c. byte c \<noteq> 10 \<and> byte c \<noteq> 13) s;
          text = takeWhile (\<lambda>c. c \<noteq> CHR ''='') t; pad = dropWhile (\<lambda>c. c \<noteq> CHR ''='') t
      in if length t mod 4 = 0 \<and> pad \<in> set [[], ''='', ''==''] then Option.bind (those (map std_value text)) octets
         else None)"

lemma std_value_char:
  assumes "n < 64"
  shows "std_value (std_char n) = Some n"
proof -
  consider "n = 62" | "n = 63" | "n < 62" using assms by linarith
  then show ?thesis
  proof cases
    case 3
    have "b64_char n \<notin> set ''+/-_''"
      using 3 byte_b64_char [OF assms] by (auto split: if_splits)
    then show ?thesis using 3 b64_value_char [OF assms] by (simp add: std_value_def std_char_def)
  qed (simp_all add: std_value_def std_char_def)
qed

lemma std_char_alphabet:
  assumes "n < 64"
  shows "std_alphabet (std_char n)" "std_char n \<noteq> CHR ''=''"
proof -
  have a: "url_safe (b64_char n)" "b64_char n \<noteq> CHR ''=''"
    using url_safe_b64_char [OF assms] by (auto simp: url_safe_def is_upper_def is_lower_def is_digit_def)
  have "std_alphabet (b64_char n)" if "n < 62"
    using a(1) that byte_b64_char [OF assms]
    by (auto simp: url_safe_def std_alphabet_def is_upper_def is_lower_def is_digit_def split: if_splits)
  then show "std_alphabet (std_char n)" "std_char n \<noteq> CHR ''=''"
    using a(2) assms by (auto simp: std_char_def std_alphabet_def)
qed

lemma StdEncode_alphabet: "list_all std_alphabet (StdEncode s)"
  using sextets_bound [of s] std_char_alphabet(1)
  by (auto simp: StdEncode_def padding_def list_all_iff std_alphabet_def)

lemma those_std: "list_all (\<lambda>n. n < 64) ns \<Longrightarrow> those (map (std_value \<circ> std_char) ns) = Some ns"
  by (induction ns) (simp_all add: std_value_char)

lemma sextets_length: "length (sextets s) mod 4 \<noteq> 1"
  by (induction s rule: sextets.induct) simp_all

lemma padding_cases: "n mod 4 \<noteq> 1 \<Longrightarrow> (n + length (padding n)) mod 4 = 0 \<and> padding n \<in> set [[], ''='', ''=='']"
proof -
  assume "n mod 4 \<noteq> 1"
  then consider "n mod 4 = 0" | "n mod 4 = 2" | "n mod 4 = 3" by linarith
  then show ?thesis
  proof cases
    case 2
    then have "padding n = ''==''" by (simp add: padding_def numeral_2_eq_2)
    then show ?thesis using 2 by (simp add: mod_Suc)
  next
    case 3
    then have "padding n = ''=''" by (simp add: padding_def)
    then show ?thesis using 3 by (simp add: mod_Suc)
  qed (simp add: padding_def)
qed

lemma StdDecode_Encode: "StdDecode (StdEncode s) = Some s"
proof -
  let ?ns = "sextets s"
  have bound: "n < 64" if "n \<in> set ?ns" for n using sextets_bound [of s] that by (simp add: list_all_iff)
  have "filter (\<lambda>c. byte c \<noteq> 10 \<and> byte c \<noteq> 13) (StdEncode s) = StdEncode s"
    using StdEncode_alphabet [of s]
    by (auto simp: filter_id_conv list_all_iff std_alphabet_def is_upper_def is_lower_def is_digit_def)
  moreover have "takeWhile (\<lambda>c. c \<noteq> CHR ''='') (StdEncode s) = map std_char ?ns"
    "dropWhile (\<lambda>c. c \<noteq> CHR ''='') (StdEncode s) = padding (length ?ns)"
    using std_char_alphabet(2) bound
    by (auto simp: StdEncode_def takeWhile_append dropWhile_append padding_def)
  moreover have "length (StdEncode s) mod 4 = 0" "padding (length ?ns) \<in> set [[], ''='', ''=='']"
    using padding_cases [OF sextets_length [of s]] by (simp_all add: StdEncode_def)
  ultimately show ?thesis
    using sextets_bound [of s] by (simp add: StdDecode_def Let_def those_std octets_sextets del: set_simps)
qed

interpretation std: text_codec StdEncode StdDecode std_alphabet
  by unfold_locales
    (simp_all add: StdDecode_Encode StdEncode_alphabet, simp add: StdEncode_def sextets_neq_Nil)

text \<open>
  A \<open>[]byte\<close> member: base64 in a string, or an array of small numbers; \<open>null\<close> makes it
  \<open>nil\<close>. Broken base64 leaves the field alone.
\<close>

definition decode_byte :: "char field_decoder" where
  "decode_byte v c =
     (case v of
        JNum t \<Rightarrow> (case Atoi t of Some i \<Rightarrow> if 0 \<le> i \<and> i < 256 \<and> \<not> HasPrefix t ''-'' then (char_of (nat i), True) else (c, False) | None \<Rightarrow> (c, False))
      | JNull \<Rightarrow> (c, True) | _ \<Rightarrow> (c, False))"

definition decode_bytes :: "(string \<Rightarrow> 'r \<Rightarrow> 'r) \<Rightarrow> 'r field_decoder" where
  "decode_bytes put v r =
     (case v of
        JStr s \<Rightarrow> (case StdDecode s of Some b \<Rightarrow> (put b r, True) | None \<Rightarrow> (r, False))
      | _ \<Rightarrow> decode_list decode_byte (char_of (0::nat)) put v r)"

end
