(* ===== verification/Envelopes.thy ===== *)
theory Envelopes
  imports Base64_Std Go_Float "HOL-Library.Word"
begin

text \<open>
  main.go: the boundary to the host. A call carries a method and bytes; the answer is a
  return code and an envelope. The encoding of the envelope is defined in the host's SDK and is a
  parameter (\<open>enc\<close>, \<open>dec\<close>), as is the host's entry point, a function on a world. Buffers are
  values; their C memory is in \<open>Host_Memory\<close>. An empty byte string stands
  for a null pointer.
\<close>

section \<open>Envelopes\<close>

record abi_error =
  ae_Code :: string
  ae_Message :: string
  ae_HTTPStatus :: int
  ae_Retryable :: bool

record Envelope =
  ev_OK :: bool
  ev_Result :: string
  ev_Error :: "abi_error option"

text \<open>\<open>json.Marshal\<close> of an envelope; \<open>None\<close> when the result in it is no JSON.\<close>

type_synonym envelope_encoder = "Envelope \<Rightarrow> string option"

text \<open>The text of an encoding error is the library's.\<close>

definition marshal_error :: goerr where
  "marshal_error = JsonErr undefined"

definition ok_envelope :: "string \<Rightarrow> Envelope" where
  "ok_envelope result = \<lparr>ev_OK = True, ev_Result = result, ev_Error = None\<rparr>"

text \<open>\<open>value\<close> is the JSON of the value, or \<open>None\<close> when it has none.\<close>

definition okEnvelope :: "envelope_encoder \<Rightarrow> string option \<Rightarrow> goerr + string" where
  "okEnvelope enc value =
     (case value of
        None \<Rightarrow> Inl marshal_error
      | Some result \<Rightarrow> (case enc (ok_envelope result) of None \<Rightarrow> Inl marshal_error | Some raw \<Rightarrow> Inr raw))"

definition error_envelope :: "string \<Rightarrow> string \<Rightarrow> int \<Rightarrow> bool \<Rightarrow> int \<Rightarrow> Envelope" where
  "error_envelope code message status retryable retryAfter =
     \<lparr>ev_OK = False, ev_Result = [],
      ev_Error = Some \<lparr>ae_Code = code,
        ae_Message = (if 0 < retryAfter then message @ '' (retry after '' @ Itoa retryAfter @ ''s)'' else message),
        ae_HTTPStatus = status, ae_Retryable = retryable\<rparr>\<rparr>"

definition errorEnvelope :: "envelope_encoder \<Rightarrow> string \<Rightarrow> string \<Rightarrow> int \<Rightarrow> bool \<Rightarrow> int \<Rightarrow> string" where
  "errorEnvelope enc code message status retryable retryAfter =
     (case enc (error_envelope code message status retryable retryAfter) of None \<Rightarrow> [] | Some raw \<Rightarrow> raw)"

definition providerRetryAfterSeconds :: "StatusError option \<Rightarrow> int" where
  "providerRetryAfterSeconds err =
     (case err of
        None \<Rightarrow> 0
      | Some e \<Rightarrow>
          if se_RetryAfter e \<le> 0 then 0
          else let seconds = trunc (seconds_float (se_RetryAfter e)) in if seconds < 1 then 1 else seconds)"

definition provider_error :: "goerr \<Rightarrow> Envelope" where
  "provider_error err =
     (case as_status err of
        None \<Rightarrow> error_envelope ''plugin_error'' (err_text err) 0 False 0
      | Some typed \<Rightarrow> error_envelope (se_Code typed) (err_text err) (se_HTTPStatus typed) (se_Retryable typed)
                        (providerRetryAfterSeconds (Some typed)))"

definition providerErrorEnvelope :: "envelope_encoder \<Rightarrow> goerr \<Rightarrow> string" where
  "providerErrorEnvelope enc err =
     (case as_status err of
        None \<Rightarrow> errorEnvelope enc ''plugin_error'' (err_text err) 0 False 0
      | Some typed \<Rightarrow> errorEnvelope enc (se_Code typed) (err_text err) (se_HTTPStatus typed) (se_Retryable typed)
                        (providerRetryAfterSeconds (Some typed)))"

section \<open>Buffers\<close>

text \<open>
  The caller's response buffer: \<open>None\<close> is a null pointer to it, \<open>Some []\<close> an empty one.
\<close>

definition writeResponse :: "string option \<Rightarrow> string \<Rightarrow> string option" where
  "writeResponse response raw = (if response = None \<or> raw = [] then response else Some raw)"

section \<open>Methods\<close>

text \<open>The methods the SDK names; their spelling is a parameter \<open>abi\<close>.\<close>

datatype abi_method =
    MethodPluginRegister | MethodPluginReconfigure
  | MethodAuthIdentifier | MethodAuthParse | MethodAuthLoginStart | MethodAuthLoginPoll | MethodAuthRefresh
  | MethodModelStatic | MethodModelForAuth
  | MethodExecutorIdentifier | MethodExecutorExecute | MethodExecutorExecuteStream | MethodExecutorCountTokens
  | MethodExecutorHTTPRequest
  | MethodManagementRegister | MethodManagementHandle
  | MethodHostAuthGet | MethodHostLog | MethodHostStreamEmit | MethodHostStreamClose

type_synonym abi = "abi_method \<Rightarrow> string"

section \<open>Calling the host\<close>

text \<open>The host's entry point: method, request, world; world, return code, response.\<close>

type_synonym 'w host_call = "string \<Rightarrow> string \<Rightarrow> 'w \<Rightarrow> 'w \<times> int \<times> string"

record 'w host_api =
  ha_Version :: "32 word"
  ha_Call :: "'w host_call option"

text \<open>\<open>stored_host\<close> is the host that was given to the plugin, if any.\<close>

definition call_host_api :: "'w host_api option \<Rightarrow> 'w host_call" where
  "call_host_api stored_host method request w =
     (case stored_host of
        None \<Rightarrow> (w, 1, [])
      | Some h \<Rightarrow> (case ha_Call h of None \<Rightarrow> (w, 1, []) | Some call \<Rightarrow> call method request w))"

definition no_response :: "string \<Rightarrow> int \<Rightarrow> goerr" where
  "no_response method rc =
     PlainErr (''host callback '' @ method @ '' returned '' @ Itoa rc @ '' without a response'')"

definition host_failure :: "Envelope \<Rightarrow> goerr" where
  "host_failure envelope =
     PlainErr (case ev_Error envelope of
                 Some e \<Rightarrow> if TrimSpace (ae_Message e) \<noteq> [] then ae_Message e else ''host callback failed''
               | None \<Rightarrow> ''host callback failed'')"

text \<open>What a response of the host means.\<close>

definition read_host_response :: "(string \<Rightarrow> Envelope option) \<Rightarrow> string \<Rightarrow> int \<Rightarrow> string \<Rightarrow> goerr + string" where
  "read_host_response dec method rc raw =
     (if length raw = 0 then Inl (no_response method rc)
      else case dec raw of
          None \<Rightarrow> Inl (JsonErr (json_error_text raw))
        | Some envelope \<Rightarrow>
            if \<not> ev_OK envelope then Inl (host_failure envelope)
            else if rc \<noteq> 0 then Inl (PlainErr (''host callback '' @ method @ '' returned '' @ Itoa rc))
            else Inr (ev_Result envelope))"

text \<open>\<open>payload\<close> is the JSON of the request.\<close>

definition callHost :: "'w host_api option \<Rightarrow> (string \<Rightarrow> Envelope option) \<Rightarrow> string \<Rightarrow> string option \<Rightarrow> 'w \<Rightarrow>
    'w \<times> (goerr + string)" where
  "callHost stored_host dec method payload w =
     (case payload of
        None \<Rightarrow> (w, Inl marshal_error)
      | Some request \<Rightarrow>
          (case call_host_api stored_host method request w of
             (w', rc, raw) \<Rightarrow> (w', read_host_response dec method rc raw)))"

section \<open>Starting and stopping\<close>

datatype plugin_function = PluginCall | PluginFree | PluginShutdown

record plugin_api =
  pa_Version :: "32 word"
  pa_Call :: "plugin_function option"
  pa_Free :: "plugin_function option"
  pa_Shutdown :: "plugin_function option"

text \<open>The return code, the stored host and the caller's table; \<open>abi\<close> is the version of the SDK.\<close>

definition cliproxy_plugin_init :: "32 word \<Rightarrow> 'w host_api option \<Rightarrow> plugin_api option \<Rightarrow> 'w host_api option \<Rightarrow>
    int \<times> 'w host_api option \<times> plugin_api option" where
  "cliproxy_plugin_init abi host plugin stored_host =
     (case (host, plugin) of
        (Some h, Some p) \<Rightarrow>
          if ha_Version h \<noteq> abi then (1, stored_host, plugin)
          else (0, Some h, Some \<lparr>pa_Version = abi, pa_Call = Some PluginCall, pa_Free = Some PluginFree,
                  pa_Shutdown = Some PluginShutdown\<rparr>)
      | _ \<Rightarrow> (1, stored_host, plugin))"

section \<open>Lemmas\<close>

lemma providerErrorEnvelope_eq:
  "providerErrorEnvelope enc err = (case enc (provider_error err) of None \<Rightarrow> [] | Some raw \<Rightarrow> raw)"
  by (simp add: providerErrorEnvelope_def provider_error_def errorEnvelope_def split: option.split)

lemma retry_after_positive: "0 \<le> providerRetryAfterSeconds e"
  by (simp add: providerRetryAfterSeconds_def Let_def split: option.split)

lemma okEnvelope_ok: "okEnvelope enc value = Inr raw \<Longrightarrow> \<exists>result. value = Some result \<and> enc (ok_envelope result) = Some raw"
  by (auto simp: okEnvelope_def split: option.splits)

text \<open>Without a host every call fails, and nothing happens.\<close>

lemma callHost_unset: "callHost None dec method (Some request) w = (w, Inl (no_response method 1))"
  by (simp add: callHost_def call_host_api_def read_host_response_def)

text \<open>A call succeeds only when code and envelope agree that it did.\<close>

lemma read_host_response_ok:
  assumes "read_host_response dec method rc raw = Inr result"
  shows "rc = 0 \<and> (\<exists>e. dec raw = Some e \<and> ev_OK e \<and> ev_Result e = result)"
  using assms by (auto simp: read_host_response_def split: if_splits option.splits)

end
