(* ===== verification/Quota_Rpc.thy ===== *)
theory Quota_Rpc
  imports Quota Envelopes
begin

text \<open>
  cmd quota.go: the quota capability of the host, in the host's terms. A credential comes with the
  request or is read from the host; only a Cursor credential with a token is used.
\<close>

section \<open>Messages\<close>

definition methodQuotaIdentifier :: string where "methodQuotaIdentifier = ''quota.identifier''"
definition methodQuotaDescribe :: string where "methodQuotaDescribe = ''quota.describe''"
definition methodQuotaFetch :: string where "methodQuotaFetch = ''quota.fetch''"
definition methodQuotaReset :: string where "methodQuotaReset = ''quota.reset''"

record quotaDescribeResponse =
  qd_SupportedProviders :: "string list"
  qd_DisplayName :: string
  qd_SupportsReset :: bool

record quotaFetchRequest =
  qf_AuthIndex :: string
  qf_Provider :: string
  qf_StorageJSON :: string
  qf_HostCallbackID :: string

record quotaBucket =
  bk_Window :: string
  bk_RemainingFraction :: double
  bk_ResetTime :: string
  bk_Description :: string

record quotaGroup =
  gr_DisplayName :: string
  gr_Buckets :: "quotaBucket list"

text \<open>The subscription is its plan.\<close>

record quotaFetchResponse =
  qp_Subscription :: "string option"
  qp_Groups :: "quotaGroup list"

record quotaResetResponse =
  qx_Success :: bool
  qx_Message :: string

definition zero_fetch :: quotaFetchRequest where
  "zero_fetch = \<lparr>qf_AuthIndex = [], qf_Provider = [], qf_StorageJSON = [], qf_HostCallbackID = []\<rparr>"

definition decode_fetch :: "quotaFetchRequest field_decoder" where
  "decode_fetch = decode_struct
     [(''auth_index'', decode_string (\<lambda>s r. r\<lparr>qf_AuthIndex := s\<rparr>)),
      (''provider'', decode_string (\<lambda>s r. r\<lparr>qf_Provider := s\<rparr>)),
      (''storage_json'', decode_bytes (\<lambda>s r. r\<lparr>qf_StorageJSON := s\<rparr>)),
      (''host_callback_id'', decode_string (\<lambda>s r. r\<lparr>qf_HostCallbackID := s\<rparr>))]"

text \<open>A member that is left out when it is empty.\<close>

definition omit_empty :: "string \<Rightarrow> string \<Rightarrow> (string \<times> string option) list" where
  "omit_empty k v = (if v = [] then [] else [(k, Some (quote v))])"

definition bucket_json :: "quotaBucket \<Rightarrow> string option" where
  "bucket_json b = marshal_struct
     (omit_empty ''window'' (bk_Window b) @ [(''remainingFraction'', double_json (bk_RemainingFraction b))]
      @ omit_empty ''resetTime'' (bk_ResetTime b) @ omit_empty ''description'' (bk_Description b))"

definition group_json :: "quotaGroup \<Rightarrow> string option" where
  "group_json g = marshal_struct
     (omit_empty ''displayName'' (gr_DisplayName g)
      @ (if gr_Buckets g = [] then [] else [(''buckets'', marshal_list (map bucket_json (gr_Buckets g)))]))"

definition fetch_response_json :: "quotaFetchResponse \<Rightarrow> string option" where
  "fetch_response_json r = marshal_struct
     (opt_member ''subscription'' (\<lambda>plan. marshal_struct (omit_empty ''plan'' plan)) (qp_Subscription r)
      @ (if qp_Groups r = [] then [] else [(''groups'', marshal_list (map group_json (qp_Groups r)))]))"

section \<open>Credentials of the host\<close>

record hostAuthGetRequest =
  hq_HostCallbackID :: string
  hq_AuthIndex :: string

definition auth_get_json :: "hostAuthGetRequest \<Rightarrow> string option" where
  "auth_get_json r = marshal_struct
     (omit_empty ''host_callback_id'' (hq_HostCallbackID r) @ [(''auth_index'', Some (quote (hq_AuthIndex r)))])"

text \<open>A \<open>json.RawMessage\<close> is the value it spells; \<open>None\<close> is no value.\<close>

record hostAuthGetResponse =
  hg_Name :: string
  hg_JSON :: "jsonv option"

definition zero_auth_get :: hostAuthGetResponse where
  "zero_auth_get = \<lparr>hg_Name = [], hg_JSON = None\<rparr>"

definition decode_raw :: "(jsonv option \<Rightarrow> 'r \<Rightarrow> 'r) \<Rightarrow> 'r field_decoder" where
  "decode_raw put v r = (put (Some v) r, True)"

definition decode_auth_get :: "hostAuthGetResponse field_decoder" where
  "decode_auth_get = decode_struct
     [(''name'', decode_string (\<lambda>s r. r\<lparr>hg_Name := s\<rparr>)), (''json'', decode_raw (\<lambda>v r. r\<lparr>hg_JSON := v\<rparr>))]"

definition decodeCursorAuthStorage :: "jsonv option \<Rightarrow> AuthStorage option" where
  "decodeCursorAuthStorage raw =
     (case raw of
        None \<Rightarrow> None
      | Some v \<Rightarrow>
          (case decode_storage v zero_storage of
             (storage, ok) \<Rightarrow>
               if ok \<and> EqualFold (TrimSpace (as_Type storage)) ProviderID then Some storage else None))"

text \<open>A call to the host that returns a credential, as the handlers make it.\<close>

type_synonym 'w caller = "string \<Rightarrow> string option \<Rightarrow> 'w \<Rightarrow> 'w \<times> (goerr + string)"

definition host_auth :: "'w caller \<Rightarrow> abi \<Rightarrow> string \<Rightarrow> string \<Rightarrow> 'w \<Rightarrow> 'w \<times> (goerr + string)" where
  "host_auth hostCall abi callback authIndex w =
     hostCall (abi MethodHostAuthGet) (auth_get_json \<lparr>hq_HostCallbackID = callback, hq_AuthIndex = authIndex\<rparr>) w"

section \<open>Fetching\<close>

definition normalize_row :: "QuotaRow \<Rightarrow> quotaGroup" where
  "normalize_row row =
     \<lparr>gr_DisplayName = (if qr_GroupLabel row = [] then qr_Key row else qr_GroupLabel row),
      gr_Buckets = (case qr_RemainingFraction row of
          None \<Rightarrow> []
        | Some f \<Rightarrow> [\<lparr>bk_Window = ''billing-cycle'', bk_RemainingFraction = f, bk_ResetTime = qr_ResetAt row,
                      bk_Description = qr_Label row\<rparr>])\<rparr>"

definition normalizeQuota :: "QuotaResponse \<Rightarrow> quotaFetchResponse" where
  "normalizeQuota quota =
     \<lparr>qp_Subscription = map_option si_Plan (qu_Subscription quota),
      qp_Groups = map normalize_row (qu_Quota quota)\<rparr>"

definition wrong_credential :: goerr where
  "wrong_credential = PlainErr ''credential is not a Cursor credential''"

text \<open>The first half of \<open>fetchQuota\<close>: the bytes of the credential.\<close>

definition fetch_credential :: "'w caller \<Rightarrow> abi \<Rightarrow> quotaFetchRequest \<Rightarrow> 'w \<Rightarrow> 'w \<times> (goerr + jsonv option)" where
  "fetch_credential hostCall abi req w =
     (if qf_Provider req \<noteq> [] \<and> \<not> EqualFold (TrimSpace (qf_Provider req)) ProviderID then (w, Inl wrong_credential)
      else if length (qf_StorageJSON req) \<noteq> 0 then (w, Inr (json_whole (qf_StorageJSON req)))
      else if TrimSpace (qf_AuthIndex req) = [] then (w, Inl (PlainErr ''auth_index or storage_json is required''))
      else (case host_auth hostCall abi (qf_HostCallbackID req) (qf_AuthIndex req) w of
              (w', Inl err) \<Rightarrow> (w', Inl (WrapErr ''read Cursor quota credential'' err))
            | (w', Inr result) \<Rightarrow>
                (w', case unmarshal_strict decode_auth_get zero_auth_get result of
                       None \<Rightarrow> Inl (WrapErr ''decode Cursor quota credential response'' (JsonErr (json_error_text result)))
                     | Some auth \<Rightarrow> Inr (hg_JSON auth))))"

definition fetchQuota :: "'w caller \<Rightarrow> (AuthStorage \<Rightarrow> 'w \<Rightarrow> 'w \<times> (goerr + QuotaResponse)) \<Rightarrow> abi \<Rightarrow>
    quotaFetchRequest \<Rightarrow> 'w \<Rightarrow> 'w \<times> (goerr + quotaFetchResponse)" where
  "fetchQuota hostCall fetch abi req w =
     (case fetch_credential hostCall abi req w of
        (w1, Inl err) \<Rightarrow> (w1, Inl err)
      | (w1, Inr raw) \<Rightarrow>
          (case decodeCursorAuthStorage raw of
             None \<Rightarrow> (w1, Inl wrong_credential)
           | Some storage \<Rightarrow>
               if TrimSpace (as_AccessToken storage) = [] then (w1, Inl (PlainErr ''Cursor credential has no access token''))
               else (case fetch storage w1 of (w2, r) \<Rightarrow> (w2, map_sum id normalizeQuota r))))"

section \<open>Lemmas\<close>

text \<open>An unknown usage gives a group without a bucket, never an exhausted one.\<close>

definition group_ok :: "QuotaRow \<Rightarrow> quotaGroup \<Rightarrow> bool" where
  "group_ok row g \<longleftrightarrow>
     gr_DisplayName g = qr_Key row
     \<and> (case qr_UsedPercent row of
          None \<Rightarrow> gr_Buckets g = []
        | Some used \<Rightarrow> (case gr_Buckets g of
              [b] \<Rightarrow> bk_RemainingFraction b = remaining_of used \<and> fraction_ok (bk_RemainingFraction b)
                \<and> bk_ResetTime b = qr_ResetAt row
            | _ \<Rightarrow> False))"

lemma normalize_row_ok:
  assumes "row_ok row" "qr_GroupLabel row = qr_Key row"
  shows "group_ok row (normalize_row row)"
  using assms by (auto simp: row_ok_def group_ok_def normalize_row_def split: option.splits)

text \<open>
  The credential a request names, with the world after it was read, and the account it grants
  the use of.
\<close>

definition named_credential :: "'w caller \<Rightarrow> abi \<Rightarrow> quotaFetchRequest \<Rightarrow> 'w \<Rightarrow> ('w \<times> jsonv) option" where
  "named_credential hostCall abi req w =
     (if qf_StorageJSON req \<noteq> [] then map_option (Pair w) (json_whole (qf_StorageJSON req))
      else if TrimSpace (qf_AuthIndex req) = [] then None
      else (case host_auth hostCall abi (qf_HostCallbackID req) (qf_AuthIndex req) w of
              (w1, Inl err) \<Rightarrow> None
            | (w1, Inr result) \<Rightarrow>
                Option.bind (unmarshal_strict decode_auth_get zero_auth_get result)
                  (\<lambda>auth. map_option (Pair w1) (hg_JSON auth))))"

definition granted :: "'w caller \<Rightarrow> abi \<Rightarrow> quotaFetchRequest \<Rightarrow> 'w \<Rightarrow> ('w \<times> AuthStorage) option" where
  "granted hostCall abi req w =
     (if qf_Provider req \<noteq> [] \<and> \<not> EqualFold (TrimSpace (qf_Provider req)) ''cursor'' then None
      else (case named_credential hostCall abi req w of
              None \<Rightarrow> None
            | Some (w1, v) \<Rightarrow>
                (case decode_storage v zero_storage of
                   (storage, ok) \<Rightarrow>
                     if ok \<and> EqualFold (TrimSpace (as_Type storage)) ''cursor'' \<and> TrimSpace (as_AccessToken storage) \<noteq> []
                     then Some (w1, storage) else None)))"

lemma fetchQuota_granted:
  "case granted hostCall abi req w of
     None \<Rightarrow> \<exists>w' err. \<forall>fetch. fetchQuota hostCall fetch abi req w = (w', Inl err)
   | Some (w1, storage) \<Rightarrow>
       \<forall>fetch. fetchQuota hostCall fetch abi req w = (case fetch storage w1 of (w2, r) \<Rightarrow> (w2, map_sum id normalizeQuota r))"
proof (cases "qf_Provider req \<noteq> [] \<and> \<not> EqualFold (TrimSpace (qf_Provider req)) ''cursor''")
  case True
  then show ?thesis by (simp add: granted_def fetchQuota_def fetch_credential_def ProviderID_def)
next
  case False
  obtain w1 c where c: "fetch_credential hostCall abi req w = (w1, c)" by (cases "fetch_credential hostCall abi req w") auto
  have "named_credential hostCall abi req w = (case c of Inl err \<Rightarrow> None | Inr raw \<Rightarrow> map_option (Pair w1) raw)"
    using c False
    by (auto simp: fetch_credential_def named_credential_def ProviderID_def
        split: if_splits prod.splits sum.splits option.splits)
  then show ?thesis
    using False c
    by (auto simp: granted_def fetchQuota_def decodeCursorAuthStorage_def ProviderID_def
        split: sum.split option.split prod.split if_splits)
qed

lemma normalizeQuota_groups:
  assumes "Quota hc cfg now storage w1 = (w', Inr q)"
  shows "list_all2 group_ok (qu_Quota q) (qp_Groups (normalizeQuota q))"
    "map gr_DisplayName (qp_Groups (normalizeQuota q)) = [''cursor-native'', ''other-models'']"
proof -
  have rows: "list_all (\<lambda>r. row_ok r \<and> qr_GroupLabel r = qr_Key r) (qu_Quota q)"
    "map qr_GroupLabel (qu_Quota q) = [''cursor-native'', ''other-models'']"
    using Quota_labels [OF assms] Quota_ok [OF assms] by (auto simp: list_all_iff)
  then show "list_all2 group_ok (qu_Quota q) (qp_Groups (normalizeQuota q))"
    by (auto simp: normalizeQuota_def list_all2_conv_all_nth list_all_length normalize_row_ok)
  have "map gr_DisplayName (qp_Groups (normalizeQuota q)) = map qr_GroupLabel (qu_Quota q)"
    using rows(1) by (auto simp: normalizeQuota_def normalize_row_def list_all_iff)
  with rows(2) show "map gr_DisplayName (qp_Groups (normalizeQuota q)) = [''cursor-native'', ''other-models'']" by simp
qed

section \<open>Properties\<close>

text \<open>
  C28. A quota is fetched only for the credential the request names: the one it carries, or
  else the one the host returns for its account index. That value must decode without an error
  into an account whose own type field says Cursor and that has a token, and the request must
  not name another provider. If the request grants no such account it fails, whatever the
  quota servers would answer; otherwise the answer is the quota of just that account, or the
  error of fetching it. A quota has one
  group per row, with its name. A group whose usage is known has one bucket with
  the remaining fraction of the row, which lies between 0 and 1 (or is NaN), and the reset time
  of the row; a group whose usage is unknown has no bucket, so it is never taken for exhausted.
\<close>

theorem quota_fetch_sound:
  "case granted hostCall abi req w of
     None \<Rightarrow> \<exists>w' err. \<forall>fetch. fetchQuota hostCall fetch abi req w = (w', Inl err)
   | Some (w1, storage) \<Rightarrow>
       EqualFold (TrimSpace (as_Type storage)) ''cursor'' \<and> TrimSpace (as_AccessToken storage) \<noteq> []
       \<and> (case Quota hc cfg now storage w1 of
            (w2, Inl err) \<Rightarrow> fetchQuota hostCall (Quota hc cfg now) abi req w = (w2, Inl err)
          | (w2, Inr q) \<Rightarrow>
              \<exists>resp. fetchQuota hostCall (Quota hc cfg now) abi req w = (w2, Inr resp)
                \<and> list_all2 group_ok (qu_Quota q) (qp_Groups resp)
                \<and> map gr_DisplayName (qp_Groups resp) = [''cursor-native'', ''other-models''])"
proof (cases "granted hostCall abi req w")
  case None
  with fetchQuota_granted [of hostCall abi req w] show ?thesis by simp
next
  case (Some g)
  obtain w1 storage where g: "g = (w1, storage)" by (cases g)
  have "EqualFold (TrimSpace (as_Type storage)) ''cursor'' \<and> TrimSpace (as_AccessToken storage) \<noteq> []"
    using Some by (auto simp: g granted_def split: if_splits option.splits prod.splits)
  moreover have "fetchQuota hostCall (Quota hc cfg now) abi req w
      = (case Quota hc cfg now storage w1 of (w2, r) \<Rightarrow> (w2, map_sum id normalizeQuota r))"
    using fetchQuota_granted [of hostCall abi req w] by (simp add: Some g)
  ultimately show ?thesis
    using normalizeQuota_groups [of hc cfg now storage w1] by (simp add: Some g split: prod.split sum.split)
qed

end
