(* ===== verification/Dispatch.thy ===== *)
theory Dispatch
  imports Executor Quota_Rpc
begin

text \<open>
  dispatch.go and the exported calls of main.go: a method and a request become an operation of the
  service and its result, a goroutine may be left behind, and the answer is wrapped for the
  host. Types of the host's SDK are parameters: the names of its methods, the decoders of its
  requests and the encoder of its results.
\<close>

section \<open>Requests and results\<close>

record registrationCapability =
  rc_ModelProvider :: bool
  rc_AuthProvider :: bool
  rc_Executor :: bool
  rc_ExecutorModelScope :: string
  rc_ExecutorInputFormats :: "string list"
  rc_ExecutorOutputFormats :: "string list"
  rc_ManagementAPI :: bool
  rc_QuotaProvider :: bool

datatype config_type = FieldBoolean | FieldString | FieldEnum | FieldObject | FieldInteger

record ConfigField =
  cf_Name :: string
  cf_Type :: config_type
  cf_EnumValues :: "string list"
  cf_Description :: string

record Metadata =
  md_Name :: string
  md_Version :: string
  md_Author :: string
  md_GitHubRepository :: string
  md_ConfigFields :: "ConfigField list"

record registration =
  rg_SchemaVersion :: "32 word"
  rg_Metadata :: Metadata
  rg_Capabilities :: registrationCapability

record rpcAuthLoginStartRequest =
  rl_Metadata :: object
  rl_HostCallbackID :: string

record rpcAuthLoginPollRequest =
  rp_State :: string
  rp_HostCallbackID :: string

record rpcAuthRefreshRequest =
  rr_AuthID :: string
  rr_StorageJSON :: string
  rr_HostCallbackID :: string

record rpcAuthModelRequest =
  rm_StorageJSON :: string
  rm_HostCallbackID :: string

record rpcExecutorRequest =
  re_ExecutorRequest :: ExecutorRequest
  re_StreamID :: string
  re_HostCallbackID :: string

record rpcManagementRequest =
  mr_Method :: string
  mr_Path :: string
  mr_Query :: "(string, string list) gomap"
  mr_HostCallbackID :: string

record ManagementResponse =
  mg_StatusCode :: int
  mg_Headers :: http_header
  mg_Body :: string

record rpcManagementRoute =
  mt_Method :: string
  mt_Path :: string
  mt_Description :: string

record rpcResourceRoute =
  rt_Path :: string
  rt_Menu :: string
  rt_Description :: string

record rpcManagementRegistrationResponse =
  mx_Routes :: "rpcManagementRoute list"
  mx_Resources :: "rpcResourceRoute list"

datatype rpc_result =
    RegistrationResult registration
  | IdentifierResult string
  | DescribeResult quotaDescribeResponse
  | FetchResult quotaFetchResponse
  | ResetResult quotaResetResponse
  | ParseResult "AuthData option"
  | LoginStartResult AuthLoginStartResponse
  | LoginPollResult AuthLoginPollResponse
  | RefreshResult "AuthData \<times> time"
  | ModelResult "string \<times> ModelInfo list"
  | ExecuteResult ExecutorResponse
  | HeadersResult http_header
  | RoutesResult rpcManagementRegistrationResponse
  | ManagementResult ManagementResponse

record sdk =
  sd_Abi :: abi
  sd_SchemaVersion :: "32 word"
  sd_OAuthScope :: string
  sd_AuthParse :: "string \<Rightarrow> goerr + AuthParseRequest"
  sd_LoginStart :: "string \<Rightarrow> goerr + rpcAuthLoginStartRequest"
  sd_LoginPoll :: "string \<Rightarrow> goerr + rpcAuthLoginPollRequest"
  sd_Refresh :: "string \<Rightarrow> goerr + rpcAuthRefreshRequest"
  sd_Model :: "string \<Rightarrow> goerr + rpcAuthModelRequest"
  sd_Executor :: "string \<Rightarrow> goerr + rpcExecutorRequest"
  sd_Management :: "string \<Rightarrow> goerr + rpcManagementRequest"
  sd_Json :: "rpc_result \<Rightarrow> string option"
  sd_Enc :: envelope_encoder
  sd_Dec :: "string \<Rightarrow> Envelope option"

text \<open>\<open>pe_Random\<close> are the reads of the random source, \<open>pe_Page\<close> the HTML of the quota page.\<close>

record 'w plugin_env = "'w environment" +
  pe_Sdk :: sdk
  pe_Yaml :: "string \<Rightarrow> Config \<Rightarrow> goerr + Config"
  pe_Random :: "'w \<Rightarrow> nat \<Rightarrow> goerr + string"
  pe_Host :: "'w host_api option"
  pe_Version :: string
  pe_Page :: string

definition host_call :: "('w, 'x) plugin_env_scheme \<Rightarrow> 'w caller" where
  "host_call env = callHost (pe_Host env) (sd_Dec (pe_Sdk env))"

definition abi_of :: "('w, 'x) plugin_env_scheme \<Rightarrow> abi" where
  "abi_of env = sd_Abi (pe_Sdk env)"

section \<open>Registration\<close>

definition config_field :: "string \<Rightarrow> config_type \<Rightarrow> string list \<Rightarrow> string \<Rightarrow> ConfigField" where
  "config_field name type values description =
     \<lparr>cf_Name = name, cf_Type = type, cf_EnumValues = values, cf_Description = description\<rparr>"

definition pluginRegistration :: "('w, 'x) plugin_env_scheme \<Rightarrow> registration" where
  "pluginRegistration env =
     \<lparr>rg_SchemaVersion = sd_SchemaVersion (pe_Sdk env),
      rg_Metadata = \<lparr>md_Name = ''Cursor Provider'', md_Version = pe_Version env, md_Author = ''edgebyte-ai'',
        md_GitHubRepository = ''https://github.com/edgebyte-ai/cliproxyapi-cursor-provider-plugin'',
        md_ConfigFields =
          [config_field ''enabled'' FieldBoolean [] ''Enable the Cursor provider.'',
           config_field ''model_prefix'' FieldString [] ''Prefix added to Cursor model IDs.'',
           config_field ''model_mode'' FieldEnum [''raw'', ''normalized'', ''both''] ''Cursor model catalog compatibility mode.'',
           config_field ''default_reasoning_effort'' FieldString [] ''Default effort for normalized model families.'',
           config_field ''model_display_names'' FieldObject [] ''Exact Cursor model ID to catalog display-name mappings.'',
           config_field ''transient_retry_count'' FieldInteger [] ''Retries before stream commitment for transient Cursor 408/5xx and transport failures (0-3).'',
           config_field ''transient_retry_delay_ms'' FieldInteger [] ''Initial delay in milliseconds between transient retries (0-5000).'']\<rparr>,
      rg_Capabilities = \<lparr>rc_ModelProvider = True, rc_AuthProvider = True, rc_Executor = True,
        rc_ExecutorModelScope = sd_OAuthScope (pe_Sdk env),
        rc_ExecutorInputFormats = [''openai'', ''openai-response'', ''claude''],
        rc_ExecutorOutputFormats = [''openai'', ''openai-response'', ''claude''],
        rc_ManagementAPI = True, rc_QuotaProvider = True\<rparr>\<rparr>"

text \<open>The request carries the configuration; an empty one leaves it empty.\<close>

definition decode_lifecycle :: "string field_decoder" where
  "decode_lifecycle = decode_struct [(''config_yaml'', decode_bytes (\<lambda>s _. s))]"

definition lifecycle_config :: "string \<Rightarrow> goerr + string" where
  "lifecycle_config request =
     (if 0 < length request then
        (case unmarshal_strict decode_lifecycle [] request of
           None \<Rightarrow> Inl (JsonErr (json_error_text request))
         | Some raw \<Rightarrow> Inr raw)
      else Inr [])"

section \<open>Management pages\<close>

definition cursorQuotaDetailsPath :: string where
  "cursorQuotaDetailsPath = ''/plugins/cursor-provider/quota-details''"

definition management_routes :: rpcManagementRegistrationResponse where
  "management_routes =
     \<lparr>mx_Routes =
        [\<lparr>mt_Method = ''GET'', mt_Path = cursorQuotaDetailsPath, mt_Description = ''Cursor quota groups for one auth_index''\<rparr>,
         \<lparr>mt_Method = ''GET'', mt_Path = ''/plugins/cursor-provider/quota'', mt_Description = ''Cursor quota groups for one auth_index''\<rparr>,
         \<lparr>mt_Method = ''GET'', mt_Path = ''/plugins/cursor-provider/account-policy'', mt_Description = ''Read one Cursor account model policy and priority''\<rparr>],
      mx_Resources = [\<lparr>rt_Path = ''/quota'', rt_Menu = ''Cursor Quota'', rt_Description = ''Cursor account quota groups''\<rparr>]\<rparr>"

definition json_error_body :: "string \<Rightarrow> string" where
  "json_error_body message = struct_json [(''error'', quote message)]"

definition management_error :: "int \<Rightarrow> string \<Rightarrow> ManagementResponse" where
  "management_error status message = \<lparr>mg_StatusCode = status, mg_Headers = [], mg_Body = json_error_body message\<rparr>"

definition json_response :: "string \<Rightarrow> ManagementResponse" where
  "json_response body =
     \<lparr>mg_StatusCode = 200, mg_Headers = [(''Content-Type'', [''application/json''])], mg_Body = body\<rparr>"

definition squote :: "string \<Rightarrow> string" where
  "squote s = CHR 0x27 # s @ [CHR 0x27]"

definition page_response :: "string \<Rightarrow> ManagementResponse" where
  "page_response page =
     \<lparr>mg_StatusCode = 200,
      mg_Headers = [(''Content-Type'', [''text/html; charset=utf-8'']), (''Cache-Control'', [''no-store'']),
        (''Content-Security-Policy'', [''default-src '' @ squote ''none'' @ ''; style-src '' @ squote ''unsafe-inline''
           @ ''; script-src '' @ squote ''unsafe-inline'' @ ''; connect-src '' @ squote ''self'']),
        (''X-Content-Type-Options'', [''nosniff'']), (''Referrer-Policy'', [''no-referrer''])],
      mg_Body = page\<rparr>"

text \<open>\<open>url.Values.Get\<close>.\<close>

definition query_get :: "(string, string list) gomap \<Rightarrow> string \<Rightarrow> string" where
  "query_get q k = (case gm_get q k of Some (v # _) \<Rightarrow> v | _ \<Rightarrow> [])"

record accountPolicyResponse =
  pr_AuthIndex :: string
  pr_Name :: string
  pr_Label :: string
  pr_Prefix :: string
  pr_Priority :: int
  pr_AllowedModels :: "string list"
  pr_DeniedModels :: "string list"

definition newAccountPolicyResponse :: "string \<Rightarrow> string \<Rightarrow> AuthStorage \<Rightarrow> accountPolicyResponse" where
  "newAccountPolicyResponse authIndex name storage =
     \<lparr>pr_AuthIndex = authIndex, pr_Name = name, pr_Label = as_Label storage, pr_Prefix = as_Prefix storage,
      pr_Priority = as_Priority storage, pr_AllowedModels = as_AllowedModels storage,
      pr_DeniedModels = as_DeniedModels storage\<rparr>"

definition policy_json :: "accountPolicyResponse \<Rightarrow> string" where
  "policy_json p = struct_json
     [(''auth_index'', quote (pr_AuthIndex p)), (''name'', quote (pr_Name p)), (''label'', quote (pr_Label p)),
      (''prefix'', quote (pr_Prefix p)), (''priority'', Itoa (pr_Priority p)),
      (''allowed_models'', json_string_list (pr_AllowedModels p)), (''denied_models'', json_string_list (pr_DeniedModels p))]"

text \<open>
  What both handlers do first: the account is asked for by its index and read from the host.
  \<open>Inr (Inl response)\<close> is an answer already; otherwise the index, the name and the account.
\<close>

definition management_account :: "('w, 'x) plugin_env_scheme \<Rightarrow> rpcManagementRequest \<Rightarrow> 'w \<Rightarrow>
    'w \<times> (goerr + (ManagementResponse + string \<times> string \<times> AuthStorage))" where
  "management_account env req w =
     (let authIndex = TrimSpace (query_get (mr_Query req) ''auth_index'') in
      if authIndex = [] then (w, Inr (Inl (management_error 400 ''auth_index is required'')))
      else (case host_auth (host_call env) (abi_of env) (mr_HostCallbackID req) authIndex w of
              (w', Inl err) \<Rightarrow> (w', Inl err)
            | (w', Inr raw) \<Rightarrow>
                (w', case unmarshal_strict decode_auth_get zero_auth_get raw of
                       None \<Rightarrow> Inl (JsonErr (json_error_text raw))
                     | Some response \<Rightarrow>
                         (case decodeCursorAuthStorage (hg_JSON response) of
                            None \<Rightarrow> Inr (Inl (management_error 400 ''auth_index is not a Cursor credential''))
                          | Some storage \<Rightarrow> Inr (Inr (authIndex, hg_Name response, storage))))))"

definition getAccountPolicy :: "('w, 'x) plugin_env_scheme \<Rightarrow> rpcManagementRequest \<Rightarrow> 'w \<Rightarrow>
    'w \<times> (goerr + ManagementResponse)" where
  "getAccountPolicy env req w =
     (case management_account env req w of
        (w', Inl err) \<Rightarrow> (w', Inl err)
      | (w', Inr (Inl response)) \<Rightarrow> (w', Inr response)
      | (w', Inr (Inr (authIndex, name, storage))) \<Rightarrow>
          (w', Inr (json_response (policy_json (newAccountPolicyResponse authIndex name storage)))))"

definition getQuotaDetails :: "('w, 'x) plugin_env_scheme \<Rightarrow> rpcManagementRequest \<Rightarrow> Service \<Rightarrow> 'w \<Rightarrow>
    'w \<times> (goerr + ManagementResponse)" where
  "getQuotaDetails env req s w =
     (case management_account env req w of
        (w1, Inl err) \<Rightarrow> (w1, Inl err)
      | (w1, Inr (Inl response)) \<Rightarrow> (w1, Inr response)
      | (w1, Inr (Inr (_, _, storage))) \<Rightarrow>
          if TrimSpace (as_AccessToken storage) = [] then
            (w1, Inr (management_error 400 ''Cursor credential has no access token''))
          else (case Quota (en_HTTP env) (sv_config s) (en_Now env) storage w1 of
                  (w2, Inl err) \<Rightarrow> (w2, Inl err)
                | (w2, Inr quota) \<Rightarrow>
                    (w2, Inr (json_response (case quota_json quota of None \<Rightarrow> [] | Some body \<Rightarrow> body)))))"

definition handleManagement :: "('w, 'x) plugin_env_scheme \<Rightarrow> rpcManagementRequest \<Rightarrow> Service \<Rightarrow> 'w \<Rightarrow>
    'w \<times> (goerr + ManagementResponse)" where
  "handleManagement env req s w =
     (if mr_Method req = ''GET'' \<and> Contains (mr_Path req) ''/resource/plugins/'' \<and> HasSuffix (mr_Path req) ''/quota''
      then (w, Inr (page_response (pe_Page env)))
      else if mr_Method req = ''GET'' \<and> HasSuffix (mr_Path req) ''/plugins/cursor-provider/account-policy''
      then getAccountPolicy env req w
      else if mr_Method req \<noteq> ''GET''
        \<or> \<not> (HasSuffix (mr_Path req) cursorQuotaDetailsPath \<or> HasSuffix (mr_Path req) ''/plugins/cursor-provider/quota'')
      then (w, Inr (management_error 404 ''not found''))
      else getQuotaDetails env req s w)"

section \<open>Streams\<close>

text \<open>What the goroutine of a stream works on.\<close>

record stream_task =
  sk_Prepared :: PreparedStream
  sk_StreamID :: string

definition emit_json :: "string \<Rightarrow> string \<Rightarrow> string" where
  "emit_json stream payload = struct_json
     ([(''stream_id'', quote stream)] @ (if payload = [] then [] else [(''payload'', quote (StdEncode payload))]))"

definition close_json :: "string \<Rightarrow> string \<Rightarrow> string" where
  "close_json stream message = struct_json
     ([(''stream_id'', quote stream)] @ (if message = [] then [] else [(''error'', quote message)]))"

definition emit_chunk :: "('w, 'x) plugin_env_scheme \<Rightarrow> string \<Rightarrow> 'w emit" where
  "emit_chunk env stream payload w =
     (case host_call env (abi_of env MethodHostStreamEmit) (Some (emit_json stream payload)) w of
        (w', Inl err) \<Rightarrow> (w', Some err)
      | (w', Inr _) \<Rightarrow> (w', None))"

text \<open>The goroutine: all chunks are emitted, then the stream is closed with the error's text.\<close>

definition run_stream :: "('w, 'x) plugin_env_scheme \<Rightarrow> stream_task \<Rightarrow> 'w \<Rightarrow> 'w" where
  "run_stream env task w =
     (case Pump (Some (sk_Prepared task)) (Some (emit_chunk env (sk_StreamID task))) w of
        (_, w', streamErr) \<Rightarrow>
          fst (host_call env (abi_of env MethodHostStreamClose)
            (Some (close_json (sk_StreamID task) (case streamErr of None \<Rightarrow> [] | Some err \<Rightarrow> err_text err))) w'))"

section \<open>Dispatch\<close>

text \<open>Service, world, result, and the goroutine that is left behind.\<close>

type_synonym 'w dispatched = "Service \<times> 'w \<times> (goerr + rpc_result) \<times> stream_task option"

definition finished :: "Service \<Rightarrow> 'w \<Rightarrow> goerr + rpc_result \<Rightarrow> 'w dispatched option" where
  "finished s w r = Some (s, w, r, None)"

definition execute_log :: "rpcExecutorRequest \<Rightarrow> goerr + ExecutorResponse \<Rightarrow> goval" where
  "execute_log req result =
     (let er = re_ExecutorRequest req;
          bytes = int (case result of Inr response \<Rightarrow> length (rp_Payload response) | Inl _ \<Rightarrow> 0);
          resolved = (case result of Inr response \<Rightarrow> string_or_empty (field (rp_Metadata response) ''cursor_model'') | Inl _ \<Rightarrow> [])
      in GMap
        [(''host_callback_id'', GStr (re_HostCallbackID req)), (''level'', GStr ''debug''),
         (''message'', GStr (''cursor provider executor completed model='' @ er_Model er @ '' upstream='' @ resolved
            @ '' format='' @ er_Format er @ '' source='' @ er_SourceFormat er @ '' payload_bytes='' @ Itoa bytes)),
         (''fields'', GMap [(''model'', GStr (er_Model er)), (''format'', GStr (er_Format er)),
            (''source_format'', GStr (er_SourceFormat er)), (''payload_bytes'', GInt bytes),
            (''error'', GBool (case result of Inl _ \<Rightarrow> True | Inr _ \<Rightarrow> False))])])"

definition dispatch_execute :: "('w, 'x) plugin_env_scheme \<Rightarrow> rpcExecutorRequest \<Rightarrow> Service \<Rightarrow> 'w \<Rightarrow> 'w dispatched option" where
  "dispatch_execute env req s w =
     (case Execute (environment.truncate env) (re_ExecutorRequest req) s w of
        None \<Rightarrow> None
      | Some (s', w1, result) \<Rightarrow>
          (case host_call env (abi_of env MethodHostLog) (json_marshal (execute_log req result)) w1 of
             (w2, _) \<Rightarrow> finished s' w2 (map_sum id ExecuteResult result)))"

definition dispatch_stream :: "('w, 'x) plugin_env_scheme \<Rightarrow> rpcExecutorRequest \<Rightarrow> Service \<Rightarrow> 'w \<Rightarrow> 'w dispatched option" where
  "dispatch_stream env req s w =
     (case PrepareStream (environment.truncate env) (re_ExecutorRequest req) s w of
        None \<Rightarrow> None
      | Some (s', w', Inl err) \<Rightarrow> finished s' w' (Inl err)
      | Some (s', w', Inr prepared) \<Rightarrow>
          Some (s', w', Inr (HeadersResult (Headers (Some prepared))),
            Some \<lparr>sk_Prepared = prepared, sk_StreamID = re_StreamID req\<rparr>))"

definition dispatch_lifecycle :: "('w, 'x) plugin_env_scheme \<Rightarrow> string \<Rightarrow> Service \<Rightarrow> 'w \<Rightarrow> 'w dispatched option" where
  "dispatch_lifecycle env request s w =
     (case lifecycle_config request of
        Inl err \<Rightarrow> finished s w (Inl err)
      | Inr raw \<Rightarrow>
          (case Configure (pe_Yaml env) raw s of
             (s', Some err) \<Rightarrow> finished s' w (Inl err)
           | (s', None) \<Rightarrow> finished s' w (Inr (RegistrationResult (pluginRegistration env)))))"

text \<open>\<open>with_request dec request s w handle\<close>: a request that cannot be decoded is an error.\<close>

definition with_request :: "(string \<Rightarrow> goerr + 'r) \<Rightarrow> string \<Rightarrow> Service \<Rightarrow> 'w \<Rightarrow> ('r \<Rightarrow> 'w dispatched option) \<Rightarrow>
    'w dispatched option" where
  "with_request dec request s w handle =
     (case dec request of Inl err \<Rightarrow> finished s w (Inl err) | Inr req \<Rightarrow> handle req)"

definition decode_quota_fetch :: "string \<Rightarrow> goerr + quotaFetchRequest" where
  "decode_quota_fetch request =
     (case unmarshal_strict decode_fetch zero_fetch request of
        None \<Rightarrow> Inl (JsonErr (json_error_text request)) | Some req \<Rightarrow> Inr req)"

definition http_disabled :: goerr where
  "http_disabled = StatusErr (status_error ''unsupported_http'' ''arbitrary Cursor HTTP proxying is disabled'' 403)"

definition unknown_method :: "string \<Rightarrow> goerr" where
  "unknown_method method = StatusErr (status_error ''unknown_method'' (''unknown plugin method: '' @ method) 501)"

definition dispatch_login :: "('w, 'x) plugin_env_scheme \<Rightarrow> object \<Rightarrow> Service \<Rightarrow> 'w \<Rightarrow> 'w dispatched option" where
  "dispatch_login env metadata s w =
     (case StartLogin (en_Sha256 env) (pe_Random env w 0) (pe_Random env w 1) (en_Now env w) metadata s of
        (s', r) \<Rightarrow> finished s' w (map_sum id LoginStartResult r))"

definition dispatch :: "('w, 'x) plugin_env_scheme \<Rightarrow> string \<Rightarrow> string \<Rightarrow> Service \<Rightarrow> 'w \<Rightarrow> 'w dispatched option" where
  "dispatch env method request s w =
     (let abi = abi_of env; sdk = pe_Sdk env in
      if method = abi MethodPluginRegister \<or> method = abi MethodPluginReconfigure then dispatch_lifecycle env request s w
      else if method = abi MethodAuthIdentifier \<or> method = abi MethodExecutorIdentifier
        then finished s w (Inr (IdentifierResult ProviderID))
      else if method = methodQuotaIdentifier then finished s w (Inr (IdentifierResult ProviderID))
      else if method = methodQuotaDescribe then
        finished s w (Inr (DescribeResult \<lparr>qd_SupportedProviders = [ProviderID], qd_DisplayName = ''Cursor'', qd_SupportsReset = False\<rparr>))
      else if method = methodQuotaFetch then
        with_request decode_quota_fetch request s w (\<lambda>req.
          case fetchQuota (host_call env) (Quota (en_HTTP env) (sv_config s) (en_Now env)) abi req w of
            (w', r) \<Rightarrow> finished s w' (map_sum id FetchResult r))
      else if method = methodQuotaReset then
        finished s w (Inr (ResetResult \<lparr>qx_Success = False, qx_Message = ''Cursor subscription quota cannot be reset by this plugin''\<rparr>))
      else if method = abi MethodAuthParse then
        with_request (sd_AuthParse sdk) request s w (\<lambda>req.
          finished s w (map_sum id ParseResult (ParseAuth (en_Sha256 env) (en_Now env w) req)))
      else if method = abi MethodAuthLoginStart then
        with_request (sd_LoginStart sdk) request s w (\<lambda>req. dispatch_login env (rl_Metadata req) s w)
      else if method = abi MethodAuthLoginPoll then
        with_request (sd_LoginPoll sdk) request s w (\<lambda>req.
          case PollLogin (en_Sha256 env) (en_HTTP env) (en_Now env w) (rp_State req) s w of
            (s', w', r) \<Rightarrow> finished s' w' (map_sum id LoginPollResult r))
      else if method = abi MethodAuthRefresh then
        with_request (sd_Refresh sdk) request s w (\<lambda>req.
          case RefreshAuth (en_Sha256 env) (en_HTTP env) (sv_config s) (en_Now env w) (rr_AuthID req) (rr_StorageJSON req) w of
            (w', r) \<Rightarrow> finished s w' (map_sum id RefreshResult r))
      else if method = abi MethodModelStatic then finished s w (Inr (ModelResult StaticModels))
      else if method = abi MethodModelForAuth then
        with_request (sd_Model sdk) request s w (\<lambda>req.
          case ModelsForAuth (en_Sha256 env) (en_HTTP env) (en_Now env w) (rm_StorageJSON req) s w of
            (s', w', r) \<Rightarrow> finished s' w' (map_sum id ModelResult r))
      else if method = abi MethodExecutorExecute then
        with_request (sd_Executor sdk) request s w (\<lambda>req. dispatch_execute env req s w)
      else if method = abi MethodExecutorExecuteStream then
        with_request (sd_Executor sdk) request s w (\<lambda>req. dispatch_stream env req s w)
      else if method = abi MethodExecutorCountTokens then
        with_request (sd_Executor sdk) request s w (\<lambda>req.
          finished s w (Inr (ExecuteResult (CountTokens (re_ExecutorRequest req)))))
      else if method = abi MethodExecutorHTTPRequest then finished s w (Inl http_disabled)
      else if method = abi MethodManagementRegister then finished s w (Inr (RoutesResult management_routes))
      else if method = abi MethodManagementHandle then
        with_request (sd_Management sdk) request s w (\<lambda>req.
          case handleManagement env req s w of (w', r) \<Rightarrow> finished s w' (map_sum id ManagementResult r))
      else finished s w (Inl (unknown_method method)))"

section \<open>The exported calls\<close>

definition describe_json :: "quotaDescribeResponse \<Rightarrow> string" where
  "describe_json d = struct_json
     [(''supported_providers'', json_string_list (qd_SupportedProviders d)), (''display_name'', quote (qd_DisplayName d)),
      (''supports_reset'', bool_json (qd_SupportsReset d))]"

definition reset_json :: "quotaResetResponse \<Rightarrow> string option" where
  "reset_json r = marshal_struct ([(''success'', Some (bool_json (qx_Success r)))] @ omit_empty ''message'' (qx_Message r))"

definition header_json :: "http_header \<Rightarrow> goval" where
  "header_json hs = GMap (map (\<lambda>(k, vs). (k, GList (map GStr vs))) hs)"

definition route_json :: "rpcManagementRoute \<Rightarrow> string option" where
  "route_json r = marshal_struct
     ([(''method'', Some (quote (mt_Method r))), (''path'', Some (quote (mt_Path r)))] @ omit_empty ''description'' (mt_Description r))"

definition resource_json :: "rpcResourceRoute \<Rightarrow> string option" where
  "resource_json r = marshal_struct
     ([(''path'', Some (quote (rt_Path r)))] @ omit_empty ''menu'' (rt_Menu r) @ omit_empty ''description'' (rt_Description r))"

definition routes_json :: "rpcManagementRegistrationResponse \<Rightarrow> string option" where
  "routes_json r = marshal_struct
     ((if mx_Routes r = [] then [] else [(''routes'', marshal_list (map route_json (mx_Routes r)))])
      @ (if mx_Resources r = [] then [] else [(''resources'', marshal_list (map resource_json (mx_Resources r)))]))"

text \<open>The JSON of a result: the plugin's own types here, those of the SDK by \<open>sd_Json\<close>.\<close>

definition result_json :: "sdk \<Rightarrow> rpc_result \<Rightarrow> string option" where
  "result_json sdk r =
     (case r of
        IdentifierResult i \<Rightarrow> Some (struct_json [(''identifier'', quote i)])
      | DescribeResult d \<Rightarrow> Some (describe_json d)
      | FetchResult f \<Rightarrow> fetch_response_json f
      | ResetResult x \<Rightarrow> reset_json x
      | HeadersResult hs \<Rightarrow> json_marshal (GMap [(''headers'', header_json hs)])
      | RoutesResult x \<Rightarrow> routes_json x
      | _ \<Rightarrow> sd_Json sdk r)"

text \<open>
  \<open>cliproxyPluginCall\<close>: the return code, the caller's buffer, the goroutine. A null method is
  \<open>None\<close>; the buffer is emptied first.
\<close>

definition cliproxyPluginCall :: "('w, 'x) plugin_env_scheme \<Rightarrow> string option \<Rightarrow> string \<Rightarrow> string option \<Rightarrow> Service \<Rightarrow> 'w \<Rightarrow>
    (Service \<times> 'w \<times> int \<times> string option \<times> stream_task option) option" where
  "cliproxyPluginCall env method request response s w =
     (let enc = sd_Enc (pe_Sdk env); response = map_option (\<lambda>_. []) response in
      case method of
        None \<Rightarrow> Some (s, w, 1, writeResponse response (errorEnvelope enc ''invalid_method'' ''method is required'' 0 False 0), None)
      | Some name \<Rightarrow>
          (case dispatch env name request s w of
             None \<Rightarrow> None
           | Some (s', w', Inl err, task) \<Rightarrow> Some (s', w', 1, writeResponse response (providerErrorEnvelope enc err), task)
           | Some (s', w', Inr result, task) \<Rightarrow>
               (case okEnvelope enc (result_json (pe_Sdk env) result) of
                  Inl marshalErr \<Rightarrow>
                    Some (s', w', 1, writeResponse response (errorEnvelope enc ''encoding_error'' (err_text marshalErr) 500 False 0), task)
                | Inr raw \<Rightarrow> Some (s', w', 0, writeResponse response raw, task))))"

text \<open>\<open>cliproxyPluginShutdown\<close>: the service afterwards, and no host.\<close>

definition cliproxyPluginShutdown :: "Service \<Rightarrow> Service \<times> 'w host_api option" where
  "cliproxyPluginShutdown s = (Shutdown s, None)"

end
