(* ===== verification/Dispatch_Correct.thy ===== *)
theory Dispatch_Correct
  imports Dispatch Execute_Correct
begin

text \<open>
  What the host can rely on: every call is answered, the answer says what happened, a stream
  is delivered and closed once, an account policy shows no token, and a call changes the
  service only by the steps of \<open>Service_System\<close>.
\<close>

section \<open>Calls are steps of the service\<close>

definition idle :: "Service \<Rightarrow> (string, Config) gomap \<Rightarrow> system" where
  "idle s src = \<lparr>sy_service = s, sy_fetches = [], sy_polls = [], sy_clears = 0, sy_source = src\<rparr>"

text \<open>An account a request may use.\<close>

definition account_ok :: "AuthStorage \<Rightarrow> bool" where
  "account_ok storage \<longleftrightarrow> EqualFold (TrimSpace (as_Type storage)) ProviderID \<and> TrimSpace (as_AccessToken storage) \<noteq> []"

definition follows :: "(string \<Rightarrow> string) \<Rightarrow> (string \<Rightarrow> Config \<Rightarrow> goerr + Config) \<Rightarrow> Service \<Rightarrow> Service \<Rightarrow> bool" where
  "follows sha256 yaml s s' \<longleftrightarrow>
     (\<forall>src. \<exists>src'. (service_step sha256 yaml account_ok)\<^sup>*\<^sup>* (idle s src) (idle s' src'))"

lemma follows_refl [simp]: "follows sha256 yaml s s"
  unfolding follows_def by blast

lemma followsI:
  assumes "\<And>src. service_step sha256 yaml account_ok (idle s src) (idle s' src)"
  shows "follows sha256 yaml s s'"
  unfolding follows_def using assms by blast

lemma idle_simps [simp]:
  "sy_service (idle s src) = s" "sy_fetches (idle s src) = []" "sy_polls (idle s src) = []" "sy_source (idle s src) = src" "sy_clears (idle s src) = 0"
  "(idle s src)\<lparr>sy_service := s'\<rparr> = idle s' src"
  by (simp_all add: idle_def)

text \<open>A field is set and the cache cleared, with nothing in between.\<close>

lemma follows_cleared:
  assumes "\<And>src. service_step sha256 yaml account_ok (idle s src) ((idle s' src)\<lparr>sy_clears := Suc 0\<rparr>)"
  shows "follows sha256 yaml s (clear_cache s')"
  unfolding follows_def
proof
  fix src
  have "service_step sha256 yaml account_ok ((idle s' src)\<lparr>sy_clears := Suc 0\<rparr>) (idle (clear_cache s') src)"
    using service_step.clear [of "(idle s' src)\<lparr>sy_clears := Suc 0\<rparr>" 0 sha256 yaml account_ok] by (simp add: idle_def)
  then show "\<exists>src'. (service_step sha256 yaml account_ok)\<^sup>*\<^sup>* (idle s src) (idle (clear_cache s') src')"
    using assms [of src] by (meson converse_rtranclp_into_rtranclp rtranclp.rtrancl_refl)
qed

lemma follows_Configure: "follows sha256 yaml s (fst (Configure yaml raw s))"
proof (cases "ParseConfig yaml raw")
  case (Inr cfg)
  then show ?thesis
    using service_step.configure [OF Inr, of sha256 account_ok "idle s src" for src]
    by (simp add: Configure_halves idle_def) (intro follows_cleared, simp add: idle_def)
qed (simp add: Configure_halves)

lemma follows_Shutdown: "follows sha256 yaml s (Shutdown s)"
  using service_step.shutdown [of sha256 yaml account_ok "idle s src" for src]
  unfolding Shutdown_halves by (intro follows_cleared) (simp add: idle_def)

lemma follows_StartLogin: "follows sha256 yaml s (fst (StartLogin sha256 rnd1 rnd2 now metadata s))"
  using service_step.start_login [of sha256 yaml account_ok "idle s src" rnd1 rnd2 now metadata for src]
  by (intro followsI) simp

lemma follows_poll_answer:
  assumes "gm_get (sv_logins s) state = Some session" "now < lo_ExpiresAt session"
  shows "follows sha256 yaml s (fst (poll_answer sha256 now state session reply s))"
  unfolding follows_def
proof
  fix src
  let ?y = "(idle s src)\<lparr>sy_polls := [(state, session)]\<rparr>"
  have "service_step sha256 yaml account_ok (idle s src) ?y"
    using service_step.poll_begin [of "idle s src" state session now sha256 yaml account_ok] assms by simp
  moreover have "service_step sha256 yaml account_ok ?y (idle (fst (poll_answer sha256 now state session reply s)) src)"
    using service_step.poll_end [of ?y "[]" state session "[]" sha256 yaml account_ok now reply] by (simp add: idle_def)
  ultimately show "\<exists>src'. (service_step sha256 yaml account_ok)\<^sup>*\<^sup>* (idle s src)
      (idle (fst (poll_answer sha256 now state session reply s)) src')"
    by (meson converse_rtranclp_into_rtranclp rtranclp.rtrancl_refl)
qed

lemma follows_PollLogin: "follows sha256 yaml s (fst (PollLogin sha256 hc now state s w))"
proof (cases "gm_get (sv_logins s) (TrimSpace state)")
  case (Some session)
  show ?thesis
  proof (cases "now < lo_ExpiresAt session")
    case True
    then show ?thesis
      using follows_poll_answer [OF Some True]
      by (auto simp: PollLogin_def Let_def Some split: prod.split) (metis fst_conv)
  next
    case False
    then have "follows sha256 yaml s (s\<lparr>sv_logins := gm_del (TrimSpace state) (sv_logins s)\<rparr>)"
      using service_step.poll_expired [of "idle s src" "TrimSpace state" session now sha256 yaml account_ok for src] Some
      by (intro followsI) simp
    then show ?thesis using Some False by (simp add: PollLogin_def)
  qed
qed (simp add: PollLogin_def)

lemma fetched_catalog:
  "fetchAvailableModels hc now token cfg w = (w', Inr fetched) \<Longrightarrow> \<exists>response. fetched = parameterizedModels response"
  by (auto simp: fetchAvailableModels_def Let_def split: prod.splits sum.splits if_splits)

lemma follows_store_models:
  assumes "account_ok storage" "cache_lookup sha256 now storage s = None" "fetched = parameterizedModels response"
  shows "follows sha256 yaml s (fst (store_models sha256 now storage fetched s))"
  unfolding follows_def
proof
  fix src
  let ?x = "(idle s src)\<lparr>sy_fetches := [(storage, None, now)]\<rparr>"
  let ?y = "(idle s src)\<lparr>sy_fetches := [(storage, Some (sv_config s), now)]\<rparr>"
  obtain s' r where st: "store_models sha256 now storage (parameterizedModels response) s = (s', r)" by fastforce
  have "service_step sha256 yaml account_ok (idle s src) ?x"
    using service_step.cache_miss [of account_ok storage sha256 now "idle s src" yaml] assms by simp
  moreover have "service_step sha256 yaml account_ok ?x ?y"
    using service_step.fetch_begin [of ?x "[]" storage now "[]" sha256 yaml account_ok] by simp
  moreover have "\<exists>src'. service_step sha256 yaml account_ok ?y (idle s' src')"
    using service_step.fetch_end [of ?y "[]" storage "sv_config s" now "[]" sha256 response s' r yaml account_ok] st
    by (auto simp: idle_def)
  ultimately obtain src' where "(service_step sha256 yaml account_ok)\<^sup>*\<^sup>* (idle s src) (idle s' src')"
    by (meson converse_rtranclp_into_rtranclp rtranclp.rtrancl_refl)
  then show "\<exists>src'. (service_step sha256 yaml account_ok)\<^sup>*\<^sup>* (idle s src)
      (idle (fst (store_models sha256 now storage fetched s)) src')"
    unfolding assms(3) st by auto
qed

lemma follows_discoverModels:
  assumes "account_ok storage"
  shows "follows sha256 yaml s (fst (discoverModels sha256 hc now storage s w))"
proof (cases "cache_lookup sha256 now storage s")
  case None
  obtain w' r where f: "fetchAvailableModels hc now (as_AccessToken storage) (sv_config s) w = (w', r)" by fastforce
  show ?thesis
  proof (cases r)
    case (Inr fetched)
    obtain response where "fetched = parameterizedModels response" using fetched_catalog [OF f [unfolded Inr]] by blast
    then have "follows sha256 yaml s (fst (store_models sha256 now storage fetched s))"
      by (rule follows_store_models [OF assms None])
    moreover obtain s' r' where "store_models sha256 now storage fetched s = (s', r')" by fastforce
    ultimately show ?thesis by (simp add: discoverModels_halves None f Inr)
  qed (simp add: discoverModels_halves None f)
qed (simp add: discoverModels_halves)

lemma decodeAuth_account: "decodeAuth raw = Inr storage \<Longrightarrow> account_ok storage"
  by (auto simp: decodeAuth_def account_ok_def split: option.splits if_splits)

lemma follows_resolveModel:
  assumes "account_ok storage"
  shows "follows sha256 yaml s (fst (resolveModel sha256 hc now storage requested effort s w))"
  using follows_discoverModels [OF assms, of sha256 yaml s hc now w]
  by (auto simp: resolveModel_def split: prod.split sum.split)

lemma follows_ModelsForAuth: "follows sha256 yaml s (fst (ModelsForAuth sha256 hc now raw s w))"
  using follows_discoverModels [OF decodeAuth_account, of raw _ sha256 yaml s hc now w]
  by (auto simp: ModelsForAuth_def split: prod.split sum.split)

text \<open>The service after an operation that may not return.\<close>

definition leads :: "(string \<Rightarrow> string) \<Rightarrow> (string \<Rightarrow> Config \<Rightarrow> goerr + Config) \<Rightarrow> Service \<Rightarrow> (Service \<times> 'a) option \<Rightarrow> bool" where
  "leads sha256 yaml s x = (case x of None \<Rightarrow> True | Some (s', _) \<Rightarrow> follows sha256 yaml s s')"

lemma leads_simps [simp]:
  "leads sha256 yaml s None" "leads sha256 yaml s (Some (s', x)) \<longleftrightarrow> follows sha256 yaml s s'"
  "leads sha256 yaml s (finished s' w r) \<longleftrightarrow> follows sha256 yaml s s'"
  by (simp_all add: leads_def finished_def)

lemma leads_Execute: "leads (en_Sha256 env) yaml s (Execute env req s w)"
proof -
  have "follows (en_Sha256 env) yaml s s1" if "decodeAuth raw = Inr storage"
    "resolveModel (en_Sha256 env) hc now storage m e s w = (s1, w1, r)" for raw storage hc now m e s1 w1 r
    using follows_resolveModel [OF decodeAuth_account [OF that(1)]] that(2) by (metis fst_conv)
  then show ?thesis
    unfolding Execute_def by (auto split: sum.split option.split prod.split)
qed

lemma leads_PrepareStream: "leads (en_Sha256 env) yaml s (PrepareStream env req s w)"
proof -
  have "follows (en_Sha256 env) yaml s s1" if "decodeAuth raw = Inr storage"
    "resolveModel (en_Sha256 env) hc now storage m e s w = (s1, w1, r)" for raw storage hc now m e s1 w1 r
    using follows_resolveModel [OF decodeAuth_account [OF that(1)]] that(2) by (metis fst_conv)
  then show ?thesis
    unfolding PrepareStream_def by (auto split: sum.split option.split prod.split)
qed

lemma leads_with_request:
  assumes "\<And>req. leads sha256 yaml s (handle req)"
  shows "leads sha256 yaml s (with_request dec request s w handle)"
  using assms by (simp add: with_request_def split: sum.split)

lemma truncate_simps [simp]:
  "en_Sha256 (environment.truncate env) = en_Sha256 env" "en_HTTP (environment.truncate env) = en_HTTP env"
  "en_Transport (environment.truncate env) = en_Transport env" "en_Connection (environment.truncate env) = en_Connection env"
  "en_CtxErr (environment.truncate env) = en_CtxErr env" "en_Wait (environment.truncate env) = en_Wait env"
  "en_Now (environment.truncate env) = en_Now env" "en_Uuid (environment.truncate env) = en_Uuid env"
  by (simp_all add: environment.truncate_def)

lemma leads_dispatch_execute: "leads (en_Sha256 env) yaml s (dispatch_execute env req s w)"
  using leads_Execute [of "environment.truncate env" yaml s "re_ExecutorRequest req" w]
  by (auto simp: dispatch_execute_def split: option.split prod.split)

lemma leads_dispatch_stream: "leads (en_Sha256 env) yaml s (dispatch_stream env req s w)"
  using leads_PrepareStream [of "environment.truncate env" yaml s "re_ExecutorRequest req" w]
  by (auto simp: dispatch_stream_def split: option.split prod.split sum.split)

lemma leads_dispatch_lifecycle: "leads sha256 (pe_Yaml env) s (dispatch_lifecycle env request s w)"
  using follows_Configure [of sha256 "pe_Yaml env" s]
  by (auto simp: dispatch_lifecycle_def split: option.split prod.split sum.split) (metis fst_conv)+

lemma leads_dispatch_login: "leads (en_Sha256 env) yaml s (dispatch_login env metadata s w)"
  using follows_StartLogin [of "en_Sha256 env" yaml s "pe_Random env w 0" "pe_Random env w 1" "en_Now env w" metadata]
  by (auto simp: dispatch_login_def split: prod.split)

lemma leads_poll: "leads sha256 yaml s (case PollLogin sha256 hc now state s w of (s', w', r) \<Rightarrow> finished s' w' (f r))"
  using follows_PollLogin [of sha256 yaml s hc now state w] by (auto split: prod.split)

lemma leads_models: "leads sha256 yaml s (case ModelsForAuth sha256 hc now raw s w of (s', w', r) \<Rightarrow> finished s' w' (f r))"
  using follows_ModelsForAuth [of sha256 yaml s hc now raw w] by (auto split: prod.split)

lemma leads_unchanged: "leads sha256 yaml s (case x of (w', r) \<Rightarrow> finished s w' (f r))"
  by (cases x) simp

lemma leads_if: "leads sha256 yaml s x \<Longrightarrow> leads sha256 yaml s y \<Longrightarrow> leads sha256 yaml s (if b then x else y)"
  by simp

lemma leads_finished: "follows sha256 yaml s s' \<Longrightarrow> leads sha256 yaml s (finished s' w r)"
  by simp

lemmas leads_rules = leads_with_request leads_dispatch_execute leads_dispatch_stream leads_dispatch_lifecycle
  leads_dispatch_login leads_poll leads_models leads_unchanged

lemma leads_dispatch: "leads (en_Sha256 env) (pe_Yaml env) s (dispatch env method request s w)"
  unfolding dispatch_def Let_def by (intro leads_if leads_rules leads_finished follows_refl)

section \<open>Calls return\<close>

lemma with_request_total: "(\<And>req. handle req \<noteq> None) \<Longrightarrow> with_request dec request s w handle \<noteq> None"
  by (simp add: with_request_def finished_def split: sum.split)

lemma finished_total [simp]: "finished s w r \<noteq> None"
  by (simp add: finished_def)

lemma dispatch_execute_total:
  assumes "codec_ok (en_Transport env)" "protowire_ok (tp_Wire (en_Transport env))"
  shows "dispatch_execute env req s w \<noteq> None"
  using Execute_total [of "environment.truncate env" "re_ExecutorRequest req" s w] assms
  by (auto simp: dispatch_execute_def finished_def environment.truncate_def split: option.split prod.split)

lemma dispatch_stream_total:
  assumes "codec_ok (en_Transport env)" "protowire_ok (tp_Wire (en_Transport env))"
  shows "dispatch_stream env req s w \<noteq> None"
  using PrepareStream_total [of "environment.truncate env" "re_ExecutorRequest req" s w] assms
  by (auto simp: dispatch_stream_def finished_def environment.truncate_def split: option.split prod.split sum.split)

lemma dispatch_others_total:
  "dispatch_lifecycle env request s w \<noteq> None" "dispatch_login env metadata s w \<noteq> None"
  "(case x of (w', r) \<Rightarrow> finished s w' (f r)) \<noteq> None" "(case y of (s', w', r) \<Rightarrow> finished s' w' (f r)) \<noteq> None"
  by (auto simp: dispatch_lifecycle_def dispatch_login_def finished_def split: prod.split sum.split option.split)

lemma dispatch_total:
  assumes "codec_ok (en_Transport env)" "protowire_ok (tp_Wire (en_Transport env))"
  shows "dispatch env method request s w \<noteq> None"
  unfolding dispatch_def Let_def
  by (simp del: not_None_eq add: with_request_total dispatch_execute_total [OF assms] dispatch_stream_total [OF assms]
      dispatch_others_total)

section \<open>A host that keeps a log\<close>

text \<open>Any host, with the requests it gets recorded in order.\<close>

type_synonym call_log = "(string \<times> string) list"

definition logging :: "'w host_call \<Rightarrow> ('w \<times> call_log) host_call" where
  "logging call method request w =
     (case call method request (fst w) of (w', rc, raw) \<Rightarrow> ((w', snd w @ [(method, request)]), rc, raw))"

definition logs :: "('w \<times> call_log, 'x) plugin_env_scheme \<Rightarrow> bool" where
  "logs env \<longleftrightarrow> (case pe_Host env of None \<Rightarrow> False | Some h \<Rightarrow>
     (case ha_Call h of None \<Rightarrow> False | Some c \<Rightarrow> \<exists>call. c = logging call))"

definition emit_entry :: "('w, 'x) plugin_env_scheme \<Rightarrow> string \<Rightarrow> string \<Rightarrow> string \<times> string" where
  "emit_entry env stream payload = (abi_of env MethodHostStreamEmit, emit_json stream payload)"

definition close_entry :: "('w, 'x) plugin_env_scheme \<Rightarrow> string \<Rightarrow> goerr option \<Rightarrow> string \<times> string" where
  "close_entry env stream err =
     (abi_of env MethodHostStreamClose, close_json stream (case err of None \<Rightarrow> [] | Some e \<Rightarrow> err_text e))"

lemma host_call_log:
  assumes "logs env"
  shows "snd (fst (host_call env method (Some request) w)) = snd w @ [(method, request)]"
proof -
  obtain h call where "pe_Host env = Some h" "ha_Call h = Some (logging call)"
    using assms by (auto simp: logs_def split: option.splits)
  then show ?thesis
    by (simp add: host_call_def callHost_def call_host_api_def logging_def split: prod.split)
qed

lemma emit_chunk_log:
  assumes "logs env" "emit_chunk env stream payload w = (w', r)"
  shows "snd w' = snd w @ [emit_entry env stream payload]"
proof -
  obtain w1 x where h: "host_call env (abi_of env MethodHostStreamEmit) (Some (emit_json stream payload)) w = (w1, x)" by fastforce
  then have "w1 = w'" using assms(2) by (auto simp: emit_chunk_def split: sum.splits)
  then show ?thesis using host_call_log [OF assms(1)] h by (metis emit_entry_def fst_conv)
qed

lemma emit_all_log:
  assumes "logs env" "emit_all (emit_chunk env stream) fs w = (w', r)"
  shows "\<exists>n \<le> length fs. snd w' = snd w @ map (emit_entry env stream) (take n fs) \<and> (r = None \<longrightarrow> n = length fs)"
  using assms(2)
proof (induction fs arbitrary: w)
  case (Cons f fs)
  obtain w1 x where e: "emit_chunk env stream f w = (w1, x)" by fastforce
  note l = emit_chunk_log [OF assms(1) e]
  show ?case
  proof (cases x)
    case None
    then obtain n where "n \<le> length fs" "snd w' = snd w1 @ map (emit_entry env stream) (take n fs)" "r = None \<longrightarrow> n = length fs"
      using Cons.IH [of w1] Cons.prems e by auto
    then show ?thesis using l by (intro exI [of _ "Suc n"]) simp
  next
    case (Some err)
    then show ?thesis using Cons.prems e l by (intro exI [of _ 1]) auto
  qed
qed simp

lemma delivered_log:
  assumes "logs env" "delivered (emit_chunk env stream) (cs, ending) w = (w', r)"
  shows "\<exists>n \<le> length cs. snd w' = snd w @ map (emit_entry env stream \<circ> chunk_bytes) (take n cs)
    \<and> (r = None \<longrightarrow> n = length cs \<and> ending = None)"
proof -
  obtain w1 x where e: "emit_all (emit_chunk env stream) (map chunk_bytes cs) w = (w1, x)" by fastforce
  then obtain n where n: "n \<le> length cs" "snd w1 = snd w @ map (emit_entry env stream) (take n (map chunk_bytes cs))"
    "x = None \<longrightarrow> n = length cs"
    using emit_all_log [OF assms(1) e] by auto
  have "w' = w1" "r = (case x of Some err \<Rightarrow> Some err | None \<Rightarrow> ending)"
    using assms(2) e by (auto simp: delivered_def split: option.splits)
  then show ?thesis using n by (intro exI [of _ n]) (auto simp: take_map split: option.splits)
qed

lemma run_stream_log:
  assumes "logs env" "snd (Pump (Some ps) (Some (emit_chunk env stream)) w) = (w1, r)"
  shows "snd (run_stream env \<lparr>sk_Prepared = ps, sk_StreamID = stream\<rparr> w) = snd w1 @ [close_entry env stream r]"
  using assms by (auto simp: run_stream_def close_entry_def host_call_log split: prod.splits)

lemma run_stream_delivers:
  assumes "logs env" "f \<in> set formats" "prepareEventStream uuid f m c events = Inr ps"
    and "stream_spec (newStreamState uuid f m c) events = (cs, ending)"
  shows "\<exists>n err. n \<le> length cs
    \<and> snd (run_stream env \<lparr>sk_Prepared = ps, sk_StreamID = stream\<rparr> w)
        = snd w @ map (emit_entry env stream \<circ> chunk_bytes) (take n cs) @ [close_entry env stream err]
    \<and> (err = None \<longrightarrow> n = length cs \<and> ending = None)"
proof -
  obtain w1 r where d: "delivered (emit_chunk env stream) (cs, ending) w = (w1, r)" by fastforce
  then have "snd (Pump (Some ps) (Some (emit_chunk env stream)) w) = (w1, r)"
    using prepared_delivers [OF assms(2,3), of "emit_chunk env stream" w] assms(4) by simp
  from run_stream_log [OF assms(1) this] delivered_log [OF assms(1) d] show ?thesis by auto
qed

section \<open>Properties\<close>

definition answers :: "('w, 'x) plugin_env_scheme \<Rightarrow> goerr + rpc_result \<Rightarrow> Envelope \<Rightarrow> bool" where
  "answers env r e \<longleftrightarrow>
     (case r of
        Inr result \<Rightarrow>
          (if ev_OK e then result_json (pe_Sdk env) result = Some (ev_Result e)
           else e = error_envelope ''encoding_error'' (err_text marshal_error) 500 False 0)
      | Inl err \<Rightarrow> \<not> ev_OK e \<and>
          (case (as_status err, ev_Error e) of
             (_, None) \<Rightarrow> False
           | (Some st, Some ae) \<Rightarrow> ae_Code ae = se_Code st \<and> ae_HTTPStatus ae = se_HTTPStatus st
               \<and> ae_Retryable ae = se_Retryable st \<and> HasPrefix (ae_Message ae) (err_text err)
           | (None, Some ae) \<Rightarrow> ae_Code ae = ''plugin_error'' \<and> ae_Message ae = err_text err \<and> \<not> ae_Retryable ae))"

lemma provider_error_answers: "answers env (Inl err) (provider_error err)"
  by (auto simp: answers_def provider_error_def error_envelope_def HasPrefix_iff split: option.split)

text \<open>
  C1. Every call of the host is answered, and the return code, the buffer and the outcome
  agree: the code is 0 exactly when the buffer holds an envelope marked as a success, with the
  JSON of the result; an error of the provider arrives with its code, status and retryability
  and its text; a result that cannot be encoded is an \<open>encoding_error\<close> with status 500. The message
  codecs of a turn are assumed to be faithful.
\<close>

theorem plugin_call_answers:
  assumes "codec_ok (en_Transport env)" and "protowire_ok (tp_Wire (en_Transport env))"
  shows "\<exists>s' w' r task rc e.
    dispatch env name request s w = Some (s', w', r, task)
    \<and> cliproxyPluginCall env (Some name) request (Some buffer) s w
        = Some (s', w', rc, Some (case sd_Enc (pe_Sdk env) e of None \<Rightarrow> [] | Some raw \<Rightarrow> raw), task)
    \<and> rc \<in> {0, 1} \<and> (rc = 0 \<longleftrightarrow> ev_OK e) \<and> answers env r e"
proof -
  obtain s' w' r task where d: "dispatch env name request s w = Some (s', w', r, task)"
    using dispatch_total [OF assms, of name request s w] by (metis not_None_eq prod_cases4)
  have wr: "writeResponse (Some []) raw = Some raw" for raw by (simp add: writeResponse_def)
  show ?thesis
  proof (cases r)
    case (Inl err)
    then show ?thesis
      using d provider_error_answers [of env err]
      by (intro exI [of _ s'] exI [of _ w'] exI [of _ r] exI [of _ task] exI [of _ 1] exI [of _ "provider_error err"])
        (auto simp: cliproxyPluginCall_def providerErrorEnvelope_eq wr Let_def answers_def)
  next
    case (Inr result)
    show ?thesis
    proof (cases "okEnvelope (sd_Enc (pe_Sdk env)) (result_json (pe_Sdk env) result)")
      case (Inl m)
      then have "m = marshal_error" by (auto simp: okEnvelope_def split: option.splits)
      then show ?thesis
        using d Inr Inl
        by (intro exI [of _ s'] exI [of _ w'] exI [of _ r] exI [of _ task] exI [of _ 1]
            exI [of _ "error_envelope ''encoding_error'' (err_text marshal_error) 500 False 0"])
          (auto simp: cliproxyPluginCall_def errorEnvelope_def wr Let_def answers_def error_envelope_def)
    next
      case (Inr raw)
      then obtain j where "result_json (pe_Sdk env) result = Some j" "sd_Enc (pe_Sdk env) (ok_envelope j) = Some raw"
        using okEnvelope_ok by blast
      then show ?thesis
        using d \<open>r = Inr result\<close> Inr
        by (intro exI [of _ s'] exI [of _ w'] exI [of _ r] exI [of _ task] exI [of _ 0] exI [of _ "ok_envelope j"])
          (auto simp: cliproxyPluginCall_def wr Let_def answers_def ok_envelope_def)
    qed
  qed
qed

text \<open>
  C2. The entry point refines the service: whatever method and request the host sends, the
  service moves only by steps of the transition system of \<open>Service_System\<close>; so, starting from a
  new service, every call keeps the configuration within its bounds, the cached catalogs unique and
  filtered for an account of this provider, and the logins well formed.
\<close>

theorem calls_refine_service:
  assumes "reaches (en_Sha256 env) (pe_Yaml env) account_ok (idle s src)"
    and "cliproxyPluginCall env meth request response s w = Some (s', rest)"
  shows "(\<exists>src'. reaches (en_Sha256 env) (pe_Yaml env) account_ok (idle s' src')) \<and> service_ok (en_Sha256 env) account_ok s'"
proof -
  have "follows (en_Sha256 env) (pe_Yaml env) s s'"
  proof (cases meth)
    case None
    then show ?thesis using assms(2) by (auto simp: cliproxyPluginCall_def)
  next
    case (Some name)
    then obtain x where "dispatch env name request s w = Some (s', x)"
      using assms(2) by (auto simp: cliproxyPluginCall_def Let_def split: option.splits sum.splits)
    then show ?thesis using leads_dispatch [of env s name request w] by simp
  qed
  then obtain src' where "(service_step (en_Sha256 env) (pe_Yaml env) account_ok)\<^sup>*\<^sup>* (idle s src) (idle s' src')"
    unfolding follows_def by blast
  then have "reaches (en_Sha256 env) (pe_Yaml env) account_ok (idle s' src')"
    using assms(1) unfolding reaches_def by (rule rtranclp_trans [rotated])
  then show ?thesis using reaches_ok system_ok_def by (metis idle_simps(1))
qed

text \<open>
  C6. A stream is delivered and closed once: when the host's call to stream is accepted, there are
  the events of one turn for the account and the request of this call, and the goroutine
  then sends the host, whenever it runs and whatever the host answers, the chunks of these events,
  in order and each once, up to the first one the host refuses, and then one close, the last
  request. The close carries no error only if all chunks were accepted and the turn ended without
  one.
\<close>

theorem stream_closed_once:
  assumes "logs env" and "dispatch_stream env req s w = Some (s', w', r, Some task)"
  shows "\<exists>storage parsed model wi es cs ending.
    decodeAuth (er_StorageJSON (re_ExecutorRequest req)) = Inr storage
    \<and> parseExecutorRequest (en_Uuid env w) (re_ExecutorRequest req) (sv_config s) = Some (Inr parsed)
    \<and> runTurn (sv_config s') (en_Transport env) (en_Connection env) (en_Uuid env wi) (as_AccessToken storage) model
        (pr_Input parsed) wi = Some (w', Inr es)
    \<and> stream_spec (newStreamState (en_Uuid env w') (pr_ResponseFormat parsed) (pr_Model parsed) (en_Now env w' div second)) es
        = (cs, ending)
    \<and> r = Inr (HeadersResult streamHeaders)
    \<and> (\<forall>w1. \<exists>n err. n \<le> length cs
        \<and> snd (run_stream env task w1)
            = snd w1 @ map (emit_entry env (re_StreamID req) \<circ> chunk_bytes) (take n cs) @ [close_entry env (re_StreamID req) err]
        \<and> (err = None \<longrightarrow> n = length cs \<and> ending = None))"
proof -
  let ?req = "re_ExecutorRequest req"
  obtain ps where ps: "PrepareStream (environment.truncate env) ?req s w = Some (s', w', Inr ps)"
    and task: "task = \<lparr>sk_Prepared = ps, sk_StreamID = re_StreamID req\<rparr>" "r = Inr (HeadersResult (Headers (Some ps)))"
    using assms(2) by (auto simp: dispatch_stream_def finished_def split: option.splits prod.splits sum.splits)
  obtain storage parsed model w0 wi es where p: "decodeAuth (er_StorageJSON ?req) = Inr storage"
    "parseExecutorRequest (en_Uuid env w) ?req (sv_config s) = Some (Inr parsed)"
    "runTurn (sv_config s') (en_Transport env) (en_Connection env) (en_Uuid env wi) (as_AccessToken storage) model
        (pr_Input parsed) wi = Some (w', Inr es)"
    and f: "pr_ResponseFormat parsed \<in> set formats"
    and e: "prepareEventStream (en_Uuid env w') (pr_ResponseFormat parsed) (pr_Model parsed) (en_Now env w' div second) es = Inr ps"
    by (rule prepared_stream_source [OF ps, unfolded truncate_simps])
  obtain cs ending where sp: "stream_spec (newStreamState (en_Uuid env w') (pr_ResponseFormat parsed) (pr_Model parsed)
      (en_Now env w' div second)) es = (cs, ending)" by fastforce
  have "\<exists>n err. n \<le> length cs
      \<and> snd (run_stream env task w1)
          = snd w1 @ map (emit_entry env (re_StreamID req) \<circ> chunk_bytes) (take n cs) @ [close_entry env (re_StreamID req) err]
      \<and> (err = None \<longrightarrow> n = length cs \<and> ending = None)" for w1
    unfolding task(1) by (rule run_stream_delivers [OF assms(1) f e sp])
  moreover have "r = Inr (HeadersResult streamHeaders)" using task(2) prepared_headers [OF e] by (simp add: Headers_def)
  ultimately show ?thesis using p sp by blast
qed

definition public_part :: "AuthStorage \<Rightarrow> AuthStorage" where
  "public_part a = a\<lparr>as_AccessToken := [], as_RefreshToken := [], as_ExpiresAt := [], as_ID := [], as_Disabled := False\<rparr>"

text \<open>
  C31. The account policy shows nothing secret: for two accounts that differ only in their tokens,
  their expiry, their id or their disabled flag, the answer is the same, byte for byte.
\<close>

theorem policy_shows_no_token:
  assumes "management_account env req w = (w1, Inr (Inr (i, n, a)))"
    and "management_account env' req w' = (w1', Inr (Inr (i, n, b)))"
    and "public_part a = public_part b"
  shows "snd (getAccountPolicy env req w) = snd (getAccountPolicy env' req w')"
proof -
  have "as_Label a = as_Label b" "as_Prefix a = as_Prefix b" "as_Priority a = as_Priority b"
    "as_AllowedModels a = as_AllowedModels b" "as_DeniedModels a = as_DeniedModels b"
    using assms(3) by (simp_all add: public_part_def) (metis AuthStorage.select_convs AuthStorage.surjective AuthStorage.update_convs)+
  then show ?thesis
    by (simp add: getAccountPolicy_def assms(1,2) newAccountPolicyResponse_def)
qed

section \<open>Witnesses\<close>

definition demo_abi :: abi where
  "demo_abi m = (case m of MethodPluginRegister \<Rightarrow> ''register'' | MethodHostAuthGet \<Rightarrow> ''get''
     | MethodHostStreamEmit \<Rightarrow> ''emit'' | MethodHostStreamClose \<Rightarrow> ''close'' | _ \<Rightarrow> ''other'')"

text \<open>The host answers every call with the envelope of \<open>raw\<close>.\<close>

definition demo_sdk :: "string \<Rightarrow> sdk" where
  "demo_sdk raw = \<lparr>sd_Abi = demo_abi, sd_SchemaVersion = 1, sd_OAuthScope = ''oauth'',
     sd_AuthParse = (\<lambda>_. Inl ErrEOF), sd_LoginStart = (\<lambda>_. Inl ErrEOF), sd_LoginPoll = (\<lambda>_. Inl ErrEOF),
     sd_Refresh = (\<lambda>_. Inl ErrEOF), sd_Model = (\<lambda>_. Inl ErrEOF), sd_Executor = (\<lambda>_. Inl ErrEOF),
     sd_Management = (\<lambda>_. Inl ErrEOF), sd_Json = (\<lambda>_. Some ''{}''),
     sd_Enc = (\<lambda>e. Some (if ev_OK e then ''ok'' else ''error'')), sd_Dec = (\<lambda>_. Some (ok_envelope raw))\<rparr>"

definition demo_host :: "('w host_call \<Rightarrow> 'w host_call) \<Rightarrow> 'w host_api" where
  "demo_host wrap = \<lparr>ha_Version = 1, ha_Call = Some (wrap (\<lambda>_ _ w. (w, 0, ''raw'')))\<rparr>"

definition plugin_parts :: "string \<Rightarrow> 'w host_api \<Rightarrow> 'w environment \<Rightarrow> 'w plugin_env" where
  "plugin_parts raw host env = environment.extend env
     (plugin_env.fields (demo_sdk raw) (\<lambda>_ cfg. Inr cfg) (\<lambda>_ _. Inl ErrEOF) (Some host) ''dev'' ''<html>'')"

lemma plugin_parts_simps [simp]:
  "en_Transport (plugin_parts raw host env) = en_Transport env" "en_Sha256 (plugin_parts raw host env) = en_Sha256 env"
  "pe_Sdk (plugin_parts raw host env) = demo_sdk raw" "pe_Host (plugin_parts raw host env) = Some host"
  "pe_Yaml (plugin_parts raw host env) = (\<lambda>_ cfg. Inr cfg)"
  by (simp_all add: plugin_parts_def environment.extend_def plugin_env.fields_def)

definition demo_plugin :: "string \<Rightarrow> string plugin_env" where
  "demo_plugin raw = plugin_parts raw (demo_host id) demo_env"

lemma demo_plugin_ok:
  "codec_ok (en_Transport (demo_plugin raw))" "protowire_ok (tp_Wire (en_Transport (demo_plugin raw)))"
  by (simp_all add: demo_plugin_def demo_env_on_def demo_codec_ok demo_wire_ok)

theorem plugin_call_answers_witness:
  "\<exists>s' w' r task rc e. cliproxyPluginCall (demo_plugin []) (Some ''register'') [] (Some []) New []
      = Some (s', w', rc, Some (case sd_Enc (pe_Sdk (demo_plugin [])) e of None \<Rightarrow> [] | Some raw \<Rightarrow> raw), task)
    \<and> (rc = 0 \<longleftrightarrow> ev_OK e) \<and> answers (demo_plugin []) r e"
  using plugin_call_answers [OF demo_plugin_ok, of "[]" "''register''" "[]" New "[]" "[]"]
  by blast

lemma initial_idle: "reaches sha256 yaml account_ok (idle New [])"
  by (simp add: reaches_def initial_def idle_def)

lemma call_total:
  assumes "codec_ok (en_Transport env)" "protowire_ok (tp_Wire (en_Transport env))"
  shows "\<exists>s' rest. cliproxyPluginCall env (Some name) request response s w = Some (s', rest)"
  using dispatch_total [OF assms, of name request s w]
  by (auto simp: cliproxyPluginCall_def Let_def split: option.split sum.split prod.split)

theorem calls_refine_service_witness:
  "\<exists>s' rest. cliproxyPluginCall (demo_plugin []) (Some ''register'') [] None New [] = Some (s', rest)
    \<and> service_ok (en_Sha256 (demo_plugin [])) account_ok s'"
proof -
  obtain s' rest where c: "cliproxyPluginCall (demo_plugin []) (Some ''register'') [] None New [] = Some (s', rest)"
    using call_total [OF demo_plugin_ok] by blast
  then show ?thesis using calls_refine_service [OF initial_idle c] by blast
qed

definition demo_log_plugin :: "(unit \<times> call_log) plugin_env" where
  "demo_log_plugin = plugin_parts [] (demo_host (\<lambda>_. logging (\<lambda>_ _ w. (w, 0, ''raw'')))) (hello_env_on (\<lambda>_ w. w))"

lemma demo_log_plugin_logs: "logs demo_log_plugin"
  by (auto simp: logs_def demo_log_plugin_def demo_host_def)

lemma demo_log_plugin_env: "environment.truncate demo_log_plugin = hello_env_on (\<lambda>_ w. w)"
  by (cases "hello_env_on (\<lambda>_ w. w) :: (unit \<times> call_log) environment")
    (simp add: demo_log_plugin_def plugin_parts_def environment.truncate_def environment.extend_def plugin_env.fields_def)

definition stream_request :: rpcExecutorRequest where
  "stream_request = \<lparr>re_ExecutorRequest = hello_request, re_StreamID = ''s'', re_HostCallbackID = []\<rparr>"

theorem stream_closed_once_witness:
  "\<exists>s' w' r task. dispatch_stream demo_log_plugin stream_request cached_service ((), []) = Some (s', w', r, Some task)
    \<and> (\<exists>n err cs. snd (run_stream demo_log_plugin task ((), []))
        = map (emit_entry demo_log_plugin ''s'' \<circ> chunk_bytes) (take n cs) @ [close_entry demo_log_plugin ''s'' err])"
proof -
  obtain w' ps where "PrepareStream (hello_env_on (\<lambda>_ w. w)) hello_request cached_service ((), [] :: call_log)
      = Some (cached_service, w', Inr ps)"
    using hello_prepared [of "\<lambda>_ w. w" "((), [])"] by blast
  then obtain r task where d: "dispatch_stream demo_log_plugin stream_request cached_service ((), []) = Some (cached_service, w', r, Some task)"
    by (simp add: dispatch_stream_def demo_log_plugin_env stream_request_def)
  from stream_closed_once [OF demo_log_plugin_logs d] obtain cs where "\<exists>n err. snd (run_stream demo_log_plugin task ((), []))
      = snd ((), []) @ map (emit_entry demo_log_plugin (re_StreamID stream_request) \<circ> chunk_bytes) (take n cs)
        @ [close_entry demo_log_plugin (re_StreamID stream_request) err]"
    by blast
  then obtain n err where "snd (run_stream demo_log_plugin task ((), []))
      = map (emit_entry demo_log_plugin ''s'' \<circ> chunk_bytes) (take n cs) @ [close_entry demo_log_plugin ''s'' err]"
    by (auto simp: stream_request_def)
  then show ?thesis using d by blast
qed

text \<open>Two hosts that hold the same account with different tokens.\<close>

definition account_text :: "string \<Rightarrow> string" where
  "account_text token = concat (map (\<lambda>c. if c = CHR ''@'' then [dquote] else if c = CHR ''#'' then token else [c])
     ''{@name@:@n@,@json@:{@type@:@cursor@,@prefix@:@p@,@access_token@:@#@}}'')"

definition policy_request :: rpcManagementRequest where
  "policy_request = \<lparr>mr_Method = ''GET'', mr_Path = ''/plugins/cursor-provider/account-policy'',
     mr_Query = [(''auth_index'', [''7''])], mr_HostCallbackID = []\<rparr>"

lemma account_text_decode:
  "map_option hg_Name (unmarshal_strict decode_auth_get zero_auth_get (account_text ''a'')) = Some ''n''"
  "map_option hg_Name (unmarshal_strict decode_auth_get zero_auth_get (account_text ''b'')) = Some ''n''"
  "map_option (decodeCursorAuthStorage \<circ> hg_JSON) (unmarshal_strict decode_auth_get zero_auth_get (account_text ''a''))
     = Some (Some (zero_storage\<lparr>as_Type := ''cursor'', as_Prefix := ''p'', as_AccessToken := ''a''\<rparr>))"
  "map_option (decodeCursorAuthStorage \<circ> hg_JSON) (unmarshal_strict decode_auth_get zero_auth_get (account_text ''b''))
     = Some (Some (zero_storage\<lparr>as_Type := ''cursor'', as_Prefix := ''p'', as_AccessToken := ''b''\<rparr>))"
  by code_simp+

lemma demo_management:
  assumes "map_option hg_Name (unmarshal_strict decode_auth_get zero_auth_get raw) = Some n"
    and "map_option (decodeCursorAuthStorage \<circ> hg_JSON) (unmarshal_strict decode_auth_get zero_auth_get raw) = Some (Some a)"
  shows "management_account (demo_plugin raw) policy_request [] = ([], Inr (Inr (''7'', n, a)))"
proof -
  have "TrimSpace ''7'' = ''7''" by (rule TrimSpace_ends) (simp_all add: ascii_space_def)
  moreover obtain j where "auth_get_json \<lparr>hq_HostCallbackID = [], hq_AuthIndex = ''7''\<rparr> = Some j"
    by (simp add: auth_get_json_def omit_empty_def marshal_struct_def)
  moreover obtain resp where "unmarshal_strict decode_auth_get zero_auth_get raw = Some resp" "hg_Name resp = n"
    "decodeCursorAuthStorage (hg_JSON resp) = Some a"
    using assms by auto
  ultimately show ?thesis
    by (simp add: Let_def management_account_def abi_of_def policy_request_def query_get_def host_auth_def host_call_def callHost_def
        call_host_api_def demo_plugin_def demo_host_def read_host_response_def demo_sdk_def ok_envelope_def)
qed

theorem policy_shows_no_token_witness:
  "snd (getAccountPolicy (demo_plugin (account_text ''a'')) policy_request [])
     = snd (getAccountPolicy (demo_plugin (account_text ''b'')) policy_request [])"
  using demo_management [OF account_text_decode(1,3)] demo_management [OF account_text_decode(2,4)]
  by (rule policy_shows_no_token) (simp add: public_part_def)

end
