(* ===== verification/C_Memory.thy ===== *)
theory C_Memory
  imports Prelude "HOL-Library.Word"
begin

text \<open>
  The C memory at the boundary to the host. There are two allocators: malloc and free of the
  C library, used by the plugin, and the host's, whose blocks are released through the host's
  own function. A block holds bytes; address 0 is the null pointer. A read outside a live block, a
  second release and a release by the wrong allocator have no defined behaviour: they are \<open>None\<close>.
\<close>

section \<open>Heaps\<close>

text \<open>
  A store of blocks: what is put at a free address can be read and removed, and removing it leaves the
  store as it was.
\<close>

locale heap = key_value_store lookup insert_kv remove empty
  for lookup :: "'m \<Rightarrow> 'k \<Rightarrow> 'v option" and insert_kv remove empty +
  assumes remove_insert: "lookup m k = None \<Longrightarrow> remove k (insert_kv k v m) = m"
begin

text \<open>Blocks that are released in the opposite order of their allocation leave nothing behind.\<close>

lemma release_all:
  assumes "distinct (map fst kvs)" "list_all (\<lambda>(k, v). lookup m k = None) kvs"
  shows "fold remove (rev (map fst kvs)) (puts kvs m) = m"
  using assms
proof (induction kvs rule: rev_induct)
  case (snoc kv kvs)
  obtain k v where kv: "kv = (k, v)" by (cases kv)
  have "lookup (puts kvs m) k = None"
    using snoc.prems kv by (subst lookup_puts_other) auto
  moreover have "puts (kvs @ [kv]) m = insert_kv k v (puts kvs m)" by (simp add: puts_def kv)
  ultimately show ?case using snoc kv by (simp add: remove_insert)
qed (simp add: puts_def)

end

interpretation blocks: heap map_of AList.update AList.delete "[]"
proof
  fix m :: "('a \<times> 'b) list" and k v
  show "map_of m k = None \<Longrightarrow> AList.delete k (AList.update k v m) = m"
    by (induction m) auto
qed

section \<open>The memory\<close>

type_synonym addr = nat

record memory =
  me_c :: "(addr, string) gomap"
  me_host :: "(addr, string) gomap"

definition block :: "memory \<Rightarrow> addr \<Rightarrow> string option" where
  "block m p = (case gm_get (me_c m) p of Some d \<Rightarrow> Some d | None \<Rightarrow> gm_get (me_host m) p)"

definition fresh :: "memory \<Rightarrow> addr \<Rightarrow> bool" where
  "fresh m p \<longleftrightarrow> p \<noteq> 0 \<and> block m p = None"

text \<open>Where malloc puts a block is its own business, as long as nothing lives there.\<close>

definition allocator :: "(memory \<Rightarrow> addr) \<Rightarrow> bool" where
  "allocator pick \<longleftrightarrow> (\<forall>m. fresh m (pick m))"

definition malloc :: "(memory \<Rightarrow> addr) \<Rightarrow> string \<Rightarrow> memory \<Rightarrow> memory \<times> addr" where
  "malloc pick data m = (m\<lparr>me_c := gm_set (pick m) data (me_c m)\<rparr>, pick m)"

definition c_free :: "addr \<Rightarrow> memory \<Rightarrow> memory option" where
  "c_free p m =
     (if p = 0 then Some m
      else if gm_get (me_c m) p = None then None else Some (m\<lparr>me_c := gm_del p (me_c m)\<rparr>))"

text \<open>What cgo provides: C.CString, C.CBytes, C.GoString, C.GoBytes and the conversion to C.int.\<close>

definition CString :: "(memory \<Rightarrow> addr) \<Rightarrow> string \<Rightarrow> memory \<Rightarrow> memory \<times> addr" where
  "CString pick s = malloc pick (s @ [CHR 0x00])"

definition CBytes :: "(memory \<Rightarrow> addr) \<Rightarrow> string \<Rightarrow> memory \<Rightarrow> memory \<times> addr" where
  "CBytes = malloc"

definition GoString :: "memory \<Rightarrow> addr \<Rightarrow> string option" where
  "GoString m p =
     (case block m p of
        None \<Rightarrow> None
      | Some d \<Rightarrow> if CHR 0x00 \<in> set d then Some (takeWhile (\<lambda>c. c \<noteq> CHR 0x00) d) else None)"

definition GoBytes :: "memory \<Rightarrow> addr \<Rightarrow> int \<Rightarrow> string option" where
  "GoBytes m p n =
     (if n < 0 then None
      else (case block m p of
              None \<Rightarrow> None
            | Some d \<Rightarrow> if nat n \<le> length d then Some (take (nat n) d) else None))"

definition c_int :: "nat \<Rightarrow> int" where
  "c_int n = sint (word_of_nat n :: 32 word)"

section \<open>Lemmas\<close>

lemma c_int_small: "n < 2 ^ 31 \<Longrightarrow> c_int n = int n"
  by (simp add: c_int_def signed_of_nat signed_take_bit_int_eq_self_iff)

lemma allocator_fresh: "allocator pick \<Longrightarrow> fresh m (pick m)"
  by (simp add: allocator_def)

lemma fresh_c: "fresh m p \<Longrightarrow> gm_get (me_c m) p = None \<and> gm_get (me_host m) p = None \<and> p \<noteq> 0"
  by (auto simp: fresh_def block_def split: option.splits)

lemma free_malloc:
  assumes "fresh m p"
  shows "c_free p (m\<lparr>me_c := gm_set p data (me_c m)\<rparr>) = Some m"
  using fresh_c [OF assms] by (simp add: c_free_def blocks.remove_insert)

lemma before_NUL: "CHR 0x00 \<notin> set s \<Longrightarrow> takeWhile (\<lambda>c. c \<noteq> CHR 0x00) (s @ [CHR 0x00]) = s"
  by (induction s) auto

lemma GoString_CString: "block m p = Some (s @ [CHR 0x00]) \<Longrightarrow> CHR 0x00 \<notin> set s \<Longrightarrow> GoString m p = Some s"
  by (simp add: GoString_def before_NUL)

lemma GoBytes_block:
  assumes "block m p = Some d" "length d < 2 ^ 31"
  shows "GoBytes m p (c_int (length d)) = Some d"
  using assms by (simp add: GoBytes_def c_int_small)

text \<open>An allocator: one more than all addresses in use.\<close>

definition next_address :: "memory \<Rightarrow> addr" where
  "next_address m = Suc (fold max (gm_keys (me_c m) @ gm_keys (me_host m)) 0)"

lemma fold_max_ge: "n \<in> set ns \<or> n \<le> k \<Longrightarrow> n \<le> fold max ns (k :: nat)"
  by (induction ns arbitrary: k) (auto simp: max_def)

lemma next_address_fresh: "allocator next_address"
proof -
  have "fresh m (next_address m)" for m
  proof -
    have "n \<in> set (gm_keys (me_c m) @ gm_keys (me_host m)) \<Longrightarrow> n < next_address m" for n
      unfolding next_address_def less_Suc_eq_le by (rule fold_max_ge) simp
    then have "next_address m \<notin> set (gm_keys (me_c m)) \<union> set (gm_keys (me_host m))" by fastforce
    then have "gm_get (me_c m) (next_address m) = None" "gm_get (me_host m) (next_address m) = None"
      by (simp_all add: map_of_eq_None_iff)
    moreover have "next_address m \<noteq> 0" by (simp add: next_address_def)
    ultimately show ?thesis by (simp add: fresh_def block_def)
  qed
  then show ?thesis by (simp add: allocator_def)
qed

end
