(* ===== verification/Host_Memory.thy ===== *)
theory Host_Memory
  imports Dispatch C_Memory
begin

text \<open>
  main.go once more, with the C memory: the buffers behind the values of \<open>Envelopes\<close> and \<open>Dispatch\<close>, who
  allocates and who releases them. The host is two functions on the memory, bound by a contract;
  a shutdown may take the host away between any two uses of it.
\<close>

section \<open>Calling the host\<close>

type_synonym 'w host_entry = "addr \<Rightarrow> addr \<Rightarrow> nat \<Rightarrow> memory \<times> 'w \<Rightarrow> (memory \<times> 'w) \<times> int \<times> addr \<times> nat"

record 'w c_host =
  ch_Version :: "32 word"
  ch_Call :: "'w host_entry option"
  ch_Free :: "(addr \<Rightarrow> nat \<Rightarrow> memory \<Rightarrow> memory option) option"

definition call_host_entry :: "'w c_host option \<Rightarrow> 'w host_entry" where
  "call_host_entry stored_host method request len mw =
     (case stored_host of
        None \<Rightarrow> (mw, 1, 0, 0)
      | Some h \<Rightarrow> (case ch_Call h of None \<Rightarrow> (mw, 1, 0, 0) | Some call \<Rightarrow> call method request len mw))"

definition free_host_buffer :: "'w c_host option \<Rightarrow> addr \<Rightarrow> nat \<Rightarrow> memory \<Rightarrow> memory option" where
  "free_host_buffer stored_host p len m =
     (case stored_host of
        None \<Rightarrow> Some m
      | Some h \<Rightarrow> (case ch_Free h of None \<Rightarrow> Some m | Some free \<Rightarrow> if p = 0 then Some m else free p len m))"

text \<open>
  \<open>callHost\<close> on the memory. \<open>host\<close> and \<open>host'\<close> are the stored host when the call is made and when
  its response is released. The deferred releases run at the end, the last one first.
\<close>

definition callHost_memory :: "(memory \<Rightarrow> addr) \<Rightarrow> 'w c_host option \<Rightarrow> 'w c_host option \<Rightarrow> (string \<Rightarrow> Envelope option) \<Rightarrow>
    string \<Rightarrow> string option \<Rightarrow> memory \<times> 'w \<Rightarrow> ((memory \<times> 'w) \<times> (goerr + string)) option" where
  "callHost_memory pick host host' dec method payload mw =
     (case payload of
        None \<Rightarrow> Some (mw, Inl marshal_error)
      | Some request \<Rightarrow>
          (case CString pick method (fst mw) of (m1, cMethod) \<Rightarrow>
           case (if 0 < length request then CBytes pick request m1 else (m1, 0)) of (m2, requestPtr) \<Rightarrow>
           case call_host_entry host cMethod requestPtr (length request) (m2, snd mw) of ((m3, w'), rc, p, len) \<Rightarrow>
           Option.bind (if p \<noteq> 0 \<and> 0 < len then GoBytes m3 p (c_int len) else Some []) (\<lambda>raw.
           Option.bind (if p \<noteq> 0 then free_host_buffer host' p len m3 else Some m3) (\<lambda>m4.
           Option.bind (if 0 < length request then c_free requestPtr m4 else Some m4) (\<lambda>m5.
           Option.bind (c_free cMethod m5) (\<lambda>m6. Some ((m6, w'), read_host_response dec method rc raw)))))))"

section \<open>Being called\<close>

text \<open>The response buffer of the host: \<open>None\<close> for a null pointer to it, else its pointer and length.\<close>

definition writeResponse_memory :: "(memory \<Rightarrow> addr) \<Rightarrow> (addr \<times> nat) option \<Rightarrow> string \<Rightarrow> memory \<Rightarrow>
    memory \<times> (addr \<times> nat) option" where
  "writeResponse_memory pick response raw m =
     (if response = None \<or> length raw = 0 then (m, response)
      else case CBytes pick raw m of (m', p) \<Rightarrow> (m', if p = 0 then response else Some (p, length raw)))"

definition cliproxyPluginFree :: "addr \<Rightarrow> memory \<Rightarrow> memory option" where
  "cliproxyPluginFree p m = (if p \<noteq> 0 then c_free p m else Some m)"

text \<open>The arguments of \<open>cliproxyPluginCall\<close> as they are read.\<close>

definition call_arguments :: "memory \<Rightarrow> addr \<Rightarrow> addr \<Rightarrow> nat \<Rightarrow> (string option \<times> string) option" where
  "call_arguments m method request requestLen =
     (if method = 0 then Some (None, [])
      else Option.bind (if request \<noteq> 0 \<and> 0 < requestLen then GoBytes m request (c_int requestLen) else Some []) (\<lambda>bytes.
           Option.bind (GoString m method) (\<lambda>name. Some (Some name, bytes))))"

text \<open>The call: the work is \<open>cliproxyPluginCall\<close>; its answer is put into the C memory.\<close>

definition pluginCall_memory :: "(memory \<times> 'w, 'x) plugin_env_scheme \<Rightarrow> (memory \<Rightarrow> addr) \<Rightarrow> addr \<Rightarrow> addr \<Rightarrow> nat \<Rightarrow> bool \<Rightarrow>
    Service \<Rightarrow> memory \<times> 'w \<Rightarrow> (Service \<times> (memory \<times> 'w) \<times> int \<times> (addr \<times> nat) option \<times> stream_task option) option" where
  "pluginCall_memory env pick method request requestLen response s mw =
     Option.bind (call_arguments (fst mw) method request requestLen) (\<lambda>(name, bytes).
       case cliproxyPluginCall env name bytes (if response then Some [] else None) s mw of
         None \<Rightarrow> None
       | Some (s', mw', rc, out, task) \<Rightarrow>
           (case writeResponse_memory pick (map_option (\<lambda>_. (0, 0)) out) (case out of None \<Rightarrow> [] | Some raw \<Rightarrow> raw) (fst mw') of
              (m', buffer) \<Rightarrow> Some (s', (m', snd mw'), rc, buffer, task)))"

section \<open>The contract of the host\<close>

text \<open>
  The host reads the method and the request where they were put, leaves the plugin's blocks alone, and
  answers with nothing or with a block of its own, of less than 2 GiB; what it does otherwise is
  \<open>f\<close>, the host of \<open>Envelopes\<close>.
\<close>

definition host_answers :: "'w host_call \<Rightarrow> 'w host_entry \<Rightarrow> bool" where
  "host_answers f call \<longleftrightarrow>
     (\<forall>m w a q method request w' rc raw.
        GoString m a = Some method \<longrightarrow> (request \<noteq> [] \<longrightarrow> block m q = Some request) \<longrightarrow> f method request w = (w', rc, raw) \<longrightarrow>
        length raw < 2 ^ 31 \<and>
        (raw = [] \<and> call a q (length request) (m, w) = ((m, w'), rc, 0, 0)
         \<or> (\<exists>p. fresh m p \<and> call a q (length request) (m, w) = ((m\<lparr>me_host := gm_set p raw (me_host m)\<rparr>, w'), rc, p, length raw))))"

definition host_frees :: "(addr \<Rightarrow> nat \<Rightarrow> memory \<Rightarrow> memory option) \<Rightarrow> bool" where
  "host_frees free \<longleftrightarrow>
     (\<forall>m p raw. gm_get (me_host m) p = Some raw \<longrightarrow>
        free p (length raw) m = Some (m\<lparr>me_host := gm_del p (me_host m)\<rparr>))"

section \<open>Lemmas\<close>

lemma block_simps [simp]:
  "block (m\<lparr>me_c := gm_set p d (me_c m)\<rparr>) q = (if q = p then Some d else block m q)"
  by (simp add: block_def split: option.split)

lemma block_host:
  assumes "fresh m p"
  shows "block (m\<lparr>me_host := gm_set p d (me_host m)\<rparr>) p = Some d"
  using fresh_c [OF assms] by (simp add: block_def)

lemma release_response:
  assumes "fresh m p" "host_frees free" "ch_Free h = Some free"
  shows "free_host_buffer (Some h) p (length raw) (m\<lparr>me_host := gm_set p raw (me_host m)\<rparr>) = Some m"
  using assms(2,3) fresh_c [OF assms(1)]
  by (simp add: free_host_buffer_def host_frees_def blocks.remove_insert)

text \<open>The blocks of the arguments are gone at the end, whatever else the call left in the memory.\<close>

lemma release_argument:
  assumes "fresh m p" "me_c m' = gm_set p d (me_c m)"
  shows "c_free p m' = Some (m'\<lparr>me_c := me_c m\<rparr>)"
  using fresh_c [OF assms(1)] assms(2) by (simp add: c_free_def blocks.remove_insert)

text \<open>Where the arguments are during a call, and what is left when they are released.\<close>

definition placed :: "(memory \<Rightarrow> addr) \<Rightarrow> string \<Rightarrow> string \<Rightarrow> memory \<Rightarrow> memory \<times> addr" where
  "placed pick method request m =
     (let m1 = fst (CString pick method m) in if 0 < length request then CBytes pick request m1 else (m1, 0))"

lemma placed_readable:
  assumes "allocator pick" "CHR 0x00 \<notin> set method" "placed pick method request m = (m2, q)"
  shows "GoString m2 (snd (CString pick method m)) = Some method" "request \<noteq> [] \<Longrightarrow> block m2 q = Some request"
    "me_host m2 = me_host m"
proof -
  define a where "a = pick m"
  define m1 where "m1 = m\<lparr>me_c := gm_set a (method @ [CHR 0x00]) (me_c m)\<rparr>"
  have b: "block m1 a = Some (method @ [CHR 0x00])" by (simp add: m1_def)
  have "fresh m1 (pick m1)" using assms(1) by (rule allocator_fresh)
  then have "pick m1 \<noteq> a" using b by (auto simp: fresh_def)
  moreover have m2: "m2 = (if request = [] then m1 else m1\<lparr>me_c := gm_set (pick m1) request (me_c m1)\<rparr>)"
      "request \<noteq> [] \<Longrightarrow> q = pick m1"
    using assms(3) by (auto simp: placed_def Let_def CString_def CBytes_def malloc_def m1_def a_def split: if_splits)
  ultimately show "GoString m2 (snd (CString pick method m)) = Some method"
    using b by (intro GoString_CString [OF _ assms(2)]) (auto simp: CString_def malloc_def a_def)
  show "request \<noteq> [] \<Longrightarrow> block m2 q = Some request" using m2 by simp
  show "me_host m2 = me_host m" using m2(1) by (simp add: m1_def)
qed

lemma placed_released:
  assumes "allocator pick" "placed pick method request m = (m2, q)" "me_c m4 = me_c m2"
  shows "Option.bind (if 0 < length request then c_free q m4 else Some m4) (\<lambda>m5. c_free (snd (CString pick method m)) m5)
    = Some (m4\<lparr>me_c := me_c m\<rparr>)"
proof -
  define a where "a = pick m"
  define m1 where "m1 = m\<lparr>me_c := gm_set a (method @ [CHR 0x00]) (me_c m)\<rparr>"
  have fresh: "fresh m a" "fresh m1 (pick m1)" using assms(1) by (simp_all add: allocator_fresh a_def)
  have a: "c_free a (m4\<lparr>me_c := me_c m1\<rparr>) = Some (m4\<lparr>me_c := me_c m\<rparr>)"
    using release_argument [OF fresh(1), of "m4\<lparr>me_c := me_c m1\<rparr>"] by (simp add: m1_def)
  have addr: "snd (CString pick method m) = a" by (simp add: CString_def malloc_def a_def)
  show ?thesis
  proof (cases "request = []")
    case True
    then have "me_c m4 = me_c m1" using assms(2,3) by (simp add: placed_def Let_def CString_def malloc_def m1_def a_def)
    then have "m4\<lparr>me_c := me_c m1\<rparr> = m4" by simp
    then show ?thesis using True a addr by simp
  next
    case False
    then have q: "q = pick m1" "me_c m4 = gm_set q request (me_c m1)"
      using assms(2,3) by (auto simp: placed_def Let_def CString_def CBytes_def malloc_def m1_def a_def)
    have "c_free q m4 = Some (m4\<lparr>me_c := me_c m1\<rparr>)"
      using release_argument [of m1 q m4 request] fresh(2) q by simp
    then show ?thesis using False a addr by simp
  qed
qed

lemma entry_answers:
  assumes "host_answers f call" "ch_Call h = Some call"
    and "GoString m a = Some method" "request \<noteq> [] \<Longrightarrow> block m q = Some request" "f method request w = (w', rc, raw)"
  shows "length raw < 2 ^ 31
    \<and> (raw = [] \<and> call_host_entry (Some h) a q (length request) (m, w) = ((m, w'), rc, 0, 0)
       \<or> (\<exists>p. fresh m p \<and> call_host_entry (Some h) a q (length request) (m, w)
            = ((m\<lparr>me_host := gm_set p raw (me_host m)\<rparr>, w'), rc, p, length raw)))"
proof -
  have "call_host_entry (Some h) = call" using assms(2) by (intro ext) (simp add: call_host_entry_def)
  then show ?thesis using assms(1,3-5) unfolding host_answers_def by blast
qed

lemma callHost_memory_placed:
  "callHost_memory pick host host' dec method (Some request) (m, w) =
     (case placed pick method request m of (m2, q) \<Rightarrow>
      case call_host_entry host (snd (CString pick method m)) q (length request) (m2, w) of ((m3, w'), rc, p, len) \<Rightarrow>
      Option.bind (if p \<noteq> 0 \<and> 0 < len then GoBytes m3 p (c_int len) else Some []) (\<lambda>raw.
      Option.bind (if p \<noteq> 0 then free_host_buffer host' p len m3 else Some m3) (\<lambda>m4.
      map_option (\<lambda>m6. ((m6, w'), read_host_response dec method rc raw))
        (Option.bind (if 0 < length request then c_free q m4 else Some m4) (\<lambda>m5. c_free (snd (CString pick method m)) m5)))))"
  by (simp add: callHost_memory_def placed_def Let_def map_option_bind map_conv_bind_option comp_def split: prod.split)

text \<open>A call to a host that keeps its contract: the result, and the memory by who is there at the end.\<close>

lemma callHost_memory_result:
  assumes "allocator pick" "CHR 0x00 \<notin> set method"
    and "host_answers f call" "ch_Call h = Some call" "f method request w = (w', rc, raw)"
    and "\<And>m p. fresh m p \<Longrightarrow> free_host_buffer host' p (length raw) (m\<lparr>me_host := gm_set p raw (me_host m)\<rparr>) = Some (after p m)"
    and "\<And>m p. fresh m p \<Longrightarrow> me_c (after p m) = me_c m"
  shows "\<exists>m6. callHost_memory pick (Some h) host' dec method (Some request) (m, w)
      = Some ((m6, w'), read_host_response dec method rc raw)
    \<and> (raw = [] \<and> m6 = m \<or> (\<exists>p m2. fresh m2 p \<and> me_host m2 = me_host m \<and> m6 = (after p m2)\<lparr>me_c := me_c m\<rparr>))"
proof -
  obtain m2 q where pl: "placed pick method request m = (m2, q)" by fastforce
  note args = placed_readable [OF assms(1,2) pl]
  let ?a = "snd (CString pick method m)"
  have raw: "length raw < 2 ^ 31" and
    ans: "raw = [] \<and> call_host_entry (Some h) ?a q (length request) (m2, w) = ((m2, w'), rc, 0, 0)
      \<or> (\<exists>p. fresh m2 p \<and> call_host_entry (Some h) ?a q (length request) (m2, w)
            = ((m2\<lparr>me_host := gm_set p raw (me_host m2)\<rparr>, w'), rc, p, length raw))"
    using entry_answers [OF assms(3,4) args(1) args(2) assms(5)] by blast+
  note run = callHost_memory_placed [of pick "Some h" host' dec "method" request m w] pl
  from ans show ?thesis
  proof
    assume e: "raw = [] \<and> call_host_entry (Some h) ?a q (length request) (m2, w) = ((m2, w'), rc, 0, 0)"
    have "m2\<lparr>me_c := me_c m\<rparr> = m" using args(3) by simp
    then show ?thesis using run e placed_released [OF assms(1) pl, of m2] by simp
  next
    assume "\<exists>p. fresh m2 p \<and> call_host_entry (Some h) ?a q (length request) (m2, w)
            = ((m2\<lparr>me_host := gm_set p raw (me_host m2)\<rparr>, w'), rc, p, length raw)"
    then obtain p where p: "fresh m2 p"
      and e: "call_host_entry (Some h) ?a q (length request) (m2, w)
        = ((m2\<lparr>me_host := gm_set p raw (me_host m2)\<rparr>, w'), rc, p, length raw)" by blast
    have "p \<noteq> 0" using fresh_c [OF p] by simp
    moreover have "(if p \<noteq> 0 \<and> 0 < length raw
        then GoBytes (m2\<lparr>me_host := gm_set p raw (me_host m2)\<rparr>) p (c_int (length raw)) else Some []) = Some raw"
      using GoBytes_block [OF block_host [OF p] raw] \<open>p \<noteq> 0\<close> by simp
    moreover have "free_host_buffer host' p (length raw) (m2\<lparr>me_host := gm_set p raw (me_host m2)\<rparr>) = Some (after p m2)"
      using p by (rule assms(6))
    moreover note placed_released [OF assms(1) pl assms(7) [OF p]]
    ultimately have "callHost_memory pick (Some h) host' dec method (Some request) (m, w)
        = Some (((after p m2)\<lparr>me_c := me_c m\<rparr>, w'), read_host_response dec method rc raw)"
      using run e by simp
    then show ?thesis using p args(3) by blast
  qed
qed

text \<open>
  A shutdown while the call runs takes the host's release function away: the response stays
  allocated for ever.
\<close>

lemma shutdown_loses_response:
  assumes "allocator pick" "CHR 0x00 \<notin> set method"
    and "host_answers f call" "ch_Call h = Some call" "f method request w = (w', rc, raw)" "raw \<noteq> []"
  shows "\<exists>m6 r p. callHost_memory pick (Some h) None dec method (Some request) (m, w) = Some ((m6, w'), r)
    \<and> gm_get (me_host m) p = None \<and> gm_get (me_host m6) p = Some raw"
proof -
  have "\<exists>m6. callHost_memory pick (Some h) None dec method (Some request) (m, w)
        = Some ((m6, w'), read_host_response dec method rc raw)
    \<and> (raw = [] \<and> m6 = m \<or> (\<exists>p m2. fresh m2 p \<and> me_host m2 = me_host m
        \<and> m6 = (m2\<lparr>me_host := gm_set p raw (me_host m2)\<rparr>)\<lparr>me_c := me_c m\<rparr>))"
    by (rule callHost_memory_result [OF assms(1-5), where after = "\<lambda>p m. m\<lparr>me_host := gm_set p raw (me_host m)\<rparr>"])
      (simp_all add: free_host_buffer_def)
  then obtain m6 p m2 where
    c: "callHost_memory pick (Some h) None dec method (Some request) (m, w) = Some ((m6, w'), read_host_response dec method rc raw)"
    and p: "fresh m2 p" "me_host m2 = me_host m" "m6 = (m2\<lparr>me_host := gm_set p raw (me_host m2)\<rparr>)\<lparr>me_c := me_c m\<rparr>"
    using assms(6) by blast
  have "gm_get (me_host m) p = None" using fresh_c [OF p(1)] p(2) by simp
  then show ?thesis using c p(3) by (intro exI [of _ m6] exI [of _ "read_host_response dec method rc raw"] exI [of _ p]) simp
qed

text \<open>More than 2 GiB cannot be read: the length becomes negative, and the runtime stops the process.\<close>

lemma huge_length_panics: "2 ^ 31 \<le> n \<Longrightarrow> n < 2 ^ 32 \<Longrightarrow> GoBytes m p (c_int n) = None"
proof -
  assume n: "2 ^ 31 \<le> n" "n < 2 ^ 32"
  then have "int n div 2 ^ 31 = 1" by (simp add: div_nat_eqI zdiv_int [symmetric])
  then have "bit (int n) 31" by (simp add: bit_iff_odd)
  moreover have "take_bit 32 (int n) = int n" using n by (simp add: take_bit_int_eq_self_iff)
  ultimately have "c_int n = int n - 2 ^ 32"
    by (simp add: c_int_def signed_of_nat signed_take_bit_eq_take_bit_minus)
  then show ?thesis using n(2) by (simp add: GoBytes_def)
qed

text \<open>
  The answer to a call: the host finds the bytes of the envelope in the buffer, and releases them once;
  a second release has no defined behaviour.
\<close>

lemma answer_released:
  assumes "allocator pick" "pluginCall_memory env pick method request len True s mw = Some (s', (m2, w'), rc, buffer, task)"
  shows "\<exists>name bytes m1 raw. call_arguments (fst mw) method request len = Some (name, bytes)
    \<and> cliproxyPluginCall env name bytes (Some []) s mw = Some (s', (m1, w'), rc, Some raw, task)
    \<and> (raw = [] \<and> buffer = Some (0, 0) \<and> m2 = m1
       \<or> (\<exists>p. buffer = Some (p, length raw) \<and> p \<noteq> 0 \<and> block m2 p = Some raw
            \<and> cliproxyPluginFree p m2 = Some m1 \<and> cliproxyPluginFree p m1 = None))"
proof -
  obtain name bytes where a: "call_arguments (fst mw) method request len = Some (name, bytes)"
    using assms(2) unfolding pluginCall_memory_def by (cases "call_arguments (fst mw) method request len") auto
  obtain s1 m1 w1 rc1 out task1 where c1: "cliproxyPluginCall env name bytes (Some []) s mw = Some (s1, (m1, w1), rc1, out, task1)"
    using assms(2) a unfolding pluginCall_memory_def by (cases "cliproxyPluginCall env name bytes (Some []) s mw") auto
  obtain m3 b where wr1: "writeResponse_memory pick (map_option (\<lambda>_. (0, 0)) out) (case out of None \<Rightarrow> [] | Some raw \<Rightarrow> raw) m1 = (m3, b)"
    by fastforce
  have eqs: "s1 = s'" "m3 = m2" "w1 = w'" "rc1 = rc" "b = buffer" "task1 = task"
    using assms(2) a c1 wr1 by (simp_all add: pluginCall_memory_def)
  note c = c1 [unfolded eqs] and wr = wr1 [unfolded eqs]
  have "out \<noteq> None"
    using c by (auto simp: cliproxyPluginCall_def Let_def writeResponse_def split: option.splits sum.splits)
  then obtain raw where raw: "out = Some raw" by blast
  have p: "fresh m1 (pick m1)" using assms(1) by (rule allocator_fresh)
  show ?thesis
  proof (cases "raw = []")
    case True
    then have "buffer = Some (0, 0)" "m2 = m1" using wr raw by (simp_all add: writeResponse_memory_def)
    then show ?thesis using a c raw True by blast
  next
    case False
    then have "buffer = Some (pick m1, length raw)" "m2 = m1\<lparr>me_c := gm_set (pick m1) raw (me_c m1)\<rparr>"
      using wr raw fresh_c [OF p] by (auto simp: writeResponse_memory_def CBytes_def malloc_def)
    moreover from this have "cliproxyPluginFree (pick m1) m2 = Some m1" "cliproxyPluginFree (pick m1) m1 = None"
      using free_malloc [OF p] fresh_c [OF p] by (simp_all add: cliproxyPluginFree_def c_free_def)
    ultimately show ?thesis
      using a c raw fresh_c [OF p] by (intro exI [of _ name] exI [of _ bytes] exI [of _ m1] exI [of _ raw]) auto
  qed
qed

section \<open>Properties\<close>

text \<open>
  C29. A call of the host as main.go makes it, with its buffers in the C memory, is the call of
  \<open>Envelopes\<close>: it reads only live blocks, releases every block exactly once and by its own allocator, returns
  what the abstract call returns, and leaves the memory as it found it, whether the host answers or not;
  provided the host is still there at the end.
\<close>

theorem host_call_clean:
  assumes "allocator pick" "CHR 0x00 \<notin> set method"
    and "ch_Call h = Some call" "ch_Free h = Some free" "host_answers f call" "host_frees free"
  shows "callHost_memory pick (Some h) (Some h) dec method payload (m, w)
    = (case callHost (Some \<lparr>ha_Version = ch_Version h, ha_Call = Some f\<rparr>) dec method payload w of
         (w', r) \<Rightarrow> Some ((m, w'), r))"
proof (cases payload)
  case None
  then show ?thesis by (simp add: callHost_memory_def callHost_def)
next
  case (Some request)
  obtain w' rc raw where f: "f method request w = (w', rc, raw)" by (cases "f method request w")
  have "\<exists>m6. callHost_memory pick (Some h) (Some h) dec method (Some request) (m, w)
        = Some ((m6, w'), read_host_response dec method rc raw)
    \<and> (raw = [] \<and> m6 = m \<or> (\<exists>p m2. fresh m2 p \<and> me_host m2 = me_host m \<and> m6 = m2\<lparr>me_c := me_c m\<rparr>))"
    by (rule callHost_memory_result [OF assms(1,2,5,3) f, where after = "\<lambda>p m. m"])
      (simp_all add: release_response [OF _ assms(6,4)])
  then show ?thesis using Some f by (auto simp: callHost_def call_host_api_def)
qed

text \<open>A host that counts its calls and answers with an envelope of three bytes.\<close>

definition demo_answers :: "nat host_call" where
  "demo_answers method request w = (Suc w, 0, ''yes'')"

definition demo_entry :: "nat host_entry" where
  "demo_entry method request len mw =
     (let p = next_address (fst mw) in
      (((fst mw)\<lparr>me_host := gm_set p ''yes'' (me_host (fst mw))\<rparr>, Suc (snd mw)), 0, p, 3))"

definition demo_free :: "addr \<Rightarrow> nat \<Rightarrow> memory \<Rightarrow> memory option" where
  "demo_free p len m = Some (m\<lparr>me_host := gm_del p (me_host m)\<rparr>)"

definition demo_c_host :: "nat c_host" where
  "demo_c_host = \<lparr>ch_Version = 1, ch_Call = Some demo_entry, ch_Free = Some demo_free\<rparr>"

definition demo_decoder :: "string \<Rightarrow> Envelope option" where
  "demo_decoder raw = (if raw = ''yes'' then Some (ok_envelope ''{}'') else None)"

theorem host_call_clean_witness:
  "callHost_memory next_address (Some demo_c_host) (Some demo_c_host) demo_decoder ''host.log'' (Some ''{}'')
     (\<lparr>me_c = [], me_host = []\<rparr>, 0)
   = Some ((\<lparr>me_c = [], me_host = []\<rparr>, 1), Inr ''{}'')"
proof -
  have "host_answers demo_answers demo_entry"
    using next_address_fresh by (simp add: host_answers_def demo_answers_def demo_entry_def Let_def allocator_def)
  moreover have "host_frees demo_free" by (simp add: host_frees_def demo_free_def)
  ultimately show ?thesis
    using host_call_clean [of next_address "''host.log''" demo_c_host demo_entry demo_free demo_answers demo_decoder "Some ''{}''"
        "\<lparr>me_c = [], me_host = []\<rparr>" 0, OF next_address_fresh]
    by (simp add: demo_c_host_def callHost_def call_host_api_def demo_answers_def read_host_response_def demo_decoder_def ok_envelope_def)
qed

end
