(* ===== verification/Json_Roundtrip.thy ===== *)
theory Json_Roundtrip
  imports Go_Json
begin

text \<open>
  What \<open>json.Marshal\<close> writes, \<open>json.Unmarshal\<close> reads back: strings, integers, arrays and
  structs. A text \<open>spells\<close> a value when the parser reads it as that value in front of anything
  that may follow a value, with the fuel it gets.
\<close>

section \<open>Strings\<close>

lemma rune_len_append:
  assumes "rune_len cs = length cs" "cs \<noteq> []"
  shows "rune_len (cs @ t) = length cs"
proof (cases cs)
  case (Cons a r)
  show ?thesis
  proof (cases r)
    case Nil
    then show ?thesis using assms Cons by (auto split: if_splits)
  next
    case r: (Cons b q)
    show ?thesis
    proof (cases q)
      case Nil
      then show ?thesis using assms Cons r by (auto split: if_splits list.splits)
    next
      case q: (Cons c p)
      then show ?thesis using assms Cons r by (cases p) (auto split: if_splits list.splits)
    qed
  qed
qed (use assms in simp)

lemma hex_value_digit: "d < 16 \<Longrightarrow> hex_value (hex_digit d) = Some d"
  by (auto simp: hex_value_def hex_digit_def is_digit_def)

lemma hex4_00: "hex4 (CHR ''0'' # CHR ''0'' # hex_byte c @ t) = Some (byte c)"
proof -
  have "byte c div 16 < 16" by (rule less_mult_imp_div_less) simp
  then have "hex_value (hex_digit (byte c div 16)) = Some (byte c div 16)" "hex_value (hex_digit (byte c mod 16)) = Some (byte c mod 16)"
    by (simp_all add: hex_value_digit)
  moreover have "hex_value (CHR ''0'') = Some 0" by (simp add: hex_value_def is_digit_def)
  ultimately show ?thesis by (simp add: hex4_def hex_byte_def)
qed

lemma unquote_escape_char:
  "simple_escape e = Some x \<Longrightarrow> unquote (backslash # e # t) = map_option (\<lambda>(u, q). (x # u, q)) (unquote t)"
  by (subst unquote.simps) (simp add: backslash_def dquote_def)

lemma unquote_unicode:
  assumes "unicode_escape (h @ t) = Some (x, length h)"
  shows "unquote (backslash # CHR ''u'' # h @ t) = map_option (\<lambda>(u, q). (x @ u, q)) (unquote t)"
  using assms by (subst unquote.simps) (simp add: backslash_def dquote_def simple_escape_def)

lemma unquote_plain:
  assumes "rune_len cs = length cs" "cs = c # r" "c \<noteq> dquote" "c \<noteq> backslash" "32 \<le> byte c"
  shows "unquote (cs @ t) = map_option (\<lambda>(u, q). (cs @ u, q)) (unquote t)"
  using assms rune_len_append [OF assms(1), of t] by (subst unquote.simps) simp

lemma byte_eqI: "byte c = byte d \<Longrightarrow> c = d"
  by (metis char_of_char)

lemma unquote_u00:
  assumes "byte c < 128"
  shows "unquote (escape_u00 c @ t) = map_option (\<lambda>(u, q). (c # u, q)) (unquote t)"
proof -
  have "unicode_escape (''00'' @ hex_byte c @ t) = Some ([c], 4)"
    using assms hex4_00 [of c t] by (simp add: unicode_escape_def encode_rune_def)
  then have "unquote (backslash # CHR ''u'' # (''00'' @ hex_byte c) @ t) = map_option (\<lambda>(u, q). ([c] @ u, q)) (unquote t)"
    by (intro unquote_unicode) (simp add: hex_byte_def)
  then show ?thesis by (simp add: escape_u00_def)
qed

lemma char_of_byte: "byte c = n \<Longrightarrow> char_of n = c"
  by auto

lemma short_escapes:
  "byte c = 8 \<Longrightarrow> simple_escape (CHR ''b'') = Some c" "byte c = 9 \<Longrightarrow> simple_escape (CHR ''t'') = Some c"
  "byte c = 10 \<Longrightarrow> simple_escape (CHR ''n'') = Some c" "byte c = 12 \<Longrightarrow> simple_escape (CHR ''f'') = Some c"
  "byte c = 13 \<Longrightarrow> simple_escape (CHR ''r'') = Some c"
  by (drule char_of_byte, simp add: simple_escape_def dquote_def backslash_def)+

lemma unquote_ascii:
  assumes "byte c < 128"
  shows "unquote (quote_ascii c @ t) = map_option (\<lambda>(u, q). (c # u, q)) (unquote t)"
proof -
  let ?quoted = "c = backslash \<or> c = dquote"
  let ?short = "byte c = 8 \<or> byte c = 9 \<or> byte c = 10 \<or> byte c = 12 \<or> byte c = 13"
  let ?long = "byte c < 32 \<or> c = CHR ''<'' \<or> c = CHR ''>'' \<or> c = CHR ''&''"
  consider "?quoted" | "\<not> ?quoted \<and> ?short" | "\<not> ?quoted \<and> \<not> ?short \<and> ?long" | "\<not> ?quoted \<and> \<not> ?short \<and> \<not> ?long"
    by blast
  then show ?thesis
  proof cases
    case 1
    then show ?thesis by (auto simp: quote_ascii_def unquote_escape_char simple_escape_def)
  next
    case 2
    then obtain e where e: "quote_ascii c = [backslash, e]" "simple_escape e = Some c"
      using short_escapes [of c] by (auto simp: quote_ascii_def)
    then show ?thesis by (simp add: unquote_escape_char)
  next
    case 3
    then have "quote_ascii c = escape_u00 c" by (simp add: quote_ascii_def)
    then show ?thesis using unquote_u00 [OF assms] by simp
  next
    case 4
    then have "quote_ascii c = [c]" by (simp add: quote_ascii_def)
    then show ?thesis using unquote_plain [of "[c]" c "[]" t] assms 4 by simp
  qed
qed

lemma unquote_separator:
  assumes "n = 8232 \<and> h = ''2028'' \<or> n = 8233 \<and> h = ''2029''"
  shows "unquote (backslash # CHR ''u'' # h @ t) = map_option (\<lambda>(u, q). (encode_rune n @ u, q)) (unquote t)"
proof (rule unquote_unicode)
  show "unicode_escape (h @ t) = Some (encode_rune n, length h)"
    using assms by (auto simp: unicode_escape_def hex4_def hex_value_def is_digit_def)
qed

lemma unquote_rune:
  assumes "rune_len cs = length cs" "cs \<noteq> []"
  shows "unquote (quote_rune (True, cs) @ t) = map_option (\<lambda>(u, q). (cs @ u, q)) (unquote t)"
proof -
  obtain c r where cs: "cs = c # r" using assms(2) by (cases cs) auto
  consider "map byte cs = [226, 128, 168]" | "map byte cs = [226, 128, 169]"
    | "map byte cs \<noteq> [226, 128, 168] \<and> map byte cs \<noteq> [226, 128, 169] \<and> r = []"
    | "map byte cs \<noteq> [226, 128, 168] \<and> map byte cs \<noteq> [226, 128, 169] \<and> r \<noteq> []" by blast
  then show ?thesis
  proof cases
    case 1
    then have "cs = encode_rune 8232" by (auto simp: encode_rune_def cs intro: byte_eqI)
    then show ?thesis using 1 unquote_separator [of 8232 "''2028''" t] by (simp add: quote_rune_def)
  next
    case 2
    then have "cs = encode_rune 8233" by (auto simp: encode_rune_def cs intro: byte_eqI)
    then show ?thesis using 2 unquote_separator [of 8233 "''2029''" t] by (simp add: quote_rune_def)
  next
    case 3
    then have "quote_rune (True, cs) = quote_ascii c" by (simp add: quote_rune_def cs)
    then show ?thesis using unquote_ascii [of c t] assms cs 3 by (auto split: if_splits)
  next
    case 4
    then have q: "quote_rune (True, cs) = cs" using cs by (cases r) (auto simp add: quote_rune_def)
    have "194 \<le> byte c" using assms cs 4 by (auto split: if_splits)
    then have "c \<noteq> dquote" "c \<noteq> backslash" "32 \<le> byte c" by (auto simp: dquote_def backslash_def)
    then show ?thesis using unquote_plain [OF assms(1) cs] q by simp
  qed
qed

lemma unquote_quote: "ValidString s \<Longrightarrow> unquote (concat (map quote_rune (runes s)) @ dquote # t) = Some (s, t)"
proof (induction s rule: runes.induct)
  case (1 s)
  show ?case
  proof (cases "s = []")
    case True
    then show ?thesis by (simp add: unquote.simps [of "dquote # t"])
  next
    case False
    let ?k = "rune_len s"
    have k: "?k \<noteq> 0" using False 1(3) by (cases "?k = 0") (simp_all add: ValidString_def runes.simps [of s])
    then have r: "runes s = (True, take ?k s) # runes (drop ?k s)" using False by (simp add: runes.simps [of s])
    then have v: "ValidString (drop ?k s)" using 1(3) by (simp add: ValidString_def)
    have len: "rune_len (take ?k s) = length (take ?k s)" "take ?k s \<noteq> []"
      using k False by (cases s; auto split: if_splits list.splits)+
    have "unquote (quote_rune (True, take ?k s) @ concat (map quote_rune (runes (drop ?k s))) @ dquote # t)
        = map_option (\<lambda>(u, q). (take ?k s @ u, q)) (Some (drop ?k s, t))"
      using unquote_rune [OF len] 1(2) [OF False k v] by simp
    then show ?thesis by (simp add: r)
  qed
qed

section \<open>Values\<close>

definition after_value :: "string \<Rightarrow> bool" where
  "after_value rest \<longleftrightarrow> (case rest of [] \<Rightarrow> True | c # _ \<Rightarrow> c \<in> set '',]}'' \<or> is_ws c)"

definition spells :: "jsonv \<Rightarrow> string \<Rightarrow> bool" where
  "spells v t \<longleftrightarrow> (\<forall>m rest. length t < m \<and> after_value rest \<longrightarrow> parse_value m (t @ rest) = Some (v, rest))"

lemma spellsI: "(\<And>n rest. length t \<le> n \<Longrightarrow> after_value rest \<Longrightarrow> parse_value (Suc n) (t @ rest) = Some (v, rest)) \<Longrightarrow> spells v t"
  unfolding spells_def by (metis less_Suc_eq_le old.nat.exhaust not_less_zero)

lemma spellsD: "spells v t \<Longrightarrow> length t < m \<Longrightarrow> after_value rest \<Longrightarrow> parse_value m (t @ rest) = Some (v, rest)"
  by (simp add: spells_def)

lemma skip_ws_append [simp]: "list_all is_ws w \<Longrightarrow> skip_ws (w @ s) = skip_ws s"
  by (simp add: skip_ws_def list_all_iff dropWhile_append)

lemma skip_ws_Cons [simp]: "\<not> is_ws c \<Longrightarrow> skip_ws (c # s) = c # s"
  by (simp add: skip_ws_def)

lemma parse_value_ws: "list_all is_ws w \<Longrightarrow> parse_value m (w @ s) = parse_value m s"
  by (cases m) simp_all

lemma not_ws [simp]: "\<not> is_ws dquote" "\<not> is_ws (CHR ''{'')" "\<not> is_ws (CHR ''}'')" "\<not> is_ws (CHR ''['')"
  "\<not> is_ws (CHR '']'')" "\<not> is_ws (CHR '','')" "\<not> is_ws (CHR '':'')" "\<not> is_ws (CHR ''t'')" "\<not> is_ws (CHR ''-'')"
  by (simp_all add: is_ws_def dquote_def)

lemma dquote_neq [simp]: "dquote \<noteq> CHR ''{''" "dquote \<noteq> CHR ''}''" "dquote \<noteq> CHR ''[''" "dquote \<noteq> CHR '']''" "dquote \<noteq> CHR '',''"
  "CHR ''{'' \<noteq> dquote" "CHR ''['' \<noteq> dquote" "CHR ''t'' \<noteq> dquote"
  by (simp_all add: dquote_def)

lemma spells_quote: "ValidString s \<Longrightarrow> spells (JStr s) (quote s)"
  by (rule spellsI) (simp add: quote_def unquote_quote)

lemma spells_true: "spells (JBool True) ''true''"
  by (rule spellsI) (simp add: HasPrefix_def)

lemma nat_digits_hd: "0 < n \<Longrightarrow> hd (nat_digits n) \<noteq> CHR ''0''"
proof (induction n rule: nat_digits.induct)
  case (1 n)
  show ?case
  proof (cases "n < 10")
    case True
    have "byte (digit_char n) \<noteq> 48" using True 1(2) by (simp add: byte_digit_char)
    then show ?thesis using True by (auto simp: nat_digits.simps [of n])
  next
    case False
    then show ?thesis using 1 by (simp add: nat_digits.simps [of n])
  qed
qed

lemma after_value_stops:
  assumes "after_value rest"
  shows "takeWhile is_digit rest = []" "dropWhile is_digit rest = rest" "scan_frac rest = Some ([], rest)" "scan_exp rest = Some ([], rest)"
  using assms by (cases rest; auto simp: after_value_def is_ws_def is_digit_def scan_frac_def scan_exp_def)+

lemma scan_nat:
  assumes "after_value rest"
  shows "scan_int (nat_digits n @ rest) = Some (nat_digits n, rest)"
proof (cases "n = 0")
  case True
  then show ?thesis by (simp add: nat_digits.simps [of 0] digit_char_def scan_int_def char_of_def bit_0)
next
  case False
  obtain c r where ds: "nat_digits n = c # r" by (metis nat_digits_neq_Nil neq_Nil_conv)
  then have c: "c \<noteq> CHR ''0''" "is_digit c" "list_all is_digit r"
    using nat_digits_hd [of n] nat_digits_digits [of n] False by simp_all
  have "takeWhile is_digit (r @ rest) = r" "dropWhile is_digit (r @ rest) = rest"
    using c(3) after_value_stops [OF assms] by (auto simp: list_all_iff takeWhile_append dropWhile_append)
  then show ?thesis using c by (simp add: ds scan_int_def scan_digits_def)
qed

lemma digit_not: "is_digit c \<Longrightarrow> c \<noteq> dquote \<and> c \<notin> set ''{[-tfn'' \<and> \<not> is_ws c"
  by (auto simp: is_digit_def dquote_def is_ws_def)

lemma scan_Itoa:
  assumes "after_value rest"
  shows "scan_number (Itoa i @ rest) = Some (Itoa i, rest)"
proof (cases "i < 0")
  case True
  then show ?thesis using scan_nat [OF assms, of "nat (- i)"] after_value_stops [OF assms] by (simp add: scan_number_def Itoa_def)
next
  case False
  obtain c r where ds: "nat_digits (nat i) = c # r" by (metis nat_digits_neq_Nil neq_Nil_conv)
  then have "c \<noteq> CHR ''-''" using nat_digits_digits [of "nat i"] digit_not [of c] by auto
  then show ?thesis
    using False scan_nat [OF assms, of "nat i"] after_value_stops [OF assms] by (simp add: scan_number_def Itoa_def ds)
qed

lemma spells_Itoa: "spells (JNum (Itoa i)) (Itoa i)"
proof (rule spellsI)
  fix n rest
  assume rest: "after_value rest"
  obtain c r where i: "Itoa i = c # r" "c = CHR ''-'' \<or> is_digit c"
    using nat_digits_digits [of "nat i"] nat_digits_neq_Nil [of "nat i"]
    by (cases "i < 0"; cases "nat_digits (nat i)") (auto simp: Itoa_def)
  then have "c \<noteq> dquote \<and> c \<notin> set ''{[tfn'' \<and> \<not> is_ws c"
    using digit_not [of c] by (auto simp: dquote_def is_ws_def)
  then show "parse_value (Suc n) (Itoa i @ rest) = Some (JNum (Itoa i), rest)"
    using scan_Itoa [OF rest, of i] by (simp add: i HasPrefix_def)
qed

section \<open>Containers\<close>

text \<open>With white space before each item, behind the colon, and before the closing bracket.\<close>

definition array_text :: "string \<Rightarrow> string \<Rightarrow> string list \<Rightarrow> string" where
  "array_text w1 w3 ts = ''['' @ Join '','' (map (\<lambda>t. w1 @ t) ts) @ w3 @ '']''"

definition object_text :: "string \<Rightarrow> string \<Rightarrow> string \<Rightarrow> (string \<times> string) list \<Rightarrow> string" where
  "object_text w1 w2 w3 ms = ''{'' @ Join '','' (map (\<lambda>(k, t). w1 @ quote k @ '':'' @ w2 @ t) ms) @ w3 @ ''}''"

lemma after_value_close:
  assumes "list_all is_ws w"
  shows "after_value (w @ CHR '']'' # rest)" "after_value (w @ CHR ''}'' # rest)" "after_value (CHR '','' # rest)"
  using assms by (cases w; auto simp: after_value_def)+

lemma parse_elems_text:
  assumes "list_all2 spells vs ts" "ts \<noteq> []" "list_all is_ws w1" "list_all is_ws w3"
    and "Suc (length (Join '','' (map (\<lambda>t. w1 @ t) ts))) < m"
  shows "parse_elems m (Join '','' (map (\<lambda>t. w1 @ t) ts) @ w3 @ CHR '']'' # rest) = Some (vs, rest)"
  using assms(1,2,5)
proof (induction vs ts arbitrary: m rule: list_all2_induct)
  case (Cons v vs t ts)
  then obtain n where m: "m = Suc n" by (cases m) auto
  show ?case
  proof (cases "ts = []")
    case True
    then have "vs = []" using Cons by simp
    moreover have "length t < n" using True Cons.prems m by auto
    ultimately show ?thesis
      using True m assms(3,4) after_value_close(1) [OF assms(4), of rest] spellsD [OF Cons.hyps(1), of n]
      by (simp add: parse_value_ws)
  next
    case False
    let ?J = "Join '','' (map (\<lambda>t. w1 @ t) ts)"
    have j: "Join '','' (map (\<lambda>t. w1 @ t) (t # ts)) = w1 @ t @ CHR '','' # ?J"
      using False by (simp add: Join_Cons)
    have "length t < n" "Suc (length ?J) < n" using Cons.prems m unfolding j by auto
    then show ?thesis
      unfolding j m
      using Cons.IH [of n] False assms(3) spellsD [OF Cons.hyps(1), of n] after_value_close(3) [OF assms(4)]
      by (simp add: parse_value_ws)
  qed
qed simp

lemma spells_array:
  assumes "list_all2 spells vs ts" "ts \<noteq> []" "list_all is_ws w1" "list_all is_ws w3" "list_all (\<lambda>t. t \<noteq> [] \<and> \<not> is_ws (hd t) \<and> hd t \<noteq> CHR '']'') ts"
  shows "spells (JArr vs) (array_text w1 w3 ts)"
proof (rule spellsI)
  fix n rest
  let ?J = "Join '','' (map (\<lambda>t. w1 @ t) ts)"
  assume len: "length (array_text w1 w3 ts) \<le> n"
  obtain t ts' where ts: "ts = t # ts'" using assms(2) by (cases ts) auto
  obtain c r where t: "t = c # r" "\<not> is_ws c" "c \<noteq> CHR '']''" using assms(5) ts by (cases t) auto
  have "\<exists>q. ?J = w1 @ c # q" using ts t by (cases ts') auto
  then obtain q where q: "?J = w1 @ c # q" by blast
  have "parse_elems n (?J @ w3 @ CHR '']'' # rest) = Some (vs, rest)"
    using len by (intro parse_elems_text [OF assms(1-4)]) (simp add: array_text_def)
  then have "parse_elems n (c # q @ w3 @ CHR '']'' # rest) = Some (vs, rest)"
    using q assms(3) by (cases n) (simp_all add: parse_value_ws)
  moreover have "skip_ws (?J @ w3 @ CHR '']'' # rest) = c # q @ w3 @ CHR '']'' # rest"
    using q assms(3) t by simp
  ultimately show "parse_value (Suc n) (array_text w1 w3 ts @ rest) = Some (JArr vs, rest)"
    using t(3) by (simp add: array_text_def)
qed

lemma parse_members_ws: "list_all is_ws w \<Longrightarrow> parse_members m (w @ s) = parse_members m s"
  by (cases m) simp_all

lemma parse_members_text:
  assumes "list_all2 (\<lambda>kv kt. fst kv = fst kt \<and> ValidString (fst kt) \<and> spells (snd kv) (snd kt)) kvs ms" "ms \<noteq> []"
    and "list_all is_ws w1" "list_all is_ws w2" "list_all is_ws w3"
    and "Suc (length (Join '','' (map (\<lambda>(k, t). w1 @ quote k @ '':'' @ w2 @ t) ms))) < m"
  shows "parse_members m (Join '','' (map (\<lambda>(k, t). w1 @ quote k @ '':'' @ w2 @ t) ms) @ w3 @ CHR ''}'' # rest) = Some (kvs, rest)"
  using assms(1,2,6)
proof (induction kvs ms arbitrary: m rule: list_all2_induct)
  case (Cons kv kvs kt ms)
  obtain n where m: "m = Suc n" using Cons.prems by (cases m) auto
  obtain k v t where kv: "kv = (k, v)" "kt = (k, t)" and k: "ValidString k" and t: "spells v t"
    using Cons.hyps(1) by (cases kv; cases kt) auto
  have pv: "parse_value n (w2 @ t @ r) = Some (v, r)" if "length t < n" "after_value r" for r
    using spellsD [OF t that] parse_value_ws [OF assms(4)] by simp
  have member: "parse_members m (w1 @ quote k @ '':'' @ w2 @ t @ r) =
      (case skip_ws r of [] \<Rightarrow> None
       | e # r4 \<Rightarrow> if e = CHR ''}'' then Some ([(k, v)], r4)
          else if e = CHR '','' then map_option (\<lambda>(m, q). ((k, v) # m, q)) (parse_members n r4) else None)"
    if "length t < n" "after_value r" for r
    using pv [OF that] assms(3) by (simp add: m quote_def unquote_quote [OF k])
  show ?case
  proof (cases "ms = []")
    case True
    then have "kvs = []" using Cons by simp
    moreover have "length t < n" using True Cons.prems m kv by auto
    ultimately show ?thesis
      using True kv member [OF _ after_value_close(2) [OF assms(5)]] assms(5) by simp
  next
    case False
    let ?J = "Join '','' (map (\<lambda>(k, t). w1 @ quote k @ '':'' @ w2 @ t) ms)"
    have j: "Join '','' (map (\<lambda>(k, t). w1 @ quote k @ '':'' @ w2 @ t) (kt # ms)) = w1 @ quote k @ '':'' @ w2 @ t @ CHR '','' # ?J"
      using False kv by (simp add: Join_Cons)
    have "length t < n" "Suc (length ?J) < n" using Cons.prems m unfolding j by auto
    then show ?thesis
      unfolding j using Cons.IH [of n] False member [OF _ after_value_close(3) [OF assms(5)]] kv by simp
  qed
qed simp

lemma spells_object:
  assumes "list_all2 (\<lambda>kv kt. fst kv = fst kt \<and> ValidString (fst kt) \<and> spells (snd kv) (snd kt)) kvs ms" "ms \<noteq> []"
    and "list_all is_ws w1" "list_all is_ws w2" "list_all is_ws w3"
  shows "spells (JObj kvs) (object_text w1 w2 w3 ms)"
proof (rule spellsI)
  fix n rest
  let ?J = "Join '','' (map (\<lambda>(k, t). w1 @ quote k @ '':'' @ w2 @ t) ms)"
  assume len: "length (object_text w1 w2 w3 ms) \<le> n"
  obtain k t ms' where ms: "ms = (k, t) # ms'" using assms(2) by (cases ms) auto
  have "\<exists>q. ?J = w1 @ dquote # q" using ms by (cases ms') (auto simp: quote_def)
  then obtain q where q: "?J = w1 @ dquote # q" by blast
  have "parse_members n (?J @ w3 @ CHR ''}'' # rest) = Some (kvs, rest)"
    using len by (intro parse_members_text [OF assms]) (simp add: object_text_def)
  then have "parse_members n (dquote # q @ w3 @ CHR ''}'' # rest) = Some (kvs, rest)"
    using q parse_members_ws [OF assms(3)] by simp
  moreover have "skip_ws (?J @ w3 @ CHR ''}'' # rest) = dquote # q @ w3 @ CHR ''}'' # rest"
    using q assms(3) by simp
  ultimately show "parse_value (Suc n) (object_text w1 w2 w3 ms @ rest) = Some (JObj kvs, rest)"
    by (simp add: object_text_def)
qed

lemma json_whole_spelled: "spells v t \<Longrightarrow> list_all is_ws w \<Longrightarrow> json_whole (t @ w) = Some v"
proof -
  assume v: "spells v t" and w: "list_all is_ws w"
  have "after_value w" using w by (cases w) (auto simp: after_value_def)
  moreover have "skip_ws w = []" using skip_ws_append [OF w, of "[]"] by (simp add: skip_ws_def)
  ultimately show ?thesis using spellsD [OF v, of "json_fuel (t @ w)" w] by (simp add: json_whole_def json_fuel_def)
qed

lemma struct_json_text: "struct_json ms = object_text [] [] [] ms"
  by (simp add: struct_json_def object_text_def)

end
