(* ===== verification/Auth_Roundtrip.thy ===== *)
theory Auth_Roundtrip
  imports Auth Json_Roundtrip
begin

text \<open>
  The account the host keeps for the plugin: what \<open>authData\<close> stores, \<open>decodeAuth\<close> reads back,
  and preparing it again changes nothing.
\<close>

section \<open>The stored fields\<close>

text \<open>Texts in UTF-8 and a priority that is an \<open>int64\<close>, as every Go program has them.\<close>

definition storage_text_ok :: "AuthStorage \<Rightarrow> bool" where
  "storage_text_ok a \<longleftrightarrow>
     list_all ValidString [as_Type a, as_ID a, as_Label a, as_AccessToken a, as_RefreshToken a, as_ExpiresAt a, as_Prefix a]
     \<and> list_all ValidString (as_AllowedModels a) \<and> list_all ValidString (as_DeniedModels a)
     \<and> - (2 ^ 63) \<le> as_Priority a \<and> as_Priority a < 2 ^ 63"

definition opt_value :: "bool \<Rightarrow> string \<Rightarrow> jsonv \<Rightarrow> (string \<times> jsonv) list" where
  "opt_value c k v = (if c then [(k, v)] else [])"

definition storage_values :: "AuthStorage \<Rightarrow> (string \<times> jsonv) list" where
  "storage_values a =
     [(''type'', JStr (as_Type a))]
     @ opt_value (as_ID a \<noteq> []) ''id'' (JStr (as_ID a))
     @ [(''label'', JStr (as_Label a)), (''access_token'', JStr (as_AccessToken a))]
     @ opt_value (as_RefreshToken a \<noteq> []) ''refresh_token'' (JStr (as_RefreshToken a))
     @ opt_value (as_ExpiresAt a \<noteq> []) ''expires_at'' (JStr (as_ExpiresAt a))
     @ opt_value (as_Prefix a \<noteq> []) ''prefix'' (JStr (as_Prefix a))
     @ opt_value (as_Priority a \<noteq> 0) ''priority'' (JNum (Itoa (as_Priority a)))
     @ opt_value (as_AllowedModels a \<noteq> []) ''allowed_models'' (JArr (map JStr (as_AllowedModels a)))
     @ opt_value (as_DeniedModels a \<noteq> []) ''denied_models'' (JArr (map JStr (as_DeniedModels a)))
     @ opt_value (as_Disabled a) ''disabled'' (JBool True)"

abbreviation spelled_member :: "string \<times> jsonv \<Rightarrow> string \<times> string \<Rightarrow> bool" where
  "spelled_member kv kt \<equiv> fst kv = fst kt \<and> ValidString (fst kt) \<and> spells (snd kv) (snd kt)"

lemma spells_strings:
  assumes "list_all ValidString ss" "ss \<noteq> []" "list_all is_ws w1" "list_all is_ws w3"
  shows "spells (JArr (map JStr ss)) (array_text w1 w3 (map quote ss))"
proof (rule spells_array)
  show "list_all2 spells (map JStr ss) (map quote ss)"
    using assms(1) by (simp add: list_all2_conv_all_nth list_all_length spells_quote)
  show "list_all (\<lambda>t. t \<noteq> [] \<and> \<not> is_ws (hd t) \<and> hd t \<noteq> CHR '']'') (map quote ss)"
    by (simp add: list_all_iff quote_def)
qed (use assms in simp_all)

lemma json_string_list_text: "json_string_list ss = array_text [] [] (map quote ss)"
  by (simp add: json_string_list_def array_text_def)

lemma list_all2_opt: "(c \<Longrightarrow> P (k, v) y) \<Longrightarrow> list_all2 P (opt_value c k v) (if c then [y] else [])"
  by (simp add: opt_value_def)

lemma storage_spelled:
  assumes "storage_text_ok a"
  shows "list_all2 spelled_member (storage_values a) (storage_members a)"
  unfolding storage_values_def storage_members_def
  using assms
  by (intro list_all2_appendI list_all2_opt)
    (simp_all add: storage_text_ok_def spells_quote spells_Itoa spells_true json_string_list_text spells_strings
      ValidString_ascii is_ascii_def)

lemma storage_json_parsed:
  assumes "storage_text_ok a" "list_all is_ws w"
  shows "json_whole (storage_json a @ w) = Some (JObj (storage_values a))"
  unfolding storage_json_def struct_json_text
  by (rule json_whole_spelled [OF spells_object [OF storage_spelled [OF assms(1)]] assms(2)])
    (simp_all add: storage_members_def)

section \<open>Decoding\<close>

lemma Atoi_Itoa:
  assumes "- (2 ^ 63) \<le> i" "i < 2 ^ 63"
  shows "Atoi (Itoa i) = Some i"
proof (cases "i < 0")
  case True
  then show ?thesis using assms by (simp add: Atoi_def Itoa_def parse_nat_digits Let_def)
next
  case False
  obtain c r where ds: "nat_digits (nat i) = c # r" by (metis nat_digits_neq_Nil neq_Nil_conv)
  then have "c \<noteq> CHR ''-''" "c \<noteq> CHR ''+''" using nat_digits_digits [of "nat i"] by (auto simp: is_digit_def)
  then show ?thesis
    using False assms parse_nat_digits [of "nat i"] by (simp add: Atoi_def Itoa_def Let_def ds)
qed

lemma decode_members_append:
  "decode_members fs (xs @ ys) r =
     (case decode_members fs xs r of (r1, ok1) \<Rightarrow> (case decode_members fs ys r1 of (r2, ok2) \<Rightarrow> (r2, ok1 \<and> ok2)))"
  by (induction fs xs r rule: decode_members.induct) (auto split: option.split prod.split)

lemma decode_member_if:
  assumes "find_field fs k = Some d" "c \<Longrightarrow> d v r = (r', True)" "\<not> c \<Longrightarrow> r' = r"
  shows "decode_members fs (opt_value c k v) r = (r', True)"
  using assms by (simp add: opt_value_def)

lemma decode_string_list: "decode_strings put (JArr (map JStr ss)) r = (put ss r, True)"
  by (simp add: decode_strings_def decode_list_def decode_string_def Let_def list_all_iff comp_def)

definition storage_fields :: "(string \<times> AuthStorage field_decoder) list" where
  "storage_fields =
     [(''type'', decode_string (\<lambda>s r. r\<lparr>as_Type := s\<rparr>)),
      (''id'', decode_string (\<lambda>s r. r\<lparr>as_ID := s\<rparr>)),
      (''label'', decode_string (\<lambda>s r. r\<lparr>as_Label := s\<rparr>)),
      (''access_token'', decode_string (\<lambda>s r. r\<lparr>as_AccessToken := s\<rparr>)),
      (''refresh_token'', decode_string (\<lambda>s r. r\<lparr>as_RefreshToken := s\<rparr>)),
      (''expires_at'', decode_string (\<lambda>s r. r\<lparr>as_ExpiresAt := s\<rparr>)),
      (''prefix'', decode_string (\<lambda>s r. r\<lparr>as_Prefix := s\<rparr>)),
      (''priority'', decode_int (\<lambda>i r. r\<lparr>as_Priority := i\<rparr>)),
      (''allowed_models'', decode_strings (\<lambda>l r. r\<lparr>as_AllowedModels := l\<rparr>)),
      (''denied_models'', decode_strings (\<lambda>l r. r\<lparr>as_DeniedModels := l\<rparr>)),
      (''disabled'', decode_bool (\<lambda>b r. r\<lparr>as_Disabled := b\<rparr>))]"

lemma decode_storage_fields: "decode_storage = decode_struct storage_fields"
  by (simp add: decode_storage_def storage_fields_def)

lemma storage_find:
  "find_field storage_fields ''type'' = Some (decode_string (\<lambda>s r. r\<lparr>as_Type := s\<rparr>))"
  "find_field storage_fields ''id'' = Some (decode_string (\<lambda>s r. r\<lparr>as_ID := s\<rparr>))"
  "find_field storage_fields ''label'' = Some (decode_string (\<lambda>s r. r\<lparr>as_Label := s\<rparr>))"
  "find_field storage_fields ''access_token'' = Some (decode_string (\<lambda>s r. r\<lparr>as_AccessToken := s\<rparr>))"
  "find_field storage_fields ''refresh_token'' = Some (decode_string (\<lambda>s r. r\<lparr>as_RefreshToken := s\<rparr>))"
  "find_field storage_fields ''expires_at'' = Some (decode_string (\<lambda>s r. r\<lparr>as_ExpiresAt := s\<rparr>))"
  "find_field storage_fields ''prefix'' = Some (decode_string (\<lambda>s r. r\<lparr>as_Prefix := s\<rparr>))"
  "find_field storage_fields ''priority'' = Some (decode_int (\<lambda>i r. r\<lparr>as_Priority := i\<rparr>))"
  "find_field storage_fields ''allowed_models'' = Some (decode_strings (\<lambda>l r. r\<lparr>as_AllowedModels := l\<rparr>))"
  "find_field storage_fields ''denied_models'' = Some (decode_strings (\<lambda>l r. r\<lparr>as_DeniedModels := l\<rparr>))"
  "find_field storage_fields ''disabled'' = Some (decode_bool (\<lambda>b r. r\<lparr>as_Disabled := b\<rparr>))"
  by (simp_all add: storage_fields_def EqualFold_def is_ascii_def lower_char_def is_upper_def)

text \<open>An optional member of a field that is still empty.\<close>

lemma optional_members:
  "as_ID r = [] \<Longrightarrow> decode_members storage_fields (opt_value (i \<noteq> []) ''id'' (JStr i)) r = (r\<lparr>as_ID := i\<rparr>, True)"
  "as_RefreshToken r = [] \<Longrightarrow> decode_members storage_fields (opt_value (t \<noteq> []) ''refresh_token'' (JStr t)) r
    = (r\<lparr>as_RefreshToken := t\<rparr>, True)"
  "as_ExpiresAt r = [] \<Longrightarrow> decode_members storage_fields (opt_value (e \<noteq> []) ''expires_at'' (JStr e)) r
    = (r\<lparr>as_ExpiresAt := e\<rparr>, True)"
  "as_Prefix r = [] \<Longrightarrow> decode_members storage_fields (opt_value (p \<noteq> []) ''prefix'' (JStr p)) r
    = (r\<lparr>as_Prefix := p\<rparr>, True)"
  "as_Priority r = 0 \<Longrightarrow> - (2 ^ 63) \<le> n \<Longrightarrow> n < 2 ^ 63 \<Longrightarrow>
    decode_members storage_fields (opt_value (n \<noteq> 0) ''priority'' (JNum (Itoa n))) r = (r\<lparr>as_Priority := n\<rparr>, True)"
  "as_AllowedModels r = [] \<Longrightarrow>
    decode_members storage_fields (opt_value (ms \<noteq> []) ''allowed_models'' (JArr (map JStr ms))) r
    = (r\<lparr>as_AllowedModels := ms\<rparr>, True)"
  "as_DeniedModels r = [] \<Longrightarrow>
    decode_members storage_fields (opt_value (ds \<noteq> []) ''denied_models'' (JArr (map JStr ds))) r
    = (r\<lparr>as_DeniedModels := ds\<rparr>, True)"
  "\<not> as_Disabled r \<Longrightarrow>
    decode_members storage_fields (opt_value d ''disabled'' (JBool True)) r = (r\<lparr>as_Disabled := d\<rparr>, True)"
  by (cases r; rule decode_member_if [OF storage_find(2)] decode_member_if [OF storage_find(5)]
      decode_member_if [OF storage_find(6)] decode_member_if [OF storage_find(7)] decode_member_if [OF storage_find(8)]
      decode_member_if [OF storage_find(9)] decode_member_if [OF storage_find(10)] decode_member_if [OF storage_find(11)];
      simp add: decode_string_def decode_int_def decode_bool_def decode_string_list Atoi_Itoa)+

lemma decode_storage_values:
  assumes "- (2 ^ 63) \<le> as_Priority a" "as_Priority a < 2 ^ 63"
  shows "decode_members storage_fields (storage_values a) zero_storage = (a, True)"
  unfolding storage_values_def decode_members_append
  using assms
  by (intro prod_eqI) (simp_all add: optional_members storage_find zero_storage_def decode_string_def)

lemma stored_account_read:
  assumes "storage_text_ok a" "EqualFold (TrimSpace (as_Type a)) ProviderID" "TrimSpace (as_AccessToken a) \<noteq> []" "list_all is_ws w"
  shows "decodeAuth (storage_json a @ w) = Inr a"
proof -
  have "unmarshal_strict decode_storage zero_storage (storage_json a @ w) = Some a"
    using storage_json_parsed [OF assms(1,4)] decode_storage_values [of a] assms(1)
    by (simp add: unmarshal_strict_def unmarshal_struct_def decode_storage_fields decode_struct_def storage_text_ok_def)
  then show ?thesis using assms(2,3) by (simp add: decodeAuth_def)
qed

section \<open>Preparing an account again\<close>

lemma fixed_texts: "TrimSpace ''Cursor account'' = ''Cursor account''" "TrimSpace ProviderID = ProviderID"
  "EqualFold (TrimSpace ProviderID) ProviderID"
proof -
  show c: "TrimSpace ProviderID = ProviderID" unfolding ProviderID_def by (rule TrimSpace_ends) (simp_all add: ascii_space_def)
  show "TrimSpace ''Cursor account'' = ''Cursor account''" by (rule TrimSpace_ends) (simp_all add: ascii_space_def)
  show "EqualFold (TrimSpace ProviderID) ProviderID" unfolding c by (simp add: ProviderID_def EqualFold_def is_ascii_def)
qed

lemma email_trimmed: "TrimSpace (emailFromJWT t) = emailFromJWT t"
  by (simp add: emailFromJWT_def jwtStringClaim_def)

lemma normalize_storage_stable:
  assumes "normalize_storage sha256 s0 = Inr s"
  shows "normalize_storage sha256 s = Inr s"
proof -
  have "as_Type s = ProviderID" "TrimSpace (as_Label s) = as_Label s" "TrimSpace (as_AccessToken s) = as_AccessToken s"
    "TrimSpace (as_RefreshToken s) = as_RefreshToken s" "TrimSpace (as_Prefix s) = as_Prefix s"
    "as_AccessToken s \<noteq> []" "as_Label s \<noteq> []" "as_ID s \<noteq> []"
    "as_ExpiresAt s = [] \<longrightarrow> jwtExpiry (as_AccessToken s) = zero_time"
    using assms normalize_storage_ok [OF assms]
    by (auto simp: normalize_storage_def Let_def email_trimmed fixed_texts format_nonempty split: if_splits)
  then show ?thesis by (cases s) (auto simp: normalize_storage_def Let_def)
qed

section \<open>Properties\<close>

text \<open>
  C12. An account survives storage: the JSON that is handed to the host is read back as exactly
  the normalised account (its token, label, prefix, priority and model rules), and
  preparing what was read gives the same record for the host again, byte for byte, so that
  parsing and storing an account over and over never changes it. The texts are UTF-8.
\<close>

theorem stored_account_roundtrip:
  assumes "normalize_storage sha256 st = Inr s" and "storage_text_ok s"
  shows "\<exists>auth. authData sha256 now st f = Inr auth \<and> decodeAuth (ad_StorageJSON auth) = Inr s
    \<and> authData sha256 now s f = Inr auth"
proof -
  have "decodeAuth (storage_json s @ []) = Inr s"
    using normalize_storage_ok [OF assms(1)] assms(2) fixed_texts(3)
    by (intro stored_account_read) (use assms(1) in \<open>auto simp: normalize_storage_def Let_def split: if_splits\<close>)
  then show ?thesis
    using assms(1) normalize_storage_stable [OF assms(1)] by (simp add: authData_def)
qed

definition demo_stored :: AuthStorage where
  "demo_stored = zero_storage\<lparr>as_AccessToken := '' t '', as_Priority := 3, as_DeniedModels := [''o*'']\<rparr>"

lemma demo_stored_normal:
  "normalize_storage (\<lambda>_. ''k'') demo_stored = Inr (zero_storage\<lparr>as_Type := ''cursor'', as_ID := ''cursor-6b'',
     as_Label := ''Cursor account'', as_AccessToken := ''t'', as_Priority := 3, as_DeniedModels := [''o*'']\<rparr>)"
  by code_simp

theorem stored_account_roundtrip_witness:
  "\<exists>auth. authData (\<lambda>_. ''k'') 0 demo_stored [] = Inr auth \<and> decodeAuth (ad_StorageJSON auth)
     = Inr (zero_storage\<lparr>as_Type := ''cursor'', as_ID := ''cursor-6b'', as_Label := ''Cursor account'', as_AccessToken := ''t'',
         as_Priority := 3, as_DeniedModels := [''o*'']\<rparr>)"
  using stored_account_roundtrip [OF demo_stored_normal, of 0 "[]"]
  by (auto simp: storage_text_ok_def zero_storage_def ValidString_ascii is_ascii_def)

end
