(* ===== verification/Script_Files.thy ===== *)
theory Script_Files
  imports Go_Errors
begin

text \<open>
  What the scripts use of the operating system. A script ends with an exit code or a panic; the
  files are a world that the operations of package os read and change.
\<close>

datatype exit = Exited nat | Panicked string

record 'w file_system =
  fs_ReadFile :: "string \<Rightarrow> 'w \<Rightarrow> goerr + string"
  fs_MkdirAll :: "string \<Rightarrow> 'w \<Rightarrow> 'w \<times> goerr option"
  fs_WriteFile :: "string \<Rightarrow> string \<Rightarrow> 'w \<Rightarrow> 'w \<times> goerr option"


section \<open>Paths: filepath.Clean and filepath.Dir with slashes\<close>

text \<open>The elements of a path, read from the left; \<open>out\<close> holds the result so far, last element first.\<close>

fun clean_elements :: "bool \<Rightarrow> string list \<Rightarrow> string list \<Rightarrow> string list" where
  "clean_elements rooted out [] = rev out"
| "clean_elements rooted out (e # es) =
     (if e = [] \<or> e = ''.'' then clean_elements rooted out es
      else if e \<noteq> ''..'' then clean_elements rooted (e # out) es
      else (case out of
              [] \<Rightarrow> clean_elements rooted (if rooted then [] else [e]) es
            | prev # before \<Rightarrow> clean_elements rooted (if prev = ''..'' then e # out else before) es))"

definition Clean :: "string \<Rightarrow> string" where
  "Clean path =
     (let rooted = HasPrefix path ''/''; body = Join ''/'' (clean_elements rooted [] (Split (CHR ''/'') path)) in
      if rooted then CHR ''/'' # body else if body = [] then ''.'' else body)"

definition Dir :: "string \<Rightarrow> string" where
  "Dir path = Clean (rev (dropWhile (\<lambda>c. c \<noteq> CHR ''/'') (rev path)))"

lemma Dir_examples:
  "Dir ''a.json'' = ''.''" "Dir ''auths/./a.json'' = ''auths''" "Dir ''/a'' = ''/''" "Dir ''x/../../y/a'' = ''../y''"
  by code_simp+

end
