(* ===== verification/Import_Account.thy ===== *)
theory Import_Account
  imports Auth_Roundtrip Script_Files
begin

text \<open>
  scripts/import\_account.go: turns an account exported by another tool into an account file of
  the plugin. The parsed flags are an argument; a panic is an error value, with its text. What is printed
  to the terminal is left out.
\<close>

record sourceAccount =
  sa_Label :: string
  sa_AccessToken :: string
  sa_RefreshToken :: string
  sa_ExpiresAt :: string

definition zero_source :: sourceAccount where
  "zero_source = \<lparr>sa_Label = [], sa_AccessToken = [], sa_RefreshToken = [], sa_ExpiresAt = []\<rparr>"

definition decode_source :: "sourceAccount field_decoder" where
  "decode_source = decode_struct
     [(''label'', decode_string (\<lambda>s r. r\<lparr>sa_Label := s\<rparr>)),
      (''accessToken'', decode_string (\<lambda>s r. r\<lparr>sa_AccessToken := s\<rparr>)),
      (''refreshToken'', decode_string (\<lambda>s r. r\<lparr>sa_RefreshToken := s\<rparr>)),
      (''expiresAt'', decode_string (\<lambda>s r. r\<lparr>sa_ExpiresAt := s\<rparr>))]"

record targetAccount =
  ta_Type :: string
  ta_Label :: string
  ta_AccessToken :: string
  ta_RefreshToken :: string
  ta_ExpiresAt :: string
  ta_Prefix :: string
  ta_Priority :: int
  ta_AllowedModels :: "string list"
  ta_DeniedModels :: "string list"

record import_flags =
  fl_label :: string
  fl_prefix :: string
  fl_priority :: int
  fl_allow :: string
  fl_deny :: string

definition splitCSV :: "string \<Rightarrow> string list" where
  "splitCSV value = filter (\<lambda>part. part \<noteq> []) (map TrimSpace (Split (CHR '','') value))"

definition newline :: char where
  "newline = CHR 0x0A"

text \<open>\<open>json.MarshalIndent(target, "", "  ")\<close>.\<close>

definition indented_list :: "string list \<Rightarrow> string" where
  "indented_list ss = array_text (newline # ''    '') (newline # ''  '') (map quote ss)"

definition target_members :: "targetAccount \<Rightarrow> (string \<times> string) list" where
  "target_members t =
     [(''type'', quote (ta_Type t)), (''label'', quote (ta_Label t)), (''access_token'', quote (ta_AccessToken t))]
     @ (if ta_RefreshToken t \<noteq> [] then [(''refresh_token'', quote (ta_RefreshToken t))] else [])
     @ (if ta_ExpiresAt t \<noteq> [] then [(''expires_at'', quote (ta_ExpiresAt t))] else [])
     @ (if ta_Prefix t \<noteq> [] then [(''prefix'', quote (ta_Prefix t))] else [])
     @ (if ta_Priority t \<noteq> 0 then [(''priority'', Itoa (ta_Priority t))] else [])
     @ (if ta_AllowedModels t \<noteq> [] then [(''allowed_models'', indented_list (ta_AllowedModels t))] else [])
     @ (if ta_DeniedModels t \<noteq> [] then [(''denied_models'', indented_list (ta_DeniedModels t))] else [])"

definition target_text :: "targetAccount \<Rightarrow> string" where
  "target_text t = object_text (newline # ''  '') '' '' [newline] (target_members t)"

text \<open>The source account of the input: the object, or the first of an array.\<close>

definition read_source :: "string \<Rightarrow> string + sourceAccount" where
  "read_source raw =
     (if HasPrefix (TrimSpace raw) ''['' then
        (case unmarshal_strict (decode_list decode_source zero_source (\<lambda>l _. l)) [] raw of
           None \<Rightarrow> Inl (json_error_text raw)
         | Some accounts \<Rightarrow> (case accounts of [] \<Rightarrow> Inl ''source account array is empty'' | a # _ \<Rightarrow> Inr a))
      else (case unmarshal_strict decode_source zero_source raw of
              None \<Rightarrow> Inl (json_error_text raw) | Some source \<Rightarrow> Inr source))"

definition target_account :: "import_flags \<Rightarrow> sourceAccount \<Rightarrow> targetAccount" where
  "target_account fl source =
     \<lparr>ta_Type = ''cursor'',
      ta_Label = (if TrimSpace (fl_label fl) = [] then TrimSpace (sa_Label source) else TrimSpace (fl_label fl)),
      ta_AccessToken = sa_AccessToken source, ta_RefreshToken = sa_RefreshToken source,
      ta_ExpiresAt = sa_ExpiresAt source, ta_Prefix = TrimSpace (fl_prefix fl), ta_Priority = fl_priority fl,
      ta_AllowedModels = splitCSV (fl_allow fl), ta_DeniedModels = splitCSV (fl_deny fl)\<rparr>"

definition import_account :: "import_flags \<Rightarrow> string \<Rightarrow> string + string" where
  "import_account fl raw =
     (case read_source raw of
        Inl err \<Rightarrow> Inl err
      | Inr source \<Rightarrow>
          if TrimSpace (sa_AccessToken source) = [] then Inl ''source account has no accessToken''
          else Inr (target_text (target_account fl source) @ [newline]))"

definition import_main :: "'w file_system \<Rightarrow> string \<Rightarrow> string \<Rightarrow> import_flags \<Rightarrow> 'w \<Rightarrow> 'w \<times> exit" where
  "import_main fs input output fl w =
     (if TrimSpace input = [] \<or> TrimSpace output = [] then (w, Exited 2)
      else (case fs_ReadFile fs input w of
          Inl err \<Rightarrow> (w, Panicked (err_text err))
        | Inr raw \<Rightarrow>
            (case import_account fl raw of
               Inl message \<Rightarrow> (w, Panicked message)
             | Inr encoded \<Rightarrow>
                 (case fs_MkdirAll fs (Dir output) w of
                    (w1, Some err) \<Rightarrow> (w1, Panicked (err_text err))
                  | (w1, None) \<Rightarrow>
                      (case fs_WriteFile fs output encoded w1 of
                         (w2, Some err) \<Rightarrow> (w2, Panicked (err_text err))
                       | (w2, None) \<Rightarrow> (w2, Exited 0))))))"

text \<open>
  A successful run has written the account to the file that was named, after it made the directory; a
  source without an account leaves the files alone.
\<close>

lemma import_main_writes:
  "import_main fs input output fl w = (w2, Exited 0) \<longleftrightarrow>
     TrimSpace input \<noteq> [] \<and> TrimSpace output \<noteq> [] \<and>
     (\<exists>raw encoded w1. fs_ReadFile fs input w = Inr raw \<and> import_account fl raw = Inr encoded
        \<and> fs_MkdirAll fs (Dir output) w = (w1, None) \<and> fs_WriteFile fs output encoded w1 = (w2, None))"
  by (auto simp: import_main_def split: sum.splits prod.splits option.splits)

lemma import_main_refuses:
  assumes "fs_ReadFile fs input w = Inr raw" "import_account fl raw = Inl message"
  shows "fst (import_main fs input output fl w) = w"
  using assms by (simp add: import_main_def)

section \<open>The file is an account\<close>

definition account_of :: "targetAccount \<Rightarrow> AuthStorage" where
  "account_of t = zero_storage\<lparr>as_Type := ta_Type t, as_Label := ta_Label t, as_AccessToken := ta_AccessToken t,
     as_RefreshToken := ta_RefreshToken t, as_ExpiresAt := ta_ExpiresAt t, as_Prefix := ta_Prefix t,
     as_Priority := ta_Priority t, as_AllowedModels := ta_AllowedModels t, as_DeniedModels := ta_DeniedModels t\<rparr>"

lemma splitCSV_trimmed: "list_all (\<lambda>p. p \<noteq> [] \<and> TrimSpace p = p) (splitCSV value)"
  by (auto simp: splitCSV_def list_all_iff)

lemma account_of_values:
  "storage_values (account_of t) =
     [(''type'', JStr (ta_Type t)), (''label'', JStr (ta_Label t)), (''access_token'', JStr (ta_AccessToken t))]
     @ opt_value (ta_RefreshToken t \<noteq> []) ''refresh_token'' (JStr (ta_RefreshToken t))
     @ opt_value (ta_ExpiresAt t \<noteq> []) ''expires_at'' (JStr (ta_ExpiresAt t))
     @ opt_value (ta_Prefix t \<noteq> []) ''prefix'' (JStr (ta_Prefix t))
     @ opt_value (ta_Priority t \<noteq> 0) ''priority'' (JNum (Itoa (ta_Priority t)))
     @ opt_value (ta_AllowedModels t \<noteq> []) ''allowed_models'' (JArr (map JStr (ta_AllowedModels t)))
     @ opt_value (ta_DeniedModels t \<noteq> []) ''denied_models'' (JArr (map JStr (ta_DeniedModels t)))"
  by (simp add: storage_values_def account_of_def zero_storage_def opt_value_def)

lemma newline_ws [simp]: "is_ws newline" "is_ws (CHR '' '')"
  by (simp_all add: is_ws_def newline_def)

lemma target_spelled:
  assumes "storage_text_ok (account_of t)"
  shows "list_all2 spelled_member (storage_values (account_of t)) (target_members t)"
  unfolding account_of_values target_members_def
  using assms
  by (intro list_all2_appendI list_all2_opt)
    (simp_all add: storage_text_ok_def account_of_def zero_storage_def spells_quote spells_Itoa indented_list_def
      spells_strings ValidString_ascii is_ascii_def)

lemma target_read:
  assumes "storage_text_ok (account_of t)" "ta_Type t = ''cursor''" "TrimSpace (ta_AccessToken t) \<noteq> []"
  shows "decodeAuth (target_text t @ [newline]) = Inr (account_of t)"
proof -
  have "json_whole (target_text t @ [newline]) = Some (JObj (storage_values (account_of t)))"
    unfolding target_text_def
    by (rule json_whole_spelled [OF spells_object [OF target_spelled [OF assms(1)]]]) (simp_all add: target_members_def)
  then have "unmarshal_strict decode_storage zero_storage (target_text t @ [newline]) = Some (account_of t)"
    using decode_storage_values [of "account_of t"] assms(1)
    by (simp add: unmarshal_strict_def unmarshal_struct_def decode_storage_fields decode_struct_def storage_text_ok_def)
  moreover have "EqualFold (TrimSpace ''cursor'') ProviderID" using fixed_texts(3) by (simp add: ProviderID_def)
  ultimately show ?thesis using assms(2,3) by (simp add: decodeAuth_def account_of_def)
qed

section \<open>Properties\<close>

text \<open>
  C40. What the import script writes is an account the plugin accepts, with the token of the
  source, the label, prefix and priority of the flags, and the allow and deny rules of the flags, which
  are trimmed and not empty; without a token nothing is written.
\<close>

theorem imported_account_accepted:
  assumes "import_account fl raw = Inr written" and "read_source raw = Inr source"
    and "storage_text_ok (account_of (target_account fl source))"
  shows "\<exists>a. decodeAuth written = Inr a \<and> as_AccessToken a = sa_AccessToken source \<and> TrimSpace (as_AccessToken a) \<noteq> []
    \<and> as_Prefix a = TrimSpace (fl_prefix fl) \<and> as_Priority a = fl_priority fl
    \<and> as_Label a = (if TrimSpace (fl_label fl) = [] then TrimSpace (sa_Label source) else TrimSpace (fl_label fl))
    \<and> as_AllowedModels a = splitCSV (fl_allow fl) \<and> as_DeniedModels a = splitCSV (fl_deny fl)
    \<and> list_all (\<lambda>p. p \<noteq> [] \<and> TrimSpace p = p) (as_AllowedModels a @ as_DeniedModels a)"
proof -
  have t: "TrimSpace (sa_AccessToken source) \<noteq> []" "written = target_text (target_account fl source) @ [newline]"
    using assms(1,2) by (auto simp: import_account_def split: if_splits)
  then have "decodeAuth written = Inr (account_of (target_account fl source))"
    using target_read [OF assms(3)] by (simp add: target_account_def)
  then show ?thesis
    using t(1) splitCSV_trimmed by (auto simp: account_of_def target_account_def)
qed

definition demo_flags :: import_flags where
  "demo_flags = \<lparr>fl_label = [], fl_prefix = ''p'', fl_priority = 2, fl_allow = ''a, ,b'', fl_deny = []\<rparr>"

definition demo_source :: string where
  "demo_source = concat (map (\<lambda>c. if c = CHR ''@'' then [dquote] else [c]) ''[{@label@:@me@,@accessToken@:@t@}]'')"

lemma demo_source_read:
  "read_source demo_source = Inr (zero_source\<lparr>sa_Label := ''me'', sa_AccessToken := ''t''\<rparr>)"
  "target_account demo_flags (zero_source\<lparr>sa_Label := ''me'', sa_AccessToken := ''t''\<rparr>)
     = \<lparr>ta_Type = ''cursor'', ta_Label = ''me'', ta_AccessToken = ''t'', ta_RefreshToken = [], ta_ExpiresAt = [],
        ta_Prefix = ''p'', ta_Priority = 2, ta_AllowedModels = [''a'', ''b''], ta_DeniedModels = []\<rparr>"
  "TrimSpace ''t'' \<noteq> []"
  by code_simp+

theorem imported_account_accepted_witness:
  "\<exists>written a. import_account demo_flags demo_source = Inr written \<and> decodeAuth written = Inr a \<and> as_AccessToken a = ''t''
     \<and> as_Prefix a = TrimSpace ''p'' \<and> as_Priority a = 2"
proof -
  obtain written where f: "import_account demo_flags demo_source = Inr written"
    by (simp add: import_account_def demo_source_read(1,3))
  have "storage_text_ok (account_of (target_account demo_flags (zero_source\<lparr>sa_Label := ''me'', sa_AccessToken := ''t''\<rparr>)))"
    unfolding demo_source_read(2) by (simp add: storage_text_ok_def account_of_def zero_storage_def ValidString_ascii is_ascii_def)
  from imported_account_accepted [OF f demo_source_read(1) this] f show ?thesis by (auto simp: demo_flags_def)
qed

end
