(* ===== verification/Prepare_Proto.thy ===== *)
theory Prepare_Proto
  imports Script_Files "HOL-Library.Multiset"
begin

text \<open>
  scripts/prepare\_proto.go: before the Go code of the protobuf messages is generated, every
  top-level message whose name has an underscore is renamed, at its declaration and wherever it
  is used. The two regular expressions are read as what they match; a word character
  is one byte, and any other byte, also of a character outside ASCII, is no word character.
\<close>

section \<open>The declarations: \<open>(?m)^message\s+(name)\s*\{\<close>\<close>

definition is_letter :: "char \<Rightarrow> bool" where
  "is_letter c = (is_lower c \<or> is_upper c)"

definition is_alnum :: "char \<Rightarrow> bool" where
  "is_alnum c = (is_letter c \<or> is_digit c)"

definition is_word :: "char \<Rightarrow> bool" where
  "is_word c = (is_alnum c \<or> c = CHR ''_'')"

text \<open>The class \<open>\s\<close>: tab, line feed, form feed, carriage return, blank.\<close>

definition is_blank :: "char \<Rightarrow> bool" where
  "is_blank c = (c \<in> {CHR 0x09, CHR 0x0A, CHR 0x0C, CHR 0x0D, CHR 0x20})"

text \<open>The group \<open>[A-Za-z][A-Za-z0-9]*_[A-Za-z0-9_]+\<close>, as a test of a word.\<close>

fun message_name :: "string \<Rightarrow> bool" where
  "message_name [] = False"
| "message_name (c # cs) = (is_letter c \<and> 1 < length (dropWhile is_alnum cs))"

text \<open>
  The expression at the start of a line: the name and what follows the brace. Blanks and the
  name are taken as long as they go: what follows each of them in the expression cannot match one
  of their characters, so no shorter choice succeeds.
\<close>

definition after_keyword :: "string \<Rightarrow> (string \<times> string) option" where
  "after_keyword r =
     (let r' = dropWhile is_blank r; name = takeWhile is_word r' in
      if r' = r \<or> \<not> message_name name then None
      else (case dropWhile is_blank (dropWhile is_word r') of
              [] \<Rightarrow> None
            | c # rest \<Rightarrow> if c = CHR ''{'' then Some (name, rest) else None))"

definition match_message :: "string \<Rightarrow> (string \<times> string) option" where
  "match_message text = (case CutPrefix text ''message'' of None \<Rightarrow> None | Some r \<Rightarrow> after_keyword r)"

text \<open>
  All matches from left to right; the flag tells whether the position is the start of a line.
\<close>

function find_messages :: "bool \<Rightarrow> string \<Rightarrow> string list" where
  "find_messages bol [] = []"
| "find_messages bol (c # cs) =
     (case (if bol then match_message (c # cs) else None) of
        Some (name, rest) \<Rightarrow> name # find_messages False rest
      | None \<Rightarrow> find_messages (c = CHR 0x0A) cs)"
  by pat_completeness auto

lemma after_keyword_shorter:
  assumes "after_keyword r = Some (name, rest)"
  shows "length rest < length r"
proof -
  obtain c where "c # rest = dropWhile is_blank (dropWhile is_word (dropWhile is_blank r))"
    using assms by (auto simp: after_keyword_def Let_def split: if_splits list.splits)
  then show ?thesis by (metis length_dropWhile_le le_trans length_Cons not_less_eq_eq not_le)
qed

lemma match_message_shorter:
  assumes "match_message text = Some (name, rest)"
  shows "length rest < length text"
  using assms after_keyword_shorter by (fastforce simp: match_message_def CutPrefix_Some_iff split: option.splits)

termination find_messages
  by (relation "measure (length \<circ> snd)")
    (auto dest!: match_message_shorter split: if_splits)

section \<open>The names\<close>

text \<open>Each name once, in the order of its first declaration; \<open>seen\<close> holds the names so far.\<close>

fun first_names :: "string list \<Rightarrow> string list \<Rightarrow> string list" where
  "first_names seen [] = []"
| "first_names seen (name # later) =
     (if name \<in> set seen then first_names seen later else name # first_names (name # seen) later)"

definition message_names :: "string \<Rightarrow> string list" where
  "message_names text = first_names [] (find_messages True text)"

section \<open>The replacement of \<open>\bname\b\<close>\<close>

text \<open>
  \<open>prev\<close> tells whether the byte before is a word character; at both ends of the text there is
  none. A match needs a boundary before and after it.
\<close>

definition word_at :: "string \<Rightarrow> bool" where
  "word_at text = (case text of [] \<Rightarrow> False | c # _ \<Rightarrow> is_word c)"

function replace_word :: "string \<Rightarrow> string \<Rightarrow> bool \<Rightarrow> string \<Rightarrow> string" where
  "replace_word name repl prev [] = []"
| "replace_word name repl prev (c # cs) =
     (if name \<noteq> [] \<and> prev \<noteq> is_word c \<and> HasPrefix (c # cs) name
         \<and> is_word (last name) \<noteq> word_at (drop (length name) (c # cs))
      then repl @ replace_word name repl (is_word (last name)) (drop (length name) (c # cs))
      else c # replace_word name repl (is_word c) cs)"
  by pat_completeness auto
termination
  by (relation "measure (\<lambda>(name, repl, prev, text). length text)") auto

definition wire_name :: "string \<Rightarrow> string" where
  "wire_name name = ''Wire_'' @ name"

text \<open>\<open>by_length\<close> is \<open>sort.Slice\<close> by descending length, which may order equal lengths as it likes.\<close>

definition prepare_proto :: "(string list \<Rightarrow> string list) \<Rightarrow> string \<Rightarrow> string" where
  "prepare_proto by_length text =
     (let names = by_length (message_names text);
          text = fold (\<lambda>name text. replace_word name (wire_name name) False text) names text in
      if HasSuffix text [CHR 0x0A] then text else text @ [CHR 0x0A])"

text \<open>The program: the arguments are its name, the input and the output file.\<close>

definition prepare_main :: "(string list \<Rightarrow> string list) \<Rightarrow> 'w file_system \<Rightarrow> string list \<Rightarrow> 'w \<Rightarrow> 'w \<times> exit" where
  "prepare_main by_length fs args w =
     (if length args \<noteq> 3 then (w, Exited 2)
      else (case fs_ReadFile fs (args ! 1) w of
          Inl err \<Rightarrow> (w, Panicked (err_text err))
        | Inr raw \<Rightarrow>
            (case fs_WriteFile fs (args ! 2) (prepare_proto by_length raw) w of
               (w', Some err) \<Rightarrow> (w', Panicked (err_text err))
             | (w', None) \<Rightarrow> (w', Exited 0))))"


section \<open>Words\<close>

text \<open>
  The specification: the text is cut into words (longest runs of word characters), and every word is
  replaced by its image, all at once.
\<close>

function map_words :: "(string \<Rightarrow> string) \<Rightarrow> string \<Rightarrow> string" where
  "map_words f [] = []"
| "map_words f (c # cs) =
     (if is_word c then f (c # takeWhile is_word cs) @ map_words f (dropWhile is_word cs)
      else c # map_words f cs)"
  by pat_completeness auto
termination
  by (relation "measure (length \<circ> snd)") (auto simp: less_Suc_eq_le length_dropWhile_le)

definition whole_word :: "string \<Rightarrow> bool" where
  "whole_word w = (w \<noteq> [] \<and> list_all is_word w)"

lemma word_at_simps [simp]: "\<not> word_at []" "word_at (c # cs) = is_word c"
  by (simp_all add: word_at_def)

lemma word_at_dropWhile [simp]: "\<not> word_at (dropWhile is_word s)"
  by (induction s) auto

lemma takeWhile_no_word: "\<not> word_at s \<Longrightarrow> takeWhile is_word s = []"
  by (cases s) auto

lemma takeWhile_word [simp]:
  "list_all is_word w \<Longrightarrow> \<not> word_at rest \<Longrightarrow> takeWhile is_word (w @ rest) = w"
  "list_all is_word w \<Longrightarrow> \<not> word_at rest \<Longrightarrow> dropWhile is_word (w @ rest) = rest"
  by (induction w) (auto simp: takeWhile_no_word word_at_def split: list.splits)

lemma whole_word_takeWhile: "is_word c \<Longrightarrow> whole_word (c # takeWhile is_word cs)"
  by (auto simp: whole_word_def list_all_iff dest: set_takeWhileD)

text \<open>A text is empty, or begins with a character outside any word, or is a word and the rest.\<close>

lemma word_cases:
  obtains "s = []"
    | c cs where "s = c # cs" "\<not> is_word c"
    | w rest where "s = w @ rest" "whole_word w" "\<not> word_at rest"
proof (cases s)
  case (Cons c cs)
  show thesis
  proof (cases "is_word c")
    case True
    then show thesis
      using Cons that(3) [of "c # takeWhile is_word cs" "dropWhile is_word cs"] whole_word_takeWhile by simp
  qed (use Cons that(2) in blast)
qed (rule that(1))

lemma map_words_word:
  assumes "whole_word w" "\<not> word_at rest"
  shows "map_words f (w @ rest) = f w @ map_words f rest"
proof -
  obtain c cs where "w = c # cs" "is_word c" "list_all is_word cs"
    using assms(1) by (cases w) (auto simp: whole_word_def)
  then show ?thesis using assms(2) by simp
qed

lemma map_words_apart: "\<not> word_at s \<Longrightarrow> \<not> word_at (map_words f s)"
  by (cases s) auto

lemma map_words_induct [case_names Nil apart word]:
  assumes "P []"
    and "\<And>c cs. \<not> is_word c \<Longrightarrow> P cs \<Longrightarrow> P (c # cs)"
    and "\<And>w rest. whole_word w \<Longrightarrow> \<not> word_at rest \<Longrightarrow> P rest \<Longrightarrow> P (w @ rest)"
  shows "P s"
proof (induction s rule: length_induct)
  case (1 s)
  show ?case
  proof (cases s rule: word_cases)
    case (3 w rest)
    then show ?thesis using 1 assms(3) by (simp add: whole_word_def)
  qed (use 1 assms(1,2) in auto)
qed

lemma map_words_id: "map_words id s = s"
  by (induction s rule: map_words_induct) (simp_all add: map_words_word)

lemma map_words_map_words:
  assumes "\<And>w. whole_word w \<Longrightarrow> whole_word (f w)"
  shows "map_words g (map_words f s) = map_words (\<lambda>w. g (f w)) s"
  by (induction s rule: map_words_induct) (simp_all add: map_words_word map_words_apart assms)

section \<open>Replacing one name\<close>

lemma replace_word_inside:
  "list_all is_word w \<Longrightarrow> replace_word name repl True (w @ rest) = w @ replace_word name repl True rest"
  by (induction w) simp_all

lemma replace_word_apart:
  assumes "whole_word name" "\<not> word_at rest"
  shows "replace_word name repl prev rest = replace_word name repl False rest"
  using assms by (cases rest; cases name) (auto simp: whole_word_def HasPrefix_def)

lemma prefix_word:
  assumes "list_all is_word name" "HasPrefix (w @ rest) name" "\<not> word_at (drop (length name) (w @ rest))"
    and "list_all is_word w" "\<not> word_at rest"
  shows "name = w"
proof -
  obtain t where t: "w @ rest = name @ t" "\<not> word_at t" using assms(2,3) by (metis HasPrefix_iff append_eq_conv_conj)
  then have "takeWhile is_word (w @ rest) = name" using assms(1) by simp
  then show ?thesis using assms(4,5) by simp
qed

lemma replace_word_words:
  assumes "whole_word name"
  shows "replace_word name repl False s = map_words (\<lambda>w. if w = name then repl else w) s"
proof (induction s rule: map_words_induct)
  case (word w rest)
  obtain c cs where w: "w = c # cs" "is_word c" "list_all is_word cs"
    using word(1) by (cases w) (auto simp: whole_word_def)
  have rest: "replace_word name repl True rest = map_words (\<lambda>w. if w = name then repl else w) rest"
    using replace_word_apart [OF assms word(2), of repl True] word(3) by simp
  show ?case
  proof (cases "w = name")
    case True
    then have name: "name = c # cs" using w(1) by simp
    then have last: "is_word (last (c # cs))" using assms by (auto simp: whole_word_def list_all_iff)
    have "replace_word (c # cs) repl False (c # (cs @ rest)) = repl @ replace_word (c # cs) repl True rest"
      unfolding replace_word.simps(2) using last w(2) word(2) by (simp add: HasPrefix_def)
    then show ?thesis
      unfolding map_words_word [OF word(1,2)] using name w(1) rest by (simp del: replace_word.simps)
  next
    case False
    then have "\<not> (HasPrefix (w @ rest) name \<and> \<not> word_at (drop (length name) (w @ rest)))"
      using prefix_word [of name w rest] assms word(1,2) by (auto simp: whole_word_def)
    moreover have "is_word (last name)" using assms by (auto simp: whole_word_def list_all_iff)
    ultimately have "replace_word name repl False (w @ rest) = w @ replace_word name repl True rest"
      using w replace_word_inside [OF w(3)] by auto
    then show ?thesis using False word(1,2) rest by (simp add: map_words_word)
  qed
qed simp_all


section \<open>Replacing all names\<close>

definition rename :: "string list \<Rightarrow> string \<Rightarrow> string" where
  "rename names w = (if w \<in> set names then wire_name w else w)"

lemma is_word_Wire: "list_all is_word ''Wire_''"
  by (simp add: is_word_def is_alnum_def is_letter_def is_lower_def is_upper_def is_digit_def)

lemma whole_word_Wire: "whole_word w \<Longrightarrow> whole_word (wire_name w)"
  using is_word_Wire by (simp add: whole_word_def wire_name_def)

lemma replace_all_words:
  assumes "list_all whole_word names"
  shows "fold (\<lambda>name s. replace_word name (wire_name name) False s) names s
    = map_words (\<lambda>w. fold (\<lambda>name w. if w = name then wire_name name else w) names w) s"
  using assms
proof (induction names arbitrary: s)
  case (Cons name names)
  have "whole_word (if w = name then wire_name name else w)" if "whole_word w" for w
    using that Cons.prems by (auto intro: whole_word_Wire)
  then show ?case using Cons by (simp add: replace_word_words map_words_map_words)
qed (simp add: map_words_id)

text \<open>
  A name that was given its prefix is longer than all names still to come; so it is not renamed
  again, and the steps together rename every word once.
\<close>

lemma rename_longest_first:
  assumes "sorted_wrt (\<lambda>a b. length b \<le> length a) names"
  shows "fold (\<lambda>name w. if w = name then wire_name name else w) names w = rename names w"
  using assms
proof (induction names arbitrary: w)
  case (Cons name names)
  have sorted: "sorted_wrt (\<lambda>a b. length b \<le> length a) names" using Cons.prems by simp
  have "wire_name name \<notin> set names" using Cons.prems by (auto simp: wire_name_def)
  then show ?case using Cons.IH [OF sorted] by (simp add: rename_def)
qed (simp add: rename_def)

lemma find_messages_names: "name \<in> set (find_messages bol s) \<Longrightarrow> message_name name \<and> whole_word name"
proof (induction bol s rule: find_messages.induct)
  case (2 bol c cs)
  have "message_name n \<and> whole_word n" if "match_message (c # cs) = Some (n, rest)" for n rest
    using that by (auto simp: match_message_def after_keyword_def Let_def whole_word_def list_all_iff
      split: option.splits if_splits list.splits dest: set_takeWhileD)
  then show ?case using 2 by (auto split: option.splits if_splits prod.splits)
qed simp

lemma first_names_set: "set (first_names seen names) = set names - set seen"
  by (induction names arbitrary: seen) auto

lemma message_names_words: "list_all (\<lambda>n. message_name n \<and> whole_word n) (message_names s)"
  using find_messages_names by (auto simp: message_names_def first_names_set list_all_iff)


text \<open>What \<open>sort.Slice\<close> promises: the same names, longer ones first.\<close>

definition longest_first :: "(string list \<Rightarrow> string list) \<Rightarrow> bool" where
  "longest_first by_length \<longleftrightarrow>
     (\<forall>names. mset (by_length names) = mset names \<and> sorted_wrt (\<lambda>a b. length b \<le> length a) (by_length names))"

definition end_line :: "string \<Rightarrow> string" where
  "end_line s = (if HasSuffix s [CHR 0x0A] then s else s @ [CHR 0x0A])"

section \<open>The declarations of the result\<close>

lemma dropWhile_shorter: "dropWhile P cs \<noteq> c # cs"
  by (metis length_dropWhile_le Suc_n_not_le_n length_Cons)

lemma word_not_blank: "is_word c \<Longrightarrow> \<not> is_blank c"
  by (auto simp: is_blank_def is_word_def is_alnum_def is_letter_def is_lower_def is_upper_def is_digit_def)

lemma after_keyword_word: "word_at r \<Longrightarrow> after_keyword r = None"
  by (cases r) (auto simp: after_keyword_def word_not_blank)

lemma keyword_word: "list_all is_word ''message''" "\<not> is_word (CHR ''{'')" "\<not> is_word (CHR 0x0A)"
  by (simp_all add: is_word_def is_alnum_def is_letter_def is_lower_def is_upper_def is_digit_def)

text \<open>The match at a line, read over words: the first word is the keyword.\<close>

lemma match_message_word:
  "match_message s = (if takeWhile is_word s = ''message'' then after_keyword (dropWhile is_word s) else None)"
proof (cases "CutPrefix s ''message''")
  case None
  then have "takeWhile is_word s \<noteq> ''message''"
    by (metis CutPrefix_append option.distinct(1) takeWhile_dropWhile_id)
  with None show ?thesis by (simp add: match_message_def)
next
  case (Some r)
  then have s: "s = ''message'' @ r" by (simp add: CutPrefix_Some_iff)
  have m: "match_message s = after_keyword r" using Some by (simp add: match_message_def)
  show ?thesis
  proof (cases "word_at r")
    case True
    then have "takeWhile is_word r \<noteq> []" by (cases r) auto
    moreover have "takeWhile is_word s = ''message'' @ takeWhile is_word r"
      using s keyword_word(1) by (simp add: takeWhile_append1 takeWhile_append2 list_all_iff)
    ultimately show ?thesis using m True by (simp add: after_keyword_word)
  next
    case False
    then show ?thesis using m s keyword_word(1) takeWhile_word [of "''message''" r] by simp
  qed
qed

lemma find_messages_skip: "list_all is_word w \<Longrightarrow> find_messages False (w @ rest) = find_messages False rest"
proof (induction w)
  case (Cons c w)
  then have "c \<noteq> CHR 0x0A" using keyword_word(3) by auto
  with Cons show ?case by simp
qed simp

lemma find_messages_word:
  assumes "whole_word w" "\<not> word_at rest"
  shows "find_messages bol (w @ rest)
    = (case (if bol \<and> w = ''message'' then after_keyword rest else None) of
         Some (name, rest') \<Rightarrow> name # find_messages False rest'
       | None \<Rightarrow> find_messages False rest)"
proof -
  obtain c cs where w: "w = c # cs" "list_all is_word cs" "c \<noteq> CHR 0x0A"
    using assms(1) keyword_word(3) by (cases w) (auto simp: whole_word_def)
  have "match_message (w @ rest) = (if w = ''message'' then after_keyword rest else None)"
    using assms takeWhile_word [of w rest] by (simp only: match_message_word whole_word_def simp_thms)
  then show ?thesis
    using w find_messages_skip [OF w(2)] by (auto split: option.splits)
qed

lemma find_messages_apart:
  assumes "\<not> is_word c"
  shows "find_messages bol (c # cs) = find_messages (c = CHR 0x0A) cs"
  using assms match_message_word [of "c # cs"] by auto

text \<open>
  A renaming of words that leaves the keyword and the shape of names alone commutes with the search
  for declarations.
\<close>

locale name_keeping =
  fixes f :: "string \<Rightarrow> string"
  assumes keeps_word: "whole_word w \<Longrightarrow> whole_word (f w)"
    and keeps_keyword: "f w = ''message'' \<longleftrightarrow> w = ''message''"
    and keeps_name: "message_name (f w) = message_name w"
begin

lemma map_words_blanks: "dropWhile is_blank (map_words f s) = map_words f (dropWhile is_blank s)"
proof (induction s rule: map_words_induct)
  case (word w rest)
  obtain c cs d ds where "w = c # cs" "is_word c" "f w = d # ds" "is_word d"
    using word(1) keeps_word [OF word(1)] by (cases w; cases "f w") (auto simp: whole_word_def)
  then show ?case using map_words_word [OF word(1,2), of f] by (simp add: word_not_blank)
qed auto

lemma map_words_drop_word: "dropWhile is_word (map_words f s) = map_words f (dropWhile is_word s)"
proof (cases s rule: word_cases)
  case (3 w rest)
  then show ?thesis
    using keeps_word [of w] by (simp add: map_words_word map_words_apart whole_word_def)
qed simp_all

lemma map_words_take_word:
  "takeWhile is_word (map_words f s) = (if word_at s then f (takeWhile is_word s) else [])"
proof (cases s rule: word_cases)
  case (3 w rest)
  moreover from this have "word_at s" by (cases w) (auto simp: whole_word_def)
  ultimately show ?thesis
    using keeps_word [of w] by (simp add: map_words_word map_words_apart whole_word_def)
qed simp_all

lemma map_words_head:
  "dropWhile is_blank (map_words f s) = map_words f s \<longleftrightarrow> dropWhile is_blank s = s"
  "(case map_words f s of [] \<Rightarrow> None | c # rest \<Rightarrow> if c = CHR ''{'' then Some (n, rest) else None)
    = (case s of [] \<Rightarrow> None | c # rest \<Rightarrow> if c = CHR ''{'' then Some (n, map_words f rest) else None)"
proof -
  have "(dropWhile is_blank (map_words f s) = map_words f s \<longleftrightarrow> dropWhile is_blank s = s)
    \<and> (case map_words f s of [] \<Rightarrow> None | c # rest \<Rightarrow> if c = CHR ''{'' then Some (n, rest) else None)
      = (case s of [] \<Rightarrow> None | c # rest \<Rightarrow> if c = CHR ''{'' then Some (n, map_words f rest) else None)"
  proof (cases s rule: word_cases)
    case (2 c cs)
    then show ?thesis
      by (cases "is_blank c") (simp_all add: dropWhile_shorter)
  next
    case (3 w rest)
    obtain c cs d ds where "w = c # cs" "is_word c" "f w = d # ds" "is_word d"
      using 3(2) keeps_word [OF 3(2)] by (cases w; cases "f w") (auto simp: whole_word_def)
    then show ?thesis
      using 3 map_words_word [OF 3(2,3), of f] keyword_word(2) by (auto simp: word_not_blank)
  qed simp
  then show "dropWhile is_blank (map_words f s) = map_words f s \<longleftrightarrow> dropWhile is_blank s = s"
    and "(case map_words f s of [] \<Rightarrow> None | c # rest \<Rightarrow> if c = CHR ''{'' then Some (n, rest) else None)
    = (case s of [] \<Rightarrow> None | c # rest \<Rightarrow> if c = CHR ''{'' then Some (n, map_words f rest) else None)"
    by blast+
qed

lemma after_keyword_map:
  "after_keyword (map_words f r) = map_option (\<lambda>(n, rest). (f n, map_words f rest)) (after_keyword r)"
proof (cases "dropWhile is_blank r = r \<or> \<not> message_name (takeWhile is_word (dropWhile is_blank r))")
  case True
  then have "dropWhile is_blank (map_words f r) = map_words f r
      \<or> \<not> message_name (takeWhile is_word (dropWhile is_blank (map_words f r)))"
    by (auto simp: map_words_head(1) map_words_blanks map_words_take_word keeps_name)
  then have "after_keyword (map_words f r) = None" by (auto simp: after_keyword_def Let_def)
  with True show ?thesis by (auto simp: after_keyword_def Let_def)
next
  case False
  then have name: "word_at (dropWhile is_blank r)" by (cases "dropWhile is_blank r") (auto split: if_splits)
  let ?r = "dropWhile is_blank r"
  let ?t = "dropWhile is_blank (dropWhile is_word ?r)"
  have "takeWhile is_word (map_words f ?r) = f (takeWhile is_word ?r)"
    using name by (simp only: map_words_take_word if_True)
  moreover have "map_words f ?r \<noteq> map_words f r"
    using False map_words_head(1) [of r] by (simp add: map_words_blanks)
  ultimately have "after_keyword (map_words f r)
    = (case map_words f ?t of [] \<Rightarrow> None | c # rest \<Rightarrow> if c = CHR ''{'' then Some (f (takeWhile is_word ?r), rest) else None)"
    using False unfolding after_keyword_def Let_def map_words_blanks map_words_drop_word
    by (simp add: keeps_name split: list.split)
  then show ?thesis
    using False by (cases ?t) (auto simp only: map_words_head(2) after_keyword_def Let_def list.case option.map if_False prod.case split: if_splits)
qed

lemma find_messages_map: "find_messages bol (map_words f s) = map f (find_messages bol s)"
proof (induction s arbitrary: bol rule: length_induct)
  case (1 s)
  show ?case
  proof (cases s rule: word_cases)
    case (2 c cs)
    then show ?thesis using 1 by (simp add: find_messages_apart del: find_messages.simps(2))
  next
    case (3 w rest)
    have image: "map_words f s = f w @ map_words f rest" "whole_word (f w)" "\<not> word_at (map_words f rest)"
      using 3 by (simp_all add: map_words_word map_words_apart keeps_word)
    have rest: "find_messages False (map_words f t) = map f (find_messages False t)" if "length t \<le> length rest" for t
    proof -
      have "length t < length s" using 3(1,2) that by (cases w) (simp_all add: whole_word_def)
      with 1 show ?thesis by blast
    qed
    have found: "find_messages bol s = (case (if bol \<and> w = ''message'' then after_keyword rest else None) of
        Some (name, t) \<Rightarrow> name # find_messages False t | None \<Rightarrow> find_messages False rest)"
      using find_messages_word [OF 3(2,3)] 3(1) by simp
    show ?thesis
    proof (cases "if bol \<and> w = ''message'' then after_keyword rest else None")
      case None
      then have "(if bol \<and> f w = ''message'' then after_keyword (map_words f rest) else None) = None"
        by (auto simp: keeps_keyword after_keyword_map split: if_splits)
      then show ?thesis
        unfolding found image(1) find_messages_word [OF image(2,3)] None by (simp add: rest)
    next
      case (Some x)
      obtain name t where x: "x = (name, t)" by (cases x)
      then have "length t < length rest" using Some by (auto intro: after_keyword_shorter split: if_splits)
      moreover have "(if bol \<and> f w = ''message'' then after_keyword (map_words f rest) else None)
          = Some (f name, map_words f t)"
        using Some x by (simp add: keeps_keyword after_keyword_map split: if_splits)
      ultimately show ?thesis
        unfolding found image(1) find_messages_word [OF image(2,3)] Some x by (simp add: rest)
    qed
  qed simp
qed

end

interpretation renamed: name_keeping "rename (message_names s)" for s
proof
  fix w :: string
  show "whole_word w \<Longrightarrow> whole_word (rename (message_names s) w)"
    by (simp add: rename_def whole_word_Wire)
  have names: "w \<in> set (message_names s) \<Longrightarrow> message_name w"
    using message_names_words [of s] by (simp add: list_all_iff)
  have "\<not> message_name ''message''"
    by (simp add: is_alnum_def is_letter_def is_lower_def is_upper_def is_digit_def)
  then have "''message'' \<notin> set (message_names s)" using message_names_words [of s] by (auto simp: list_all_iff)
  moreover have "wire_name w \<noteq> ''message''" by (simp add: wire_name_def)
  ultimately show "rename (message_names s) w = ''message'' \<longleftrightarrow> w = ''message''" by (auto simp: rename_def)
  have "w \<noteq> [] \<Longrightarrow> message_name (wire_name w)"
    by (simp add: wire_name_def is_alnum_def is_letter_def is_lower_def is_upper_def is_digit_def)
  then show "message_name (rename (message_names s) w) = message_name w"
    using names by (cases "w = []") (auto simp: rename_def)
qed

lemma dropWhile_snoc:
  "dropWhile P (xs @ [x]) = (if dropWhile P xs = [] \<and> P x then [] else dropWhile P xs @ [x])"
  by (induction xs) auto

lemma after_keyword_line:
  "after_keyword (r @ [CHR 0x0A]) = map_option (\<lambda>(n, rest). (n, rest @ [CHR 0x0A])) (after_keyword r)"
proof (cases "dropWhile is_blank r = []")
  case True
  have "is_blank (CHR 0x0A)" by (simp add: is_blank_def)
  then show ?thesis unfolding after_keyword_def Let_def dropWhile_snoc True by simp
next
  case False
  have nl: "is_blank (CHR 0x0A)" by (simp add: is_blank_def)
  have "takeWhile is_word (xs @ [CHR 0x0A]) = takeWhile is_word xs" for xs
    using keyword_word(3) by (induction xs) auto
  then show ?thesis
    using False keyword_word(3) nl
    by (auto simp: after_keyword_def dropWhile_snoc Let_def simp del: dropWhile_eq_Nil_conv split: list.split)
qed

lemma find_messages_line: "find_messages bol (s @ [CHR 0x0A]) = find_messages bol s"
proof (induction s arbitrary: bol rule: length_induct)
  case (1 s)
  show ?case
  proof (cases s rule: word_cases)
    case 1
    then show ?thesis using keyword_word(3) find_messages_apart [of "CHR 0x0A" bol "[]"] by simp
  next
    case (2 c cs)
    then show ?thesis using 1 find_messages_apart [OF 2(2), of bol] by (simp del: find_messages.simps(2))
  next
    case (3 w rest)
    have apart: "\<not> word_at (rest @ [CHR 0x0A])" using 3(3) keyword_word(3) by (cases rest) auto
    have IH: "find_messages False (t @ [CHR 0x0A]) = find_messages False t" if "length t \<le> length rest" for t
    proof -
      have "length t < length s" using 3(1,2) that by (cases w) (simp_all add: whole_word_def)
      with 1 show ?thesis by blast
    qed
    show ?thesis
      using find_messages_word [OF 3(2) apart] find_messages_word [OF 3(2,3)] IH [of rest] 3(1)
      by (auto simp: after_keyword_line IH dest: after_keyword_shorter split: option.splits)
  qed
qed

section \<open>Properties\<close>

text \<open>
  C30. Renaming one name after the other, longest first, is renaming all of them at once: every
  word of the text that is the name of a declared message gets the prefix, once, at the declaration
  and at every use, and nothing else changes but a final line feed; whatever order
  \<open>sort.Slice\<close> gives to names of equal length. The declarations of the result are those of
  the input, in order, each with the prefix.
\<close>

theorem renamed_at_once:
  assumes "longest_first by_length"
  shows "prepare_proto by_length s = end_line (map_words (rename (message_names s)) s)
    \<and> find_messages True (prepare_proto by_length s) = map wire_name (find_messages True s)"
proof -
  let ?names = "by_length (message_names s)"
  have sorted: "set ?names = set (message_names s)" "sorted_wrt (\<lambda>a b. length b \<le> length a) ?names"
    using assms unfolding longest_first_def by (metis set_mset_mset, blast)
  then have "list_all whole_word ?names" using message_names_words [of s] by (simp add: list_all_iff)
  from replace_all_words [OF this]
  have "fold (\<lambda>name s. replace_word name (wire_name name) False s) ?names s = map_words (rename ?names) s"
    by (simp add: rename_longest_first [OF sorted(2)])
  moreover have "rename ?names = rename (message_names s)" using sorted(1) by (simp add: rename_def fun_eq_iff)
  ultimately have result: "prepare_proto by_length s = end_line (map_words (rename (message_names s)) s)"
    by (simp add: prepare_proto_def end_line_def Let_def)
  have "map (rename (message_names s)) (find_messages True s) = map wire_name (find_messages True s)"
    by (rule map_cong) (simp_all add: rename_def message_names_def first_names_set)
  then show ?thesis
    using result renamed.find_messages_map [of True s s] by (simp add: end_line_def find_messages_line)
qed

definition demo_proto :: string where
  "demo_proto = ''message A_B {'' @ [CHR 0x0A] @ ''A_B x = 1; Wire_A_B y = 2; A_B_C z = 3; }'' @ [CHR 0x0A]
     @ ''message Wire_A_B { }''"

lemma demo_proto_renamed:
  "end_line (map_words (rename (message_names demo_proto)) demo_proto) =
     ''message Wire_A_B {'' @ [CHR 0x0A] @ ''Wire_A_B x = 1; Wire_Wire_A_B y = 2; A_B_C z = 3; }'' @ [CHR 0x0A]
     @ ''message Wire_Wire_A_B { }'' @ [CHR 0x0A]"
  by code_simp

theorem renamed_at_once_witness:
  "prepare_proto (rev \<circ> sort_key length) demo_proto =
     ''message Wire_A_B {'' @ [CHR 0x0A] @ ''Wire_A_B x = 1; Wire_Wire_A_B y = 2; A_B_C z = 3; }'' @ [CHR 0x0A]
     @ ''message Wire_Wire_A_B { }'' @ [CHR 0x0A]"
proof -
  have "longest_first (rev \<circ> sort_key length)"
    using sorted_sort_key [of length] by (auto simp: longest_first_def sorted_wrt_rev sorted_wrt_map)
  from renamed_at_once [OF this, of demo_proto] show ?thesis unfolding demo_proto_renamed by (rule conjunct1)
qed

end
